(* ===== verification/Go_Prelude.thy ===== *)
theory Go_Prelude
  imports Main "HOL-Library.AList" "HOL-Library.List_Lexorder" "HOL-Library.Char_ord"
begin

text \<open>
  What the components share: errors as values, Go's maps and sets, fixed-width conversions,
  and the lemma collections the proofs draw on.

  A Go map is an association list with distinct keys, listed in the order in which one
  \<open>range\<close> over it visits the keys. Go leaves that order unspecified, so a theorem about
  code that ranges over a map quantifies over every list that represents it. A \<open>sets.Set[string]\<close>
  is a list without repetition for the same reason. A nil map or set is the empty list: reading
  one behaves like reading the empty one.
\<close>

section \<open>Errors\<close>

text \<open>
  \<open>Errorf\<close> is an error built by \<open>fmt.Errorf\<close> or \<open>errors.New\<close>, named by the start
  of its message (a nested \<open>%v\<close> is part of the text); \<open>Wrapf\<close> keeps the wrapped error,
  as \<open>%w\<close> does; \<open>StatusError\<close> is an API status error with its reason;
  \<open>Aggregate\<close> is \<open>errors.NewAggregate\<close>.
\<close>

datatype status_reason =
    NotFound | AlreadyExists | BadRequest | MethodNotSupported | OtherReason string

datatype error =
    Errorf string
  | Wrapf string error
  | StatusError status_reason
  | Aggregate "error list"

type_synonym 'a result = "error + 'a"

fun reason_for_error :: "error \<Rightarrow> status_reason option" where
  "reason_for_error (StatusError r) = Some r"
| "reason_for_error (Wrapf _ e) = reason_for_error e"
| "reason_for_error (Errorf _) = None"
| "reason_for_error (Aggregate _) = None"

definition is_not_found :: "error \<Rightarrow> bool" where
  "is_not_found e \<longleftrightarrow> reason_for_error e = Some NotFound"

definition is_already_exists :: "error \<Rightarrow> bool" where
  "is_already_exists e \<longleftrightarrow> reason_for_error e = Some AlreadyExists"

named_theorems go_defs \<open>definitions of the model that automation may unfold\<close>
named_theorems go_splits \<open>case splits of the error and option values of the model\<close>

declare if_splits [go_splits] option.splits [go_splits] sum.splits [go_splits]

lemma is_not_found_simps [simp]:
  "is_not_found (StatusError NotFound)"
  "\<not> is_not_found (StatusError AlreadyExists)"
  "\<not> is_not_found (Errorf s)"
  "is_not_found (Wrapf s e) = is_not_found e"
  by (simp_all add: is_not_found_def)

lemma is_already_exists_simps [simp]:
  "is_already_exists (StatusError AlreadyExists)"
  "\<not> is_already_exists (StatusError NotFound)"
  "\<not> is_already_exists (Errorf s)"
  "is_already_exists (Wrapf s e) = is_already_exists e"
  by (simp_all add: is_already_exists_def)

section \<open>Results\<close>

definition is_ok :: "'a result \<Rightarrow> bool" where
  "is_ok r \<longleftrightarrow> (\<exists>x. r = Inr x)"

lemma is_ok_simps [simp]: "is_ok (Inr x)" "\<not> is_ok (Inl e)"
  by (simp_all add: is_ok_def)

text \<open>A loop that returns at the first error: the results of the elements, or that error.\<close>

fun map_result :: "('a \<Rightarrow> 'b result) \<Rightarrow> 'a list \<Rightarrow> 'b list result" where
  "map_result f [] = Inr []"
| "map_result f (x # xs) =
     (case f x of
        Inl e \<Rightarrow> Inl e
      | Inr y \<Rightarrow> (case map_result f xs of Inl e \<Rightarrow> Inl e | Inr ys \<Rightarrow> Inr (y # ys)))"

lemma map_result_Inr_iff:
  "map_result f xs = Inr ys \<longleftrightarrow> list_all2 (\<lambda>x y. f x = Inr y) xs ys"
proof
  show "map_result f xs = Inr ys \<Longrightarrow> list_all2 (\<lambda>x y. f x = Inr y) xs ys"
    by (induction xs arbitrary: ys) (auto split: sum.splits)
  show "list_all2 (\<lambda>x y. f x = Inr y) xs ys \<Longrightarrow> map_result f xs = Inr ys"
    by (induction rule: list_all2_induct) auto
qed

lemma map_result_total: "(\<And>x. x \<in> set xs \<Longrightarrow> f x = Inr (g x)) \<Longrightarrow> map_result f xs = Inr (map g xs)"
  by (induction xs) auto

lemma map_result_InlD: "map_result f xs = Inl e \<Longrightarrow> \<exists>x \<in> set xs. f x = Inl e"
  by (induction xs) (auto split: sum.splits)

text \<open>A loop over a list that changes the state and returns from within at the first error.\<close>

fun for_each :: "('a \<Rightarrow> 's \<Rightarrow> error option \<times> 's) \<Rightarrow> 'a list \<Rightarrow> 's \<Rightarrow> error option \<times> 's" where
  "for_each f [] s = (None, s)"
| "for_each f (x # xs) s =
     (case f x s of
        (Some e, s') \<Rightarrow> (Some e, s')
      | (None, s') \<Rightarrow> for_each f xs s')"

lemma for_each_append:
  "for_each f (xs @ ys) s =
     (case for_each f xs s of (Some e, s') \<Rightarrow> (Some e, s') | (None, s') \<Rightarrow> for_each f ys s')"
  by (induction xs arbitrary: s) (auto split: prod.splits option.splits)

lemma for_each_invariant:
  assumes "\<And>x s. x \<in> set xs \<Longrightarrow> P s \<Longrightarrow> P (snd (f x s))" "P s"
  shows "P (snd (for_each f xs s))"
  using assms
proof (induction xs arbitrary: s)
  case (Cons x xs)
  obtain r s' where fx: "f x s = (r, s')" by (cases "f x s")
  have "P s'" using Cons.prems(1) [of x s] Cons.prems(2) fx by simp
  with Cons fx show ?case by (simp split: option.split)
qed simp

section \<open>Maps\<close>

type_synonym ('k, 'v) gomap = "('k \<times> 'v) list"

definition wf_map :: "('k, 'v) gomap \<Rightarrow> bool" where
  "wf_map m \<longleftrightarrow> distinct (map fst m)"

text \<open>\<open>m[k]\<close> of a \<open>map[string]string\<close> returns the empty string for a missing key.\<close>

definition lookup_str :: "('k, string) gomap \<Rightarrow> 'k \<Rightarrow> string" where
  "lookup_str m k = (case map_of m k of Some v \<Rightarrow> v | None \<Rightarrow> [])"

lemma wf_map_Nil [simp]: "wf_map []"
  by (simp add: wf_map_def)

lemma wf_map_update [simp]: "wf_map m \<Longrightarrow> wf_map (AList.update k v m)"
  by (simp add: wf_map_def distinct_update)

lemma wf_map_delete [simp]: "wf_map m \<Longrightarrow> wf_map (AList.delete k m)"
  by (simp add: wf_map_def distinct_delete)

lemma wf_map_filter: "wf_map m \<Longrightarrow> wf_map (filter P m)"
  by (simp add: wf_map_def distinct_map_filter)

lemma map_of_update [simp]: "map_of (AList.update k v m) = (map_of m)(k \<mapsto> v)"
  by (rule update_conv')

lemma map_of_delete [simp]: "map_of (AList.delete k m) = (map_of m)(k := None)"
  by (rule delete_conv')

lemma wf_map_of_iff: "wf_map m \<Longrightarrow> (k, v) \<in> set m \<longleftrightarrow> map_of m k = Some v"
  by (auto simp: wf_map_def intro: map_of_SomeD)

section \<open>Sets of strings\<close>

type_synonym strset = "string list"

definition set_insert :: "strset \<Rightarrow> string \<Rightarrow> strset" where
  "set_insert s x = (if x \<in> set s then s else s @ [x])"

definition set_insert_all :: "strset \<Rightarrow> string list \<Rightarrow> strset" where
  "set_insert_all s xs = foldl set_insert s xs"

definition set_union :: "strset \<Rightarrow> strset \<Rightarrow> strset" where
  "set_union s t = set_insert_all s t"

definition set_difference :: "strset \<Rightarrow> strset \<Rightarrow> strset" where
  "set_difference s t = filter (\<lambda>x. x \<notin> set t) s"

lemma set_set_insert [simp]: "set (set_insert s x) = insert x (set s)"
  by (auto simp: set_insert_def)

lemma distinct_set_insert [simp]: "distinct s \<Longrightarrow> distinct (set_insert s x)"
  by (simp add: set_insert_def)

lemma set_set_insert_all [simp]: "set (set_insert_all s xs) = set s \<union> set xs"
  by (induction xs arbitrary: s) (auto simp: set_insert_all_def)

lemma distinct_set_insert_all [simp]: "distinct s \<Longrightarrow> distinct (set_insert_all s xs)"
  by (induction xs arbitrary: s) (auto simp: set_insert_all_def)

lemma set_set_union [simp]: "set (set_union s t) = set s \<union> set t"
  by (simp add: set_union_def)

lemma distinct_set_union [simp]: "distinct s \<Longrightarrow> distinct (set_union s t)"
  by (simp add: set_union_def)

lemma set_set_difference [simp]: "set (set_difference s t) = set s - set t"
  by (auto simp: set_difference_def)

lemma distinct_set_difference [simp]: "distinct s \<Longrightarrow> distinct (set_difference s t)"
  by (simp add: set_difference_def)

text \<open>\<open>sort.Strings(s.UnsortedList())\<close> does not depend on the order in which the set was listed.\<close>

lemma sort_determined_by_set:
  assumes "distinct xs" "distinct ys" "set xs = set ys"
  shows "sort xs = sort (ys :: 'a::linorder list)"
  using assms by (metis sorted_list_of_set_sort_remdups distinct_remdups_id)

text \<open>
  Sorting by a key that tells the elements apart gives one result for every listing of a set, so
  neither an unstable sort nor the order of a \<open>range\<close> shows in it.
\<close>

lemma sort_key_determined:
  assumes "inj_on f (set xs)" "distinct xs" "distinct ys" "set xs = set ys"
  shows "sort_key f xs = sort_key (f :: 'a \<Rightarrow> 'b::linorder) ys"
proof -
  have "map f (sort_key f xs) = map f (sort_key f ys)"
  proof (rule sorted_distinct_set_unique)
    show "distinct (map f (sort_key f xs))" "distinct (map f (sort_key f ys))"
      using assms by (simp_all add: distinct_map)
  qed (use assms in simp_all)
  moreover have "inj_on f (set (sort_key f xs) \<union> set (sort_key f ys))"
    using assms by simp
  ultimately show ?thesis by (simp add: map_inj_on)
qed

section \<open>Fixed-width conversions\<close>

definition to_int32 :: "int \<Rightarrow> int" where
  "to_int32 n = signed_take_bit 31 n"

definition max_int64 :: int where
  "max_int64 = 9223372036854775807"

definition min_int64 :: int where
  "min_int64 = - 9223372036854775808"

lemma to_int32_id: "- 2147483648 \<le> n \<Longrightarrow> n < 2147483648 \<Longrightarrow> to_int32 n = n"
  by (simp add: to_int32_def signed_take_bit_int_eq_self)

lemma to_int32_range: "- 2147483648 \<le> to_int32 n \<and> to_int32 n < 2147483648"
  using signed_take_bit_int_greater_eq_minus_exp [of 31 n] signed_take_bit_int_less_exp [of 31 n]
  by (simp add: to_int32_def)

end
