(* ===== verification/Go_Strings.thy ===== *)
theory Go_Strings
  imports Go_Prelude
begin

text \<open>
  The part of Go's \<open>strings\<close> and \<open>strconv\<close> packages that the code uses on its event types,
  topics and versions: \<open>Split\<close> and \<open>Join\<close> on a one-byte separator, \<open>Index\<close>,
  \<open>Replace\<close> of a one-byte pattern, prefixes and suffixes, \<open>ParseInt\<close>, \<open>Atoi\<close> and
  decimal formatting. A Go string is a list of bytes.
\<close>

section \<open>Split and Join\<close>

fun split_on :: "char \<Rightarrow> string \<Rightarrow> string list" where
  "split_on c [] = [[]]"
| "split_on c (x # xs) =
     (if x = c then [] # split_on c xs
      else (case split_on c xs of [] \<Rightarrow> [[x]] | y # ys \<Rightarrow> (x # y) # ys))"

fun join_with :: "char \<Rightarrow> string list \<Rightarrow> string" where
  "join_with c [] = []"
| "join_with c [x] = x"
| "join_with c (x # y # ys) = x @ c # join_with c (y # ys)"

lemma split_on_nonempty [simp]: "split_on c s \<noteq> []"
  by (induction s) (auto split: list.splits)

lemma join_with_Cons: "xs \<noteq> [] \<Longrightarrow> join_with c (x # xs) = x @ c # join_with c xs"
  by (cases xs) auto

lemma join_with_push: "join_with c ((x # y) # ys) = x # join_with c (y # ys)"
  by (cases ys) auto

lemma join_split_on [simp]: "join_with c (split_on c s) = s"
  by (induction s) (auto simp: join_with_Cons join_with_push split: list.splits)

lemma split_on_no_sep: "c \<notin> set s \<Longrightarrow> split_on c s = [s]"
  by (induction s) auto

lemma split_on_append_sep: "c \<notin> set s \<Longrightarrow> split_on c (s @ c # t) = s # split_on c t"
  by (induction s) auto

lemma split_on_join_with:
  "xs \<noteq> [] \<Longrightarrow> \<forall>x \<in> set xs. c \<notin> set x \<Longrightarrow> split_on c (join_with c xs) = xs"
  by (induction c xs rule: join_with.induct) (auto simp: split_on_no_sep split_on_append_sep)

lemma split_on_parts: "x \<in> set (split_on c s) \<Longrightarrow> c \<notin> set x"
  by (induction s arbitrary: x) (auto split: list.splits if_splits)

lemma split_on_append:
  "split_on c (s @ c # t) = split_on c s @ split_on c t"
  by (induction s) (auto split: list.splits)

lemma join_with_append:
  "xs \<noteq> [] \<Longrightarrow> ys \<noteq> [] \<Longrightarrow> join_with c (xs @ ys) = join_with c xs @ c # join_with c ys"
  by (induction c xs rule: join_with.induct) (auto simp: join_with_Cons)

section \<open>Prefixes, suffixes, substrings\<close>

definition has_prefix :: "string \<Rightarrow> string \<Rightarrow> bool" where
  "has_prefix s p \<longleftrightarrow> take (length p) s = p"

definition trim_prefix :: "string \<Rightarrow> string \<Rightarrow> string" where
  "trim_prefix s p = (if has_prefix s p then drop (length p) s else s)"

definition has_suffix :: "string \<Rightarrow> string \<Rightarrow> bool" where
  "has_suffix s p \<longleftrightarrow> length p \<le> length s \<and> drop (length s - length p) s = p"

lemma has_prefix_append [simp]: "has_prefix (p @ s) p"
  by (simp add: has_prefix_def)

lemma trim_prefix_append [simp]: "trim_prefix (p @ s) p = s"
  by (simp add: trim_prefix_def)

lemma has_prefixE: "has_prefix s p \<Longrightarrow> \<exists>t. s = p @ t"
  by (metis append_take_drop_id has_prefix_def)

lemma has_suffix_append [simp]: "has_suffix (s @ p) p"
  by (simp add: has_suffix_def)

text \<open>\<open>strings.Index(s, sep)\<close>: where \<open>sep\<close> first occurs, \<open>None\<close> for \<open>-1\<close>.\<close>

fun index_of :: "string \<Rightarrow> string \<Rightarrow> nat option" where
  "index_of [] sep = (if sep = [] then Some 0 else None)"
| "index_of (x # xs) sep =
     (if has_prefix (x # xs) sep then Some 0 else map_option Suc (index_of xs sep))"

lemma index_of_bound: "index_of s sep = Some i \<Longrightarrow> i + length sep \<le> length s"
proof (induction s arbitrary: i)
  case (Cons x xs)
  then show ?case
    by (auto split: if_splits dest: has_prefixE) (metis has_prefixE le_add1 length_Cons length_append)
qed (auto split: if_splits)

lemma index_of_char_None_iff: "index_of s [c] = None \<longleftrightarrow> c \<notin> set s"
  by (induction s) (auto simp: has_prefix_def)

lemma index_of_char_append: "c \<notin> set s \<Longrightarrow> index_of (s @ c # t) [c] = Some (length s)"
  by (induction s) (auto simp: has_prefix_def)

section \<open>Replace\<close>

text \<open>\<open>strings.Replace(s, old, new, n)\<close> for a one-byte \<open>old\<close>; a negative \<open>n\<close> is no limit.\<close>

fun replace_char :: "string \<Rightarrow> char \<Rightarrow> string \<Rightarrow> int \<Rightarrow> string" where
  "replace_char [] c new n = []"
| "replace_char (x # xs) c new n =
     (if x = c \<and> n \<noteq> 0 then new @ replace_char xs c new (n - 1)
      else x # replace_char xs c new n)"

lemma replace_char_zero [simp]: "replace_char s c new 0 = s"
  by (induction s) auto

lemma replace_char_absent: "c \<notin> set s \<Longrightarrow> replace_char s c new n = s"
  by (induction s) auto

lemma replace_char_first:
  "c \<notin> set s \<Longrightarrow> n \<noteq> 0 \<Longrightarrow>
   replace_char (s @ c # t) c new n = s @ new @ replace_char t c new (n - 1)"
  by (induction s) auto

lemma replace_char_all_gone:
  "n < 0 \<Longrightarrow> c \<notin> set new \<Longrightarrow> c \<notin> set (replace_char s c new n)"
  by (induction s arbitrary: n) auto

section \<open>Decimal integers\<close>

definition is_digit :: "char \<Rightarrow> bool" where
  "is_digit c \<longleftrightarrow> c \<in> set ''0123456789''"

definition digit_val :: "char \<Rightarrow> nat" where
  "digit_val c = of_char c - 48"

definition digit_char :: "nat \<Rightarrow> char" where
  "digit_char d = ''0123456789'' ! d"

fun digits_val :: "nat \<Rightarrow> string \<Rightarrow> nat" where
  "digits_val acc [] = acc"
| "digits_val acc (c # cs) = digits_val (10 * acc + digit_val c) cs"

text \<open>The digits of a natural number, as \<open>strconv.FormatInt\<close> prints them.\<close>

fun show_nat :: "nat \<Rightarrow> string" where
  "show_nat n = (if n < 10 then [digit_char n] else show_nat (n div 10) @ [digit_char (n mod 10)])"

declare show_nat.simps [simp del]

definition show_int :: "int \<Rightarrow> string" where
  "show_int i = (if i < 0 then CHR ''-'' # show_nat (nat (- i)) else show_nat (nat i))"

text \<open>
  \<open>strconv.ParseInt(s, 10, 64)\<close>: an optional sign, then one or more digits (base 10 allows
  neither prefixes nor underscores), with \<open>ErrRange\<close> outside of the 64-bit range.
  \<open>strconv.Atoi\<close> accepts the same strings, \<open>int\<close> having 64 bits.
\<close>

definition parse_unsigned :: "string \<Rightarrow> nat option" where
  "parse_unsigned s = (if s \<noteq> [] \<and> list_all is_digit s then Some (digits_val 0 s) else None)"

definition parse_int :: "string \<Rightarrow> int result" where
  "parse_int s =
     (let (neg, ds) = (case s of
         [] \<Rightarrow> (False, [])
       | c # cs \<Rightarrow> if c = CHR ''-'' then (True, cs) else if c = CHR ''+'' then (False, cs)
                 else (False, s))
      in case parse_unsigned ds of
           None \<Rightarrow> Inl (Errorf ''strconv.ParseInt: invalid syntax'')
         | Some n \<Rightarrow>
             (if neg then (if int n \<le> max_int64 + 1 then Inr (- int n)
                           else Inl (Errorf ''strconv.ParseInt: value out of range''))
              else (if int n \<le> max_int64 then Inr (int n)
                    else Inl (Errorf ''strconv.ParseInt: value out of range''))))"

lemma digit_char_simps [simp]:
  "d < 10 \<Longrightarrow> is_digit (digit_char d)" "d < 10 \<Longrightarrow> digit_val (digit_char d) = d"
  unfolding digit_char_def is_digit_def digit_val_def
  by (auto simp: less_Suc_eq numeral_eq_Suc nth_Cons split: nat.splits)

lemma digits_val_append: "digits_val acc (s @ t) = digits_val (digits_val acc s) t"
  by (induction s arbitrary: acc) auto

lemma show_nat_digits: "list_all is_digit (show_nat n)"
proof (induction n rule: show_nat.induct)
  case (1 n)
  then show ?case by (subst show_nat.simps) auto
qed

lemma show_nat_nonempty [simp]: "show_nat n \<noteq> []"
  by (subst show_nat.simps) auto

lemma digits_val_show_nat [simp]: "digits_val 0 (show_nat n) = n"
proof (induction n rule: show_nat.induct)
  case (1 n)
  then show ?case by (subst show_nat.simps) (auto simp: digits_val_append)
qed

lemma parse_unsigned_show_nat [simp]: "parse_unsigned (show_nat n) = Some n"
  by (simp add: parse_unsigned_def show_nat_digits)

lemma show_nat_head: "\<exists>c cs. show_nat n = c # cs \<and> is_digit c"
  using show_nat_digits [of n] by (cases "show_nat n") auto

lemma not_digit_sign [simp]: "\<not> is_digit CHR ''-''" "\<not> is_digit CHR ''+''"
  by (simp_all add: is_digit_def)

text \<open>What \<open>FormatInt\<close> prints, \<open>ParseInt\<close> reads back.\<close>

lemma parse_int_show_int [simp]:
  assumes "min_int64 \<le> i" "i \<le> max_int64"
  shows "parse_int (show_int i) = Inr i"
proof (cases "i < 0")
  case True
  with assms show ?thesis
    by (simp add: parse_int_def show_int_def min_int64_def max_int64_def)
next
  case False
  obtain c cs where c: "show_nat (nat i) = c # cs" "is_digit c"
    using show_nat_head by blast
  have "parse_unsigned (c # cs) = Some (nat i)"
    using c parse_unsigned_show_nat [of "nat i"] by simp
  with False assms c show ?thesis
    by (auto simp: parse_int_def show_int_def)
qed

lemma parse_int_range: "parse_int s = Inr i \<Longrightarrow> min_int64 \<le> i \<and> i \<le> max_int64"
  by (auto simp: parse_int_def min_int64_def max_int64_def Let_def
           split: list.splits if_splits option.splits prod.splits)

lemma parse_int_Nil [simp]: "parse_int [] = Inl (Errorf ''strconv.ParseInt: invalid syntax'')"
  by (simp add: parse_int_def parse_unsigned_def)

end
