(* ===== verification/Event_Types.thy ===== *)
theory Event_Types
  imports Go_Strings
begin

text \<open>
  \<^verbatim>\<open>pkg/cloudevents/generic/types/types.go\<close>: the event types, their dotted text form, and the
  parsers of that form. Go's string-kinded types (\<open>EventSubResource\<close>, \<open>EventAction\<close>,
  \<open>ResourceAction\<close>) stay strings, since the code converts arbitrary text into them.
\<close>

section \<open>Constants\<close>

definition ClusterAll :: string where
  "ClusterAll = ''''"

definition SourceAll :: string where
  "SourceAll = ''''"

definition SubResourceSpec :: string where
  "SubResourceSpec = ''spec''"

definition SubResourceStatus :: string where
  "SubResourceStatus = ''status''"

definition ResyncRequestAction :: string where
  "ResyncRequestAction = ''resync_request''"

definition ResyncResponseAction :: string where
  "ResyncResponseAction = ''resync_response''"

definition ExtensionResourceID :: string where
  "ExtensionResourceID = ''resourceid''"

definition ExtensionResourceVersion :: string where
  "ExtensionResourceVersion = ''resourceversion''"

definition ExtensionStatusUpdateSequenceID :: string where
  "ExtensionStatusUpdateSequenceID = ''sequenceid''"

definition ExtensionDeletionTimestamp :: string where
  "ExtensionDeletionTimestamp = ''deletiontimestamp''"

definition ExtensionClusterName :: string where
  "ExtensionClusterName = ''clustername''"

definition ExtensionOriginalSource :: string where
  "ExtensionOriginalSource = ''originalsource''"

definition ExtensionResourceMeta :: string where
  "ExtensionResourceMeta = ''resourcemeta''"

lemmas extension_names =
  ExtensionResourceID_def ExtensionResourceVersion_def ExtensionStatusUpdateSequenceID_def
  ExtensionDeletionTimestamp_def ExtensionClusterName_def ExtensionOriginalSource_def
  ExtensionResourceMeta_def

definition ActionAdded :: string where
  "ActionAdded = ''ADDED''"

definition ActionModified :: string where
  "ActionModified = ''MODIFIED''"

definition ActionStatusModified :: string where
  "ActionStatusModified = ''STATUSMODIFIED''"

definition ActionDeleted :: string where
  "ActionDeleted = ''DELETED''"

lemmas resource_actions =
  ActionAdded_def ActionModified_def ActionStatusModified_def ActionDeleted_def

record topics =
  t_Spec :: string
  t_Status :: string
  t_SpecResync :: string
  t_StatusResync :: string

record list_options =
  lo_ClusterName :: string
  lo_Source :: string

record cloud_events_data_type =
  dt_Group :: string
  dt_Version :: string
  dt_Resource :: string

record cloud_events_type =
  et_DataType :: cloud_events_data_type
  et_SubResource :: string
  et_Action :: string

section \<open>The text form\<close>

definition data_type_string :: "cloud_events_data_type \<Rightarrow> string" where
  "data_type_string t = dt_Group t @ ''.'' @ dt_Version t @ ''.'' @ dt_Resource t"

definition event_type_string :: "cloud_events_type \<Rightarrow> string" where
  "event_type_string t =
     dt_Group (et_DataType t) @ ''.'' @ dt_Version (et_DataType t) @ ''.'' @
     dt_Resource (et_DataType t) @ ''.'' @ et_SubResource t @ ''.'' @ et_Action t"

definition ParseCloudEventsDataType :: "string \<Rightarrow> cloud_events_data_type result" where
  "ParseCloudEventsDataType s =
     (let types = split_on CHR ''.'' s; n = length types in
      if n < 3 then Inl (Errorf ''unsupported cloudevents data type format'')
      else Inr \<lparr>dt_Group = join_with CHR ''.'' (take (n - 2) types),
                dt_Version = types ! (n - 2),
                dt_Resource = types ! (n - 1)\<rparr>)"

definition ParseCloudEventsType :: "string \<Rightarrow> cloud_events_type result" where
  "ParseCloudEventsType s =
     (let types = split_on CHR ''.'' s; n = length types in
      if n < 5 then Inl (Errorf ''unsupported cloudevents type format'')
      else
        let sub = types ! (n - 2) in
        if sub \<noteq> SubResourceSpec \<and> sub \<noteq> SubResourceStatus
        then Inl (Errorf ''unsupported subresource'')
        else Inr \<lparr>et_DataType = \<lparr>dt_Group = join_with CHR ''.'' (take (n - 4) types),
                                 dt_Version = types ! (n - 4),
                                 dt_Resource = types ! (n - 3)\<rparr>,
                  et_SubResource = sub,
                  et_Action = types ! (n - 1)\<rparr>)"

text \<open>The types whose text form can be read back: no field after the group holds a dot.\<close>

definition wf_data_type :: "cloud_events_data_type \<Rightarrow> bool" where
  "wf_data_type t \<longleftrightarrow> CHR ''.'' \<notin> set (dt_Version t) \<and> CHR ''.'' \<notin> set (dt_Resource t)"

definition wf_event_type :: "cloud_events_type \<Rightarrow> bool" where
  "wf_event_type t \<longleftrightarrow>
     wf_data_type (et_DataType t) \<and> CHR ''.'' \<notin> set (et_Action t) \<and>
     (et_SubResource t = SubResourceSpec \<or> et_SubResource t = SubResourceStatus)"

lemma sub_resource_no_dot [simp]:
  "CHR ''.'' \<notin> set SubResourceSpec" "CHR ''.'' \<notin> set SubResourceStatus"
  by (simp_all add: SubResourceSpec_def SubResourceStatus_def)

lemma sub_resources_differ [simp]:
  "SubResourceSpec \<noteq> SubResourceStatus" "SubResourceStatus \<noteq> SubResourceSpec"
  by (simp_all add: SubResourceSpec_def SubResourceStatus_def)

lemma resync_actions_differ [simp]:
  "ResyncRequestAction \<noteq> ResyncResponseAction" "ResyncResponseAction \<noteq> ResyncRequestAction"
  by (simp_all add: ResyncRequestAction_def ResyncResponseAction_def)

lemma resync_action_no_dot [simp]:
  "CHR ''.'' \<notin> set ResyncRequestAction" "CHR ''.'' \<notin> set ResyncResponseAction"
  by (simp_all add: ResyncRequestAction_def ResyncResponseAction_def)

lemma wf_event_type_no_dot: "wf_event_type t \<Longrightarrow> CHR ''.'' \<notin> set (et_SubResource t)"
  by (auto simp: wf_event_type_def)

lemma split_event_type_string:
  assumes "wf_event_type t"
  shows "split_on CHR ''.'' (event_type_string t) =
     split_on CHR ''.'' (dt_Group (et_DataType t)) @
     [dt_Version (et_DataType t), dt_Resource (et_DataType t), et_SubResource t, et_Action t]"
  using assms wf_event_type_no_dot [OF assms]
  by (simp add: event_type_string_def split_on_append split_on_append_sep split_on_no_sep
        wf_event_type_def wf_data_type_def)

text \<open>Printing then parsing gives the type back.\<close>

lemma parse_event_type_string:
  assumes "wf_event_type t"
  shows "ParseCloudEventsType (event_type_string t) = Inr t"
proof -
  let ?g = "split_on CHR ''.'' (dt_Group (et_DataType t))"
  have "length ?g \<noteq> 0" by simp
  then have "\<not> length ?g + 4 < 5" by linarith
  moreover have "et_SubResource t = SubResourceSpec \<or> et_SubResource t = SubResourceStatus"
    using assms by (simp add: wf_event_type_def)
  ultimately show ?thesis
    by (auto simp: ParseCloudEventsType_def split_event_type_string [OF assms] nth_append)
qed

lemma parse_data_type_string:
  assumes "wf_data_type t"
  shows "ParseCloudEventsDataType (data_type_string t) = Inr t"
proof -
  let ?g = "split_on CHR ''.'' (dt_Group t)"
  have s: "split_on CHR ''.'' (data_type_string t) = ?g @ [dt_Version t, dt_Resource t]"
    using assms
    by (simp add: data_type_string_def split_on_append split_on_append_sep split_on_no_sep
          wf_data_type_def)
  have "length ?g \<noteq> 0" by simp
  then have "\<not> length ?g + 2 < 3" by linarith
  then show ?thesis
    by (simp add: ParseCloudEventsDataType_def s nth_append)
qed

text \<open>Parsing then printing gives the text back: nothing of an accepted type is lost.\<close>

lemma take_last_four:
  assumes "5 \<le> length xs"
  shows "xs = take (length xs - 4) xs @
    [xs ! (length xs - 4), xs ! (length xs - 3), xs ! (length xs - 2), xs ! (length xs - 1)]"
proof (rule nth_equalityI)
  show "length xs = length (take (length xs - 4) xs @
    [xs ! (length xs - 4), xs ! (length xs - 3), xs ! (length xs - 2), xs ! (length xs - 1)])"
    using assms by simp
next
  fix i assume "i < length xs"
  then consider "i < length xs - 4" | "i = length xs - 4" | "i = length xs - 3"
    | "i = length xs - 2" | "i = length xs - 1"
    by linarith
  then show "xs ! i = (take (length xs - 4) xs @
    [xs ! (length xs - 4), xs ! (length xs - 3), xs ! (length xs - 2), xs ! (length xs - 1)]) ! i"
    using assms by cases (auto simp: nth_append nth_Cons split: nat.splits)
qed

lemma event_type_string_parse:
  assumes "ParseCloudEventsType s = Inr t"
  shows "event_type_string t = s" and "wf_event_type t"
proof -
  let ?xs = "split_on CHR ''.'' s"
  let ?n = "length ?xs"
  have n: "5 \<le> ?n"
    using assms by (auto simp: ParseCloudEventsType_def Let_def split: if_splits)
  have t: "t = \<lparr>et_DataType = \<lparr>dt_Group = join_with CHR ''.'' (take (?n - 4) ?xs),
              dt_Version = ?xs ! (?n - 4), dt_Resource = ?xs ! (?n - 3)\<rparr>,
              et_SubResource = ?xs ! (?n - 2), et_Action = ?xs ! (?n - 1)\<rparr>"
    and sub: "?xs ! (?n - 2) = SubResourceSpec \<or> ?xs ! (?n - 2) = SubResourceStatus"
    using assms n by (auto simp: ParseCloudEventsType_def Let_def split: if_splits)
  have ne: "take (?n - 4) ?xs \<noteq> []" using n by (cases ?xs) auto
  have "s = join_with CHR ''.'' ?xs" by simp
  also have "\<dots> = join_with CHR ''.'' (take (?n - 4) ?xs @
      [?xs ! (?n - 4), ?xs ! (?n - 3), ?xs ! (?n - 2), ?xs ! (?n - 1)])"
    using take_last_four [OF n] by simp
  also have "\<dots> = event_type_string t"
    by (subst join_with_append [OF ne]) (simp_all add: t event_type_string_def)
  finally show "event_type_string t = s" ..
  have nodot: "CHR ''.'' \<notin> set (?xs ! i)" if "i < ?n" for i
    using split_on_parts [OF nth_mem [OF that]] .
  have "?n - 4 < ?n" "?n - 3 < ?n" "?n - 1 < ?n" using n by auto
  then show "wf_event_type t"
    using sub nodot by (simp add: t wf_event_type_def wf_data_type_def)
qed

lemma parse_event_type_error_iff:
  "(\<exists>e. ParseCloudEventsType s = Inl e) \<longleftrightarrow>
     length (split_on CHR ''.'' s) < 5 \<or>
     split_on CHR ''.'' s ! (length (split_on CHR ''.'' s) - 2) \<notin> {SubResourceSpec, SubResourceStatus}"
  by (auto simp: ParseCloudEventsType_def Let_def)

section \<open>The parsers are the inverses of the printers\<close>

lemma data_type_string_parse:
  assumes "ParseCloudEventsDataType s = Inr t"
  shows "data_type_string t = s" and "wf_data_type t"
proof -
  define xs where "xs = split_on CHR ''.'' s"
  have n: "3 \<le> length xs"
    using assms by (auto simp: ParseCloudEventsDataType_def Let_def xs_def split: if_splits)
  then obtain g v r where xs: "xs = g @ [v, r]" and g: "g \<noteq> []"
    by (cases xs rule: rev_cases; cases "butlast xs" rule: rev_cases) force+
  have t: "t = \<lparr>dt_Group = join_with CHR ''.'' g, dt_Version = v, dt_Resource = r\<rparr>"
    using assms n xs by (auto simp: ParseCloudEventsDataType_def Let_def nth_append xs_def [symmetric] split: if_splits)
  have "s = join_with CHR ''.'' xs" by (simp add: xs_def)
  also have "\<dots> = data_type_string t"
    using g by (simp add: xs t join_with_append data_type_string_def)
  finally show "data_type_string t = s" ..
  have "CHR ''.'' \<notin> set x" if "x \<in> set xs" for x
    using split_on_parts that by (auto simp: xs_def)
  then show "wf_data_type t" by (simp add: xs t wf_data_type_def)
qed

text \<open>
  C11. \<open>ParseCloudEventsType\<close> accepts a text with result \<open>t\<close> exactly when the text is what
  \<open>String\<close> prints for \<open>t\<close> and \<open>t\<close> is a type of this protocol: the sub resource is spec
  or status, and no field after the group holds a dot. So printing loses nothing and parsing
  invents nothing. The same holds for \<open>ParseCloudEventsDataType\<close> and the printed data types.
\<close>

theorem event_type_parse_iff:
  "(ParseCloudEventsType s = Inr t \<longleftrightarrow> wf_event_type t \<and> event_type_string t = s) \<and>
   (ParseCloudEventsDataType s = Inr d \<longleftrightarrow> wf_data_type d \<and> data_type_string d = s)"
  using event_type_string_parse [of s t] parse_event_type_string [of t]
    data_type_string_parse [of s d] parse_data_type_string [of d] by auto

end
