(* ===== verification/Placement.thy ===== *)
theory Placement
  imports Go_Strings
begin

text \<open>
  \<^verbatim>\<open>pkg/apis/cluster/v1beta1/placement.go\<close>: the tracker of the clusters that a placement
  selects, in decision groups. The tracker's lock is not modelled: each operation is one atomic
  step on the tracker's state. \<open>PlacementDecisionGetter\<close> is an interface that the caller
  implements; it is a function of the label selector and the namespace.
\<close>

section \<open>Data\<close>

record group_key =
  gk_GroupName :: string
  gk_GroupIndex :: int

type_synonym cluster_groups = "(group_key, strset) gomap"

record placement_decision =
  pd_Labels :: "(string, string) gomap"
  pd_Decisions :: "string list"

record placement =
  pl_Name :: string
  pl_Namespace :: string

type_synonym decision_getter =
  "(string, string) gomap \<Rightarrow> string \<Rightarrow> placement_decision list result"

record tracker =
  tr_placement :: "placement option"
  tr_getter :: "decision_getter option"
  tr_groups :: cluster_groups
  tr_indexToName :: "(int, string) gomap"
  tr_nameToIndex :: "(string, int list) gomap"

definition PlacementLabel :: string where
  "PlacementLabel = ''cluster.open-cluster-management.io/placement''"

definition DecisionGroupNameLabel :: string where
  "DecisionGroupNameLabel = ''cluster.open-cluster-management.io/decision-group-name''"

definition DecisionGroupIndexLabel :: string where
  "DecisionGroupIndexLabel = ''cluster.open-cluster-management.io/decision-group-index''"

section \<open>Operations on the groups\<close>

definition GetOrderedGroupKeys :: "cluster_groups \<Rightarrow> group_key list" where
  "GetOrderedGroupKeys g = sort_key gk_GroupIndex (map fst g)"

definition GetClusters :: "cluster_groups \<Rightarrow> strset" where
  "GetClusters g = foldl (\<lambda>s (k, cs). set_union s cs) [] g"

definition ClusterToGroupKey :: "cluster_groups \<Rightarrow> (string, group_key) gomap" where
  "ClusterToGroupKey g =
     foldl (\<lambda>m (k, cs). foldl (\<lambda>m c. AList.update c k m) m cs) [] g"

fun containsGroupKey :: "group_key list \<Rightarrow> group_key \<Rightarrow> bool" where
  "containsGroupKey [] k = False"
| "containsGroupKey (gk # gks) k = (if gk = k then True else containsGroupKey gks k)"

definition parseGroupKeyFromDecision :: "placement_decision \<Rightarrow> group_key result" where
  "parseGroupKeyFromDecision d =
     (let groupName = lookup_str (pd_Labels d) DecisionGroupNameLabel;
          groupIndex = lookup_str (pd_Labels d) DecisionGroupIndexLabel
      in case parse_int groupIndex of
           Inl e \<Rightarrow> Inl (Wrapf ''incorrect group index'' e)
         | Inr n \<Rightarrow> Inr \<lparr>gk_GroupName = groupName, gk_GroupIndex = to_int32 n\<rparr>)"

section \<open>The tracker\<close>

definition add_name_index ::
  "(int, string) gomap \<times> (string, int list) gomap \<Rightarrow> group_key \<Rightarrow>
   (int, string) gomap \<times> (string, int list) gomap" where
  "add_name_index st k =
     (AList.update (gk_GroupIndex k) (gk_GroupName k) (fst st),
      (case map_of (snd st) (gk_GroupName k) of
         Some index \<Rightarrow> AList.update (gk_GroupName k) (index @ [gk_GroupIndex k]) (snd st)
       | None \<Rightarrow> AList.update (gk_GroupName k) [gk_GroupIndex k] (snd st)))"

definition generateGroupsNameIndex :: "tracker \<Rightarrow> tracker" where
  "generateGroupsNameIndex t =
     (let st = foldl add_name_index ([], []) (map fst (tr_groups t))
      in t\<lparr>tr_indexToName := fst st,
           tr_nameToIndex := map (\<lambda>(n, index). (n, sort index)) (snd st)\<rparr>)"

definition NewPlacementDecisionClustersTracker ::
  "placement option \<Rightarrow> decision_getter option \<Rightarrow> strset \<Rightarrow> tracker" where
  "NewPlacementDecisionClustersTracker p pdl clusters =
     generateGroupsNameIndex
       \<lparr>tr_placement = p, tr_getter = pdl,
        tr_groups = [(\<lparr>gk_GroupName = '''', gk_GroupIndex = 0\<rparr>, clusters)],
        tr_indexToName = [], tr_nameToIndex = []\<rparr>"

definition NewPlacementDecisionClustersTrackerWithGroups ::
  "placement option \<Rightarrow> decision_getter option \<Rightarrow> cluster_groups \<Rightarrow> tracker" where
  "NewPlacementDecisionClustersTrackerWithGroups p pdl groups =
     generateGroupsNameIndex
       \<lparr>tr_placement = p, tr_getter = pdl, tr_groups = groups,
        tr_indexToName = [], tr_nameToIndex = []\<rparr>"

text \<open>
  The loop of \<open>Refresh\<close> over the listed decisions. It returns at the first decision whose
  group index does not parse.
\<close>

definition add_decision :: "cluster_groups \<Rightarrow> group_key \<Rightarrow> string list \<Rightarrow> cluster_groups" where
  "add_decision groups k cs =
     (let groups' = (if map_of groups k = None then AList.update k [] groups else groups)
      in AList.update k (set_insert_all (the (map_of groups' k)) cs) groups')"

fun collect_decisions :: "cluster_groups \<Rightarrow> placement_decision list \<Rightarrow> cluster_groups result" where
  "collect_decisions groups [] = Inr groups"
| "collect_decisions groups (d # ds) =
     (case parseGroupKeyFromDecision d of
        Inl e \<Rightarrow> Inl e
      | Inr k \<Rightarrow> collect_decisions (add_decision groups k (pd_Decisions d)) ds)"

text \<open>Each operation that can fail returns the error, if any, and the tracker it leaves.\<close>

definition Refresh :: "tracker \<Rightarrow> error option \<times> tracker" where
  "Refresh t =
     (case (tr_placement t, tr_getter t) of
        (Some p, Some getter) \<Rightarrow>
          (case getter [(PlacementLabel, pl_Name p)] (pl_Namespace p) of
             Inl e \<Rightarrow> (Some (Wrapf ''failed to list PlacementDecisions'' e), t)
           | Inr decisions \<Rightarrow>
               (case collect_decisions [] decisions of
                  Inl e \<Rightarrow> (Some e, t)
                | Inr groups \<Rightarrow> (None, generateGroupsNameIndex (t\<lparr>tr_groups := groups\<rparr>))))
      | _ \<Rightarrow> (None, t))"

definition GetClusterChanges :: "tracker \<Rightarrow> (strset \<times> strset) result \<times> tracker" where
  "GetClusterChanges t =
     (let existing = GetClusters (tr_groups t) in
      case Refresh t of
        (Some e, t') \<Rightarrow> (Inl e, t')
      | (None, t') \<Rightarrow>
          let new = GetClusters (tr_groups t')
          in (Inr (set_difference new existing, set_difference existing new), t'))"

fun fulfillGroupKeys :: "tracker \<Rightarrow> group_key list \<Rightarrow> group_key list" where
  "fulfillGroupKeys t [] = []"
| "fulfillGroupKeys t (gk # gks) =
     (if gk_GroupName gk \<noteq> '''' then
        (case map_of (tr_nameToIndex t) (gk_GroupName gk) of
           Some indexes \<Rightarrow>
             map (\<lambda>i. \<lparr>gk_GroupName = gk_GroupName gk, gk_GroupIndex = i\<rparr>) indexes
         | None \<Rightarrow> [])
      else
        (case map_of (tr_indexToName t) (gk_GroupIndex gk) of
           Some groupName \<Rightarrow> [\<lparr>gk_GroupName = groupName, gk_GroupIndex = gk_GroupIndex gk\<rparr>]
         | None \<Rightarrow> []))
     @ fulfillGroupKeys t gks"

definition getGroupKeysBesides :: "tracker \<Rightarrow> group_key list \<Rightarrow> group_key list" where
  "getGroupKeysBesides t exclude =
     filter (\<lambda>k. \<not> containsGroupKey exclude k)
       (map (\<lambda>i. \<lparr>gk_GroupName = lookup_str (tr_indexToName t) (to_int32 (int i)),
                  gk_GroupIndex = to_int32 (int i)\<rparr>)
          [0..<length (tr_indexToName t)])"

text \<open>The result map of the two lookups: the listed keys that the tracker has.\<close>

definition select_groups :: "cluster_groups \<Rightarrow> group_key list \<Rightarrow> cluster_groups" where
  "select_groups groups keys =
     foldl (\<lambda>res k. case map_of groups k of
                      Some clusters \<Rightarrow> AList.update k clusters res
                    | None \<Rightarrow> res) [] keys"

definition ExistingClusterGroups :: "tracker \<Rightarrow> group_key list \<Rightarrow> cluster_groups" where
  "ExistingClusterGroups t groupKeys = select_groups (tr_groups t) (fulfillGroupKeys t groupKeys)"

definition ExistingClusterGroupsBesides :: "tracker \<Rightarrow> group_key list \<Rightarrow> cluster_groups" where
  "ExistingClusterGroupsBesides t groupKeys =
     select_groups (tr_groups t) (getGroupKeysBesides t (fulfillGroupKeys t groupKeys))"

section \<open>Clusters of the groups\<close>

definition wf_groups :: "cluster_groups \<Rightarrow> bool" where
  "wf_groups g \<longleftrightarrow> wf_map g \<and> (\<forall>(k, cs) \<in> set g. distinct cs)"

text \<open>The members of a group, the empty set for a key the map does not have.\<close>

definition group_members :: "cluster_groups \<Rightarrow> group_key \<Rightarrow> string set" where
  "group_members g k = (case map_of g k of None \<Rightarrow> {} | Some cs \<Rightarrow> set cs)"

lemma foldl_set_union:
  "set (foldl (\<lambda>s (k, cs). set_union s cs) s g) = set s \<union> (\<Union>(k, cs) \<in> set g. set cs)"
  by (induction g arbitrary: s) auto

lemma set_GetClusters: "set (GetClusters g) = (\<Union>(k, cs) \<in> set g. set cs)"
  by (simp add: GetClusters_def foldl_set_union)

lemma distinct_foldl_set_union:
  "distinct s \<Longrightarrow> distinct (foldl (\<lambda>s (k, cs). set_union s cs) s g)"
  by (induction g arbitrary: s) auto

lemma distinct_GetClusters [simp]: "distinct (GetClusters g)"
  by (simp add: GetClusters_def distinct_foldl_set_union)

lemma set_GetClusters_members:
  assumes "wf_map g"
  shows "set (GetClusters g) = (\<Union>k. group_members g k)"
proof -
  have "(\<Union>(k, cs) \<in> set g. set cs) = (\<Union>k. group_members g k)"
    using assms by (force simp: group_members_def wf_map_of_iff split: option.splits)
  then show ?thesis by (simp add: set_GetClusters)
qed

lemma containsGroupKey_iff [simp]: "containsGroupKey ks k \<longleftrightarrow> k \<in> set ks"
  by (induction ks) auto

lemma set_GetOrderedGroupKeys [simp]: "set (GetOrderedGroupKeys g) = fst ` set g"
  by (simp add: GetOrderedGroupKeys_def)

lemma sorted_GetOrderedGroupKeys: "sorted (map gk_GroupIndex (GetOrderedGroupKeys g))"
  by (simp add: GetOrderedGroupKeys_def)

text \<open>
  Two listings of one map have the same ordered keys when no two groups share an index: the
  unstable \<open>sort.Slice\<close> and the order of the \<open>range\<close> then have no influence.
\<close>

lemma GetOrderedGroupKeys_order_independent:
  assumes "wf_map g" "wf_map h" "set g = set h" "inj_on gk_GroupIndex (fst ` set g)"
  shows "GetOrderedGroupKeys g = GetOrderedGroupKeys h"
  unfolding GetOrderedGroupKeys_def
  by (rule sort_key_determined) (use assms in \<open>simp_all add: wf_map_def\<close>)

section \<open>Cluster to group\<close>

lemma foldl_update_clusters:
  "map_of (foldl (\<lambda>m c. AList.update c k m) m cs) c =
     (if c \<in> set cs then Some k else map_of m c)"
  by (induction cs arbitrary: m) auto

lemma ClusterToGroupKey_aux:
  "map_of (foldl (\<lambda>m (k, cs). foldl (\<lambda>m c. AList.update c k m) m cs) m g) c = Some k \<Longrightarrow>
   (\<exists>cs. (k, cs) \<in> set g \<and> c \<in> set cs) \<or>
   (map_of m c = Some k \<and> (\<forall>(k', cs) \<in> set g. c \<notin> set cs))"
proof (induction g arbitrary: m)
  case (Cons kc g)
  obtain k0 cs0 where kc: "kc = (k0, cs0)" by force
  from Cons.prems have "map_of (foldl (\<lambda>m (k, cs). foldl (\<lambda>m c. AList.update c k m) m cs)
      (foldl (\<lambda>m c. AList.update c k0 m) m cs0) g) c = Some k"
    by (simp add: kc)
  from Cons.IH [OF this] show ?case
    by (auto simp: kc foldl_update_clusters split: if_splits)
qed simp

lemma ClusterToGroupKey_dom_aux:
  "map_of (foldl (\<lambda>m (k, cs). foldl (\<lambda>m c. AList.update c k m) m cs) m g) c = None \<longleftrightarrow>
   map_of m c = None \<and> (\<forall>(k, cs) \<in> set g. c \<notin> set cs)"
  by (induction g arbitrary: m) (auto simp: foldl_update_clusters split: if_splits)

lemma ClusterToGroupKey_Some:
  "map_of (ClusterToGroupKey g) c = Some k \<Longrightarrow> \<exists>cs. (k, cs) \<in> set g \<and> c \<in> set cs"
  unfolding ClusterToGroupKey_def by (drule ClusterToGroupKey_aux) simp

lemma ClusterToGroupKey_None:
  "map_of (ClusterToGroupKey g) c = None \<longleftrightarrow> c \<notin> set (GetClusters g)"
  by (auto simp: ClusterToGroupKey_def ClusterToGroupKey_dom_aux set_GetClusters)

section \<open>The name and index tables\<close>

lemma add_name_index_fst:
  "map_of (fst (foldl add_name_index st ks)) i =
     (case filter (\<lambda>k. gk_GroupIndex k = i) ks of
        [] \<Rightarrow> map_of (fst st) i
      | ks' \<Rightarrow> Some (gk_GroupName (last ks')))"
proof (induction ks arbitrary: st)
  case (Cons k ks)
  then show ?case
    by (auto simp: add_name_index_def split: list.splits)
qed simp

lemma add_name_index_snd:
  "map_of (snd (foldl add_name_index st ks)) n =
     (case filter (\<lambda>k. gk_GroupName k = n) ks of
        [] \<Rightarrow> map_of (snd st) n
      | ks' \<Rightarrow> Some ((case map_of (snd st) n of None \<Rightarrow> [] | Some is \<Rightarrow> is) @ map gk_GroupIndex ks'))"
proof (induction ks arbitrary: st)
  case (Cons k ks)
  then show ?case
    by (auto simp: add_name_index_def split: list.splits option.splits)
qed simp

lemma wf_add_name_index: 
  "wf_map (fst st) \<Longrightarrow> wf_map (fst (foldl add_name_index st ks))"
  by (induction ks arbitrary: st) (auto simp: add_name_index_def)

lemma dom_map_of_eq_set: "wf_map m \<Longrightarrow> length m = card (dom (map_of m))"
  by (metis dom_map_of_conv_image_fst distinct_card length_map set_map wf_map_def)

lemma map_of_map_snd: "map_of (map (\<lambda>(n, x). (n, f x)) m) k = map_option f (map_of m k)"
  by (induction m) auto

text \<open>Every operation that changes the groups rebuilds both tables from them.\<close>

definition tables_ok :: "tracker \<Rightarrow> bool" where
  "tables_ok t \<longleftrightarrow>
     (let st = foldl add_name_index ([], []) (map fst (tr_groups t))
      in tr_indexToName t = fst st \<and>
         tr_nameToIndex t = map (\<lambda>(n, index). (n, sort index)) (snd st))"

lemma tables_ok_generate [simp]: "tables_ok (generateGroupsNameIndex t)"
  by (simp add: tables_ok_def generateGroupsNameIndex_def Let_def)

lemma generate_frame [simp]:
  "tr_groups (generateGroupsNameIndex t) = tr_groups t"
  "tr_placement (generateGroupsNameIndex t) = tr_placement t"
  "tr_getter (generateGroupsNameIndex t) = tr_getter t"
  by (simp_all add: generateGroupsNameIndex_def Let_def)

text \<open>What the two tables hold, as functions of the group keys.\<close>

lemma tables_ok_indexToName:
  assumes "tables_ok t"
  shows "map_of (tr_indexToName t) i =
    (case filter (\<lambda>k. gk_GroupIndex k = i) (map fst (tr_groups t)) of
       [] \<Rightarrow> None | ks \<Rightarrow> Some (gk_GroupName (last ks)))"
  using assms
  by (simp add: tables_ok_def Let_def add_name_index_fst split: list.split)

lemma tables_ok_nameToIndex:
  assumes "tables_ok t"
  shows "map_of (tr_nameToIndex t) n =
    (case filter (\<lambda>k. gk_GroupName k = n) (map fst (tr_groups t)) of
       [] \<Rightarrow> None | ks \<Rightarrow> Some (sort (map gk_GroupIndex ks)))"
  using assms
  by (simp add: tables_ok_def Let_def map_of_map_snd add_name_index_snd split: list.split)

lemma tables_ok_length:
  assumes "tables_ok t"
  shows "length (tr_indexToName t) = card (gk_GroupIndex ` fst ` set (tr_groups t))"
proof -
  have "wf_map (tr_indexToName t)"
    using assms by (simp add: tables_ok_def Let_def wf_add_name_index)
  moreover have "dom (map_of (tr_indexToName t)) = gk_GroupIndex ` fst ` set (tr_groups t)"
    by (auto simp: tables_ok_indexToName [OF assms] dom_def filter_empty_conv split: list.splits)
  ultimately show ?thesis by (simp add: dom_map_of_eq_set)
qed

section \<open>Selecting groups\<close>

lemma select_groups_aux:
  "map_of (foldl (\<lambda>res k. case map_of groups k of
        Some clusters \<Rightarrow> AList.update k clusters res | None \<Rightarrow> res) res keys) k =
   (if k \<in> set keys \<and> map_of groups k \<noteq> None then map_of groups k else map_of res k)"
  by (induction keys arbitrary: res) (auto split: option.splits)

lemma map_of_select_groups:
  "map_of (select_groups groups keys) k = (if k \<in> set keys then map_of groups k else None)"
  by (auto simp: select_groups_def select_groups_aux)

lemma wf_select_groups_aux:
  "wf_map res \<Longrightarrow> wf_map (foldl (\<lambda>res k. case map_of groups k of
        Some clusters \<Rightarrow> AList.update k clusters res | None \<Rightarrow> res) res keys)"
  by (induction keys arbitrary: res) (auto split: option.splits)

lemma wf_select_groups [simp]: "wf_map (select_groups groups keys)"
  by (simp add: select_groups_def wf_select_groups_aux)

lemma set_fulfillGroupKeys:
  assumes "tables_ok t" "k \<in> set (fulfillGroupKeys t gks)"
  shows "k \<in> fst ` set (tr_groups t)"
  using assms(2)
proof (induction gks)
  case (Cons gk gks)
  show ?case
  proof (cases "k \<in> set (fulfillGroupKeys t gks)")
    case False
    then consider (name) ixs i where "map_of (tr_nameToIndex t) (gk_GroupName gk) = Some ixs" "i \<in> set ixs"
        "k = \<lparr>gk_GroupName = gk_GroupName gk, gk_GroupIndex = i\<rparr>"
      | (index) n where "map_of (tr_indexToName t) (gk_GroupIndex gk) = Some n"
        "k = \<lparr>gk_GroupName = n, gk_GroupIndex = gk_GroupIndex gk\<rparr>"
      using Cons.prems by (auto split: if_splits option.splits) metis+
    then show ?thesis
    proof cases
      case name
      let ?ks = "filter (\<lambda>k. gk_GroupName k = gk_GroupName gk) (map fst (tr_groups t))"
      have "ixs = sort (map gk_GroupIndex ?ks)"
        using name(1) by (cases ?ks) (simp_all add: tables_ok_nameToIndex [OF assms(1)])
      then have "i \<in> gk_GroupIndex ` set ?ks" using name(2) by (simp only: set_sort set_map)
      then obtain k' where "k' \<in> fst ` set (tr_groups t)" "gk_GroupName k' = gk_GroupName gk" "gk_GroupIndex k' = i"
        by auto
      moreover from this name(3) have "k = k'" by simp
      ultimately show ?thesis by simp
    next
      case index
      let ?ks = "filter (\<lambda>k. gk_GroupIndex k = gk_GroupIndex gk) (map fst (tr_groups t))"
      have "?ks \<noteq> []" "n = gk_GroupName (last ?ks)"
        using index(1) by (auto simp: tables_ok_indexToName [OF assms(1)] split: list.splits)
      then have "last ?ks \<in> fst ` set (tr_groups t)" "gk_GroupIndex (last ?ks) = gk_GroupIndex gk"
        using last_in_set [of ?ks] by auto
      moreover have "k = last ?ks"
        using index(2) \<open>n = _\<close> calculation(2) by simp
      ultimately show ?thesis by simp
    qed
  qed (use Cons.IH in blast)
qed simp


text \<open>
  The indexes of the groups are \<open>0, 1, \<dots>\<close> without a gap and without repetition, as the placement
  controller numbers the decision groups. \<open>getGroupKeysBesides\<close> relies on it: it enumerates the
  indexes below the number of indexes.
\<close>

definition contiguous :: "tracker \<Rightarrow> bool" where
  "contiguous t \<longleftrightarrow>
     wf_map (tr_groups t) \<and> length (tr_groups t) \<le> 2147483648 \<and>
     gk_GroupIndex ` fst ` set (tr_groups t) = int ` {..<length (tr_groups t)}"

lemma contiguous_inj:
  assumes "contiguous t"
  shows "inj_on gk_GroupIndex (fst ` set (tr_groups t))"
proof (rule eq_card_imp_inj_on)
  have "card (int ` {..<length (tr_groups t)}) = length (tr_groups t)"
    by (simp add: card_image)
  moreover have "card (fst ` set (tr_groups t)) = length (tr_groups t)"
    using assms by (metis contiguous_def distinct_card length_map list.set_map wf_map_def)
  ultimately show "card (gk_GroupIndex ` fst ` set (tr_groups t)) = card (fst ` set (tr_groups t))"
    using assms by (simp add: contiguous_def)
qed simp

lemma contiguous_index_name:
  assumes "contiguous t" "tables_ok t" "k \<in> fst ` set (tr_groups t)"
  shows "map_of (tr_indexToName t) (gk_GroupIndex k) = Some (gk_GroupName k)"
proof -
  let ?ks = "filter (\<lambda>k'. gk_GroupIndex k' = gk_GroupIndex k) (map fst (tr_groups t))"
  have k: "k \<in> set ?ks" using assms(3) by auto
  have uniq: "k' = k" if "k' \<in> set ?ks" for k'
    using that assms(3) contiguous_inj [OF assms(1)] by (auto simp: inj_on_def)
  have ne: "?ks \<noteq> []" using k by (metis empty_iff empty_set)
  have last: "last ?ks = k" by (rule uniq) (rule last_in_set [OF ne])
  obtain a l where al: "?ks = a # l" using ne by (meson neq_Nil_conv)
  have "map_of (tr_indexToName t) (gk_GroupIndex k) =
      (case ?ks of [] \<Rightarrow> None | ks \<Rightarrow> Some (gk_GroupName (last ks)))"
    by (rule tables_ok_indexToName [OF assms(2)])
  then show ?thesis using last unfolding al by (simp only: list.case)
qed

text \<open>Over contiguous groups, the keys besides the excluded ones are all the others.\<close>

lemma set_getGroupKeysBesides:
  assumes "contiguous t" "tables_ok t"
  shows "set (getGroupKeysBesides t ex) = fst ` set (tr_groups t) - set ex"
proof -
  let ?n = "length (tr_groups t)"
  let ?key = "\<lambda>i. \<lparr>gk_GroupName = lookup_str (tr_indexToName t) (to_int32 (int i)),
                  gk_GroupIndex = to_int32 (int i)\<rparr>"
  have len: "length (tr_indexToName t) = ?n"
    using assms by (simp add: tables_ok_length contiguous_def card_image)
  have i32: "to_int32 (int i) = int i" if "i < ?n" for i
    using assms(1) that by (intro to_int32_id) (auto simp: contiguous_def)
  have key: "?key i = k" if "k \<in> fst ` set (tr_groups t)" "gk_GroupIndex k = int i" "i < ?n" for k i
    using contiguous_index_name [OF assms that(1)] that i32 by (simp add: lookup_str_def)
  have "?key ` {..<?n} = fst ` set (tr_groups t)"
  proof (intro equalityI subsetI)
    fix k assume "k \<in> ?key ` {..<?n}"
    then obtain i where i: "i < ?n" "k = ?key i" by auto
    then have "int i \<in> gk_GroupIndex ` fst ` set (tr_groups t)"
      using assms(1) by (simp add: contiguous_def)
    then obtain k' where "k' \<in> fst ` set (tr_groups t)" "gk_GroupIndex k' = int i" by fastforce
    with i key show "k \<in> fst ` set (tr_groups t)" by metis
  next
    fix k assume k: "k \<in> fst ` set (tr_groups t)"
    then have "gk_GroupIndex k \<in> int ` {..<?n}"
      using assms(1) unfolding contiguous_def by blast
    then obtain i where "i < ?n" "gk_GroupIndex k = int i" by auto
    with key [OF k, of i] show "k \<in> ?key ` {..<?n}"
      by (intro image_eqI [of _ _ i]) (simp_all only: lessThan_iff)
  qed
  then have "set (map ?key [0..<?n]) = fst ` set (tr_groups t)"
    by (simp add: atLeast0LessThan)
  then show ?thesis
    unfolding getGroupKeysBesides_def len set_filter containsGroupKey_iff by blast
qed

lemma groups_partition:
  assumes "contiguous t" "tables_ok t"
  shows "map_of (ExistingClusterGroups t gks) ++ map_of (ExistingClusterGroupsBesides t gks) =
           map_of (tr_groups t)"
    and "dom (map_of (ExistingClusterGroups t gks)) \<inter>
           dom (map_of (ExistingClusterGroupsBesides t gks)) = {}"
proof -
  have sub: "set (fulfillGroupKeys t gks) \<subseteq> fst ` set (tr_groups t)"
    using set_fulfillGroupKeys [OF assms(2)] by blast
  have none: "map_of (tr_groups t) k = None \<longleftrightarrow> k \<notin> fst ` set (tr_groups t)" for k
    by (rule map_of_eq_None_iff)
  have e: "map_of (ExistingClusterGroups t gks) k =
      (if k \<in> set (fulfillGroupKeys t gks) then map_of (tr_groups t) k else None)" for k
    by (simp add: ExistingClusterGroups_def map_of_select_groups)
  have b: "map_of (ExistingClusterGroupsBesides t gks) k =
      (if k \<in> set (fulfillGroupKeys t gks) then None else map_of (tr_groups t) k)" for k
    by (auto simp: ExistingClusterGroupsBesides_def map_of_select_groups
        set_getGroupKeysBesides [OF assms] none [symmetric])
  show "map_of (ExistingClusterGroups t gks) ++ map_of (ExistingClusterGroupsBesides t gks) =
          map_of (tr_groups t)"
    by (rule ext) (simp add: map_add_def e b split: option.split)
  show "dom (map_of (ExistingClusterGroups t gks)) \<inter>
          dom (map_of (ExistingClusterGroupsBesides t gks)) = {}"
    by (simp add: disjoint_iff domIff e b)
qed


section \<open>Refresh\<close>

lemma add_decision_lookup:
  "map_of (add_decision groups k cs) =
     (map_of groups)(k \<mapsto>
        set_insert_all (case map_of groups k of None \<Rightarrow> [] | Some cs' \<Rightarrow> cs') cs)"
  by (auto simp: add_decision_def fun_eq_iff split: option.splits)

lemma group_members_add_decision:
  "group_members (add_decision groups k cs) k' =
     group_members groups k' \<union> (if k' = k then set cs else {})"
  by (simp add: group_members_def add_decision_lookup split: option.splits)

lemma dom_add_decision: "dom (map_of (add_decision groups k cs)) = insert k (dom (map_of groups))"
  by (simp add: add_decision_lookup)

lemma wf_groups_iff:
  "wf_groups g \<longleftrightarrow> wf_map g \<and> (\<forall>k cs. map_of g k = Some cs \<longrightarrow> distinct cs)"
  by (auto simp: wf_groups_def wf_map_of_iff)

lemma wf_add_decision: "wf_groups groups \<Longrightarrow> wf_groups (add_decision groups k cs)"
  unfolding wf_groups_iff add_decision_lookup
  by (auto simp: add_decision_def Let_def split: if_splits option.splits)

text \<open>The clusters that the decisions labelled with a group key name.\<close>

definition decided :: "placement_decision list \<Rightarrow> group_key \<Rightarrow> string set" where
  "decided ds k = (\<Union>d \<in> {d \<in> set ds. parseGroupKeyFromDecision d = Inr k}. set (pd_Decisions d))"

lemma decided_Nil [simp]: "decided [] k = {}"
  by (simp add: decided_def)

lemma decided_Cons:
  "decided (d # ds) k =
     (if parseGroupKeyFromDecision d = Inr k then set (pd_Decisions d) else {}) \<union> decided ds k"
  by (auto simp: decided_def)

lemma collect_decisions_members:
  "collect_decisions g ds = Inr g' \<Longrightarrow> group_members g' k = group_members g k \<union> decided ds k"
proof (induction ds arbitrary: g)
  case (Cons d ds)
  then obtain k0 where "parseGroupKeyFromDecision d = Inr k0"
    and "collect_decisions (add_decision g k0 (pd_Decisions d)) ds = Inr g'"
    by (auto split: sum.splits)
  with Cons.IH show ?case
    by (auto simp: group_members_add_decision decided_Cons)
qed simp

lemma collect_decisions_dom:
  "collect_decisions g ds = Inr g' \<Longrightarrow>
   dom (map_of g') = dom (map_of g) \<union> {k. \<exists>d \<in> set ds. parseGroupKeyFromDecision d = Inr k}"
proof (induction ds arbitrary: g)
  case (Cons d ds)
  then obtain k0 where "parseGroupKeyFromDecision d = Inr k0"
    and "collect_decisions (add_decision g k0 (pd_Decisions d)) ds = Inr g'"
    by (auto split: sum.splits)
  with Cons.IH show ?case
    by (auto simp: dom_add_decision)
qed simp

lemma collect_decisions_wf:
  "collect_decisions g ds = Inr g' \<Longrightarrow> wf_groups g \<Longrightarrow> wf_groups g'"
  by (induction ds arbitrary: g) (auto simp: wf_add_decision split: sum.splits)

lemma collect_decisions_error_iff:
  "(\<exists>e. collect_decisions g ds = Inl e) \<longleftrightarrow>
     (\<exists>d \<in> set ds. \<not> is_ok (parseGroupKeyFromDecision d))"
  by (induction ds arbitrary: g) (auto simp: is_ok_def split: sum.splits)

lemma wf_groups_Nil [simp]: "wf_groups []"
  by (simp add: wf_groups_def)

lemma Refresh_success:
  assumes "Refresh t = (None, t')" "tr_placement t = Some p" "tr_getter t = Some getter"
  obtains ds where "getter [(PlacementLabel, pl_Name p)] (pl_Namespace p) = Inr ds"
    and "collect_decisions [] ds = Inr (tr_groups t')"
    and "tables_ok t'"
  using assms by (auto simp: Refresh_def split: sum.splits)

lemma Refresh_error_keeps: "Refresh t = (Some e, t') \<Longrightarrow> t' = t"
  by (auto simp: Refresh_def split: sum.splits option.splits)

lemma Refresh_invariant:
  assumes "Refresh t = (r, t')" "tables_ok t" "wf_groups (tr_groups t)"
  shows "tables_ok t' \<and> wf_groups (tr_groups t')"
  using assms collect_decisions_wf [of "[]"]
  by (auto simp: Refresh_def split: sum.splits option.splits prod.splits)


section \<open>Properties\<close>

text \<open>
  C10. A refresh that succeeds replaces the tracked groups by exactly what the listed decisions
  say: a group key is tracked iff some decision carries it in its labels, and the group's
  clusters are those that the decisions with this key name. Both name and index tables are
  rebuilt from the new groups.
\<close>

theorem refresh_tracks_decisions:
  assumes "tr_placement t = Some p" "tr_getter t = Some getter"
    and "getter [(PlacementLabel, pl_Name p)] (pl_Namespace p) = Inr ds"
    and "\<forall>d \<in> set ds. is_ok (parseGroupKeyFromDecision d)"
  shows "\<exists>t'. Refresh t = (None, t') \<and> tables_ok t' \<and> wf_groups (tr_groups t') \<and>
     (\<forall>k. map_of (tr_groups t') k \<noteq> None \<longleftrightarrow> (\<exists>d \<in> set ds. parseGroupKeyFromDecision d = Inr k)) \<and>
     (\<forall>k. group_members (tr_groups t') k = decided ds k)"
proof -
  obtain groups where g: "collect_decisions [] ds = Inr groups"
    using assms(4) collect_decisions_error_iff [of "[]" ds]
    by (cases "collect_decisions [] ds") auto
  let ?t = "generateGroupsNameIndex (t\<lparr>tr_groups := groups\<rparr>)"
  have "Refresh t = (None, ?t)"
    using assms(1-3) g by (simp add: Refresh_def)
  moreover have "map_of groups k \<noteq> None \<longleftrightarrow> (\<exists>d \<in> set ds. parseGroupKeyFromDecision d = Inr k)" for k
    using collect_decisions_dom [OF g] by (auto simp: dom_def set_eq_iff)
  moreover have "group_members groups k = decided ds k" for k
    using collect_decisions_members [OF g] by (simp add: group_members_def)
  moreover have "wf_groups groups" by (rule collect_decisions_wf [OF g]) simp
  ultimately show ?thesis by auto
qed

definition example_decision :: "string \<Rightarrow> string \<Rightarrow> string list \<Rightarrow> placement_decision" where
  "example_decision name index clusters =
     \<lparr>pd_Labels = [(DecisionGroupNameLabel, name), (DecisionGroupIndexLabel, index)],
      pd_Decisions = clusters\<rparr>"

definition example_tracker :: "placement_decision list \<Rightarrow> tracker" where
  "example_tracker ds =
     NewPlacementDecisionClustersTrackerWithGroups
       (Some \<lparr>pl_Name = ''p'', pl_Namespace = ''ns''\<rparr>) (Some (\<lambda>_ _. Inr ds)) []"

lemma example_tracker_simps [simp]:
  "tr_placement (example_tracker ds) = Some \<lparr>pl_Name = ''p'', pl_Namespace = ''ns''\<rparr>"
  "tr_getter (example_tracker ds) = Some (\<lambda>_ _. Inr ds)"
  "tr_groups (example_tracker ds) = []"
  by (simp_all add: example_tracker_def NewPlacementDecisionClustersTrackerWithGroups_def)

lemma labels_differ [simp]:
  "DecisionGroupIndexLabel \<noteq> DecisionGroupNameLabel"
  "DecisionGroupNameLabel \<noteq> DecisionGroupIndexLabel"
  by (simp_all add: DecisionGroupNameLabel_def DecisionGroupIndexLabel_def)

lemma example_decision_key:
  "parseGroupKeyFromDecision (example_decision name index cs) =
     (case parse_int index of
        Inl e \<Rightarrow> Inl (Wrapf ''incorrect group index'' e)
      | Inr n \<Rightarrow> Inr \<lparr>gk_GroupName = name, gk_GroupIndex = to_int32 n\<rparr>)"
  by (simp add: parseGroupKeyFromDecision_def example_decision_def lookup_str_def)

theorem refresh_tracks_decisions_witness:
  "\<exists>t'. Refresh (example_tracker [example_decision ''canary'' ''0'' [''c1'', ''c2'']]) = (None, t') \<and>
     group_members (tr_groups t') \<lparr>gk_GroupName = ''canary'', gk_GroupIndex = 0\<rparr> = {''c1'', ''c2''}"
proof -
  let ?ds = "[example_decision ''canary'' ''0'' [''c1'', ''c2'']]"
  have key: "parseGroupKeyFromDecision (example_decision ''canary'' ''0'' [''c1'', ''c2'']) =
      Inr \<lparr>gk_GroupName = ''canary'', gk_GroupIndex = 0\<rparr>"
    by (simp add: example_decision_key) code_simp
  have "decided ?ds \<lparr>gk_GroupName = ''canary'', gk_GroupIndex = 0\<rparr> = {''c1'', ''c2''}"
    by (auto simp: decided_Cons key) (simp_all add: example_decision_def)
  moreover have "\<forall>d \<in> set ?ds. is_ok (parseGroupKeyFromDecision d)"
    by (simp add: key)
  ultimately show ?thesis
    using refresh_tracks_decisions [of "example_tracker ?ds" _ _ ?ds] by fastforce
qed

text \<open>
  A refresh that fails, because the decisions cannot be listed or one of them has a group
  index that is no number, returns the error and leaves the tracker as it was.
\<close>

theorem refresh_error_atomic:
  assumes "tr_placement t = Some p" "tr_getter t = Some getter"
    and "\<forall>ds. getter [(PlacementLabel, pl_Name p)] (pl_Namespace p) = Inr ds \<longrightarrow>
           (\<exists>d \<in> set ds. \<not> is_ok (parseGroupKeyFromDecision d))"
  shows "\<exists>e. Refresh t = (Some e, t) \<and> GetClusterChanges t = (Inl e, t)"
proof -
  have "\<exists>e. Refresh t = (Some e, t)"
  proof (cases "getter [(PlacementLabel, pl_Name p)] (pl_Namespace p)")
    case (Inl e)
    with assms(1,2) show ?thesis by (simp add: Refresh_def)
  next
    case (Inr ds)
    with assms collect_decisions_error_iff [of "[]" ds] show ?thesis
      by (auto simp: Refresh_def)
  qed
  then show ?thesis by (auto simp: GetClusterChanges_def)
qed


theorem refresh_error_atomic_witness:
  "\<exists>e. Refresh (example_tracker [example_decision ''canary'' ''one'' [''c1'']]) =
     (Some e, example_tracker [example_decision ''canary'' ''one'' [''c1'']])"
proof -
  let ?ds = "[example_decision ''canary'' ''one'' [''c1'']]"
  have "parse_int ''one'' = Inl (Errorf ''strconv.ParseInt: invalid syntax'')" by code_simp
  then have "\<not> is_ok (parseGroupKeyFromDecision (example_decision ''canary'' ''one'' [''c1'']))"
    by (simp add: example_decision_key)
  then show ?thesis
    using refresh_error_atomic [of "example_tracker ?ds" "\<lparr>pl_Name = ''p'', pl_Namespace = ''ns''\<rparr>"
        "\<lambda>_ _. Inr ?ds"] by auto
qed

text \<open>
  C12. \<open>GetClusterChanges\<close> reports exactly the difference: the clusters before the refresh, plus
  the added ones, minus the deleted ones, are the clusters after it; nothing is reported as both,
  an added cluster was not there before and a deleted one is not there afterwards.
\<close>

theorem cluster_changes_exact:
  assumes "GetClusterChanges t = (Inr (added, deleted), t')"
  shows "(set (GetClusters (tr_groups t)) \<union> set added) - set deleted = set (GetClusters (tr_groups t')) \<and>
     set added \<inter> set (GetClusters (tr_groups t)) = {} \<and>
     set deleted \<subseteq> set (GetClusters (tr_groups t)) \<and>
     set added \<inter> set deleted = {} \<and> distinct added \<and> distinct deleted \<and>
     Refresh t = (None, t')"
proof -
  have "Refresh t = (None, t')"
    and "added = set_difference (GetClusters (tr_groups t')) (GetClusters (tr_groups t))"
    and "deleted = set_difference (GetClusters (tr_groups t)) (GetClusters (tr_groups t'))"
    using assms by (auto simp: GetClusterChanges_def Let_def split: prod.splits option.splits)
  then show ?thesis by auto
qed

definition changes_example :: tracker where
  "changes_example =
     NewPlacementDecisionClustersTracker (Some \<lparr>pl_Name = ''p'', pl_Namespace = ''ns''\<rparr>)
       (Some (\<lambda>_ _. Inr [example_decision [] ''0'' [''c1'', ''c3'']])) [''c1'', ''c2'']"

theorem cluster_changes_exact_witness:
  "\<exists>added deleted t'. GetClusterChanges changes_example = (Inr (added, deleted), t') \<and>
     (set [''c1'', ''c2''] \<union> set added) - set deleted = set (GetClusters (tr_groups t'))"
proof -
  have key: "parseGroupKeyFromDecision (example_decision [] ''0'' [''c1'', ''c3'']) =
      Inr \<lparr>gk_GroupName = [], gk_GroupIndex = 0\<rparr>"
    by (simp add: example_decision_key) code_simp
  have g: "set (GetClusters (tr_groups changes_example)) = set [''c1'', ''c2'']"
    by (simp add: changes_example_def NewPlacementDecisionClustersTracker_def set_GetClusters)
  have "\<exists>t'. Refresh changes_example = (None, t')"
    by (simp add: changes_example_def Refresh_def NewPlacementDecisionClustersTracker_def key)
  then obtain added deleted t' where "GetClusterChanges changes_example = (Inr (added, deleted), t')"
    by (auto simp: GetClusterChanges_def Let_def)
  with cluster_changes_exact [OF this] g show ?thesis by auto
qed

text \<open>
  When the groups are numbered without gaps, \<open>ExistingClusterGroups\<close> and
  \<open>ExistingClusterGroupsBesides\<close> split the tracked groups in two, whatever group keys are
  asked for: no group is in both results, none is lost, and none is altered.
\<close>

theorem existing_and_besides_partition:
  assumes "contiguous t" "tables_ok t"
  shows "map_of (ExistingClusterGroups t gks) ++ map_of (ExistingClusterGroupsBesides t gks) =
           map_of (tr_groups t) \<and>
     dom (map_of (ExistingClusterGroups t gks)) \<inter> dom (map_of (ExistingClusterGroupsBesides t gks)) = {} \<and>
     map_of (ExistingClusterGroupsBesides t []) = map_of (tr_groups t) \<and>
     ExistingClusterGroups t [] = []"
proof -
  have "ExistingClusterGroups t [] = []"
    by (simp add: ExistingClusterGroups_def select_groups_def)
  moreover from this have "map_of (ExistingClusterGroupsBesides t []) = map_of (tr_groups t)"
    using groups_partition(1) [OF assms, of "[]"] by simp
  ultimately show ?thesis using groups_partition [OF assms] by simp
qed

definition two_groups :: tracker where
  "two_groups = NewPlacementDecisionClustersTrackerWithGroups None None
     [(\<lparr>gk_GroupName = ''canary'', gk_GroupIndex = 0\<rparr>, [''c1'']),
      (\<lparr>gk_GroupName = ''stable'', gk_GroupIndex = 1\<rparr>, [''c2'', ''c3''])]"

lemma two_groups_ok: "contiguous two_groups" "tables_ok two_groups"
  by (simp_all add: two_groups_def NewPlacementDecisionClustersTrackerWithGroups_def contiguous_def
      wf_map_def lessThan_Suc insert_commute)

theorem existing_and_besides_partition_witness:
  "dom (map_of (ExistingClusterGroups two_groups [\<lparr>gk_GroupName = ''canary'', gk_GroupIndex = 0\<rparr>])) \<inter>
   dom (map_of (ExistingClusterGroupsBesides two_groups [\<lparr>gk_GroupName = ''canary'', gk_GroupIndex = 0\<rparr>])) = {} \<and>
   map_of (ExistingClusterGroupsBesides two_groups []) = map_of (tr_groups two_groups)"
  using existing_and_besides_partition [OF two_groups_ok] by blast

text \<open>
  The numbering without gaps is needed: with a single group of index 1,
  \<open>ExistingClusterGroupsBesides\<close> without any key returns no group at all, although its comment
  promises all the clusters.
\<close>

theorem besides_loses_group_with_gap:
  "map_of (ExistingClusterGroupsBesides
       (NewPlacementDecisionClustersTrackerWithGroups p pdl
          [(\<lparr>gk_GroupName = name, gk_GroupIndex = 1\<rparr>, clusters)]) []) = Map.empty"
proof -
  have "to_int32 0 = 0" by (simp add: to_int32_id)
  then show ?thesis
    by (simp add: NewPlacementDecisionClustersTrackerWithGroups_def ExistingClusterGroupsBesides_def
      generateGroupsNameIndex_def add_name_index_def getGroupKeysBesides_def select_groups_def)
qed

end
