(* ===== verification/Go_Numbers.thy ===== *)
theory Go_Numbers
  imports Go_Strings
begin

text \<open>
  The part of Go's floating point, \<open>strconv.ParseFloat\<close> and \<open>time.ParseDuration\<close> that the
  rollout code uses. A finite float64 is \<open>m * 2^e\<close> with integers \<open>m\<close> and \<open>e\<close>; every
  operation computes the exact ratio and rounds it to nearest, ties to even, with 53 bits of
  precision, exponents from -1074 on and overflow to infinity. The sign of a zero is not kept: no
  operation used here shows it. A duration is an integer count of nanoseconds.
\<close>

section \<open>float64\<close>

datatype float64 = FNaN | FInf bool | FFin int int

function bit_length :: "int \<Rightarrow> int" where
  "bit_length n = (if n \<le> 0 then 0 else 1 + bit_length (n div 2))"
  by auto
termination by (relation "measure nat") auto

declare bit_length.simps [simp del]

definition pow2 :: "int \<Rightarrow> int" where
  "pow2 k = 2 ^ nat k"

text \<open>The float64 nearest to \<open>n / d\<close>, for \<open>d > 0\<close>.\<close>

definition round_ratio :: "int \<Rightarrow> int \<Rightarrow> float64" where
  "round_ratio n d =
     (if n = 0 then FFin 0 0
      else
        let a = \<bar>n\<bar>;
            k = bit_length a - bit_length d;
            fl = (if a * pow2 (- k) \<ge> d * pow2 k then k else k - 1);
            e = max (fl - 52) (- 1074);
            num = a * pow2 (- e);
            den = d * pow2 e;
            q = num div den;
            r = num mod den;
            q' = (if 2 * r > den \<or> 2 * r = den \<and> odd q then q + 1 else q)
        in if e \<ge> 0 \<and> q' * pow2 e \<ge> pow2 1024 then FInf (n < 0)
           else FFin (sgn n * q') e)"

definition float_of_int :: "int \<Rightarrow> float64" where
  "float_of_int n = round_ratio n 1"

text \<open>Division by a positive finite number, and multiplication by a non-negative finite one.\<close>

fun float_div :: "float64 \<Rightarrow> float64 \<Rightarrow> float64" where
  "float_div (FFin m e) (FFin m' e') = round_ratio (m * pow2 e * pow2 (- e')) (m' * pow2 e' * pow2 (- e))"
| "float_div (FInf s) (FFin m' e') = FInf s"
| "float_div _ _ = FNaN"

fun float_mult :: "float64 \<Rightarrow> float64 \<Rightarrow> float64" where
  "float_mult (FFin m e) (FFin m' e') = round_ratio (m * m' * pow2 (e + e')) (pow2 (- (e + e')))"
| "float_mult (FInf s) (FFin m' e') = (if m' = 0 then FNaN else FInf s)"
| "float_mult _ _ = FNaN"

text \<open>
  \<open>int(math.Ceil(f))\<close> on a 64-bit machine. Where the value has no \<open>int\<close>, the language leaves
  the conversion to the machine; the model takes the amd64 result.
\<close>

definition float_ceil_int :: "float64 \<Rightarrow> int" where
  "float_ceil_int f = (case f of
       FFin m e \<Rightarrow>
         (let c = - ((- (m * pow2 e)) div pow2 (- e))
          in if min_int64 \<le> c \<and> c \<le> max_int64 then c else min_int64)
     | _ \<Rightarrow> min_int64)"

text \<open>\<open>uint64(f)\<close> for a non-negative \<open>f\<close> in range: the fraction is cut off.\<close>

definition float_trunc :: "float64 \<Rightarrow> int" where
  "float_trunc f = (case f of FFin m e \<Rightarrow> (m * pow2 e) div pow2 (- e) | _ \<Rightarrow> 0)"

section \<open>ParseFloat\<close>

definition lower_char :: "char \<Rightarrow> char" where
  "lower_char c = (if of_char c \<ge> (65 :: int) \<and> of_char c \<le> (90 :: int) then char_of ((of_char c :: int) + 32) else c)"

definition is_hex_letter :: "char \<Rightarrow> bool" where
  "is_hex_letter c \<longleftrightarrow> lower_char c \<in> set ''abcdef''"

definition hex_val :: "char \<Rightarrow> int" where
  "hex_val c = (if is_digit c then of_char c - 48 else of_char (lower_char c) - 87)"

text \<open>
  The mantissa: its value without the point, the number of digits after the point, whether a digit
  and whether a point was seen, and the rest of the text. Underscores are skipped here and checked
  later.
\<close>

fun read_mantissa ::
  "bool \<Rightarrow> string \<Rightarrow> int \<Rightarrow> int \<Rightarrow> bool \<Rightarrow> bool \<Rightarrow> int \<times> int \<times> bool \<times> string" where
  "read_mantissa hex [] m fd dot dig = (m, fd, dig, [])"
| "read_mantissa hex (c # cs) m fd dot dig =
     (if c = CHR ''_'' then read_mantissa hex cs m fd dot dig
      else if c = CHR ''.'' then
        (if dot then (m, fd, dig, c # cs) else read_mantissa hex cs m fd True dig)
      else if is_digit c \<or> hex \<and> is_hex_letter c then
        read_mantissa hex cs ((if hex then 16 else 10) * m + hex_val c)
          (if dot then fd + 1 else fd) dot True
      else (m, fd, dig, c # cs))"

fun read_exp_digits :: "string \<Rightarrow> int \<Rightarrow> int \<times> string" where
  "read_exp_digits [] e = (e, [])"
| "read_exp_digits (c # cs) e =
     (if c = CHR ''_'' then read_exp_digits cs e
      else if is_digit c then read_exp_digits cs (if e < 10000 then 10 * e + hex_val c else e)
      else (e, c # cs))"

text \<open>The optional exponent; \<open>None\<close> is a syntax error.\<close>

definition read_exponent :: "bool \<Rightarrow> string \<Rightarrow> (int \<times> string) option" where
  "read_exponent hex s =
     (case s of
        [] \<Rightarrow> if hex then None else Some (0, s)
      | c # cs \<Rightarrow>
          if lower_char c = (if hex then CHR ''p'' else CHR ''e'') then
            (let (esign, ds) = (case cs of
                 [] \<Rightarrow> (1, [])
               | x # xs \<Rightarrow> if x = CHR ''+'' then (1, xs) else if x = CHR ''-'' then (-1, xs) else (1, cs))
             in case ds of
                  [] \<Rightarrow> None
                | d # _ \<Rightarrow>
                    if is_digit d
                    then (let (e, rest) = read_exp_digits ds 0 in Some (esign * e, rest))
                    else None)
          else if hex then None else Some (0, s))"

text \<open>Underscores separate digits, or follow a base prefix: \<open>saw\<close> is the kind of the last byte.\<close>

fun underscores_ok :: "bool \<Rightarrow> char \<Rightarrow> string \<Rightarrow> bool" where
  "underscores_ok hex saw [] \<longleftrightarrow> saw \<noteq> CHR ''_''"
| "underscores_ok hex saw (c # cs) \<longleftrightarrow>
     (if is_digit c \<or> hex \<and> is_hex_letter c then underscores_ok hex CHR ''0'' cs
      else if c = CHR ''_'' then saw = CHR ''0'' \<and> underscores_ok hex CHR ''_'' cs
      else saw \<noteq> CHR ''_'' \<and> underscores_ok hex CHR ''!'' cs)"

definition is_hex_prefix :: "string \<Rightarrow> bool" where
  "is_hex_prefix s \<longleftrightarrow>
     (case s of c # x # y # _ \<Rightarrow> c = CHR ''0'' \<and> lower_char x = CHR ''x'' | _ \<Rightarrow> False)"

definition split_sign :: "string \<Rightarrow> bool \<times> string" where
  "split_sign s = (case s of
       [] \<Rightarrow> (False, [])
     | c # cs \<Rightarrow> if c = CHR ''+'' then (False, cs) else if c = CHR ''-'' then (True, cs) else (False, s))"

text \<open>
  \<open>strconv.ParseFloat(s, 64)\<close>: the spelled-out infinities and NaN in any case, or a decimal or
  hexadecimal literal. An overflow is an error, as is a text with anything left over.
\<close>

definition ParseFloat :: "string \<Rightarrow> float64 result" where
  "ParseFloat s =
     (let (neg, t) = split_sign s; l = map lower_char t in
      if l = ''inf'' \<or> l = ''infinity'' then Inr (FInf neg)
      else if l = ''nan'' \<and> t = s then Inr FNaN
      else
        let hex = is_hex_prefix t;
            body = (if hex then drop 2 t else t);
            (m, fd, dig, rest) = read_mantissa hex body 0 0 False False
        in if \<not> dig then Inl (Errorf ''strconv.ParseFloat: invalid syntax'')
           else (case read_exponent hex rest of
               None \<Rightarrow> Inl (Errorf ''strconv.ParseFloat: invalid syntax'')
             | Some (e, rest') \<Rightarrow>
                 if rest' \<noteq> [] \<or> \<not> underscores_ok hex (if hex then CHR ''0'' else CHR ''^'') body
                 then Inl (Errorf ''strconv.ParseFloat: invalid syntax'')
                 else
                   let sm = (if neg then - m else m);
                       f = (if hex
                            then round_ratio (sm * pow2 (e - 4 * fd)) (pow2 (4 * fd - e))
                            else round_ratio (sm * 10 ^ nat (e - fd)) (10 ^ nat (fd - e)))
                   in (case f of
                         FInf _ \<Rightarrow> Inl (Errorf ''strconv.ParseFloat: value out of range'')
                       | _ \<Rightarrow> Inr f)))"

section \<open>ParseDuration\<close>

definition max_duration :: int where
  "max_duration = max_int64"

definition Nanosecond :: int where "Nanosecond = 1"
definition Microsecond :: int where "Microsecond = 1000"
definition Millisecond :: int where "Millisecond = 1000000"
definition Second :: int where "Second = 1000000000"
definition Minute :: int where "Minute = 60000000000"
definition Hour :: int where "Hour = 3600000000000"

lemmas durations = Nanosecond_def Microsecond_def Millisecond_def Second_def Minute_def Hour_def

text \<open>The unit names are byte strings: the two spellings of the micro sign are in UTF-8.\<close>

definition unit_of :: "string \<Rightarrow> int option" where
  "unit_of u = map_of
     [(''ns'', Nanosecond), (''us'', Microsecond),
      ([CHR 0xC2, CHR 0xB5, CHR ''s''], Microsecond), ([CHR 0xCE, CHR 0xBC, CHR ''s''], Microsecond),
      (''ms'', Millisecond), (''s'', Second), (''m'', Minute), (''h'', Hour)] u"

fun leading_int :: "int \<Rightarrow> string \<Rightarrow> (int \<times> string) option" where
  "leading_int x [] = Some (x, [])"
| "leading_int x (c # cs) =
     (if \<not> is_digit c then Some (x, c # cs)
      else if x > 2 ^ 63 div 10 then None
      else let y = 10 * x + int (digit_val c)
           in if y > 2 ^ 63 then None else leading_int y cs)"

fun leading_fraction :: "int \<Rightarrow> int \<Rightarrow> bool \<Rightarrow> string \<Rightarrow> int \<times> int \<times> string" where
  "leading_fraction x scale over [] = (x, scale, [])"
| "leading_fraction x scale over (c # cs) =
     (if \<not> is_digit c then (x, scale, c # cs)
      else if over then leading_fraction x scale over cs
      else if x > max_int64 div 10 then leading_fraction x scale True cs
      else let y = 10 * x + int (digit_val c)
           in if y > 2 ^ 63 then leading_fraction x scale True cs
              else leading_fraction y (scale * 10) over cs)"

definition unit_char :: "char \<Rightarrow> bool" where
  "unit_char c \<longleftrightarrow> \<not> (c = CHR ''.'' \<or> is_digit c)"

text \<open>
  One number with its unit from the front of the text: its nanoseconds and the rest. The scale of
  a fraction is a power of ten below \<open>10^20\<close>, which a float64 holds exactly.
\<close>

definition parse_term :: "string \<Rightarrow> (int \<times> string) result" where
  "parse_term s =
     (if s = [] \<or> \<not> (hd s = CHR ''.'' \<or> is_digit (hd s)) then Inl (Errorf ''time: invalid duration'')
      else case leading_int 0 s of
        None \<Rightarrow> Inl (Errorf ''time: invalid duration'')
      | Some (v, s1) \<Rightarrow>
          let pre = (length s \<noteq> length s1);
              (f, scale, s2, post) =
                (case s1 of
                   c # cs \<Rightarrow>
                     if c = CHR ''.'' then
                       (let (f, scale, r) = leading_fraction 0 1 False cs
                        in (f, scale, r, length cs \<noteq> length r))
                     else (0, 1, s1, False)
                 | [] \<Rightarrow> (0, 1, s1, False))
          in if \<not> pre \<and> \<not> post then Inl (Errorf ''time: invalid duration'')
             else
               let u = takeWhile unit_char s2; s3 = dropWhile unit_char s2 in
               if u = [] then Inl (Errorf ''time: missing unit in duration'')
               else case unit_of u of
                 None \<Rightarrow> Inl (Errorf ''time: unknown unit'')
               | Some unit \<Rightarrow>
                   if v > 2 ^ 63 div unit then Inl (Errorf ''time: invalid duration'')
                   else
                     let w = v * unit
                           + (if f > 0 then
                                float_trunc (float_mult (float_of_int f)
                                  (float_div (float_of_int unit) (float_of_int scale)))
                              else 0)
                     in if f > 0 \<and> w > 2 ^ 63 then Inl (Errorf ''time: invalid duration'')
                        else Inr (w, s3))"

lemma leading_int_length: "leading_int x s = Some (v, r) \<Longrightarrow> length r \<le> length s"
  by (induction s arbitrary: x) (auto simp: Let_def split: if_splits intro: le_SucI)

lemma leading_fraction_length: "leading_fraction x sc ov s = (f, sc', r) \<Longrightarrow> length r \<le> length s"
  by (induction s arbitrary: x sc ov) (auto simp: Let_def split: if_splits intro: le_SucI)

text \<open>The sum of the terms is a uint64, which wraps around. Every term consumes at least its unit, so the loop over the terms ends.\<close>

lemma parse_term_shorter:
  assumes "parse_term s = Inr (w, r)"
  shows "length r < length s"
proof -
  obtain v s1 where v: "leading_int 0 s = Some (v, s1)"
    using assms by (auto simp: parse_term_def split: if_splits option.splits)
  then have le1: "length s1 \<le> length s" by (rule leading_int_length)
  define s2 where "s2 = (case s1 of c # cs \<Rightarrow> if c = CHR ''.'' then snd (snd (leading_fraction 0 1 False cs)) else s1 | [] \<Rightarrow> s1)"
  have frac: "length (snd (snd (leading_fraction 0 1 False cs))) \<le> length cs" for cs
    by (metis leading_fraction_length prod.collapse)
  have "length s2 \<le> length s1"
    using frac by (auto simp: s2_def split: list.splits intro: le_SucI)
  moreover have "takeWhile unit_char s2 \<noteq> [] \<and> r = dropWhile unit_char s2"
    using assms v
    by (auto simp: parse_term_def s2_def Let_def split: if_splits option.splits list.splits prod.splits)
  moreover have "length (takeWhile unit_char s2) + length (dropWhile unit_char s2) = length s2"
    by (metis length_append takeWhile_dropWhile_id)
  ultimately show ?thesis using le1 by (cases "takeWhile unit_char s2") auto
qed

function parse_terms :: "int \<Rightarrow> string \<Rightarrow> int result" where
  "parse_terms d s =
     (if s = [] then Inr d
      else case parse_term s of
        Inl e \<Rightarrow> Inl e
      | Inr (v, r) \<Rightarrow>
          (let d' = (d + v) mod 2 ^ 64
           in if d' > 2 ^ 63 then Inl (Errorf ''time: invalid duration'') else parse_terms d' r))"
  by pat_completeness auto
termination
  by (relation "measure (\<lambda>(d, s). length s)") (auto dest: parse_term_shorter)

declare parse_terms.simps [simp del]

definition ParseDuration :: "string \<Rightarrow> int result" where
  "ParseDuration s =
     (let (neg, t) = split_sign s in
      if t = ''0'' then Inr 0
      else if t = [] then Inl (Errorf ''time: invalid duration'')
      else case parse_terms 0 t of
        Inl e \<Rightarrow> Inl e
      | Inr d \<Rightarrow>
          if neg then Inr (- d)
          else if d > max_int64 then Inl (Errorf ''time: invalid duration'')
          else Inr d)"

end
