(* ===== verification/Rollout.thy ===== *)
theory Rollout
  imports Placement Go_Numbers
begin

text \<open>
  \<^verbatim>\<open>pkg/apis/cluster/v1alpha1/rollout.go\<close>: which clusters a rollout turns to next. The clock is
  read at one instant \<open>now\<close> during a call (as with the fake clock of the tests), in nanoseconds;
  a nil \<open>*metav1.Time\<close> or \<open>*time.Duration\<close> is \<open>None\<close>. A nil dereference panics, and the
  functions that may panic return an option whose \<open>None\<close> is the panic. The workload type and the
  status function of the handler play no part in the operations.
\<close>

section \<open>Data\<close>

datatype rollout_status =
  ToApply | Progressing | Succeeded | Failed | TimeOut | Skip | OtherStatus int

record cluster_rollout_status =
  crs_ClusterName :: string
  crs_GroupKey :: group_key
  crs_Status :: rollout_status
  crs_LastTransitionTime :: "int option"
  crs_TimeOutTime :: "int option"

record rollout_result =
  rr_ClustersToRollout :: "cluster_rollout_status list"
  rr_ClustersTimeOut :: "cluster_rollout_status list"
  rr_ClustersRemoved :: "cluster_rollout_status list"
  rr_MaxFailureBreach :: bool
  rr_RecheckAfter :: "int option"

datatype int_or_string = IS_Int int | IS_String string | IS_Other int

record rollout_config =
  rc_MinSuccessTime :: int
  rc_ProgressDeadline :: string
  rc_MaxFailures :: int_or_string

record rollout_progressive_per_group = rollout_config +
  rc_MandatoryDecisionGroups :: "(string \<times> int) list"

record rollout_progressive = rollout_progressive_per_group +
  rc_MaxConcurrency :: int_or_string

record rollout_strategy =
  rs_Type :: string
  rs_All :: "rollout_config option"
  rs_Progressive :: "rollout_progressive option"
  rs_ProgressivePerGroup :: "rollout_progressive_per_group option"

record rollout_handler =
  rh_pdTracker :: tracker

definition NewRolloutHandler :: "tracker option \<Rightarrow> rollout_handler result" where
  "NewRolloutHandler t = (case t of
       None \<Rightarrow> Inl (Errorf ''invalid placement decision tracker'')
     | Some t \<Rightarrow> Inr \<lparr>rh_pdTracker = t\<rparr>)"

definition maxTimeDuration :: int where
  "maxTimeDuration = max_int64"

definition empty_result :: rollout_result where
  "empty_result = \<lparr>rr_ClustersToRollout = [], rr_ClustersTimeOut = [], rr_ClustersRemoved = [],
     rr_MaxFailureBreach = False, rr_RecheckAfter = None\<rparr>"

text \<open>The zero values that stand for a missing section of the strategy.\<close>

definition zero_config :: rollout_config where
  "zero_config = \<lparr>rc_MinSuccessTime = 0, rc_ProgressDeadline = [], rc_MaxFailures = IS_Int 0\<rparr>"

definition zero_per_group :: rollout_progressive_per_group where
  "zero_per_group = \<lparr>rc_MinSuccessTime = 0, rc_ProgressDeadline = [], rc_MaxFailures = IS_Int 0,
     rc_MandatoryDecisionGroups = []\<rparr>"

definition zero_progressive :: rollout_progressive where
  "zero_progressive = \<lparr>rc_MinSuccessTime = 0, rc_ProgressDeadline = [], rc_MaxFailures = IS_Int 0,
     rc_MandatoryDecisionGroups = [], rc_MaxConcurrency = IS_Int 0\<rparr>"

section \<open>Thresholds and time limits\<close>

definition parseRolloutSize :: "int_or_string \<Rightarrow> error option" where
  "parseRolloutSize maxThreshold = (case maxThreshold of
       IS_Int i \<Rightarrow> None
     | IS_String str \<Rightarrow>
         (if has_suffix str ''%'' then
            (case ParseFloat (take (length str - 1) str) of Inl e \<Rightarrow> Some e | Inr f \<Rightarrow> None)
          else Some (Errorf ''is an invalid maximum threshold value: string is not a percentage''))
     | IS_Other t \<Rightarrow> Some (Errorf ''invalid maximum threshold type''))"

text \<open>\<open>int(math.Ceil(f / 100 * float64(total)))\<close>\<close>

definition percent_of :: "float64 \<Rightarrow> int \<Rightarrow> int" where
  "percent_of f tot =
     float_ceil_int (float_mult (float_div f (float_of_int 100)) (float_of_int tot))"

definition calculateRolloutSize :: "int_or_string \<Rightarrow> int \<Rightarrow> int \<Rightarrow> int \<times> error option" where
  "calculateRolloutSize maxThreshold tot defaultThreshold =
     (case parseRolloutSize maxThreshold of
        Some e \<Rightarrow> (defaultThreshold, Some e)
      | None \<Rightarrow>
          let len = (case maxThreshold of
                IS_Int i \<Rightarrow> i
              | IS_String str \<Rightarrow>
                  (case ParseFloat (take (length str - 1) str) of
                     Inr f \<Rightarrow> percent_of f tot
                   | Inl _ \<Rightarrow> percent_of (FFin 0 0) tot)
              | IS_Other t \<Rightarrow> defaultThreshold)
          in (if len \<le> 0 \<or> len > tot then (defaultThreshold, None) else (len, None)))"

text \<open>The pattern \<open>^(([0-9])+[h|m|s])|None$\<close>, whose alternatives are anchored on one side each.\<close>

definition matches_timeout_pattern :: "string \<Rightarrow> bool" where
  "matches_timeout_pattern s \<longleftrightarrow>
     (let ds = takeWhile is_digit s; r = dropWhile is_digit s
      in ds \<noteq> [] \<and> r \<noteq> [] \<and> hd r \<in> set ''h|ms'') \<or> has_suffix s ''None''"

definition parseTimeout :: "string \<Rightarrow> int \<times> error option" where
  "parseTimeout timeoutStr =
     (if timeoutStr = ''None'' \<or> timeoutStr = [] then (maxTimeDuration, None)
      else if \<not> matches_timeout_pattern timeoutStr
      then (maxTimeDuration, Some (Errorf ''invalid timeout format''))
      else (case ParseDuration timeoutStr of Inl e \<Rightarrow> (0, Some e) | Inr d \<Rightarrow> (d, None)))"

definition getTimeOutTime :: "int \<Rightarrow> int option \<Rightarrow> int \<Rightarrow> int option" where
  "getTimeOutTime now startTime timeout =
     (if timeout = maxTimeDuration then None
      else case startTime of
        None \<Rightarrow> Some (now + timeout)
      | Some t \<Rightarrow> Some (t + timeout))"

text \<open>\<open>Time.Sub\<close>, which saturates at the largest and the smallest duration.\<close>

definition time_sub :: "int \<Rightarrow> int \<Rightarrow> int" where
  "time_sub t u = max min_int64 (min max_int64 (t - u))"

definition minRecheckAfter :: "int \<Rightarrow> cluster_rollout_status list \<Rightarrow> int \<Rightarrow> int option" where
  "minRecheckAfter now rolloutClusters minSuccessTime =
     (let m = foldl (\<lambda>m r. case crs_TimeOutTime r of
                None \<Rightarrow> m
              | Some t \<Rightarrow>
                  (let timeOut = time_sub t now in
                   case m of
                     None \<Rightarrow> Some timeOut
                   | Some x \<Rightarrow> if x > timeOut then Some timeOut else m)) None rolloutClusters
      in if minSuccessTime \<noteq> 0 \<and> (case m of None \<Rightarrow> True | Some x \<Rightarrow> minSuccessTime < x)
         then Some minSuccessTime else m)"

section \<open>The status of one cluster\<close>

text \<open>
  The status that \<open>status\<close> points to afterwards, and the two lists. \<open>None\<close>: for a succeeded
  cluster with no soak time limit, \<open>getTimeOutTime\<close> returns nil and reading its \<open>Time\<close> panics.
\<close>

definition determineRolloutStatus ::
  "int \<Rightarrow> cluster_rollout_status \<Rightarrow> int \<Rightarrow> int \<Rightarrow> cluster_rollout_status list \<Rightarrow> cluster_rollout_status list \<Rightarrow>
   (cluster_rollout_status \<times> cluster_rollout_status list \<times> cluster_rollout_status list) option" where
  "determineRolloutStatus now status minSuccessTime timeout rolloutClusters timeoutClusters =
     (case crs_Status status of
        ToApply \<Rightarrow> Some (status, rolloutClusters @ [status], timeoutClusters)
      | Succeeded \<Rightarrow>
          (case getTimeOutTime now (crs_LastTransitionTime status) minSuccessTime of
             None \<Rightarrow> None
           | Some t \<Rightarrow>
               if now < t then Some (status, rolloutClusters @ [status], timeoutClusters)
               else Some (status, rolloutClusters, timeoutClusters))
      | TimeOut \<Rightarrow> Some (status, rolloutClusters, timeoutClusters)
      | Skip \<Rightarrow> Some (status, rolloutClusters, timeoutClusters)
      | _ \<Rightarrow>
          let timeOutTime = getTimeOutTime now (crs_LastTransitionTime status) timeout;
              status' = status\<lparr>crs_TimeOutTime := timeOutTime\<rparr>
          in if (case timeOutTime of None \<Rightarrow> True | Some t \<Rightarrow> now < t)
             then Some (status', rolloutClusters @ [status'], timeoutClusters)
             else let status'' = status'\<lparr>crs_Status := TimeOut\<rparr>
                  in Some (status'', rolloutClusters, timeoutClusters @ [status'']))"

definition getRemovedClusters ::
  "cluster_groups \<Rightarrow> cluster_rollout_status list \<Rightarrow> cluster_rollout_status list \<times> cluster_rollout_status list" where
  "getRemovedClusters clusterGroupsMap existingClusterStatus =
     (let clusters = GetClusters clusterGroupsMap
      in (filter (\<lambda>s. crs_ClusterName s \<in> set clusters) existingClusterStatus,
          filter (\<lambda>s. crs_ClusterName s \<notin> set clusters) existingClusterStatus))"

definition decisionGroupsToGroupKeys :: "(string \<times> int) list \<Rightarrow> group_key list" where
  "decisionGroupsToGroupKeys decisionsGroup =
     map (\<lambda>(groupName, groupIndex).
            if groupName \<noteq> [] then \<lparr>gk_GroupName = groupName, gk_GroupIndex = 0\<rparr>
            else \<lparr>gk_GroupName = [], gk_GroupIndex = groupIndex\<rparr>) decisionsGroup"

section \<open>Progress per cluster\<close>

record per_cluster_state =
  pc_rollout :: "cluster_rollout_status list"
  pc_timeout :: "cluster_rollout_status list"
  pc_existing :: strset
  pc_failureCount :: int
  pc_failureBreach :: bool

definition is_failure :: "rollout_status \<Rightarrow> bool" where
  "is_failure s \<longleftrightarrow> s = TimeOut \<or> s = Failed"

text \<open>
  The loop over the existing statuses; the flag tells that it returned from within, the rollout
  size being reached.
\<close>

definition per_cluster_step ::
  "int \<Rightarrow> int \<Rightarrow> int \<Rightarrow> int \<Rightarrow> cluster_rollout_status \<Rightarrow> per_cluster_state \<Rightarrow> per_cluster_state option" where
  "per_cluster_step now maxFailures minSuccessTime timeout status st =
     (let st1 = st\<lparr>pc_existing := set_insert (pc_existing st) (crs_ClusterName status)\<rparr> in
      case (if \<not> pc_failureBreach st1 \<or> pc_failureBreach st1 \<and> crs_Status status \<noteq> ToApply
            then determineRolloutStatus now status minSuccessTime timeout (pc_rollout st1) (pc_timeout st1)
            else Some (status, pc_rollout st1, pc_timeout st1)) of
        None \<Rightarrow> None
      | Some (status', r, t) \<Rightarrow>
          let st2 = st1\<lparr>pc_rollout := r, pc_timeout := t\<rparr> in
          if is_failure (crs_Status status')
          then Some (st2\<lparr>pc_failureCount := pc_failureCount st2 + 1,
                         pc_failureBreach := pc_failureCount st2 + 1 > maxFailures\<rparr>)
          else Some st2)"

fun per_cluster_existing ::
  "int \<Rightarrow> int \<Rightarrow> int \<Rightarrow> int \<Rightarrow> int \<Rightarrow> cluster_rollout_status list \<Rightarrow> per_cluster_state \<Rightarrow>
   (bool \<times> per_cluster_state) option" where
  "per_cluster_existing now sz maxFailures minSuccessTime timeout [] st = Some (False, st)"
| "per_cluster_existing now sz maxFailures minSuccessTime timeout (s # ss) st =
     (if crs_ClusterName s = [] then per_cluster_existing now sz maxFailures minSuccessTime timeout ss st
      else case per_cluster_step now maxFailures minSuccessTime timeout s st of
        None \<Rightarrow> None
      | Some st' \<Rightarrow>
          if int (length (pc_rollout st')) \<ge> sz then Some (True, st')
          else per_cluster_existing now sz maxFailures minSuccessTime timeout ss st')"

text \<open>The clusters without a status, up to the rollout size.\<close>

fun per_cluster_amend ::
  "int \<Rightarrow> strset \<Rightarrow> (string, group_key) gomap \<Rightarrow> string list \<Rightarrow> cluster_rollout_status list \<Rightarrow> cluster_rollout_status list" where
  "per_cluster_amend sz existing keys [] r = r"
| "per_cluster_amend sz existing keys (c # cs) r =
     (if c \<in> set existing then per_cluster_amend sz existing keys cs r
      else
        let r' = r @ [\<lparr>crs_ClusterName = c,
              crs_GroupKey = (case map_of keys c of Some k \<Rightarrow> k | None \<Rightarrow> \<lparr>gk_GroupName = [], gk_GroupIndex = 0\<rparr>),
              crs_Status = ToApply, crs_LastTransitionTime = None, crs_TimeOutTime = None\<rparr>]
        in if int (length r') \<ge> sz then r' else per_cluster_amend sz existing keys cs r')"

definition per_cluster_start :: per_cluster_state where
  "per_cluster_start = \<lparr>pc_rollout = [], pc_timeout = [], pc_existing = [],
     pc_failureCount = 0, pc_failureBreach = False\<rparr>"

definition progressivePerCluster ::
  "int \<Rightarrow> cluster_groups \<Rightarrow> int \<Rightarrow> int \<Rightarrow> int \<Rightarrow> int \<Rightarrow> cluster_rollout_status list \<Rightarrow> rollout_result option" where
  "progressivePerCluster now clusterGroupsMap rolloutSize maxFailures minSuccessTime timeout existingClusterStatus =
     (case per_cluster_existing now rolloutSize maxFailures minSuccessTime timeout
             (sort_key crs_ClusterName existingClusterStatus) per_cluster_start of
        None \<Rightarrow> None
      | Some (returned, st) \<Rightarrow>
          if returned \<or> pc_failureBreach st then
            Some \<lparr>rr_ClustersToRollout = pc_rollout st, rr_ClustersTimeOut = pc_timeout st,
                  rr_ClustersRemoved = [], rr_MaxFailureBreach = pc_failureBreach st,
                  rr_RecheckAfter = minRecheckAfter now (pc_rollout st) minSuccessTime\<rparr>
          else
            let r = per_cluster_amend rolloutSize (pc_existing st) (ClusterToGroupKey clusterGroupsMap)
                      (sort (GetClusters clusterGroupsMap)) (pc_rollout st)
            in Some \<lparr>rr_ClustersToRollout = r, rr_ClustersTimeOut = pc_timeout st,
                  rr_ClustersRemoved = [], rr_MaxFailureBreach = False,
                  rr_RecheckAfter = minRecheckAfter now r minSuccessTime\<rparr>)"

section \<open>Progress per group\<close>

text \<open>The existing statuses other than \<open>ToApply\<close>: the two lists, and the status of each cluster.\<close>

fun per_group_existing ::
  "int \<Rightarrow> int \<Rightarrow> int \<Rightarrow> cluster_rollout_status list \<Rightarrow>
   cluster_rollout_status list \<times> cluster_rollout_status list \<times> (string, rollout_status) gomap \<Rightarrow>
   (cluster_rollout_status list \<times> cluster_rollout_status list \<times> (string, rollout_status) gomap) option" where
  "per_group_existing now minSuccessTime timeout [] st = Some st"
| "per_group_existing now minSuccessTime timeout (s # ss) (r, t, ex) =
     (if crs_ClusterName s = [] \<or> crs_Status s = ToApply
      then per_group_existing now minSuccessTime timeout ss (r, t, ex)
      else case determineRolloutStatus now s minSuccessTime timeout r t of
        None \<Rightarrow> None
      | Some (s', r', t') \<Rightarrow>
          per_group_existing now minSuccessTime timeout ss
            (r', t', AList.update (crs_ClusterName s') (crs_Status s') ex))"

definition to_apply_status :: "group_key \<Rightarrow> string \<Rightarrow> cluster_rollout_status" where
  "to_apply_status key c = \<lparr>crs_ClusterName = c, crs_GroupKey = key, crs_Status = ToApply,
     crs_LastTransitionTime = None, crs_TimeOutTime = None\<rparr>"

text \<open>
  The clusters of one group: the list grows by those without a status, the failures are counted,
  and the breach flag is set anew at every failure.
\<close>

fun per_group_clusters ::
  "int \<Rightarrow> (string, rollout_status) gomap \<Rightarrow> group_key \<Rightarrow> string list \<Rightarrow>
   cluster_rollout_status list \<times> int \<times> bool \<Rightarrow> cluster_rollout_status list \<times> int \<times> bool" where
  "per_group_clusters maxGroupFailures ex key [] st = st"
| "per_group_clusters maxGroupFailures ex key (c # cs) (r, failures, breach) =
     (case map_of ex c of
        Some status \<Rightarrow>
          if is_failure status
          then per_group_clusters maxGroupFailures ex key cs (r, failures + 1, failures + 1 > maxGroupFailures)
          else per_group_clusters maxGroupFailures ex key cs (r, failures, breach)
      | None \<Rightarrow> per_group_clusters maxGroupFailures ex key cs (r @ [to_apply_status key c], failures, breach))"

text \<open>The loop over the groups: the rollout clusters and the breach flag it ends with.\<close>

fun per_group_groups ::
  "cluster_groups \<Rightarrow> int_or_string \<Rightarrow> (string, rollout_status) gomap \<Rightarrow> group_key list \<Rightarrow>
   cluster_rollout_status list \<Rightarrow> int \<Rightarrow> bool \<Rightarrow> cluster_rollout_status list \<times> bool" where
  "per_group_groups groups maxFailures ex [] r tot breach = (r, breach)"
| "per_group_groups groups maxFailures ex (key # keys) r tot breach =
     (case map_of groups key of
        None \<Rightarrow> per_group_groups groups maxFailures ex keys r tot breach
      | Some subclusters \<Rightarrow>
          let maxGroupFailures = fst (calculateRolloutSize maxFailures (int (length subclusters)) 0);
              (r', failures, breach') =
                per_group_clusters maxGroupFailures ex key (sort subclusters) (r, 0, breach);
              total' = tot + failures
          in if int (length r') - total' > 0 \<or> breach' then (r', breach')
             else per_group_groups groups maxFailures ex keys r' total' breach')"

definition progressivePerGroup ::
  "int \<Rightarrow> cluster_groups \<Rightarrow> int_or_string \<Rightarrow> int \<Rightarrow> int \<Rightarrow> cluster_rollout_status list \<Rightarrow> rollout_result option" where
  "progressivePerGroup now clusterGroupsMap maxFailures minSuccessTime timeout existingClusterStatus =
     (case per_group_existing now minSuccessTime timeout existingClusterStatus ([], [], []) of
        None \<Rightarrow> None
      | Some (r, t, ex) \<Rightarrow>
          let (r', breach) = per_group_groups clusterGroupsMap maxFailures ex
                               (GetOrderedGroupKeys clusterGroupsMap) r 0 False
          in Some \<lparr>rr_ClustersToRollout = r', rr_ClustersTimeOut = t, rr_ClustersRemoved = [],
                   rr_MaxFailureBreach = breach,
                   rr_RecheckAfter = minRecheckAfter now r' minSuccessTime\<rparr>)"

section \<open>The three strategies\<close>

text \<open>
  The tracker enters through its two lookups, \<open>existing\<close> (the groups of the given keys) and
  \<open>besides\<close> (all the others). A call returns the strategy that takes effect, the result and the
  error.
\<close>

type_synonym rollout_answer = "rollout_strategy option \<times> rollout_result \<times> error option"
type_synonym group_lookup = "group_key list \<Rightarrow> cluster_groups"

definition strategy_of_type :: "string \<Rightarrow> rollout_strategy" where
  "strategy_of_type ty = \<lparr>rs_Type = ty, rs_All = None, rs_Progressive = None, rs_ProgressivePerGroup = None\<rparr>"

text \<open>A finished rollout round: the removed clusters are added to the result.\<close>

definition answer_with ::
  "rollout_strategy \<Rightarrow> cluster_rollout_status list \<Rightarrow> rollout_result \<Rightarrow> rollout_answer" where
  "answer_with strategy removed res = (Some strategy, res\<lparr>rr_ClustersRemoved := removed\<rparr>, None)"

definition getRolloutAllClusters ::
  "int \<Rightarrow> group_lookup \<Rightarrow> rollout_strategy \<Rightarrow> cluster_rollout_status list \<Rightarrow> rollout_answer option" where
  "getRolloutAllClusters now besides rolloutStrategy existingClusterStatus =
     (let sec = (case rs_All rolloutStrategy of Some c \<Rightarrow> c | None \<Rightarrow> zero_config);
          strategy = (strategy_of_type ''All'')\<lparr>rs_All := Some sec\<rparr>
      in case parseTimeout (rc_ProgressDeadline sec) of
           (_, Some e) \<Rightarrow> Some (Some strategy, empty_result, Some e)
         | (failureTimeout, None) \<Rightarrow>
             let allClusterGroups = besides [];
                 n = int (length (GetClusters allClusterGroups));
                 (current, removed) = getRemovedClusters allClusterGroups existingClusterStatus
             in map_option (answer_with strategy removed)
                  (progressivePerCluster now allClusterGroups n n 0 failureTimeout current))"

definition getProgressiveClusters ::
  "int \<Rightarrow> group_lookup \<Rightarrow> group_lookup \<Rightarrow> rollout_strategy \<Rightarrow> cluster_rollout_status list \<Rightarrow>
   rollout_answer option" where
  "getProgressiveClusters now existing besides rolloutStrategy existingClusterStatus =
     (let sec = (case rs_Progressive rolloutStrategy of Some c \<Rightarrow> c | None \<Rightarrow> zero_progressive);
          strategy = (strategy_of_type ''Progressive'')\<lparr>rs_Progressive := Some sec\<rparr>;
          minSuccessTime = rc_MinSuccessTime sec
      in case parseTimeout (rc_ProgressDeadline sec) of
           (_, Some e) \<Rightarrow> Some (Some strategy, empty_result, Some e)
         | (failureTimeout, None) \<Rightarrow>
             let (current, removed) = getRemovedClusters (besides []) existingClusterStatus in
             case calculateRolloutSize (rc_MaxFailures sec) (int (length (GetClusters (besides [])))) 0 of
               (_, Some e) \<Rightarrow>
                 Some (Some strategy, empty_result, Some (Wrapf ''failed to parse the provided maxFailures'' e))
             | (maxFailures, None) \<Rightarrow>
                 let groupKeys = decisionGroupsToGroupKeys (rc_MandatoryDecisionGroups sec);
                     mandatory = existing groupKeys;
                     rest =
                       (let restGroups = besides groupKeys; n = int (length (GetClusters restGroups)) in
                        case calculateRolloutSize (rc_MaxConcurrency sec) n n of
                          (_, Some e) \<Rightarrow>
                            Some (Some strategy, empty_result,
                              Some (Wrapf ''failed to parse the provided maxConcurrency'' e))
                        | (rolloutSize, None) \<Rightarrow>
                            map_option (answer_with strategy removed)
                              (progressivePerCluster now restGroups rolloutSize maxFailures
                                 minSuccessTime failureTimeout current))
                 in if mandatory \<noteq> [] then
                      (case progressivePerGroup now mandatory (IS_Int 0) minSuccessTime failureTimeout current of
                         None \<Rightarrow> None
                       | Some res \<Rightarrow>
                           if rr_ClustersToRollout res \<noteq> [] \<or> rr_ClustersTimeOut res \<noteq> []
                           then Some (answer_with strategy removed res)
                           else rest)
                    else rest)"

definition getProgressivePerGroupClusters ::
  "int \<Rightarrow> group_lookup \<Rightarrow> group_lookup \<Rightarrow> rollout_strategy \<Rightarrow> cluster_rollout_status list \<Rightarrow>
   rollout_answer option" where
  "getProgressivePerGroupClusters now existing besides rolloutStrategy existingClusterStatus =
     (let sec = (case rs_ProgressivePerGroup rolloutStrategy of Some c \<Rightarrow> c | None \<Rightarrow> zero_per_group);
          strategy = (strategy_of_type ''ProgressivePerGroup'')\<lparr>rs_ProgressivePerGroup := Some sec\<rparr>;
          minSuccessTime = rc_MinSuccessTime sec; maxFailures = rc_MaxFailures sec
      in case parseTimeout (rc_ProgressDeadline sec) of
           (_, Some e) \<Rightarrow> Some (Some strategy, empty_result, Some e)
         | (failureTimeout, None) \<Rightarrow>
             case parseRolloutSize maxFailures of
               Some e \<Rightarrow>
                 Some (Some strategy, empty_result, Some (Wrapf ''failed to parse the provided maxFailures'' e))
             | None \<Rightarrow>
                 let (current, removed) = getRemovedClusters (besides []) existingClusterStatus;
                     groupKeys = decisionGroupsToGroupKeys (rc_MandatoryDecisionGroups sec);
                     mandatory = existing groupKeys;
                     rest = map_option (answer_with strategy removed)
                              (progressivePerGroup now (besides groupKeys) maxFailures
                                 minSuccessTime failureTimeout current)
                 in if mandatory \<noteq> [] then
                      (case progressivePerGroup now mandatory (IS_Int 0) minSuccessTime failureTimeout current of
                         None \<Rightarrow> None
                       | Some res \<Rightarrow>
                           if rr_ClustersToRollout res \<noteq> [] \<or> rr_ClustersTimeOut res \<noteq> []
                           then Some (answer_with strategy removed res)
                           else rest)
                    else rest)"

definition GetRolloutCluster ::
  "int \<Rightarrow> rollout_handler \<Rightarrow> rollout_strategy \<Rightarrow> cluster_rollout_status list \<Rightarrow> rollout_answer option" where
  "GetRolloutCluster now r rolloutStrategy existingClusterStatus =
     (let existing = ExistingClusterGroups (rh_pdTracker r);
          besides = ExistingClusterGroupsBesides (rh_pdTracker r)
      in if rs_Type rolloutStrategy = ''All''
         then getRolloutAllClusters now besides rolloutStrategy existingClusterStatus
         else if rs_Type rolloutStrategy = ''Progressive''
         then getProgressiveClusters now existing besides rolloutStrategy existingClusterStatus
         else if rs_Type rolloutStrategy = ''ProgressivePerGroup''
         then getProgressivePerGroupClusters now existing besides rolloutStrategy existingClusterStatus
         else Some (None, empty_result, Some (Errorf ''incorrect rollout strategy type'')))"

end
