(* ===== verification/Rollout_Per_Cluster.thy ===== *)
theory Rollout_Per_Cluster
  imports Rollout
begin

text \<open>
  What \<open>progressivePerCluster\<close> of \<^verbatim>\<open>rollout.go\<close> guarantees: the size limit and the order
  of the clusters it adds, the failure threshold, and that a round without a limit misses no cluster.
\<close>

section \<open>One cluster\<close>

abbreviation names :: "cluster_rollout_status list \<Rightarrow> string list" where
  "names \<equiv> map crs_ClusterName"

text \<open>What a call of \<open>determineRolloutStatus\<close> does to its two lists.\<close>

lemma determine_cases:
  assumes "determineRolloutStatus now s ms tmo r t = Some (s', r', t')"
  obtains "r' = r @ [s']" "t' = t" "crs_ClusterName s' = crs_ClusterName s" "crs_Status s' = crs_Status s"
      "crs_Status s \<noteq> TimeOut"
    | "r' = r" "t' = t @ [s']" "crs_ClusterName s' = crs_ClusterName s" "crs_Status s' = TimeOut"
      "crs_Status s \<notin> {ToApply, Succeeded, TimeOut, Skip}"
    | "r' = r" "t' = t" "s' = s" "crs_Status s \<in> {Succeeded, TimeOut, Skip}"
  using assms
  by (cases "crs_Status s")
     (fastforce simp: determineRolloutStatus_def Let_def split: option.splits if_splits)+

lemma determine_None_iff:
  "determineRolloutStatus now s ms tmo r t = None \<longleftrightarrow> crs_Status s = Succeeded \<and> ms = maxTimeDuration"
  by (auto simp: determineRolloutStatus_def getTimeOutTime_def Let_def
           split: rollout_status.splits option.splits if_splits)

lemma determine_names:
  assumes "determineRolloutStatus now s ms tmo r t = Some (s', r', t')"
  shows "crs_ClusterName s' = crs_ClusterName s"
    and "set (names r') \<subseteq> insert (crs_ClusterName s) (set (names r))"
    and "set (names t') \<subseteq> insert (crs_ClusterName s) (set (names t))"
    and "length r \<le> length r'" "length r' \<le> Suc (length r)"
  using assms by (auto elim!: determine_cases)

section \<open>The existing statuses, cluster by cluster\<close>

lemma per_cluster_stepE:
  assumes "per_cluster_step now mf ms tmo s st = Some st'"
  obtains s' where "crs_ClusterName s' = crs_ClusterName s"
    "pc_existing st' = set_insert (pc_existing st) (crs_ClusterName s)"
    "pc_failureBreach st \<and> crs_Status s = ToApply \<and> s' = s \<and>
       pc_rollout st' = pc_rollout st \<and> pc_timeout st' = pc_timeout st \<or>
     (\<not> pc_failureBreach st \<or> crs_Status s \<noteq> ToApply) \<and>
       determineRolloutStatus now s ms tmo (pc_rollout st) (pc_timeout st) =
         Some (s', pc_rollout st', pc_timeout st')"
    "pc_failureCount st' = pc_failureCount st + (if is_failure (crs_Status s') then 1 else 0)"
    "pc_failureBreach st' = (if is_failure (crs_Status s') then pc_failureCount st' > mf else pc_failureBreach st)"
  using assms
  by (fastforce simp: per_cluster_step_def Let_def determine_names(1) split: if_splits option.splits)

lemma per_cluster_step_None_iff:
  "per_cluster_step now mf ms tmo s st = None \<longleftrightarrow> crs_Status s = Succeeded \<and> ms = maxTimeDuration"
proof (cases "crs_Status s = Succeeded \<and> ms = maxTimeDuration")
  case True
  then have "determineRolloutStatus now s ms tmo r t = None" for r t
    by (simp only: determine_None_iff)
  with True show ?thesis by (simp add: per_cluster_step_def Let_def)
next
  case False
  then have "determineRolloutStatus now s ms tmo (pc_rollout st) (pc_timeout st) \<noteq> None"
    by (simp only: determine_None_iff not_False_eq_True)
  then obtain s' r t where "determineRolloutStatus now s ms tmo (pc_rollout st) (pc_timeout st) = Some (s', r, t)"
    by auto
  with False show ?thesis
    by (auto simp: per_cluster_step_def Let_def split: option.splits if_splits)
qed

lemma per_cluster_step_names:
  assumes "per_cluster_step now mf ms tmo s st = Some st'"
  shows "set (names (pc_rollout st')) \<subseteq> insert (crs_ClusterName s) (set (names (pc_rollout st)))"
    and "set (names (pc_timeout st')) \<subseteq> insert (crs_ClusterName s) (set (names (pc_timeout st)))"
    and "set (pc_existing st') = insert (crs_ClusterName s) (set (pc_existing st))"
proof -
  show ex: "set (pc_existing st') = insert (crs_ClusterName s) (set (pc_existing st))"
    using assms by (rule per_cluster_stepE) simp
  have "set (names (pc_rollout st')) \<subseteq> insert (crs_ClusterName s) (set (names (pc_rollout st))) \<and>
    set (names (pc_timeout st')) \<subseteq> insert (crs_ClusterName s) (set (names (pc_timeout st)))"
    using assms
  proof (cases rule: per_cluster_stepE)
    case (1 s')
    from 1(3) show ?thesis
    proof
      assume "(\<not> pc_failureBreach st \<or> crs_Status s \<noteq> ToApply) \<and>
        determineRolloutStatus now s ms tmo (pc_rollout st) (pc_timeout st) =
          Some (s', pc_rollout st', pc_timeout st')"
      then show ?thesis using determine_names(2,3) by blast
    qed auto
  qed
  then show "set (names (pc_rollout st')) \<subseteq> insert (crs_ClusterName s) (set (names (pc_rollout st)))"
    "set (names (pc_timeout st')) \<subseteq> insert (crs_ClusterName s) (set (names (pc_timeout st)))"
    by blast+
qed

text \<open>An invariant of the steps holds when the loop is left, and so does the size limit before each step.\<close>

lemma per_cluster_existing_invariant:
  assumes "per_cluster_existing now sz mf ms tmo ss st = Some (b, st')" "P st"
    and "\<And>s st st'. s \<in> set ss \<Longrightarrow> crs_ClusterName s \<noteq> [] \<Longrightarrow> P st \<Longrightarrow>
           per_cluster_step now mf ms tmo s st = Some st' \<Longrightarrow> P st'"
  shows "P st'"
  using assms
proof (induction ss arbitrary: st)
  case (Cons s ss)
  have IH: "per_cluster_existing now sz mf ms tmo ss st1 = Some (b, st') \<Longrightarrow> P st1 \<Longrightarrow> P st'" for st1
    using Cons.IH Cons.prems(3) by (meson list.set_intros(2))
  show ?case
  proof (cases "crs_ClusterName s = []")
    case False
    with Cons.prems(1) obtain st1 where st1: "per_cluster_step now mf ms tmo s st = Some st1"
      by (auto split: option.splits)
    have "P st1" using Cons.prems(2,3) False st1 by (meson list.set_intros(1))
    then show ?thesis using Cons.prems(1) False st1 IH by (auto split: if_splits)
  qed (use Cons.prems IH in auto)
qed simp

lemma per_cluster_existing_size:
  assumes "per_cluster_existing now sz mf ms tmo ss st = Some (b, st')" "int (length (pc_rollout st)) < sz"
  shows "int (length (pc_rollout st')) \<le> sz" "b \<longleftrightarrow> int (length (pc_rollout st')) = sz"
proof -
  have "int (length (pc_rollout st')) \<le> sz \<and> (b \<longleftrightarrow> int (length (pc_rollout st')) = sz)"
    using assms
  proof (induction ss arbitrary: st)
    case (Cons s ss)
    show ?case
    proof (cases "crs_ClusterName s = []")
      case False
      with Cons.prems obtain st1 where st1: "per_cluster_step now mf ms tmo s st = Some st1"
        by (auto split: option.splits)
      then have "length (pc_rollout st1) \<le> Suc (length (pc_rollout st))"
        by (auto elim!: per_cluster_stepE dest: determine_names(5))
      with Cons False st1 show ?thesis by (fastforce split: if_splits)
    qed (use Cons in auto)
  qed auto
  then show "int (length (pc_rollout st')) \<le> sz" "b \<longleftrightarrow> int (length (pc_rollout st')) = sz" by auto
qed

lemma per_cluster_existing_None:
  "per_cluster_existing now sz mf ms tmo ss st = None \<Longrightarrow>
   ms = maxTimeDuration \<and> (\<exists>s \<in> set ss. crs_Status s = Succeeded)"
  by (induction ss arbitrary: st) (auto simp: per_cluster_step_None_iff split: if_splits option.splits)

text \<open>When the loop runs to its end, every named status has been recorded.\<close>

lemma per_cluster_existing_recorded:
  assumes "per_cluster_existing now sz mf ms tmo ss st = Some (False, st')"
  shows "set (pc_existing st') = set (pc_existing st) \<union> (set (names ss) - {[]})"
  using assms
  by (induction ss arbitrary: st) (auto simp: per_cluster_step_names(3) split: if_splits option.splits)

lemma per_cluster_existing_names:
  assumes "per_cluster_existing now sz mf ms tmo ss st = Some (b, st')"
    and "set (names (pc_rollout st)) \<union> set (names (pc_timeout st)) \<subseteq> set (pc_existing st)"
    and "set (pc_existing st) \<subseteq> A" "set (names ss) \<subseteq> A"
  shows "set (names (pc_rollout st')) \<union> set (names (pc_timeout st')) \<subseteq> set (pc_existing st')"
    and "set (pc_existing st') \<subseteq> A"
proof -
  let ?P = "\<lambda>st. set (names (pc_rollout st)) \<union> set (names (pc_timeout st)) \<subseteq> set (pc_existing st) \<and>
     set (pc_existing st) \<subseteq> A"
  have "?P st'"
  proof (rule per_cluster_existing_invariant [where P = ?P, OF assms(1)])
    fix s st st'
    assume s: "s \<in> set ss" and P: "?P st" and step: "per_cluster_step now mf ms tmo s st = Some st'"
    have "crs_ClusterName s \<in> A" using s assms(4) by auto
    then show "?P st'"
      unfolding per_cluster_step_names(3) [OF step]
      using P per_cluster_step_names(1,2) [OF step] by (intro conjI Un_least) blast+
  qed (use assms in simp)
  then show "set (names (pc_rollout st')) \<union> set (names (pc_timeout st')) \<subseteq> set (pc_existing st')"
    "set (pc_existing st') \<subseteq> A" by auto
qed

text \<open>The breach flag says whether the failures counted so far exceed the threshold.\<close>

lemma per_cluster_existing_breach:
  assumes "per_cluster_existing now sz mf ms tmo ss st = Some (b, st')"
    and "pc_failureBreach st \<longleftrightarrow> pc_failureCount st > mf"
  shows "pc_failureBreach st' \<longleftrightarrow> pc_failureCount st' > mf"
proof (rule per_cluster_existing_invariant [where P = "\<lambda>st. pc_failureBreach st \<longleftrightarrow> pc_failureCount st > mf", OF assms])
  fix s st st'
  assume "pc_failureBreach st \<longleftrightarrow> pc_failureCount st > mf" "per_cluster_step now mf ms tmo s st = Some st'"
  then show "pc_failureBreach st' \<longleftrightarrow> pc_failureCount st' > mf"
    by (elim per_cluster_stepE) (simp split: if_splits)
qed

lemma per_cluster_existing_count:
  assumes "per_cluster_existing now sz mf ms tmo ss st = Some (b, st')"
  shows "pc_failureCount st' \<le> pc_failureCount st + int (length ss)"
  using assms
proof (induction ss arbitrary: st)
  case (Cons s ss)
  show ?case
  proof (cases "crs_ClusterName s = []")
    case True
    with Cons show ?thesis by fastforce
  next
    case False
    with Cons.prems obtain st1 where st1: "per_cluster_step now mf ms tmo s st = Some st1"
      by (auto split: option.splits)
    then have "pc_failureCount st1 \<le> pc_failureCount st + 1"
      by (auto elim!: per_cluster_stepE)
    with Cons False st1 show ?thesis by (fastforce split: if_splits)
  qed
qed auto

section \<open>The clusters without a status\<close>

definition new_clusters :: "strset \<Rightarrow> string list \<Rightarrow> string list" where
  "new_clusters existing cs = filter (\<lambda>c. c \<notin> set existing) cs"

definition key_of :: "(string, group_key) gomap \<Rightarrow> string \<Rightarrow> group_key" where
  "key_of keys c = (case map_of keys c of Some k \<Rightarrow> k | None \<Rightarrow> \<lparr>gk_GroupName = [], gk_GroupIndex = 0\<rparr>)"

lemma per_cluster_amend_eq:
  assumes "int (length r) < sz"
  shows "per_cluster_amend sz existing keys cs r =
     r @ map (\<lambda>c. to_apply_status (key_of keys c) c) (take (nat sz - length r) (new_clusters existing cs))"
  using assms
proof (induction cs arbitrary: r)
  case (Cons c cs)
  show ?case
  proof (cases "c \<in> set existing")
    case True
    with Cons show ?thesis by (simp add: new_clusters_def)
  next
    case False
    have k: "nat sz - length r = Suc (nat sz - Suc (length r))" using Cons.prems by linarith
    show ?thesis
    proof (cases "int (Suc (length r)) \<ge> sz")
      case True
      then have "nat sz - Suc (length r) = 0" using Cons.prems by linarith
      with False True k show ?thesis
        by (simp add: new_clusters_def to_apply_status_def key_of_def Let_def)
    next
      case nfull: False
      have IH: "per_cluster_amend sz existing keys cs (r @ [to_apply_status (key_of keys c) c]) =
          (r @ [to_apply_status (key_of keys c) c]) @
          map (\<lambda>c. to_apply_status (key_of keys c) c)
            (take (nat sz - length (r @ [to_apply_status (key_of keys c) c])) (new_clusters existing cs))"
        by (rule Cons.IH) (use nfull in simp)
      with False nfull k show ?thesis
        by (simp add: new_clusters_def to_apply_status_def key_of_def Let_def)
    qed
  qed
qed (simp add: new_clusters_def)

lemma per_cluster_amend_prefix:
  "\<exists>ns. per_cluster_amend sz existing keys cs r = r @ ns \<and> (\<forall>s \<in> set ns. crs_Status s = ToApply)"
proof (induction cs arbitrary: r)
  case (Cons c cs)
  have "\<exists>ns. per_cluster_amend sz existing keys cs (r @ [s]) = r @ ns \<and> (\<forall>s \<in> set ns. crs_Status s = ToApply)"
    if "crs_Status s = ToApply" for s
    using Cons.IH [of "r @ [s]"] that by force
  then show ?case using Cons.IH [of r] by (simp add: Let_def)
qed simp

lemma per_cluster_amend_names:
  "set (names (per_cluster_amend sz existing keys cs r)) \<subseteq> set (names r) \<union> (set cs - set existing)"
proof (induction cs arbitrary: r)
  case (Cons c cs)
  have "set (names (per_cluster_amend sz existing keys cs (r @ [s]))) \<subseteq>
      set (names r) \<union> (set (c # cs) - set existing)"
    if "crs_ClusterName s = c" "c \<notin> set existing" for s
    using Cons.IH [of "r @ [s]"] that by auto
  then show ?case using Cons.IH [of r] by (auto simp: Let_def)
qed simp

section \<open>A round of progress per cluster\<close>

text \<open>The names that have a status already; a status without a name is ignored.\<close>

definition known :: "cluster_rollout_status list \<Rightarrow> string list" where
  "known ex = filter (\<lambda>n. n \<noteq> []) (names ex)"

lemma new_clusters_cong: "set a = set b \<Longrightarrow> new_clusters a cs = new_clusters b cs"
  by (simp add: new_clusters_def)

lemma per_cluster_start_simps [simp]:
  "pc_rollout per_cluster_start = []" "pc_timeout per_cluster_start = []"
  "pc_existing per_cluster_start = []" "pc_failureCount per_cluster_start = 0"
  "\<not> pc_failureBreach per_cluster_start"
  by (simp_all add: per_cluster_start_def)

lemma per_cluster_existing_known:
  assumes "per_cluster_existing now sz mf ms tmo ss st = Some (b, st')"
  shows "set (pc_existing st') \<subseteq> set (pc_existing st) \<union> set (known ss)"
proof (rule per_cluster_existing_invariant
    [where P = "\<lambda>st'. set (pc_existing st') \<subseteq> set (pc_existing st) \<union> set (known ss)", OF assms])
  fix s st1 st2
  assume "s \<in> set ss" "crs_ClusterName s \<noteq> []"
    "set (pc_existing st1) \<subseteq> set (pc_existing st) \<union> set (known ss)"
    and step: "per_cluster_step now mf ms tmo s st1 = Some st2"
  then show "set (pc_existing st2) \<subseteq> set (pc_existing st) \<union> set (known ss)"
    unfolding per_cluster_step_names(3) [OF step] by (auto simp: known_def)
qed simp

lemma progressivePerCluster_cases:
  assumes "progressivePerCluster now g sz mf ms tmo ex = Some res"
  obtains b st where
    "per_cluster_existing now sz mf ms tmo (sort_key crs_ClusterName ex) per_cluster_start = Some (b, st)"
    "rr_ClustersTimeOut res = pc_timeout st" "rr_MaxFailureBreach res = pc_failureBreach st"
    "rr_ClustersRemoved res = []"
    "rr_ClustersToRollout res = (if b \<or> pc_failureBreach st then pc_rollout st
       else per_cluster_amend sz (pc_existing st) (ClusterToGroupKey g) (sort (GetClusters g)) (pc_rollout st))"
    "rr_RecheckAfter res = minRecheckAfter now (rr_ClustersToRollout res) ms"
  using assms by (fastforce simp: progressivePerCluster_def Let_def split: option.splits if_splits)

lemma set_known_sort [simp]: "set (known (sort_key f ex)) = set (known ex)"
  by (auto simp: known_def)

lemma set_known: "set (known ex) = set (names ex) - {[]}"
  by (auto simp: known_def)

lemma per_cluster_round_aux:
  assumes "progressivePerCluster now g sz mf ms tmo ex = Some res" "1 \<le> sz"
  obtains old where "set (names old) \<subseteq> set (known ex)" "int (length old) \<le> sz"
    "rr_ClustersToRollout res = old @
       map (\<lambda>c. to_apply_status (key_of (ClusterToGroupKey g) c) c)
         (if rr_MaxFailureBreach res then []
          else take (nat sz - length old) (new_clusters (known ex) (sort (GetClusters g))))"
proof -
  from assms(1) show ?thesis
  proof (cases rule: progressivePerCluster_cases)
    case (1 b st)
    have sz: "int (length (pc_rollout per_cluster_start)) < sz" using assms(2) by simp
    note size = per_cluster_existing_size [OF 1(1) sz]
    have "set (names (pc_rollout st)) \<subseteq> set (pc_existing st)"
      using per_cluster_existing_names(1) [OF 1(1), of UNIV] by simp
    also have "\<dots> \<subseteq> set (known ex)"
      using per_cluster_existing_known [OF 1(1)] by simp
    finally have old: "set (names (pc_rollout st)) \<subseteq> set (known ex)" .
    have "rr_ClustersToRollout res = pc_rollout st @
       map (\<lambda>c. to_apply_status (key_of (ClusterToGroupKey g) c) c)
         (if rr_MaxFailureBreach res then []
          else take (nat sz - length (pc_rollout st)) (new_clusters (known ex) (sort (GetClusters g))))"
    proof (cases "pc_failureBreach st \<or> b")
      case True
      with 1 size(2) show ?thesis by auto
    next
      case False
      have "set (pc_existing st) = set (known ex)"
        using per_cluster_existing_recorded [of now sz mf ms tmo "sort_key crs_ClusterName ex" per_cluster_start st]
          1(1) False by (simp add: set_known)
      then have "new_clusters (pc_existing st) = new_clusters (known ex)"
        by (intro ext new_clusters_cong)
      moreover have "int (length (pc_rollout st)) < sz" using size False by auto
      ultimately show ?thesis using False 1 by (simp add: per_cluster_amend_eq)
    qed
    with old size(1) that show ?thesis by blast
  qed
qed

text \<open>
  C7. A round of progress per cluster with a rollout size of at least one: the list of clusters to
  roll out never exceeds that size; it starts with clusters that have a status already; and it is
  filled up, unless the failure threshold is breached, with the alphabetically first clusters
  of the placement that have none, as many as fit. After a breach no cluster is added.
\<close>

theorem per_cluster_round:
  assumes "progressivePerCluster now g sz mf ms tmo ex = Some res" "1 \<le> sz"
  shows "int (length (rr_ClustersToRollout res)) \<le> sz \<and>
    (\<exists>old. set (names old) \<subseteq> set (known ex) \<and>
       rr_ClustersToRollout res = old @
         map (\<lambda>c. to_apply_status (key_of (ClusterToGroupKey g) c) c)
           (if rr_MaxFailureBreach res then []
            else take (nat sz - length old) (new_clusters (known ex) (sort (GetClusters g)))))"
  using assms(1)
proof (rule per_cluster_round_aux [OF _ assms(2)])
  fix old
  assume old: "set (names old) \<subseteq> set (known ex)" "int (length old) \<le> sz"
    "rr_ClustersToRollout res = old @
       map (\<lambda>c. to_apply_status (key_of (ClusterToGroupKey g) c) c)
         (if rr_MaxFailureBreach res then []
          else take (nat sz - length old) (new_clusters (known ex) (sort (GetClusters g))))"
  have "length (rr_ClustersToRollout res) \<le> length old + (nat sz - length old)"
    using old(3) by simp
  also have "\<dots> = nat sz" using old(2) by simp
  finally have "int (length (rr_ClustersToRollout res)) \<le> sz" using assms(2) by linarith
  with old show ?thesis by blast
qed

lemmas rollout_eval =
  progressivePerCluster_def progressivePerGroup_def per_cluster_start_def per_cluster_step_def
  determineRolloutStatus_def getTimeOutTime_def maxTimeDuration_def max_int64_def is_failure_def
  GetClusters_def GetOrderedGroupKeys_def ClusterToGroupKey_def set_insert_def set_union_def set_insert_all_def
  minRecheckAfter_def to_apply_status_def

definition status_at :: "string \<Rightarrow> rollout_status \<Rightarrow> int option \<Rightarrow> cluster_rollout_status" where
  "status_at c s t = \<lparr>crs_ClusterName = c, crs_GroupKey = \<lparr>gk_GroupName = [], gk_GroupIndex = 0\<rparr>,
     crs_Status = s, crs_LastTransitionTime = t, crs_TimeOutTime = None\<rparr>"

definition example_groups :: cluster_groups where
  "example_groups = [(\<lparr>gk_GroupName = [], gk_GroupIndex = 0\<rparr>, [''c2'', ''c1'', ''c4'', ''c3''])]"

text \<open>\<open>c1\<close> is progressing, \<open>c2\<close> has succeeded: with size two, \<open>c3\<close> is the one to add.\<close>

definition example_round :: "rollout_result option" where
  "example_round = progressivePerCluster 100 example_groups 2 0 0 50
     [status_at ''c2'' Succeeded (Some 10), status_at ''c1'' Progressing (Some 90)]"

lemma example_round_eq:
  "map_option (\<lambda>res. names (rr_ClustersToRollout res)) example_round = Some [''c1'', ''c3'']"
  by (simp add: example_round_def example_groups_def status_at_def rollout_eval Let_def)

theorem per_cluster_round_witness:
  "\<exists>res. example_round = Some res \<and> names (rr_ClustersToRollout res) = [''c1'', ''c3''] \<and>
     int (length (rr_ClustersToRollout res)) \<le> 2"
proof -
  obtain res where res: "example_round = Some res" "names (rr_ClustersToRollout res) = [''c1'', ''c3'']"
    using example_round_eq by auto
  have "int (length (rr_ClustersToRollout res)) \<le> 2"
    by (rule per_cluster_round [OF res(1) [unfolded example_round_def], THEN conjunct1]) simp
  with res show ?thesis by (intro exI [of _ res] conjI)
qed

section \<open>The failure threshold\<close>

definition count_status :: "rollout_status \<Rightarrow> cluster_rollout_status list \<Rightarrow> nat" where
  "count_status s ss = length (filter (\<lambda>x. crs_Status x = s) ss)"

lemma count_status_simps [simp]:
  "count_status s [] = 0"
  "count_status s (xs @ ys) = count_status s xs + count_status s ys"
  "count_status s (x # xs) = (if crs_Status x = s then Suc (count_status s xs) else count_status s xs)"
  by (simp_all add: count_status_def)

lemma count_status_sort [simp]: "count_status s (sort_key f xs) = count_status s xs"
  by (metis count_status_def filter_sort length_sort)

text \<open>
  The failures that a result shows for the statuses \<open>ex\<close>: the failed clusters still rolled out,
  those timed out in this round, and those that had timed out before.
\<close>

definition failures :: "cluster_rollout_status list \<Rightarrow> cluster_rollout_status list \<Rightarrow> cluster_rollout_status list \<Rightarrow> int" where
  "failures ex r t = int (count_status Failed r + length t +
     count_status TimeOut (filter (\<lambda>s. crs_ClusterName s \<noteq> []) ex))"

definition other_failures :: "per_cluster_state \<Rightarrow> int" where
  "other_failures st = pc_failureCount st - int (count_status Failed (pc_rollout st) + length (pc_timeout st))"

lemma per_cluster_step_count:
  assumes "per_cluster_step now mf ms tmo s st = Some st'"
  shows "other_failures st' = other_failures st + int (count_status TimeOut [s])"
  using assms
proof (cases rule: per_cluster_stepE)
  case (1 s')
  from 1(3) show ?thesis
  proof
    assume "(\<not> pc_failureBreach st \<or> crs_Status s \<noteq> ToApply) \<and>
      determineRolloutStatus now s ms tmo (pc_rollout st) (pc_timeout st) =
        Some (s', pc_rollout st', pc_timeout st')"
    then have "determineRolloutStatus now s ms tmo (pc_rollout st) (pc_timeout st) =
        Some (s', pc_rollout st', pc_timeout st')" by simp
    then show ?thesis
      by (cases rule: determine_cases) (use 1(4) in \<open>auto simp: is_failure_def other_failures_def\<close>)
  qed (use 1(4) in \<open>auto simp: is_failure_def other_failures_def\<close>)
qed

lemma per_cluster_existing_failures:
  assumes "per_cluster_existing now sz mf ms tmo ss st = Some (b, st')"
  shows "other_failures st' \<le> other_failures st + int (count_status TimeOut (filter (\<lambda>s. crs_ClusterName s \<noteq> []) ss))"
    and "\<not> b \<Longrightarrow>
      other_failures st' = other_failures st + int (count_status TimeOut (filter (\<lambda>s. crs_ClusterName s \<noteq> []) ss))"
proof -
  let ?k = "\<lambda>ss. int (count_status TimeOut (filter (\<lambda>s. crs_ClusterName s \<noteq> []) ss))"
  have "other_failures st' \<le> other_failures st + ?k ss \<and> (\<not> b \<longrightarrow> other_failures st' = other_failures st + ?k ss)"
    using assms
  proof (induction ss arbitrary: st)
    case (Cons s ss)
    show ?case
    proof (cases "crs_ClusterName s = []")
      case False
      with Cons.prems obtain st1 where st1: "per_cluster_step now mf ms tmo s st = Some st1"
        by (auto split: option.splits)
      note c = per_cluster_step_count [OF st1]
      show ?thesis
      proof (cases "sz \<le> int (length (pc_rollout st1))")
        case True
        with Cons.prems False st1 c show ?thesis by (auto split: if_splits)
      next
        case go: False
        with Cons.prems False st1 have "per_cluster_existing now sz mf ms tmo ss st1 = Some (b, st')" by simp
        from Cons.IH [OF this] c False show ?thesis by (auto split: if_splits)
      qed
    qed (use Cons in auto)
  qed auto
  then show "other_failures st' \<le> other_failures st + ?k ss"
    "\<not> b \<Longrightarrow> other_failures st' = other_failures st + ?k ss" by auto
qed

lemma filter_sort_key_count:
  "count_status s (filter P (sort_key f xs)) = count_status s (filter P xs)"
  by (metis count_status_sort filter_sort)

text \<open>
  The breach flag of a round is right: it is set only when more clusters have failed or timed
  out than the threshold allows, and when it is not set although the round has looked at every
  existing status, the failures are within the threshold.
\<close>

theorem failure_threshold:
  assumes "progressivePerCluster now g sz mf ms tmo ex = Some res" "1 \<le> sz" "0 \<le> mf"
  shows "(rr_MaxFailureBreach res \<longrightarrow>
            failures ex (rr_ClustersToRollout res) (rr_ClustersTimeOut res) > mf) \<and>
    (\<not> rr_MaxFailureBreach res \<and> int (length (rr_ClustersToRollout res)) < sz \<longrightarrow>
            failures ex (rr_ClustersToRollout res) (rr_ClustersTimeOut res) \<le> mf)"
  using assms(1)
proof (cases rule: progressivePerCluster_cases)
  case (1 b st)
  have sz: "int (length (pc_rollout per_cluster_start)) < sz" using assms(2) by simp
  note b = per_cluster_existing_size(2) [OF 1(1) sz]
  have breach: "pc_failureBreach st \<longleftrightarrow> pc_failureCount st > mf"
    using per_cluster_existing_breach [OF 1(1)] assms(3) by simp
  note f = per_cluster_existing_failures [OF 1(1)]
  obtain ns where ns: "rr_ClustersToRollout res = pc_rollout st @ ns" "\<forall>s \<in> set ns. crs_Status s = ToApply"
    using 1(5) per_cluster_amend_prefix by (metis append_Nil2 empty_iff list.set(1))
  then have r: "count_status Failed (rr_ClustersToRollout res) = count_status Failed (pc_rollout st)"
    by (simp add: count_status_def filter_empty_conv)
  have len: "length (pc_rollout st) \<le> length (rr_ClustersToRollout res)" by (simp add: ns)
  show ?thesis
    unfolding failures_def r 1(2,3)
    using f breach b len by (auto simp: filter_sort_key_count other_failures_def)
qed

theorem failure_threshold_witness:
  "\<exists>res. progressivePerCluster 100 example_groups 3 0 0 50
       [status_at ''c2'' Failed (Some 10), status_at ''c1'' Progressing (Some 90)] = Some res \<and>
     rr_MaxFailureBreach res \<and>
     0 < failures [status_at ''c2'' Failed (Some 10), status_at ''c1'' Progressing (Some 90)]
       (rr_ClustersToRollout res) (rr_ClustersTimeOut res)"
proof -
  let ?ex = "[status_at ''c2'' Failed (Some 10), status_at ''c1'' Progressing (Some 90)]"
  have "map_option rr_MaxFailureBreach (progressivePerCluster 100 example_groups 3 0 0 50 ?ex) = Some True"
    by (simp add: example_groups_def status_at_def rollout_eval Let_def)
  then obtain res where "progressivePerCluster 100 example_groups 3 0 0 50 ?ex = Some res"
    "rr_MaxFailureBreach res" by auto
  with failure_threshold [OF this(1)] show ?thesis by auto
qed

section \<open>A round without a limit\<close>

definition settled :: "cluster_rollout_status \<Rightarrow> bool" where
  "settled s \<longleftrightarrow> crs_Status s \<in> {Succeeded, TimeOut, Skip}"

lemma per_cluster_existing_covered:
  assumes "per_cluster_existing now sz mf ms tmo ss st = Some (False, st')" "\<not> pc_failureBreach st'"
    and "0 \<le> mf" "pc_failureBreach st \<longleftrightarrow> pc_failureCount st > mf"
  shows "set (known (filter (\<lambda>s. \<not> settled s) ss)) \<union> set (names (pc_rollout st)) \<union> set (names (pc_timeout st))
    \<subseteq> set (names (pc_rollout st')) \<union> set (names (pc_timeout st')) \<and> pc_failureCount st \<le> pc_failureCount st'"
  using assms(1,2,4)
proof (induction ss arbitrary: st)
  case (Cons s ss)
  show ?case
  proof (cases "crs_ClusterName s = []")
    case False
    with Cons.prems(1) obtain st1 where st1: "per_cluster_step now mf ms tmo s st = Some st1"
      and rest: "per_cluster_existing now sz mf ms tmo ss st1 = Some (False, st')"
      by (auto split: option.splits if_splits)
    have br: "pc_failureBreach st1 \<longleftrightarrow> pc_failureCount st1 > mf"
      using st1 Cons.prems(3) by (cases rule: per_cluster_stepE) (simp split: if_splits)
    note IH = Cons.IH [OF rest Cons.prems(2) br]
    have "\<not> pc_failureCount st' > mf"
      using per_cluster_existing_breach [OF Cons.prems(1,3)] Cons.prems(2) by simp
    moreover have cnt: "pc_failureCount st \<le> pc_failureCount st1"
      using st1 by (cases rule: per_cluster_stepE) simp
    ultimately have nb: "\<not> pc_failureBreach st" using IH Cons.prems(3) by linarith
    from st1 obtain s' where d: "determineRolloutStatus now s ms tmo (pc_rollout st) (pc_timeout st) =
        Some (s', pc_rollout st1, pc_timeout st1)"
      by (cases rule: per_cluster_stepE) (use nb in blast)
    then have one: "set (known (filter (\<lambda>s. \<not> settled s) [s])) \<union> set (names (pc_rollout st)) \<union> set (names (pc_timeout st))
      \<subseteq> set (names (pc_rollout st1)) \<union> set (names (pc_timeout st1))"
      by (cases rule: determine_cases) (auto simp: known_def settled_def)
    have e: "set (known (filter (\<lambda>s. \<not> settled s) (s # ss))) =
        set (known (filter (\<lambda>s. \<not> settled s) [s])) \<union> set (known (filter (\<lambda>s. \<not> settled s) ss))"
      by (auto simp: known_def)
    show ?thesis
    proof
      show "set (known (filter (\<lambda>s. \<not> settled s) (s # ss))) \<union> set (names (pc_rollout st)) \<union>
          set (names (pc_timeout st)) \<subseteq> set (names (pc_rollout st')) \<union> set (names (pc_timeout st'))"
        unfolding e using one IH [THEN conjunct1] by blast
      show "pc_failureCount st \<le> pc_failureCount st'" using IH cnt by linarith
    qed
  next
    case True
    then have "known (filter (\<lambda>s. \<not> settled s) (s # ss)) = known (filter (\<lambda>s. \<not> settled s) ss)"
      by (simp add: known_def)
    with True Cons show ?thesis by simp
  qed
qed (simp add: known_def)

lemma distinct_new_clusters [simp]: "distinct cs \<Longrightarrow> distinct (new_clusters ex cs)"
  by (simp add: new_clusters_def)

lemma set_new_clusters [simp]: "set (new_clusters ex cs) = set cs - set ex"
  by (auto simp: new_clusters_def)

lemma per_cluster_existing_distinct:
  assumes "per_cluster_existing now sz mf ms tmo ss st = Some (b, st')"
    and "distinct (names ss)" "set (names ss) \<inter> set (pc_existing st) = {}"
    and "set (names (pc_rollout st)) \<subseteq> set (pc_existing st)" "distinct (names (pc_rollout st))"
  shows "distinct (names (pc_rollout st'))"
  using assms
proof (induction ss arbitrary: st)
  case (Cons s ss)
  show ?case
  proof (cases "crs_ClusterName s = []")
    case False
    with Cons.prems obtain st1 where st1: "per_cluster_step now mf ms tmo s st = Some st1"
      by (auto split: option.splits)
    note n = per_cluster_step_names [OF st1]
    have d: "distinct (names (pc_rollout st1))"
      using st1
    proof (cases rule: per_cluster_stepE)
      case (1 s')
      have "crs_ClusterName s \<notin> set (names (pc_rollout st))" using Cons.prems by auto
      with 1(3) Cons.prems(5) show ?thesis by (auto elim: determine_cases)
    qed
    have sub: "set (names (pc_rollout st1)) \<subseteq> set (pc_existing st1)"
      using Cons.prems(4) n(1) unfolding n(3) by blast
    have disj: "set (names ss) \<inter> set (pc_existing st1) = {}"
      using Cons.prems(2,3) unfolding n(3) by auto
    show ?thesis
      using Cons.IH [of st1] Cons.prems(1,2) False st1 d sub disj by (auto split: if_splits)
  qed (use Cons in auto)
qed simp

lemma new_names [simp]:
  "map crs_ClusterName (map (\<lambda>c. to_apply_status (k c) c) cs) = cs"
  by (simp add: to_apply_status_def o_def)

text \<open>A round whose size and threshold are the number of clusters, as in the All strategy.\<close>

lemma unlimited_round_covers:
  assumes "progressivePerCluster now g n n ms tmo ex = Some res"
    and n: "n = int (length (GetClusters g))" "0 < n"
    and ex: "distinct (names ex)" "set (names ex) \<subseteq> set (GetClusters g)"
  shows "\<not> rr_MaxFailureBreach res \<and>
    set (GetClusters g) - {[]} \<subseteq> set (names (rr_ClustersToRollout res)) \<union>
      set (names (rr_ClustersTimeOut res)) \<union> set (names (filter settled ex))"
  using assms(1)
proof (cases rule: progressivePerCluster_cases)
  case (1 b st)
  let ?all = "set (GetClusters g)"
  have card: "card ?all = nat n" using n by (simp add: distinct_card)
  have "length ex \<le> card ?all"
    using ex by (metis card_mono distinct_card finite_set length_map)
  then have "pc_failureCount st \<le> n"
    using per_cluster_existing_count [OF 1(1)] n card by simp
  then have nb: "\<not> pc_failureBreach st"
    using per_cluster_existing_breach [OF 1(1)] n by simp
  have sz: "int (length (pc_rollout per_cluster_start)) < n" using n by simp
  note size = per_cluster_existing_size [OF 1(1) sz]
  let ?new = "take (nat n - length (pc_rollout st)) (new_clusters (pc_existing st) (sort (GetClusters g)))"
  have roll: "names (rr_ClustersToRollout res) = names (pc_rollout st) @ (if b then [] else ?new)"
    using 1(5) nb size by (auto simp: per_cluster_amend_eq simp del: map_map)
  have sub: "set (names (pc_rollout st)) \<subseteq> set (pc_existing st)" "set (pc_existing st) \<subseteq> ?all"
    using per_cluster_existing_names [OF 1(1), of ?all] ex(2) by auto
  have "distinct (names (sort_key crs_ClusterName ex))"
    using ex(1) by (metis distinct_map distinct_sort set_sort)
  then have "distinct (names (pc_rollout st))"
    using per_cluster_existing_distinct [OF 1(1)] by simp
  moreover have "set ?new \<subseteq> ?all - set (pc_existing st)"
    by (rule subset_trans [OF set_take_subset]) simp
  ultimately have dist: "distinct (names (rr_ClustersToRollout res))"
    and within: "set (names (rr_ClustersToRollout res)) \<subseteq> ?all"
    using sub unfolding roll by (auto split: if_splits)
  have "?all - {[]} \<subseteq> set (names (rr_ClustersToRollout res)) \<union>
      set (names (rr_ClustersTimeOut res)) \<union> set (names (filter settled ex))"
  proof (cases "length (rr_ClustersToRollout res) = nat n")
    case True
    then have "card (set (names (rr_ClustersToRollout res))) = card ?all"
      using dist card by (metis distinct_card length_map)
    with within have "set (names (rr_ClustersToRollout res)) = ?all"
      by (simp add: card_subset_eq)
    then show ?thesis by blast
  next
    case False
    then have b: "\<not> b" using size roll by (metis append_Nil2 length_map nat_int)
    let ?news = "new_clusters (pc_existing st) (sort (GetClusters g))"
    have "length (names (rr_ClustersToRollout res)) \<noteq> nat n" using False by simp
    then have "\<not> length ?news > nat n - length (pc_rollout st)"
      unfolding roll using b size(1) by auto
    then have new: "set (names (rr_ClustersToRollout res)) =
        set (names (pc_rollout st)) \<union> (?all - set (pc_existing st))"
      unfolding roll using b by simp
    have ex': "set (pc_existing st) = set (names ex) - {[]}"
      using per_cluster_existing_recorded [of now n n ms tmo "sort_key crs_ClusterName ex" per_cluster_start st]
        1(1) b by simp
    have "set (known (filter (\<lambda>s. \<not> settled s) (sort_key crs_ClusterName ex)))
        \<subseteq> set (names (pc_rollout st)) \<union> set (names (pc_timeout st))"
      using per_cluster_existing_covered [of now n n ms tmo _ per_cluster_start st] 1(1) b nb n by simp
    moreover have "set (names ex) - {[]} \<subseteq>
        set (known (filter (\<lambda>s. \<not> settled s) (sort_key crs_ClusterName ex))) \<union> set (names (filter settled ex))"
      by (auto simp: known_def)
    moreover have "set (names (filter settled ex)) \<subseteq> set (names ex)" by auto
    ultimately show ?thesis unfolding new ex' 1(2) by blast
  qed
  with nb 1(3) show ?thesis by blast
qed

end
