(* ===== verification/Rollout_Per_Group.thy ===== *)
theory Rollout_Per_Group
  imports Rollout_Per_Cluster
begin

text \<open>
  What \<open>progressivePerGroup\<close> of \<^verbatim>\<open>rollout.go\<close> guarantees: a round starts at most one new
  decision group, the first that still has clusters without a status, as long as no cluster has
  timed out; and an example that the condition on time-outs is needed.
\<close>

section \<open>The existing statuses\<close>

definition started :: "cluster_rollout_status list \<Rightarrow> string list" where
  "started ex = known (filter (\<lambda>s. crs_Status s \<noteq> ToApply) ex)"

lemma started_Cons:
  "set (started (s # ss)) =
    (if crs_ClusterName s = [] \<or> crs_Status s = ToApply then {} else {crs_ClusterName s}) \<union> set (started ss)"
  by (auto simp: started_def known_def)

lemma per_group_existing_facts:
  assumes "per_group_existing now ms tmo ss (r, t, ex) = Some (r', t', ex')"
  shows "dom (map_of ex') = dom (map_of ex) \<union> set (started ss)"
    and "set (names r') \<subseteq> set (names r) \<union> set (started ss)"
    and "set (names t') \<subseteq> set (names t) \<union> set (started ss)"
    and "length t \<le> length t'"
proof -
  have "dom (map_of ex') = dom (map_of ex) \<union> set (started ss) \<and>
    set (names r') \<subseteq> set (names r) \<union> set (started ss) \<and>
    set (names t') \<subseteq> set (names t) \<union> set (started ss) \<and> length t \<le> length t'"
    using assms
  proof (induction ss arbitrary: r t ex)
    case (Cons s ss)
    show ?case
    proof (cases "crs_ClusterName s = [] \<or> crs_Status s = ToApply")
      case True
      with Cons show ?thesis by (auto simp: started_Cons)
    next
      case False
      with Cons.prems obtain s1 r1 t1 where d: "determineRolloutStatus now s ms tmo r t = Some (s1, r1, t1)"
        and rest: "per_group_existing now ms tmo ss
          (r1, t1, AList.update (crs_ClusterName s1) (crs_Status s1) ex) = Some (r', t', ex')"
        by (auto split: option.splits)
      note IH = Cons.IH [OF rest] and n = determine_names [OF d]
      have t1: "length t \<le> length t1" using d by (cases rule: determine_cases) auto
      have st: "set (started (s # ss)) = insert (crs_ClusterName s) (set (started ss))"
        using False by (simp add: started_Cons)
      show ?thesis
      proof (intro conjI)
        show "dom (map_of ex') = dom (map_of ex) \<union> set (started (s # ss))"
          using IH n(1) unfolding st by auto
        show "set (names r') \<subseteq> set (names r) \<union> set (started (s # ss))"
          using IH [THEN conjunct2, THEN conjunct1] n(2) unfolding st by blast
        show "set (names t') \<subseteq> set (names t) \<union> set (started (s # ss))"
          using IH [THEN conjunct2, THEN conjunct2, THEN conjunct1] n(3) unfolding st by blast
        show "length t \<le> length t'" using IH t1 by linarith
      qed
    qed
  qed (simp add: started_def known_def)
  then show "dom (map_of ex') = dom (map_of ex) \<union> set (started ss)"
    "set (names r') \<subseteq> set (names r) \<union> set (started ss)"
    "set (names t') \<subseteq> set (names t) \<union> set (started ss)" "length t \<le> length t'"
    by auto
qed

text \<open>Without a time-out, every failure on record stands for a cluster of the list.\<close>

definition no_timeout :: "cluster_rollout_status list \<Rightarrow> bool" where
  "no_timeout ss \<longleftrightarrow> (\<forall>s \<in> set ss. crs_Status s \<noteq> TimeOut)"

definition failures_listed :: "(string, rollout_status) gomap \<Rightarrow> cluster_rollout_status list \<Rightarrow> bool" where
  "failures_listed ex r \<longleftrightarrow> (\<forall>c s. map_of ex c = Some s \<longrightarrow> is_failure s \<longrightarrow> c \<in> set (names r))"

lemma per_group_existing_failures_listed:
  assumes "per_group_existing now ms tmo ss (r, t, ex) = Some (r', [], ex')"
    and "no_timeout ss" "failures_listed ex r"
  shows "failures_listed ex' r'"
  using assms
proof (induction ss arbitrary: r t ex)
  case (Cons s ss)
  show ?case
  proof (cases "crs_ClusterName s = [] \<or> crs_Status s = ToApply")
    case True
    with Cons show ?thesis by (auto simp: no_timeout_def)
  next
    case False
    with Cons.prems obtain s1 r1 t1 where d: "determineRolloutStatus now s ms tmo r t = Some (s1, r1, t1)"
      and rest: "per_group_existing now ms tmo ss
        (r1, t1, AList.update (crs_ClusterName s1) (crs_Status s1) ex) = Some (r', [], ex')"
      by (auto split: option.splits)
    have t1: "t1 = []" using per_group_existing_facts(4) [OF rest] by simp
    have "failures_listed (AList.update (crs_ClusterName s1) (crs_Status s1) ex) r1"
      using d Cons.prems(2,3) t1
      by (cases rule: determine_cases) (auto simp: failures_listed_def no_timeout_def is_failure_def split: if_splits)
    with Cons.IH [OF rest] Cons.prems(2) show ?thesis by (simp add: no_timeout_def)
  qed
qed simp

section \<open>The groups\<close>

definition failed_in :: "(string, rollout_status) gomap \<Rightarrow> string list \<Rightarrow> string list" where
  "failed_in ex cs = filter (\<lambda>c. \<exists>s. map_of ex c = Some s \<and> is_failure s) cs"

lemma per_group_clusters_eq:
  "per_group_clusters mx ex key cs (r, f, br) = (r', f', br') \<Longrightarrow>
   r' = r @ map (to_apply_status key) (filter (\<lambda>c. map_of ex c = None) cs) \<and>
   f' = f + int (length (failed_in ex cs))"
proof (induction cs arbitrary: r f br)
  case (Cons c cs)
  show ?case
  proof (cases "map_of ex c")
    case None
    with Cons.prems Cons.IH [of "r @ [to_apply_status key c]" f br] show ?thesis
      by (simp add: failed_in_def)
  next
    case (Some s)
    show ?thesis
    proof (cases "is_failure s")
      case True
      with Some Cons.prems Cons.IH [of r "f + 1" "f + 1 > mx"] show ?thesis by (simp add: failed_in_def)
    next
      case False
      with Some Cons.prems Cons.IH [of r f br] show ?thesis by (simp add: failed_in_def)
    qed
  qed
qed (simp add: failed_in_def)

text \<open>
  The list grew by the clusters without a status of one group at most, and all the clusters of
  the groups before that one have a status.
\<close>

definition starts_one ::
  "cluster_groups \<Rightarrow> string set \<Rightarrow> cluster_rollout_status list \<Rightarrow> group_key list \<Rightarrow> cluster_rollout_status list \<Rightarrow> bool" where
  "starts_one g S r keys r' \<longleftrightarrow> r' = r \<or>
     (\<exists>before k after cs. keys = before @ k # after \<and> map_of g k = Some cs \<and>
        (\<forall>k' \<in> set before. group_members g k' \<subseteq> S) \<and>
        r' = r @ map (to_apply_status k) (filter (\<lambda>c. c \<notin> S) (sort cs)))"

lemma starts_one_skip:
  assumes "starts_one g S r keys r'" "group_members g key \<subseteq> S"
  shows "starts_one g S r (key # keys) r'"
  using assms(1) unfolding starts_one_def
proof (elim disjE exE conjE)
  fix bef k aft cs
  assume "keys = bef @ k # aft" "map_of g k = Some cs" "\<forall>k' \<in> set bef. group_members g k' \<subseteq> S"
    "r' = r @ map (to_apply_status k) (filter (\<lambda>c. c \<notin> S) (sort cs))"
  with assms(2) show "r' = r \<or> (\<exists>before k after cs. key # keys = before @ k # after \<and> map_of g k = Some cs \<and>
        (\<forall>k' \<in> set before. group_members g k' \<subseteq> S) \<and>
        r' = r @ map (to_apply_status k) (filter (\<lambda>c. c \<notin> S) (sort cs)))"
    by (intro disjI2 exI [of _ "key # bef"] exI [of _ k] exI [of _ aft] exI [of _ cs]) simp
qed simp

lemma starts_one_here:
  "map_of g key = Some cs \<Longrightarrow>
   starts_one g S r (key # keys) (r @ map (to_apply_status key) (filter (\<lambda>c. c \<notin> S) (sort cs)))"
  unfolding starts_one_def by (intro disjI2 exI [of _ "[]"] exI [of _ key] exI [of _ keys] exI [of _ cs]) simp

text \<open>A loop over groups without a common cluster: at most one of them is started.\<close>

lemma per_group_groups_in_order:
  assumes "per_group_groups g mf ex keys r tot br = (r', br')"
    and "failures_listed ex r" "set (names r) \<subseteq> dom (map_of ex)"
    and "distinct F" "set F \<subseteq> set (names r)" "tot = int (length F)"
    and "distinct (F @ concat (map (\<lambda>k. failed_in ex (the (map_of g k))) (filter (\<lambda>k. map_of g k \<noteq> None) keys)))"
  shows "starts_one g (dom (map_of ex)) r keys r'"
  using assms
proof (induction keys arbitrary: tot br F)
  case (Cons key keys)
  show ?case
  proof (cases "map_of g key")
    case None
    with Cons.prems have rest: "per_group_groups g mf ex keys r tot br = (r', br')" by simp
    have "starts_one g (dom (map_of ex)) r keys r'"
      by (rule Cons.IH [OF rest Cons.prems(2-6)]) (use Cons.prems(7) None in simp)
    then show ?thesis using None by (intro starts_one_skip) (simp_all add: group_members_def)
  next
    case (Some cs)
    obtain r1 f br1 where one: "per_group_clusters (fst (calculateRolloutSize mf (int (length cs)) 0)) ex key (sort cs) (r, 0, br) = (r1, f, br1)"
      by (metis prod_cases3)
    let ?new = "filter (\<lambda>c. map_of ex c = None) (sort cs)"
    have r1: "r1 = r @ map (to_apply_status key) ?new" and f: "f = int (length (failed_in ex cs))"
    proof -
      have "length (failed_in ex (sort cs)) = length (failed_in ex cs)"
        unfolding failed_in_def filter_sort by simp
      then show "r1 = r @ map (to_apply_status key) ?new" "f = int (length (failed_in ex cs))"
        using per_group_clusters_eq [OF one] by auto
    qed
    have body: "(if int (length r1) - (tot + f) > 0 \<or> br1 then (r1, br1)
        else per_group_groups g mf ex keys r1 (tot + f) br1) = (r', br')"
      using Cons.prems(1) Some one by (simp add: Let_def)
    let ?F = "F @ failed_in ex cs"
    have dF: "distinct ?F" using Cons.prems(7) Some by (simp add: Int_Un_distrib)
    have "set (failed_in ex cs) \<subseteq> set (names r)"
      using Cons.prems(2) by (auto simp: failed_in_def failures_listed_def)
    then have sF: "set ?F \<subseteq> set (names r)" using Cons.prems(5) by simp
    then have "length ?F \<le> length r"
      using dF by (metis List.finite_set card_length card_mono distinct_card dual_order.trans length_map)
    then have le: "tot + f \<le> int (length r)" using Cons.prems(6) f by simp
    show ?thesis
    proof (cases "int (length r1) - (tot + f) > 0 \<or> br1")
      case True
      then have "r' = r @ map (to_apply_status key) ?new" using body r1 by simp
      with starts_one_here [OF Some, of "dom (map_of ex)" r keys] show ?thesis
        by (simp add: domIff)
    next
      case False
      then have "?new = []" using r1 le by (cases ?new) auto
      then have r1r: "r1 = r" and mem: "group_members g key \<subseteq> dom (map_of ex)"
        using r1 Some by (auto simp: group_members_def filter_empty_conv)
      have rest: "per_group_groups g mf ex keys r (tot + f) br1 = (r', br')"
        using body False r1r by auto
      have "tot + f = int (length ?F)" using Cons.prems(6) f by simp
      moreover have "distinct (?F @ concat (map (\<lambda>k. failed_in ex (the (map_of g k)))
          (filter (\<lambda>k. map_of g k \<noteq> None) keys)))"
        using Cons.prems(7) Some by simp
      ultimately have "starts_one g (dom (map_of ex)) r keys r'"
        using Cons.IH [OF rest Cons.prems(2,3) dF sF] by blast
      with mem show ?thesis by (intro starts_one_skip)
    qed
  qed
qed (simp add: starts_one_def)

section \<open>A round of progress per group\<close>

definition disjoint_groups :: "cluster_groups \<Rightarrow> bool" where
  "disjoint_groups g \<longleftrightarrow> wf_groups g \<and>
     (\<forall>k k'. k \<noteq> k' \<longrightarrow> group_members g k \<inter> group_members g k' = {})"

lemma distinct_concat_map:
  assumes "distinct ks" "\<And>k. k \<in> set ks \<Longrightarrow> distinct (f k)"
    and "\<And>k k'. k \<noteq> k' \<Longrightarrow> set (f k) \<inter> set (f k') = {}"
  shows "distinct (concat (map f ks))"
  using assms(1,2)
proof (induction ks)
  case (Cons k ks)
  have "set (f k) \<inter> set (f k') = {}" if "k' \<in> set ks" for k'
    using Cons.prems that by (intro assms(3)) auto
  with Cons show ?case by auto
qed simp

lemma distinct_failed:
  assumes "disjoint_groups g"
  shows "distinct (concat (map (\<lambda>k. failed_in ex (the (map_of g k)))
    (filter (\<lambda>k. map_of g k \<noteq> None) (GetOrderedGroupKeys g))))"
proof -
  let ?f = "\<lambda>k. case map_of g k of Some cs \<Rightarrow> failed_in ex cs | None \<Rightarrow> []"
  let ?ks = "filter (\<lambda>k. map_of g k \<noteq> None) (GetOrderedGroupKeys g)"
  have wf: "wf_map g" and dc: "\<And>k cs. map_of g k = Some cs \<Longrightarrow> distinct cs"
    using assms by (auto simp: disjoint_groups_def wf_groups_iff dest: map_of_SomeD)
  have "distinct (concat (map ?f ?ks))"
  proof (rule distinct_concat_map)
    show "distinct ?ks" using wf by (simp add: GetOrderedGroupKeys_def wf_map_def)
    show "distinct (?f k)" for k
      using dc by (auto simp: failed_in_def split: option.split)
    show "set (?f k) \<inter> set (?f k') = {}" if "k \<noteq> k'" for k k'
    proof -
      have "group_members g k \<inter> group_members g k' = {}"
        using assms that by (simp add: disjoint_groups_def)
      then show ?thesis by (auto simp: group_members_def failed_in_def split: option.splits)
    qed
  qed
  moreover have "map ?f ?ks = map (\<lambda>k. failed_in ex (the (map_of g k))) ?ks" by auto
  ultimately show ?thesis by metis
qed

lemma progressivePerGroup_cases:
  assumes "progressivePerGroup now g mf ms tmo ex = Some res"
  obtains r t m where "per_group_existing now ms tmo ex ([], [], []) = Some (r, t, m)"
    "per_group_groups g mf m (GetOrderedGroupKeys g) r 0 False = (rr_ClustersToRollout res, rr_MaxFailureBreach res)"
    "rr_ClustersTimeOut res = t" "rr_ClustersRemoved res = []"
  using assms
  by (fastforce simp: progressivePerGroup_def Let_def split: option.splits prod.splits)

text \<open>
  C8. Progress per group goes group by group. Where no cluster has timed out, before or in this
  round, and no cluster is in two groups, the list of clusters to roll out consists of clusters that
  had a status already, followed by the clusters without one of at most one group; and in every
  group ordered before that one all clusters have been started.
\<close>

theorem per_group_round:
  assumes "progressivePerGroup now g mf ms tmo ex = Some res" "disjoint_groups g"
    and "rr_ClustersTimeOut res = []" "no_timeout ex"
  shows "\<exists>old. set (names old) \<subseteq> set (started ex) \<and>
     starts_one g (set (started ex)) old (GetOrderedGroupKeys g) (rr_ClustersToRollout res)"
  using assms(1)
proof (cases rule: progressivePerGroup_cases)
  case (1 r t m)
  note f = per_group_existing_facts [OF 1(1)]
  have dom: "dom (map_of m) = set (started ex)" using f(1) by simp
  have sub: "set (names r) \<subseteq> set (started ex)" using f(2) by simp
  have "failures_listed m r"
    using per_group_existing_failures_listed [of now ms tmo ex "[]" "[]" "[]" r m] 1(1,3) assms(3,4)
    by (simp add: failures_listed_def)
  from per_group_groups_in_order [OF 1(2) this, of "[]"] sub
  have "starts_one g (dom (map_of m)) r (GetOrderedGroupKeys g) (rr_ClustersToRollout res)"
    using distinct_failed [OF assms(2), of m] by (simp add: dom)
  with sub dom show ?thesis by auto
qed

definition staged_groups :: cluster_groups where
  "staged_groups =
     [(\<lparr>gk_GroupName = ''b'', gk_GroupIndex = 1\<rparr>, [''c3'']),
      (\<lparr>gk_GroupName = ''a'', gk_GroupIndex = 0\<rparr>, [''c2'', ''c1''])]"

lemma staged_groups_disjoint: "disjoint_groups staged_groups"
  by (simp add: disjoint_groups_def staged_groups_def wf_groups_def wf_map_def group_members_def)

lemma staged_round:
  "map_option (\<lambda>res. (names (rr_ClustersToRollout res), rr_ClustersTimeOut res))
     (progressivePerGroup 100 staged_groups (IS_Int 0) 0 50 [status_at ''c1'' Progressing (Some 90)]) =
   Some ([''c1'', ''c2''], [])"
  by (simp add: staged_groups_def status_at_def rollout_eval Let_def calculateRolloutSize_def parseRolloutSize_def)

theorem per_group_round_witness:
  "\<exists>res. progressivePerGroup 100 staged_groups (IS_Int 0) 0 50 [status_at ''c1'' Progressing (Some 90)] = Some res \<and>
     names (rr_ClustersToRollout res) = [''c1'', ''c2''] \<and>
     (\<exists>old. set (names old) \<subseteq> set (started [status_at ''c1'' Progressing (Some 90)]) \<and>
        starts_one staged_groups (set (started [status_at ''c1'' Progressing (Some 90)])) old
          (GetOrderedGroupKeys staged_groups) (rr_ClustersToRollout res))"
proof -
  obtain res where res: "progressivePerGroup 100 staged_groups (IS_Int 0) 0 50 [status_at ''c1'' Progressing (Some 90)] = Some res"
    "names (rr_ClustersToRollout res) = [''c1'', ''c2'']" "rr_ClustersTimeOut res = []"
    using staged_round unfolding map_option_eq_Some prod.inject by (elim exE conjE) (rule that)
  have "no_timeout [status_at ''c1'' Progressing (Some 90)]"
    by (simp add: no_timeout_def status_at_def)
  from per_group_round [OF res(1) staged_groups_disjoint res(3) this] res(1,2) show ?thesis
    by (intro exI [of _ res] conjI)
qed

text \<open>
  With a time-out the order is not kept: \<open>c1\<close> of the first group has timed out, which the
  threshold of one failure tolerates, and \<open>c2\<close> of that group is about to start. The timed-out
  cluster is not in the list, yet it is subtracted from the list's length; so the round goes on and
  starts the second group as well.
\<close>

theorem per_group_timeout_starts_two_groups:
  "map_option (\<lambda>res. (names (rr_ClustersToRollout res), rr_MaxFailureBreach res))
     (progressivePerGroup 100 staged_groups (IS_Int 1) 0 50 [status_at ''c1'' TimeOut (Some 10)]) =
   Some ([''c2'', ''c3''], False)"
  by (simp add: staged_groups_def status_at_def rollout_eval Let_def calculateRolloutSize_def parseRolloutSize_def)

end
