(* ===== verification/Rollout_Strategies.thy ===== *)
theory Rollout_Strategies
  imports Rollout_Per_Group
begin

text \<open>
  The handler of \<^verbatim>\<open>rollout.go\<close> as a whole: the sizes and time limits it parses, the
  interface it needs from the placement tracker, stated as a locale and discharged for the tracker,
  and what each strategy guarantees.
\<close>

section \<open>Sizes and thresholds\<close>

lemma percentage_rounding:
  "calculateRolloutSize (IS_String ''7%'') 100 0 = (8, None)" "calculateRolloutSize (IS_String ''25%'') 10 0 = (3, None)"
  by code_simp+

text \<open>
  C27. Whatever the threshold is written as, the computed size is either the default or a number
  between 1 and the total; an error comes back with the default and only for a threshold that is
  neither a number nor a percentage. Percentages are computed in floating point, and the rounding
  shows: seven percent of 100 clusters is a size of 8, because the product is a little above the whole
  number before it is rounded up; twenty-five percent of 10 is 3, as it should be.
\<close>

theorem rollout_size_bounds:
  "(case calculateRolloutSize th tot d of
      (len, None) \<Rightarrow> parseRolloutSize th = None \<and> (len = d \<or> 1 \<le> len \<and> len \<le> tot)
    | (len, Some e) \<Rightarrow> parseRolloutSize th = Some e \<and> len = d \<and> (\<forall>i. th \<noteq> IS_Int i)) \<and>
   (\<forall>i. th = IS_Int i \<and> 1 \<le> i \<and> i \<le> tot \<longrightarrow> calculateRolloutSize th tot d = (i, None)) \<and>
   calculateRolloutSize (IS_String ''7%'') 100 0 = (8, None) \<and> calculateRolloutSize (IS_String ''25%'') 10 0 = (3, None)"
  by (intro conjI percentage_rounding)
    (auto simp: calculateRolloutSize_def parseRolloutSize_def Let_def split: option.split int_or_string.splits if_splits)

theorem rollout_size_bounds_witness:
  "calculateRolloutSize (IS_Int 3) 10 0 = (3, None) \<and> parseRolloutSize (IS_Int 3) = None"
proof -
  have "calculateRolloutSize (IS_Int 3) 10 0 = (3, None)"
    by (rule rollout_size_bounds [THEN conjunct2, THEN conjunct1, rule_format]) simp
  moreover have "parseRolloutSize (IS_Int 3) = None"
    using rollout_size_bounds [THEN conjunct1, of "IS_Int 3" 0 10] calculation by simp
  ultimately show ?thesis by (rule conjI)
qed

section \<open>Time limits\<close>

lemma digits_val_ge: "x \<le> digits_val x ds"
proof (induction ds arbitrary: x)
  case (Cons c cs)
  show ?case using Cons [of "10 * x + digit_val c"] by simp
qed simp

lemma leading_int_digits:
  assumes "list_all is_digit ds" "r = [] \<or> \<not> is_digit (hd r)" "int (digits_val x ds) \<le> 2 ^ 63"
  shows "leading_int (int x) (ds @ r) = Some (int (digits_val x ds), r)"
  using assms(1,3)
proof (induction ds arbitrary: x)
  case Nil
  then show ?case using assms(2) by (cases r) auto
next
  case (Cons c cs)
  let ?y = "10 * x + digit_val c"
  have "?y \<le> digits_val ?y cs" by (rule digits_val_ge)
  then have y: "int ?y \<le> 2 ^ 63" using Cons.prems(2) by simp
  then have x: "\<not> int x > 2 ^ 63 div 10" by simp
  have e: "10 * int x + int (digit_val c) = int ?y" by simp
  show ?case
    using Cons.prems Cons.IH [of ?y] x y by (simp add: Let_def e del: of_nat_add of_nat_mult)
qed

lemma takeWhile_show_nat:
  "u \<noteq> [] \<Longrightarrow> \<not> is_digit (hd u) \<Longrightarrow> takeWhile is_digit (show_nat n @ u) = show_nat n"
  "u \<noteq> [] \<Longrightarrow> \<not> is_digit (hd u) \<Longrightarrow> dropWhile is_digit (show_nat n @ u) = u"
  using show_nat_digits [of n] by (cases u; auto simp: list_all_iff takeWhile_append dropWhile_append)+

lemma parse_duration_unit:
  assumes u: "u \<noteq> []" "list_all unit_char u" "unit_of u = Some d" and d: "0 < d" "int n * d \<le> max_int64"
  shows "ParseDuration (show_nat n @ u) = Inr (int n * d)"
proof -
  obtain c cs where c: "show_nat n = c # cs" "is_digit c" using show_nat_head by blast
  obtain x xs where x: "u = x # xs" using u(1) by (cases u) auto
  have nd: "\<not> is_digit x" "x \<noteq> CHR ''.''" using u(2) x by (auto simp: unit_char_def)
  have "int n \<le> int n * d" using d(1) by (simp add: mult_le_cancel_left1)
  then have n: "int n \<le> 2 ^ 63" using d(2) by (simp add: max_int64_def)
  have lead: "leading_int 0 (show_nat n @ u) = Some (int n, u)"
    using leading_int_digits [of "show_nat n" u 0] show_nat_digits nd x n by simp
  have "int n = int n * d div d" using d(1) by simp
  also have "\<dots> \<le> 2 ^ 63 div d" using d by (intro zdiv_mono1) (simp_all add: max_int64_def)
  finally have fits: "\<not> int n > 2 ^ 63 div d" by simp
  have tw: "takeWhile unit_char xs = xs" "dropWhile unit_char xs = []"
    using u(2) x by (auto simp: list_all_iff takeWhile_eq_all_conv)
  have "hd (show_nat n @ u) = CHR ''.'' \<or> is_digit (hd (show_nat n @ u))" using c by simp
  then have "parse_term (show_nat n @ u) = Inr (int n * d, [])"
    unfolding parse_term_def lead using fits u nd x by (simp add: Let_def tw)
  moreover have "int n * d mod 2 ^ 64 = int n * d" "\<not> int n * d > 2 ^ 63"
    using d by (simp_all add: max_int64_def)
  ultimately have "parse_terms 0 (show_nat n @ u) = Inr (int n * d)"
    by (simp add: parse_terms.simps [of 0] parse_terms.simps [of _ "[]"] Let_def)
  moreover have "split_sign (show_nat n @ u) = (False, show_nat n @ u)"
    using c by (auto simp: split_sign_def)
  moreover have "show_nat n @ u \<noteq> ''0''" using c x by auto
  ultimately show ?thesis using d by (simp add: ParseDuration_def)
qed

text \<open>
  A deadline of \<open>n\<close> hours, minutes or seconds is read as that many nanoseconds as long as
  it fits a duration; \<open>None\<close> and the empty text mean no limit.
\<close>

theorem parse_timeout_units:
  "parseTimeout ''None'' = (maxTimeDuration, None) \<and> parseTimeout [] = (maxTimeDuration, None) \<and>
   (\<forall>(u, d) \<in> {(''h'', Hour), (''m'', Minute), (''s'', Second)}.
      int n * d \<le> max_int64 \<longrightarrow> parseTimeout (show_nat n @ u) = (int n * d, None))"
proof -
  have "parseTimeout (show_nat n @ [u]) = (int n * d, None)"
    if "u \<in> set ''hms''" "unit_of [u] = Some d" "0 < d" "int n * d \<le> max_int64" for u d
  proof -
    obtain c cs where c: "show_nat n = c # cs" "is_digit c" using show_nat_head by blast
    have nd: "\<not> is_digit u" "unit_char u" using that(1) by (auto simp: is_digit_def unit_char_def)
    have "show_nat n @ [u] \<noteq> ''None''" "show_nat n @ [u] \<noteq> []" using c by (auto simp: is_digit_def)
    moreover have "matches_timeout_pattern (show_nat n @ [u])"
      using that(1) nd by (auto simp: matches_timeout_pattern_def Let_def takeWhile_show_nat)
    moreover have "ParseDuration (show_nat n @ [u]) = Inr (int n * d)"
      using that nd by (intro parse_duration_unit) auto
    ultimately show ?thesis unfolding parseTimeout_def by (simp only: if_False if_True not_True_eq_False simp_thms sum.case)
  qed
  from this [of "CHR ''h''" Hour] this [of "CHR ''m''" Minute] this [of "CHR ''s''" Second] show ?thesis
    by (simp add: unit_of_def durations parseTimeout_def)
qed

theorem parse_timeout_units_witness:
  "parseTimeout (show_nat 90 @ ''s'') = (90000000000, None)"
  using parse_timeout_units [of 90] by (simp add: Second_def max_int64_def)

section \<open>The interface of the tracker\<close>

text \<open>
  What the strategies rely on: \<open>existing\<close> and \<open>besides\<close> return well-formed groups of the
  tracker, together they return all its clusters, and without any key \<open>besides\<close> returns all of them.
\<close>

definition group_clusters :: "cluster_groups \<Rightarrow> string set" where
  "group_clusters g = set (GetClusters g)"

locale decision_groups =
  fixes inv :: "'t \<Rightarrow> bool"
    and clusters :: "'t \<Rightarrow> string set"
    and existing :: "'t \<Rightarrow> group_lookup"
    and besides :: "'t \<Rightarrow> group_lookup"
  assumes existing_within: "inv t \<Longrightarrow> group_clusters (existing t ks) \<subseteq> clusters t"
    and besides_within: "inv t \<Longrightarrow> group_clusters (besides t ks) \<subseteq> clusters t"
    and covering: "inv t \<Longrightarrow> clusters t \<subseteq> group_clusters (existing t ks) \<union> group_clusters (besides t ks)"
    and nothing_asked: "inv t \<Longrightarrow> existing t [] = []"
begin

lemma besides_all: "inv t \<Longrightarrow> group_clusters (besides t []) = clusters t"
  using besides_within [of t "[]"] covering [of t "[]"]
  by (auto simp: nothing_asked group_clusters_def GetClusters_def)

lemma removed_exact:
  "inv t \<Longrightarrow> getRemovedClusters (besides t []) ex =
     (filter (\<lambda>s. crs_ClusterName s \<in> clusters t) ex, filter (\<lambda>s. crs_ClusterName s \<notin> clusters t) ex)"
  by (simp add: getRemovedClusters_def Let_def besides_all [symmetric] group_clusters_def)

end

text \<open>
  The tracker provides the interface when its tables are those of its groups, which every operation
  that makes or changes a tracker ensures, and its groups are numbered without gaps.
\<close>

definition good_tracker :: "tracker \<Rightarrow> bool" where
  "good_tracker t \<longleftrightarrow> contiguous t \<and> tables_ok t"

lemma map_of_GetClusters:
  "wf_map g \<Longrightarrow> group_clusters g = (\<Union>cs \<in> ran (map_of g). set cs)"
  by (force simp: group_clusters_def set_GetClusters ran_def wf_map_of_iff)

lemma wf_existing [simp]: "wf_map (ExistingClusterGroups t ks)" "wf_map (ExistingClusterGroupsBesides t ks)"
  by (simp_all add: ExistingClusterGroups_def ExistingClusterGroupsBesides_def)

interpretation pd: decision_groups good_tracker "\<lambda>t. group_clusters (tr_groups t)"
  ExistingClusterGroups ExistingClusterGroupsBesides
proof
  fix t ks assume t: "good_tracker t"
  then have wf: "wf_map (tr_groups t)" by (simp add: good_tracker_def contiguous_def)
  note part = groups_partition [of t ks]
  let ?e = "map_of (ExistingClusterGroups t ks)" and ?b = "map_of (ExistingClusterGroupsBesides t ks)"
  have eq: "?e ++ ?b = map_of (tr_groups t)" "dom ?e \<inter> dom ?b = {}"
    using t part by (auto simp: good_tracker_def)
  have "ran (map_of (tr_groups t)) = ran ?e \<union> ran ?b"
    using eq by (metis ran_map_add inf_commute)
  then show "group_clusters (ExistingClusterGroups t ks) \<subseteq> group_clusters (tr_groups t)"
    "group_clusters (ExistingClusterGroupsBesides t ks) \<subseteq> group_clusters (tr_groups t)"
    "group_clusters (tr_groups t) \<subseteq>
      group_clusters (ExistingClusterGroups t ks) \<union> group_clusters (ExistingClusterGroupsBesides t ks)"
    using wf by (auto simp: map_of_GetClusters)
  show "ExistingClusterGroups t [] = []"
    by (simp add: ExistingClusterGroups_def select_groups_def)
qed

section \<open>What a round reports\<close>

text \<open>The results of the three strategies are rounds on groups of the tracker, or errors.\<close>

definition round_on ::
  "int \<Rightarrow> cluster_groups \<Rightarrow> cluster_rollout_status list \<Rightarrow> rollout_result \<Rightarrow> bool" where
  "round_on now g cur res \<longleftrightarrow>
     (\<exists>sz mf ms tmo. progressivePerCluster now g sz mf ms tmo cur = Some res) \<or>
     (\<exists>mf ms tmo. progressivePerGroup now g mf ms tmo cur = Some res)"

lemma round_on_I:
  "progressivePerCluster now g sz mf ms tmo cur = Some res \<Longrightarrow> round_on now g cur res"
  "progressivePerGroup now g mf' ms tmo cur = Some res \<Longrightarrow> round_on now g cur res"
  by (auto simp: round_on_def)

lemma per_group_groups_names:
  "per_group_groups g mf ex keys r tot br = (r', br') \<Longrightarrow>
   \<exists>ns. r' = r @ ns \<and> (\<forall>s \<in> set ns. crs_Status s = ToApply \<and> crs_ClusterName s \<in> group_clusters g)"
proof (induction keys arbitrary: r tot br)
  case (Cons key keys)
  show ?case
  proof (cases "map_of g key")
    case (Some cs)
    obtain r1 f br1 where one: "per_group_clusters (fst (calculateRolloutSize mf (int (length cs)) 0)) ex key (sort cs) (r, 0, br) = (r1, f, br1)"
      by (metis prod_cases3)
    have r1: "r1 = r @ map (to_apply_status key) (filter (\<lambda>c. map_of ex c = None) (sort cs))" (is "_ = r @ ?new")
      using per_group_clusters_eq [OF one] by simp
    have new: "\<forall>s \<in> set ?new. crs_Status s = ToApply \<and> crs_ClusterName s \<in> group_clusters g"
      using map_of_SomeD [OF Some] by (auto simp: to_apply_status_def group_clusters_def set_GetClusters)
    have "(if int (length r1) - (tot + f) > 0 \<or> br1 then (r1, br1)
        else per_group_groups g mf ex keys r1 (tot + f) br1) = (r', br')"
      using Cons.prems Some one by (simp add: Let_def)
    then consider "r' = r1" | "per_group_groups g mf ex keys r1 (tot + f) br1 = (r', br')"
      by (auto split: if_splits)
    then show ?thesis
    proof cases
      case 2
      from Cons.IH [OF this] r1 new show ?thesis by fastforce
    qed (use r1 new in blast)
  qed (use Cons in simp)
qed simp

lemma round_on_clusters:
  assumes "round_on now g cur res"
  shows "set (names (rr_ClustersToRollout res)) \<subseteq> set (names cur) \<union> group_clusters g"
    and "set (names (rr_ClustersTimeOut res)) \<subseteq> set (names cur)"
    and "rr_ClustersRemoved res = []"
proof -
  have "set (names (rr_ClustersToRollout res)) \<subseteq> set (names cur) \<union> group_clusters g \<and>
    set (names (rr_ClustersTimeOut res)) \<subseteq> set (names cur) \<and> rr_ClustersRemoved res = []"
    using assms unfolding round_on_def
  proof (elim disjE exE)
    fix sz mf ms tmo
    assume "progressivePerCluster now g sz mf ms tmo cur = Some res"
    then show ?thesis
    proof (cases rule: progressivePerCluster_cases)
      case (1 b st)
      have "set (names (pc_rollout st)) \<union> set (names (pc_timeout st)) \<subseteq> set (names cur)"
        using per_cluster_existing_names [OF 1(1), of "set (names cur)"] by auto
      then show ?thesis
        using 1 per_cluster_amend_names [of sz "pc_existing st" "ClusterToGroupKey g" "sort (GetClusters g)" "pc_rollout st"]
        unfolding group_clusters_def set_sort by (auto simp del: list.set_map set_map)
    qed
  next
    fix mf ms tmo
    assume "progressivePerGroup now g mf ms tmo cur = Some res"
    then show ?thesis
    proof (cases rule: progressivePerGroup_cases)
      case (1 r t m)
      obtain ns where "rr_ClustersToRollout res = r @ ns"
        "\<forall>s \<in> set ns. crs_Status s = ToApply \<and> crs_ClusterName s \<in> group_clusters g"
        using per_group_groups_names [OF 1(2)] by blast
      moreover have "set (started cur) \<subseteq> set (names cur)" by (auto simp: started_def known_def)
      ultimately show ?thesis using per_group_existing_facts(2,3) [OF 1(1)] 1(3,4) by auto
    qed
  qed
  then show "set (names (rr_ClustersToRollout res)) \<subseteq> set (names cur) \<union> group_clusters g"
    "set (names (rr_ClustersTimeOut res)) \<subseteq> set (names cur)" "rr_ClustersRemoved res = []" by auto
qed

definition round_of ::
  "int \<Rightarrow> group_lookup \<Rightarrow> group_lookup \<Rightarrow> cluster_rollout_status list \<Rightarrow> rollout_result \<Rightarrow> bool" where
  "round_of now existing besides ex res \<longleftrightarrow>
     (\<exists>ks g res0. (g = existing ks \<or> g = besides ks) \<and>
        round_on now g (fst (getRemovedClusters (besides []) ex)) res0 \<and>
        res = res0\<lparr>rr_ClustersRemoved := snd (getRemovedClusters (besides []) ex)\<rparr>)"

lemma round_of_I:
  assumes "round_on now g cur res0" "getRemovedClusters (besides []) ex = (cur, removed)"
    and "g = existing ks \<or> g = besides ks"
  shows "round_of now existing besides ex (res0\<lparr>rr_ClustersRemoved := removed\<rparr>)"
  using assms unfolding round_of_def by (intro exI [of _ ks] exI [of _ g] exI [of _ res0]) simp

lemma getRolloutAllClusters_round:
  assumes "getRolloutAllClusters now besides strat ex = Some (so, res, None)"
  shows "\<exists>n tmo res0. n = int (length (GetClusters (besides []))) \<and>
    progressivePerCluster now (besides []) n n 0 tmo (fst (getRemovedClusters (besides []) ex)) = Some res0 \<and>
    res = res0\<lparr>rr_ClustersRemoved := snd (getRemovedClusters (besides []) ex)\<rparr>"
  using assms
  by (auto simp: getRolloutAllClusters_def Let_def answer_with_def split: prod.splits option.splits)

lemma getProgressiveClusters_round:
  assumes "getProgressiveClusters now existing besides strat ex = Some (so, res, None)"
  shows "round_of now existing besides ex res"
  using assms
  by (auto simp: getProgressiveClusters_def Let_def answer_with_def
      split: prod.splits option.splits if_splits intro: round_of_I dest: round_on_I)

lemma getProgressivePerGroupClusters_round:
  assumes "getProgressivePerGroupClusters now existing besides strat ex = Some (so, res, None)"
  shows "round_of now existing besides ex res"
  using assms
  by (auto simp: getProgressivePerGroupClusters_def Let_def answer_with_def
      split: prod.splits option.splits if_splits intro: round_of_I dest: round_on_I)

lemma getRolloutAllClusters_round_of:
  assumes "getRolloutAllClusters now besides strat ex = Some (so, res, None)"
  shows "round_of now existing besides ex res"
  using getRolloutAllClusters_round [OF assms]
  unfolding round_of_def by (metis round_on_I(1))

context decision_groups
begin

lemma round_of_sound:
  assumes "inv t" "round_of now (existing t) (besides t) ex res"
  shows "rr_ClustersRemoved res = filter (\<lambda>s. crs_ClusterName s \<notin> clusters t) ex"
    and "set (names (rr_ClustersToRollout res)) \<subseteq> clusters t"
    and "set (names (rr_ClustersTimeOut res)) \<subseteq> clusters t"
proof -
  from assms(2) obtain ks g res0 where g: "g = existing t ks \<or> g = besides t ks"
    and r: "round_on now g (filter (\<lambda>s. crs_ClusterName s \<in> clusters t) ex) res0"
    and res: "res = res0\<lparr>rr_ClustersRemoved := filter (\<lambda>s. crs_ClusterName s \<notin> clusters t) ex\<rparr>"
    unfolding round_of_def removed_exact [OF assms(1)] by auto
  have "group_clusters g \<subseteq> clusters t"
    using g existing_within [OF assms(1)] besides_within [OF assms(1)] by blast
  moreover have "set (names (filter (\<lambda>s. crs_ClusterName s \<in> clusters t) ex)) \<subseteq> clusters t" by auto
  ultimately show "set (names (rr_ClustersToRollout res)) \<subseteq> clusters t"
    "set (names (rr_ClustersTimeOut res)) \<subseteq> clusters t"
    using round_on_clusters(1,2) [OF r] by (auto simp: res)
  show "rr_ClustersRemoved res = filter (\<lambda>s. crs_ClusterName s \<notin> clusters t) ex" by (simp add: res)
qed

end

text \<open>
  C13. Whatever the strategy: a round without an error reports as removed exactly the existing
  statuses whose cluster the placement no longer selects, and every cluster to roll out or timed
  out is one that the placement selects.
\<close>

theorem rollout_within_placement:
  assumes "good_tracker (rh_pdTracker r)" "GetRolloutCluster now r strat ex = Some (so, res, None)"
  shows "rr_ClustersRemoved res = filter (\<lambda>s. crs_ClusterName s \<notin> group_clusters (tr_groups (rh_pdTracker r))) ex \<and>
    set (names (rr_ClustersToRollout res)) \<subseteq> group_clusters (tr_groups (rh_pdTracker r)) \<and>
    set (names (rr_ClustersTimeOut res)) \<subseteq> group_clusters (tr_groups (rh_pdTracker r))"
proof -
  let ?t = "rh_pdTracker r"
  have "round_of now (ExistingClusterGroups ?t) (ExistingClusterGroupsBesides ?t) ex res"
    using assms(2) unfolding GetRolloutCluster_def Let_def
    by (auto split: if_splits
      intro: getRolloutAllClusters_round_of getProgressiveClusters_round getProgressivePerGroupClusters_round)
  from pd.round_of_sound [OF assms(1) this] show ?thesis by blast
qed

definition two_groups_handler :: rollout_handler where
  "two_groups_handler = \<lparr>rh_pdTracker = two_groups\<rparr>"

lemma two_groups_good: "good_tracker (rh_pdTracker two_groups_handler)"
  by (simp add: two_groups_handler_def good_tracker_def two_groups_ok)

definition all_at_once :: rollout_strategy where
  "all_at_once = \<lparr>rs_Type = ''All'', rs_All = None, rs_Progressive = None, rs_ProgressivePerGroup = None\<rparr>"

lemma all_at_once_round:
  "map_option (\<lambda>(so, res, e). (names (rr_ClustersToRollout res), names (rr_ClustersRemoved res), e))
     (GetRolloutCluster 100 two_groups_handler all_at_once [status_at ''gone'' Succeeded None, status_at ''c2'' Skip None]) =
   Some ([''c1'', ''c3''], [''gone''], None)"
  by code_simp

theorem rollout_within_placement_witness:
  "\<exists>so res. GetRolloutCluster 100 two_groups_handler all_at_once
       [status_at ''gone'' Succeeded None, status_at ''c2'' Skip None] = Some (so, res, None) \<and>
     set (names (rr_ClustersToRollout res)) \<subseteq> group_clusters (tr_groups (rh_pdTracker two_groups_handler))"
proof -
  obtain so res where res: "GetRolloutCluster 100 two_groups_handler all_at_once
      [status_at ''gone'' Succeeded None, status_at ''c2'' Skip None] = Some (so, res, None)"
    using all_at_once_round by (auto simp: map_option_eq_Some simp del: list.map)
  from res rollout_within_placement [OF two_groups_good res, THEN conjunct2, THEN conjunct1] show ?thesis
    by (intro exI conjI)
qed

section \<open>The All strategy\<close>

text \<open>
  The All strategy leaves no cluster out: when no cluster has two statuses, every named cluster
  that the placement selects is in the list to roll out, in the list of timed-out clusters, or
  has a status that settles it (succeeded, timed out before, or skipped); and however many
  clusters fail, the round is never cut short.
\<close>

theorem all_strategy_complete:
  assumes "good_tracker (rh_pdTracker r)" "rs_Type strat = ''All''" "distinct (names ex)"
    and "GetRolloutCluster now r strat ex = Some (so, res, None)"
  shows "group_clusters (tr_groups (rh_pdTracker r)) - {[]} \<subseteq>
      set (names (rr_ClustersToRollout res)) \<union> set (names (rr_ClustersTimeOut res)) \<union>
      set (names (filter settled ex)) \<and>
    (group_clusters (tr_groups (rh_pdTracker r)) \<noteq> {} \<longrightarrow> \<not> rr_MaxFailureBreach res)"
proof -
  let ?t = "rh_pdTracker r"
  let ?g = "ExistingClusterGroupsBesides ?t []"
  let ?cur = "filter (\<lambda>s. crs_ClusterName s \<in> group_clusters (tr_groups ?t)) ex"
  have "getRolloutAllClusters now (ExistingClusterGroupsBesides ?t) strat ex = Some (so, res, None)"
    using assms(2,4) by (simp add: GetRolloutCluster_def)
  then obtain n tmo res0 where n: "n = int (length (GetClusters ?g))"
    and r0: "progressivePerCluster now ?g n n 0 tmo ?cur = Some res0"
    and res: "res = res0\<lparr>rr_ClustersRemoved := snd (getRemovedClusters ?g ex)\<rparr>"
    using getRolloutAllClusters_round [of now "ExistingClusterGroupsBesides ?t" strat ex so res]
    unfolding pd.removed_exact [OF assms(1)] by auto
  have all: "set (GetClusters ?g) = group_clusters (tr_groups ?t)"
    using pd.besides_all [OF assms(1)] by (simp add: group_clusters_def)
  show ?thesis
  proof (cases "0 < n")
    case True
    have "distinct (names ?cur)" using assms(3) by (simp add: distinct_map_filter)
    moreover have "set (names ?cur) \<subseteq> set (GetClusters ?g)" unfolding all by auto
    ultimately have "\<not> rr_MaxFailureBreach res0 \<and>
      set (GetClusters ?g) - {[]} \<subseteq> set (names (rr_ClustersToRollout res0)) \<union>
        set (names (rr_ClustersTimeOut res0)) \<union> set (names (filter settled ?cur))"
      by (rule unlimited_round_covers [OF r0 n True])
    moreover have "set (names (filter settled ?cur)) \<subseteq> set (names (filter settled ex))" by auto
    ultimately show ?thesis unfolding all res by auto
  next
    case False
    then have "group_clusters (tr_groups ?t) = {}" using n all by simp
    then show ?thesis by simp
  qed
qed

theorem all_strategy_complete_witness:
  "\<exists>so res. GetRolloutCluster 100 two_groups_handler all_at_once [status_at ''c2'' Skip None] = Some (so, res, None) \<and>
     group_clusters (tr_groups (rh_pdTracker two_groups_handler)) - {[]} \<subseteq>
       set (names (rr_ClustersToRollout res)) \<union> set (names (rr_ClustersTimeOut res)) \<union>
       set (names (filter settled [status_at ''c2'' Skip None]))"
proof -
  have "map_option (\<lambda>(so, res, e). e)
      (GetRolloutCluster 100 two_groups_handler all_at_once [status_at ''c2'' Skip None]) = Some None"
    by code_simp
  then obtain so res where res: "GetRolloutCluster 100 two_groups_handler all_at_once [status_at ''c2'' Skip None] = Some (so, res, None)"
    by (auto simp: map_option_eq_Some)
  from res all_strategy_complete [OF two_groups_good _ _ res, THEN conjunct1] show ?thesis
    by (intro exI conjI) (simp_all add: all_at_once_def)
qed

section \<open>Mandatory groups first\<close>

text \<open>A round over groups with no failure on record starts something unless all is started.\<close>

lemma per_group_groups_empty:
  assumes "per_group_groups g mf ex keys [] 0 False = ([], br)" "\<forall>c s. map_of ex c = Some s \<longrightarrow> \<not> is_failure s"
  shows "\<forall>k \<in> set keys. group_members g k \<subseteq> dom (map_of ex)"
  using assms(1)
proof (induction keys)
  case (Cons key keys)
  show ?case
  proof (cases "map_of g key")
    case None
    with Cons show ?thesis by (simp add: group_members_def)
  next
    case (Some cs)
    have one: "per_group_clusters m ex key cs' (r, 0, False) =
        (r @ map (to_apply_status key) (filter (\<lambda>c. map_of ex c = None) cs'), 0, False)" for m cs' r
      using assms(2) by (induction cs' arbitrary: r) (auto split: option.split)
    have new: "filter (\<lambda>c. map_of ex c = None) (sort cs) = []"
      using Cons.prems Some by (auto simp: one Let_def split: if_splits dest!: per_group_groups_names)
    then have "group_members g key \<subseteq> dom (map_of ex)"
      using Some by (auto simp: group_members_def filter_empty_conv)
    moreover have "per_group_groups g mf ex keys [] 0 False = ([], br)"
      using Cons.prems Some new by (simp add: one Let_def)
    ultimately show ?thesis using Cons.IH by simp
  qed
qed simp

lemma per_group_existing_no_failures:
  assumes "per_group_existing now ms tmo ss ([], [], []) = Some ([], [], ex)" "no_timeout ss"
  shows "\<forall>c s. map_of ex c = Some s \<longrightarrow> \<not> is_failure s"
  using per_group_existing_failures_listed [OF assms] by (auto simp: failures_listed_def)

lemma empty_mandatory_round:
  assumes "progressivePerGroup now g mf ms tmo cur = Some res"
    and "rr_ClustersToRollout res = []" "rr_ClustersTimeOut res = []" "no_timeout cur" "wf_map g"
  shows "group_clusters g \<subseteq> set (started cur)"
  using assms(1)
proof (cases rule: progressivePerGroup_cases)
  case (1 r t m)
  obtain ns where "rr_ClustersToRollout res = r @ ns" using per_group_groups_names [OF 1(2)] by blast
  then have r: "r = []" "t = []" using assms(2,3) 1(3) by auto
  have nf: "\<forall>c s. map_of m c = Some s \<longrightarrow> \<not> is_failure s"
    using per_group_existing_no_failures 1(1) r assms(4) by blast
  have "\<forall>k \<in> set (GetOrderedGroupKeys g). group_members g k \<subseteq> dom (map_of m)"
    using 1(2) nf unfolding r assms(2) by (rule per_group_groups_empty)
  moreover have "dom (map_of m) = set (started cur)" using per_group_existing_facts(1) [OF 1(1)] by simp
  moreover have "group_clusters g \<subseteq> (\<Union>k \<in> fst ` set g. group_members g k)"
    using assms(5) by (force simp: group_clusters_def set_GetClusters group_members_def wf_map_of_iff)
  ultimately show ?thesis unfolding set_GetOrderedGroupKeys by (metis (no_types, lifting) UN_least order_trans)
qed

definition mandatory_keys :: "rollout_strategy \<Rightarrow> group_key list" where
  "mandatory_keys strat = decisionGroupsToGroupKeys
     (if rs_Type strat = ''Progressive'' then
        (case rs_Progressive strat of Some c \<Rightarrow> rc_MandatoryDecisionGroups c | None \<Rightarrow> [])
      else (case rs_ProgressivePerGroup strat of Some c \<Rightarrow> rc_MandatoryDecisionGroups c | None \<Rightarrow> []))"

text \<open>The two ways a progressive answer comes about: from the mandatory groups, or after them.\<close>

definition mandatory_answer ::
  "int \<Rightarrow> cluster_groups \<Rightarrow> cluster_rollout_status list \<Rightarrow> rollout_result \<Rightarrow> bool" where
  "mandatory_answer now man cur res \<longleftrightarrow>
     (\<exists>res0 removed. round_on now man cur res0 \<and> res = res0\<lparr>rr_ClustersRemoved := removed\<rparr>) \<or>
     man = [] \<or>
     (\<exists>mf ms tmo res0. progressivePerGroup now man mf ms tmo cur = Some res0 \<and>
        rr_ClustersToRollout res0 = [] \<and> rr_ClustersTimeOut res0 = [])"

lemma mandatory_answer_I:
  "round_on now man cur res0 \<Longrightarrow> mandatory_answer now man cur (res0\<lparr>rr_ClustersRemoved := removed\<rparr>)"
  "man = [] \<Longrightarrow> mandatory_answer now man cur res"
  "progressivePerGroup now man mf ms tmo cur = Some res0 \<Longrightarrow> rr_ClustersToRollout res0 = [] \<Longrightarrow>
     rr_ClustersTimeOut res0 = [] \<Longrightarrow> mandatory_answer now man cur res"
  unfolding mandatory_answer_def by blast+

lemma progressive_mandatory_answer:
  assumes "getProgressiveClusters now existing besides strat ex = Some (so, res, None)"
    and "rs_Type strat = ''Progressive''"
  shows "mandatory_answer now (existing (mandatory_keys strat)) (fst (getRemovedClusters (besides []) ex)) res"
  using assms
  by (auto simp: getProgressiveClusters_def Let_def answer_with_def mandatory_keys_def zero_progressive_def
      split: prod.splits option.splits if_splits intro: mandatory_answer_I round_on_I)

lemma per_group_mandatory_answer:
  assumes "getProgressivePerGroupClusters now existing besides strat ex = Some (so, res, None)"
    and "rs_Type strat = ''ProgressivePerGroup''"
  shows "mandatory_answer now (existing (mandatory_keys strat)) (fst (getRemovedClusters (besides []) ex)) res"
  using assms
  by (auto simp: getProgressivePerGroupClusters_def Let_def answer_with_def mandatory_keys_def zero_per_group_def
      split: prod.splits option.splits if_splits intro: mandatory_answer_I round_on_I)


definition canary_first :: rollout_strategy where
  "canary_first = \<lparr>rs_Type = ''ProgressivePerGroup'', rs_All = None, rs_Progressive = None,
     rs_ProgressivePerGroup = Some \<lparr>rc_MinSuccessTime = 0, rc_ProgressDeadline = [],
       rc_MaxFailures = IS_Int 0, rc_MandatoryDecisionGroups = [(''canary'', 0)]\<rparr>\<rparr>"

lemma answer_of:
  "map_option (\<lambda>(so, res, e). (f res, e)) answer = Some (x, None) \<Longrightarrow>
   \<exists>so res. answer = Some (so, res, None) \<and> f res = x"
  by (cases answer) auto

lemma canary_round:
  "map_option (\<lambda>(so, res, e). (names (rr_ClustersToRollout res), e))
     (GetRolloutCluster 100 two_groups_handler canary_first [status_at ''c1'' Succeeded (Some 10)]) =
   Some ([''c2'', ''c3''], None)"
  by code_simp


text \<open>
  A time-out in a mandatory group stops nothing once it has been recorded: the code says that
  the mandatory groups tolerate no failure, but when the only cluster of the mandatory group is
  already marked as timed out, its round comes back empty and the strategy goes on to the
  remaining groups.
\<close>

theorem mandatory_timeout_ignored:
  "map_option (\<lambda>(so, res, e). (names (rr_ClustersToRollout res), rr_MaxFailureBreach res, e))
     (GetRolloutCluster 100 two_groups_handler canary_first [status_at ''c1'' TimeOut (Some 10)]) =
   Some ([''c2'', ''c3''], False, None)"
  by code_simp

section \<open>Deadlines and panics\<close>

definition expired :: "int \<Rightarrow> cluster_rollout_status \<Rightarrow> bool" where
  "expired now s \<longleftrightarrow> crs_Status s = TimeOut \<and> (\<exists>t. crs_TimeOutTime s = Some t \<and> t \<le> now)"

lemma determine_deadlines:
  assumes "determineRolloutStatus now s ms tmo r t = Some (s', r', t')"
    and "\<forall>x \<in> set r. crs_Status x \<noteq> TimeOut" "\<forall>x \<in> set t. expired now x"
  shows "(\<forall>x \<in> set r'. crs_Status x \<noteq> TimeOut) \<and> (\<forall>x \<in> set t'. expired now x)"
  using assms
  by (cases "crs_Status s")
     (auto simp: determineRolloutStatus_def Let_def expired_def split: option.splits if_splits)

lemma round_on_deadlines:
  assumes "round_on now g cur res"
  shows "(\<forall>x \<in> set (rr_ClustersToRollout res). crs_Status x \<noteq> TimeOut) \<and>
    (\<forall>x \<in> set (rr_ClustersTimeOut res). expired now x)"
  using assms unfolding round_on_def
proof (elim disjE exE)
  fix sz mf ms tmo
  assume "progressivePerCluster now g sz mf ms tmo cur = Some res"
  then show ?thesis
  proof (cases rule: progressivePerCluster_cases)
    case (1 b st)
    let ?P = "\<lambda>st. (\<forall>x \<in> set (pc_rollout st). crs_Status x \<noteq> TimeOut) \<and> (\<forall>x \<in> set (pc_timeout st). expired now x)"
    have "?P st"
    proof (rule per_cluster_existing_invariant [where P = ?P, OF 1(1)])
      fix s st st'
      assume P: "?P st" and "per_cluster_step now mf ms tmo s st = Some st'"
      from this(2) show "?P st'"
      proof (cases rule: per_cluster_stepE)
        case (1 s')
        from 1(3) show ?thesis
        proof
          assume "(\<not> pc_failureBreach st \<or> crs_Status s \<noteq> ToApply) \<and>
            determineRolloutStatus now s ms tmo (pc_rollout st) (pc_timeout st) =
              Some (s', pc_rollout st', pc_timeout st')"
          with P determine_deadlines show ?thesis by blast
        qed (use P in simp)
      qed
    qed simp
    moreover obtain ns where "rr_ClustersToRollout res = pc_rollout st @ ns" "\<forall>s \<in> set ns. crs_Status s = ToApply"
      using 1(5) per_cluster_amend_prefix by (metis append_Nil2 empty_iff list.set(1))
    ultimately show ?thesis using 1(2) by auto
  qed
next
  fix mf ms tmo
  assume "progressivePerGroup now g mf ms tmo cur = Some res"
  then show ?thesis
  proof (cases rule: progressivePerGroup_cases)
    case (1 r t m)
    have "(\<forall>x \<in> set r. crs_Status x \<noteq> TimeOut) \<and> (\<forall>x \<in> set t. expired now x)"
      if "per_group_existing now ms tmo ss (r0, t0, m0) = Some (r, t, m)"
        "\<forall>x \<in> set r0. crs_Status x \<noteq> TimeOut" "\<forall>x \<in> set t0. expired now x" for ss r0 t0 m0
      using that
    proof (induction ss arbitrary: r0 t0 m0)
      case (Cons s ss)
      show ?case
      proof (cases "crs_ClusterName s = [] \<or> crs_Status s = ToApply")
        case False
        with Cons.prems obtain s1 r1 t1 where d: "determineRolloutStatus now s ms tmo r0 t0 = Some (s1, r1, t1)"
          and rest: "per_group_existing now ms tmo ss
            (r1, t1, AList.update (crs_ClusterName s1) (crs_Status s1) m0) = Some (r, t, m)"
          by (auto split: option.splits)
        from Cons.IH [OF rest] determine_deadlines [OF d Cons.prems(2,3)] show ?thesis by blast
      qed (use Cons in auto)
    qed auto
    from this [OF 1(1)] per_group_groups_names [OF 1(2)] 1(3) show ?thesis by force
  qed
qed


definition deadline_90s :: rollout_strategy where
  "deadline_90s = \<lparr>rs_Type = ''All'', rs_All = Some \<lparr>rc_MinSuccessTime = 0, rc_ProgressDeadline = ''90s'',
     rc_MaxFailures = IS_Int 0\<rparr>, rs_Progressive = None, rs_ProgressivePerGroup = None\<rparr>"

lemma deadline_round:
  "map_option (\<lambda>(so, res, e). (names (rr_ClustersTimeOut res), e))
     (GetRolloutCluster 90000000010 two_groups_handler deadline_90s [status_at ''c1'' Progressing (Some 10)]) =
   Some ([''c1''], None)"
  by code_simp


lemma per_group_existing_None:
  "per_group_existing now ms tmo ss (r, t, ex) = None \<Longrightarrow>
   ms = maxTimeDuration \<and> (\<exists>s \<in> set ss. crs_Status s = Succeeded)"
  by (induction ss arbitrary: r t ex) (auto simp: determine_None_iff split: if_splits option.splits)

definition soak_time :: "rollout_strategy \<Rightarrow> int" where
  "soak_time strat =
     (if rs_Type strat = ''Progressive'' then
        (case rs_Progressive strat of Some c \<Rightarrow> rc_MinSuccessTime c | None \<Rightarrow> 0)
      else if rs_Type strat = ''ProgressivePerGroup'' then
        (case rs_ProgressivePerGroup strat of Some c \<Rightarrow> rc_MinSuccessTime c | None \<Rightarrow> 0)
      else 0)"

lemma round_panic:
  "progressivePerCluster now g sz mf ms tmo cur = None \<Longrightarrow> ms = maxTimeDuration \<and> (\<exists>s \<in> set cur. crs_Status s = Succeeded)"
  "progressivePerGroup now g mf' ms tmo cur = None \<Longrightarrow> ms = maxTimeDuration \<and> (\<exists>s \<in> set cur. crs_Status s = Succeeded)"
  by (auto simp: progressivePerCluster_def progressivePerGroup_def Let_def
      dest!: per_cluster_existing_None per_group_existing_None split: option.splits if_splits prod.splits)

text \<open>
  C29. A call panics only in one situation: the soak time of a progressive strategy is the largest
  duration and some cluster has succeeded. For every other soak time the call returns. The witness
  is such a panic.
\<close>

theorem rollout_panic_only_at_max_soak:
  assumes "GetRolloutCluster now r strat ex = None"
  shows "soak_time strat = maxTimeDuration \<and> (\<exists>s \<in> set ex. crs_Status s = Succeeded)"
proof -
  from assms have "soak_time strat = maxTimeDuration \<and>
     (\<exists>s \<in> set (fst (getRemovedClusters (ExistingClusterGroupsBesides (rh_pdTracker r) []) ex)). crs_Status s = Succeeded)"
    by (auto simp: GetRolloutCluster_def getRolloutAllClusters_def getProgressiveClusters_def
        getProgressivePerGroupClusters_def zero_progressive_def zero_per_group_def soak_time_def Let_def maxTimeDuration_def max_int64_def
        dest: round_panic split: if_splits option.splits prod.splits)
  then show "soak_time strat = maxTimeDuration \<and> (\<exists>s \<in> set ex. crs_Status s = Succeeded)"
    by (auto simp: getRemovedClusters_def Let_def)
qed

definition soak_forever :: rollout_strategy where
  "soak_forever = \<lparr>rs_Type = ''ProgressivePerGroup'', rs_All = None, rs_Progressive = None,
     rs_ProgressivePerGroup = Some \<lparr>rc_MinSuccessTime = 9223372036854775807, rc_ProgressDeadline = [],
       rc_MaxFailures = IS_Int 0, rc_MandatoryDecisionGroups = []\<rparr>\<rparr>"

lemma soak_forever_panics:
  "GetRolloutCluster 100 two_groups_handler soak_forever [status_at ''c1'' Succeeded (Some 10)] = None"
  by code_simp

theorem rollout_panic_only_at_max_soak_witness:
  "GetRolloutCluster 100 two_groups_handler soak_forever [status_at ''c1'' Succeeded (Some 10)] = None \<and>
   soak_time soak_forever = maxTimeDuration"
  using soak_forever_panics rollout_panic_only_at_max_soak [OF soak_forever_panics] by blast

end
