(* ===== verification/Go_Json.thy ===== *)
theory Go_Json
  imports Go_Strings
begin

text \<open>
  JSON values, and the rules by which \<open>encoding/json\<close> decodes an object into a struct: the
  members are taken in order, a member goes to the field whose name equals its key up to letter
  case, \<open>null\<close> leaves a field as it is, and a value of the wrong kind is an error. A number that
  is not an integer literal keeps its text.
\<close>

datatype json =
    JNull
  | JBool bool
  | JInt int
  | JNumber string
  | JString string
  | JArray "json list"
  | JObject "(string \<times> json) list"

section \<open>Names up to letter case\<close>

definition ascii_lower :: "char \<Rightarrow> char" where
  "ascii_lower c = (if c \<in> set ''ABCDEFGHIJKLMNOPQRSTUVWXYZ'' then char_of (of_char c + 32 :: nat) else c)"

text \<open>
  Unicode folding has two characters outside of ASCII that fold to an ASCII letter: the long s
  (bytes C5 BF) and the Kelvin sign (bytes E2 84 AA).
\<close>

fun fold_name :: "string \<Rightarrow> string" where
  "fold_name [] = []"
| "fold_name (c # cs) =
     (if c = CHR 0xC5 \<and> cs \<noteq> [] \<and> hd cs = CHR 0xBF then CHR ''s'' # fold_name (tl cs)
      else if c = CHR 0xE2 \<and> take 2 cs = [CHR 0x84, CHR 0xAA] then CHR ''k'' # fold_name (drop 2 cs)
      else ascii_lower c # fold_name cs)"

definition same_field :: "string \<Rightarrow> string \<Rightarrow> bool" where
  "same_field field key \<longleftrightarrow> fold_name key = fold_name field"

lemma same_field_refl [simp]: "same_field f f"
  by (simp add: same_field_def)

section \<open>Decoding\<close>

definition type_mismatch :: error where
  "type_mismatch = Errorf ''json: cannot unmarshal''"

definition unmarshal_string :: "string \<Rightarrow> json \<Rightarrow> string result" where
  "unmarshal_string old j = (case j of
       JString s \<Rightarrow> Inr s | JNull \<Rightarrow> Inr old | _ \<Rightarrow> Inl type_mismatch)"

definition unmarshal_int64 :: "int \<Rightarrow> json \<Rightarrow> int result" where
  "unmarshal_int64 old j = (case j of
       JInt i \<Rightarrow> if min_int64 \<le> i \<and> i \<le> max_int64 then Inr i else Inl type_mismatch
     | JNull \<Rightarrow> Inr old | _ \<Rightarrow> Inl type_mismatch)"

text \<open>A slice is decoded anew from an array; \<open>null\<close> makes it nil.\<close>

definition unmarshal_slice :: "(json \<Rightarrow> 'a result) \<Rightarrow> json \<Rightarrow> 'a list result" where
  "unmarshal_slice f j = (case j of
       JArray js \<Rightarrow> map_result f js | JNull \<Rightarrow> Inr [] | _ \<Rightarrow> Inl type_mismatch)"

text \<open>
  The fields of a struct are decoded by \<open>step\<close>, which gets each member of the object in turn. The
  decoder goes on after a mismatch and reports the first one at the end; since the callers drop the
  result then, the model stops at the first.
\<close>

fun unmarshal_members :: "(string \<times> json \<Rightarrow> 's \<Rightarrow> 's result) \<Rightarrow> (string \<times> json) list \<Rightarrow> 's \<Rightarrow> 's result" where
  "unmarshal_members step [] s = Inr s"
| "unmarshal_members step (m # ms) s =
     (case step m s of Inl e \<Rightarrow> Inl e | Inr s' \<Rightarrow> unmarshal_members step ms s')"

definition unmarshal_struct :: "(string \<times> json \<Rightarrow> 's \<Rightarrow> 's result) \<Rightarrow> 's \<Rightarrow> json \<Rightarrow> 's result" where
  "unmarshal_struct step zero j = (case j of
       JObject ms \<Rightarrow> unmarshal_members step ms zero | JNull \<Rightarrow> Inr zero | _ \<Rightarrow> Inl type_mismatch)"

lemma unmarshal_simps [simp]:
  "unmarshal_string old (JString s) = Inr s"
  "min_int64 \<le> i \<Longrightarrow> i \<le> max_int64 \<Longrightarrow> unmarshal_int64 n (JInt i) = Inr i"
  "unmarshal_slice f (JArray js) = map_result f js"
  "unmarshal_struct step zero (JObject ms) = unmarshal_members step ms zero"
  by (simp_all add: unmarshal_string_def unmarshal_int64_def unmarshal_slice_def unmarshal_struct_def)

end
