(* ===== verification/Work_Api.thy ===== *)
theory Work_Api
  imports Go_Json Event_Types
begin

text \<open>
  Manifest works, the validation of manifests (\<^verbatim>\<open>pkg/apis/work/v1/validator\<close>), the
  metadata of a manifest (\<^verbatim>\<open>pkg/apis/work/v1/utils\<close>), and the payloads of
  \<^verbatim>\<open>pkg/cloudevents/work/payload\<close>. A manifest is its raw bytes; parsing these is a
  parameter. Options and other parts of a work that the code only carries along are JSON values. A time of 0 is the zero time or nil.
\<close>

section \<open>Works\<close>

record manifest_config =
  mcf_Group :: string
  mcf_Resource :: string
  mcf_Name :: string
  mcf_Namespace :: string
  mcf_FeedbackRules :: "json list"
  mcf_UpdateStrategy :: "json option"

record work_spec =
  wsp_Manifests :: "string list"
  wsp_DeleteOption :: "json option"
  wsp_ManifestConfigs :: "manifest_config list"
  wsp_Executor :: "json option"

record condition =
  cnd_Type :: string
  cnd_Status :: string
  cnd_Reason :: string
  cnd_Message :: string
  cnd_LastTransitionTime :: int
  cnd_ObservedGeneration :: int

record work_status =
  wst_Conditions :: "condition list"
  wst_Manifests :: "json list"

record manifest_work =
  mw_UID :: string
  mw_Name :: string
  mw_Namespace :: string
  mw_ResourceVersion :: string
  mw_Generation :: int
  mw_Labels :: "(string, string) gomap"
  mw_Annotations :: "(string, string) gomap"
  mw_Finalizers :: "string list"
  mw_OwnerReferences :: "json list"
  mw_DeletionTimestamp :: int
  mw_Spec :: work_spec
  mw_Status :: work_status

definition empty_spec :: work_spec where
  "empty_spec = \<lparr>wsp_Manifests = [], wsp_DeleteOption = None, wsp_ManifestConfigs = [], wsp_Executor = None\<rparr>"

definition empty_work :: manifest_work where
  "empty_work = \<lparr>mw_UID = [], mw_Name = [], mw_Namespace = [], mw_ResourceVersion = [], mw_Generation = 0,
     mw_Labels = [], mw_Annotations = [], mw_Finalizers = [], mw_OwnerReferences = [], mw_DeletionTimestamp = 0,
     mw_Spec = empty_spec, mw_Status = \<lparr>wst_Conditions = [], wst_Manifests = []\<rparr>\<rparr>"

section \<open>Fields of a manifest\<close>

text \<open>\<open>NestedString\<close>: the text at a path of fields, empty when it is not there or no text.\<close>

fun nested_string :: "string list \<Rightarrow> json \<Rightarrow> string" where
  "nested_string [] j = (case j of JString s \<Rightarrow> s | _ \<Rightarrow> [])"
| "nested_string (f # fs) j =
     (case j of
        JObject ms \<Rightarrow> (case map_of ms f of Some j' \<Rightarrow> nested_string fs j' | None \<Rightarrow> [])
      | _ \<Rightarrow> [])"

definition GetName :: "json \<Rightarrow> string" where
  "GetName j = nested_string [''metadata'', ''name''] j"

definition GetNamespace :: "json \<Rightarrow> string" where
  "GetNamespace j = nested_string [''metadata'', ''namespace''] j"

definition GetGenerateName :: "json \<Rightarrow> string" where
  "GetGenerateName j = nested_string [''metadata'', ''generateName''] j"

section \<open>Validation\<close>

text \<open>The protobuf size of a raw manifest: a tag, the length as a varint, and the bytes.\<close>

fun varint_size :: "nat \<Rightarrow> nat" where
  "varint_size n = (if n < 128 then 1 else 1 + varint_size (n div 128))"

declare varint_size.simps [simp del]

definition manifest_size :: "string \<Rightarrow> int" where
  "manifest_size raw = (if raw = [] then 0 else int (1 + length raw + varint_size (length raw)))"

record validator =
  vl_limit :: int

definition ManifestValidator :: validator where
  "ManifestValidator = \<lparr>vl_limit = 500 * 1024\<rparr>"

definition WithLimit :: "int \<Rightarrow> validator \<Rightarrow> validator" where
  "WithLimit limit m = m\<lparr>vl_limit := limit\<rparr>"

text \<open>\<open>decode\<close> is \<open>UnmarshalJSON\<close> of an unstructured object.\<close>

definition validateManifest :: "(string \<Rightarrow> json result) \<Rightarrow> string \<Rightarrow> error option" where
  "validateManifest decode manifest =
     (case decode manifest of
        Inl e \<Rightarrow> Some e
      | Inr obj \<Rightarrow>
          if GetName obj = [] then Some (Errorf ''name must be set in manifest'')
          else if GetGenerateName obj \<noteq> [] then Some (Errorf ''generateName must not be set in manifest'')
          else None)"

fun first_error :: "('a \<Rightarrow> error option) \<Rightarrow> 'a list \<Rightarrow> error option" where
  "first_error f [] = None"
| "first_error f (x # xs) = (case f x of Some e \<Rightarrow> Some e | None \<Rightarrow> first_error f xs)"

definition ValidateManifests :: "validator \<Rightarrow> (string \<Rightarrow> json result) \<Rightarrow> string list \<Rightarrow> error option" where
  "ValidateManifests m decode manifests =
     (if length manifests = 0 then Some (StatusError BadRequest)
      else let totalSize = foldl (\<lambda>t x. t + manifest_size x) 0 manifests
           in if totalSize > vl_limit m then Some (Errorf ''the size of manifests exceeds the limit'')
              else first_error (validateManifest decode) manifests)"

lemma first_error_None: "first_error f xs = None \<longleftrightarrow> (\<forall>x \<in> set xs. f x = None)"
  by (induction xs) (auto split: option.split)

lemma total_size: "foldl (\<lambda>t x. t + manifest_size x) a xs = a + (\<Sum>x\<leftarrow>xs. manifest_size x)"
  by (induction xs arbitrary: a) simp_all

definition valid_manifest :: "(string \<Rightarrow> json result) \<Rightarrow> string \<Rightarrow> bool" where
  "valid_manifest decode raw \<longleftrightarrow> (\<exists>obj. decode raw = Inr obj \<and> GetName obj \<noteq> [] \<and> GetGenerateName obj = [])"

lemma validateManifest_None: "validateManifest decode raw = None \<longleftrightarrow> valid_manifest decode raw"
  by (auto simp: validateManifest_def valid_manifest_def split: sum.split)

text \<open>
  Manifests are accepted exactly if there is at least one, together they fit into the limit, and
  each parses to an object that has a name and no generated name.
\<close>

lemma ValidateManifests_None:
  "ValidateManifests m decode manifests = None \<longleftrightarrow>
     manifests \<noteq> [] \<and> (\<Sum>x\<leftarrow>manifests. manifest_size x) \<le> vl_limit m \<and> list_all (valid_manifest decode) manifests"
  by (auto simp: ValidateManifests_def Let_def total_size first_error_None validateManifest_None list_all_iff)

section \<open>The metadata of a manifest\<close>

record gvk =
  gvk_Group :: string
  gvk_Version :: string
  gvk_Kind :: string

record gvr =
  gvr_Group :: string
  gvr_Version :: string
  gvr_Resource :: string

record resource_meta =
  rm_Ordinal :: int
  rm_Group :: string
  rm_Version :: string
  rm_Kind :: string
  rm_Resource :: string
  rm_Namespace :: string
  rm_Name :: string

text \<open>
  A runtime object: the kind it states, the kinds that the two schemes know for it, and what
  \<open>meta.Accessor\<close> gives, its namespace and name or an error.
\<close>

record runtime_object =
  ro_gvk :: gvk
  ro_schemeKinds :: "gvk list"
  ro_genericKinds :: "gvk list"
  ro_accessor :: "(string \<times> string) result"

definition GuessObjectGroupVersionKind :: "runtime_object \<Rightarrow> gvk result" where
  "GuessObjectGroupVersionKind obj =
     (if gvk_Kind (ro_gvk obj) \<noteq> [] then Inr (ro_gvk obj)
      else case ro_schemeKinds obj of
        k # _ \<Rightarrow> Inr k
      | [] \<Rightarrow> (case ro_genericKinds obj of
                 k # _ \<Rightarrow> Inr k
               | [] \<Rightarrow> Inl (Errorf ''cannot get gvk'')))"

definition empty_gvr :: gvr where
  "empty_gvr = \<lparr>gvr_Group = [], gvr_Version = [], gvr_Resource = []\<rparr>"

text \<open>
  \<open>restMapper\<close> maps a group, kind and version to a resource. The object may be nil. The error of
  the accessor is in the variable that the mapping then assigns.
\<close>

definition BuildResourceMeta ::
  "int \<Rightarrow> runtime_object option \<Rightarrow> (gvk \<Rightarrow> gvr result) option \<Rightarrow> resource_meta \<times> gvr \<times> error option" where
  "BuildResourceMeta index object restMapper =
     (let resourceMeta = \<lparr>rm_Ordinal = to_int32 index, rm_Group = [], rm_Version = [], rm_Kind = [],
            rm_Resource = [], rm_Namespace = [], rm_Name = []\<rparr>
      in case object of
        None \<Rightarrow> (resourceMeta, empty_gvr, None)
      | Some obj \<Rightarrow>
          (case GuessObjectGroupVersionKind obj of
             Inl e \<Rightarrow> (resourceMeta, empty_gvr, Some e)
           | Inr k \<Rightarrow>
               let resourceMeta = resourceMeta\<lparr>rm_Group := gvk_Group k, rm_Version := gvk_Version k, rm_Kind := gvk_Kind k\<rparr>;
                   (resourceMeta, err) = (case ro_accessor obj of
                      Inl e \<Rightarrow> (resourceMeta, Some (Wrapf ''cannot access metadata'' e))
                    | Inr (ns, n) \<Rightarrow> (resourceMeta\<lparr>rm_Namespace := ns, rm_Name := n\<rparr>, None))
               in case restMapper of
                    None \<Rightarrow> (resourceMeta, empty_gvr, err)
                  | Some mapping \<Rightarrow>
                      (case mapping k of
                         Inl _ \<Rightarrow> (resourceMeta, empty_gvr, Some (Errorf ''the server does not have a resource type''))
                       | Inr r \<Rightarrow> (resourceMeta\<lparr>rm_Resource := gvr_Resource r\<rparr>, r, None))))"

text \<open>
  The metadata of a manifest are those of the object, with the resource of the mapper. The
  errors are reported with one exception: that the object's own metadata cannot be read is forgotten
  when a mapper is given and knows the resource.
\<close>

lemma resource_meta_built:
  assumes "GuessObjectGroupVersionKind obj = Inr k" "BuildResourceMeta index (Some obj) mapper = (m, r, err)"
  shows "rm_Group m = gvk_Group k \<and> rm_Version m = gvk_Version k \<and> rm_Kind m = gvk_Kind k \<and>
    (case ro_accessor obj of
       Inr (ns, n) \<Rightarrow> rm_Namespace m = ns \<and> rm_Name m = n
     | Inl _ \<Rightarrow> rm_Namespace m = [] \<and> rm_Name m = []) \<and>
    (case mapper of
       None \<Rightarrow> err = None \<longleftrightarrow> (\<exists>x. ro_accessor obj = Inr x)
     | Some f \<Rightarrow> (case f k of Inr r' \<Rightarrow> err = None \<and> r = r' \<and> rm_Resource m = gvr_Resource r'
                            | Inl _ \<Rightarrow> err \<noteq> None \<and> rm_Resource m = []))"
  using assms
  by (auto simp: BuildResourceMeta_def Let_def split: option.splits sum.splits prod.splits)

section \<open>Payloads\<close>

definition ManifestEventDataType :: cloud_events_data_type where
  "ManifestEventDataType = \<lparr>dt_Group = ''io.open-cluster-management.works'', dt_Version = ''v1alpha1'', dt_Resource = ''manifests''\<rparr>"

definition ManifestBundleEventDataType :: cloud_events_data_type where
  "ManifestBundleEventDataType =
     \<lparr>dt_Group = ''io.open-cluster-management.works'', dt_Version = ''v1alpha1'', dt_Resource = ''manifestbundles''\<rparr>"

record config_option =
  co_FeedbackRules :: "json list"
  co_UpdateStrategy :: "json option"

record manifest_payload =
  mp_Manifest :: json
  mp_DeleteOption :: "json option"
  mp_ConfigOption :: "config_option option"

record manifest_status =
  mst_Conditions :: "condition list"
  mst_Status :: "json option"

record manifest_bundle =
  mb_Manifests :: "string list"
  mb_DeleteOption :: "json option"
  mb_ManifestConfigs :: "manifest_config list"

record manifest_bundle_status =
  mbs_Conditions :: "condition list"
  mbs_ResourceStatus :: "json list"

end
