(* ===== verification/Cluster_Sets.thy ===== *)
theory Cluster_Sets
  imports Work_Api
begin

text \<open>
  \<^verbatim>\<open>pkg/apis/cluster/v1beta2/managedclusterset.go\<close>: which clusters belong to a cluster set,
  and to which sets a cluster belongs. The label selectors are those of the vendored
  \<^verbatim>\<open>k8s.io/apimachinery\<close>; which texts are valid keys and values of labels is a parameter. The
  listers are an interface, which is interpreted on the list of an informer's store.
\<close>

section \<open>Label selectors\<close>

type_synonym labels = "(string, string) gomap"

datatype operator = Equals | In | NotIn | Exists | DoesNotExist

record requirement =
  rq_key :: string
  rq_operator :: operator
  rq_values :: "string list"

datatype selector = NothingSelector | InternalSelector "requirement list"

definition hasValue :: "requirement \<Rightarrow> string \<Rightarrow> bool" where
  "hasValue r value = list_ex (\<lambda>v. v = value) (rq_values r)"

definition requirement_matches :: "requirement \<Rightarrow> labels \<Rightarrow> bool" where
  "requirement_matches r ls =
     (let has = map_of ls (rq_key r) \<noteq> None; get = lookup_str ls (rq_key r) in
      case rq_operator r of
        Equals \<Rightarrow> (if \<not> has then False else hasValue r get)
      | In \<Rightarrow> (if \<not> has then False else hasValue r get)
      | NotIn \<Rightarrow> (if \<not> has then True else \<not> hasValue r get)
      | Exists \<Rightarrow> has
      | DoesNotExist \<Rightarrow> \<not> has)"

fun selector_matches :: "selector \<Rightarrow> labels \<Rightarrow> bool" where
  "selector_matches NothingSelector ls = False"
| "selector_matches (InternalSelector rs) ls = list_all (\<lambda>r. requirement_matches r ls) rs"

fun selector_empty :: "selector \<Rightarrow> bool" where
  "selector_empty NothingSelector = False"
| "selector_empty (InternalSelector rs) = (rs = [])"

definition Everything :: selector where
  "Everything = InternalSelector []"

definition SelectorFromSet :: "labels \<Rightarrow> selector" where
  "SelectorFromSet ls =
     InternalSelector (sort_key rq_key (map (\<lambda>(k, v). \<lparr>rq_key = k, rq_operator = Equals, rq_values = [v]\<rparr>) ls))"

record label_syntax =
  ls_IsQualifiedName :: "string \<Rightarrow> bool"
  ls_IsValidLabelValue :: "string \<Rightarrow> bool"

definition NewRequirement :: "label_syntax \<Rightarrow> string \<Rightarrow> operator \<Rightarrow> string list \<Rightarrow> requirement result" where
  "NewRequirement syn key op vals =
     (let keyErr = (if ls_IsQualifiedName syn key then [] else [Errorf ''key: Invalid value'']);
          opErr = (case op of
              Equals \<Rightarrow> (if length vals \<noteq> 1 then [Errorf ''exact-match compatibility requires one single value''] else [])
            | In \<Rightarrow> (if length vals = 0 then [Errorf ''values set can't be empty''] else [])
            | NotIn \<Rightarrow> (if length vals = 0 then [Errorf ''values set can't be empty''] else [])
            | Exists \<Rightarrow> (if length vals \<noteq> 0 then [Errorf ''values set must be empty''] else [])
            | DoesNotExist \<Rightarrow> (if length vals \<noteq> 0 then [Errorf ''values set must be empty''] else []));
          valErr = concat (map (\<lambda>v. if ls_IsValidLabelValue syn v then [] else [Errorf ''values: Invalid value'']) vals);
          allErrs = keyErr @ opErr @ valErr
      in if allErrs = [] then Inr \<lparr>rq_key = key, rq_operator = op, rq_values = vals\<rparr> else Inl (Aggregate allErrs))"

record label_selector_requirement =
  lsr_Key :: string
  lsr_Operator :: string
  lsr_Values :: "string list"

record label_selector =
  lsl_MatchLabels :: labels
  lsl_MatchExpressions :: "label_selector_requirement list"

definition expression_requirement :: "label_syntax \<Rightarrow> label_selector_requirement \<Rightarrow> requirement result" where
  "expression_requirement syn expr =
     (let op = map_of [(''In'', In), (''NotIn'', NotIn), (''Exists'', Exists), (''DoesNotExist'', DoesNotExist)] (lsr_Operator expr)
      in case op of
           None \<Rightarrow> Inl (Errorf ''not a valid label selector operator'')
         | Some op \<Rightarrow> NewRequirement syn (lsr_Key expr) op (lsr_Values expr))"

definition LabelSelectorAsSelector :: "label_syntax \<Rightarrow> label_selector option \<Rightarrow> selector result" where
  "LabelSelectorAsSelector syn ps =
     (case ps of
        None \<Rightarrow> Inr NothingSelector
      | Some ps \<Rightarrow>
          if length (lsl_MatchLabels ps) + length (lsl_MatchExpressions ps) = 0 then Inr Everything
          else (case map_result (\<lambda>(k, v). NewRequirement syn k Equals [v]) (lsl_MatchLabels ps) of
                  Inl e \<Rightarrow> Inl e
                | Inr rs \<Rightarrow>
                    (case map_result (expression_requirement syn) (lsl_MatchExpressions ps) of
                       Inl e \<Rightarrow> Inl e
                     | Inr rs' \<Rightarrow> Inr (InternalSelector (sort_key rq_key (rs @ rs'))))))"

section \<open>Clusters, cluster sets and bindings\<close>

record managed_cluster =
  mc_Name :: string
  mc_Labels :: labels

record cluster_set =
  cs_Name :: string
  cs_Labels :: labels
  cs_SelectorType :: string
  cs_LabelSelector :: "label_selector option"

record cluster_set_binding =
  csb_Name :: string
  csb_Namespace :: string
  csb_Labels :: labels
  csb_Conditions :: "condition list"

definition ClusterSetLabel :: string where
  "ClusterSetLabel = ''cluster.open-cluster-management.io/clusterset''"

definition ClusterSetBindingBoundType :: string where
  "ClusterSetBindingBoundType = ''Bound''"

text \<open>\<open>None\<close> is a nil cluster set, cluster or selector.\<close>

definition BuildClusterSelector :: "label_syntax \<Rightarrow> cluster_set option \<Rightarrow> selector option result" where
  "BuildClusterSelector syn clusterSet =
     (case clusterSet of
        None \<Rightarrow> Inr None
      | Some cset \<Rightarrow>
          let selectorType = cs_SelectorType cset in
          if selectorType = [] \<or> selectorType = ''ExclusiveClusterSetLabel''
          then Inr (Some (SelectorFromSet [(ClusterSetLabel, cs_Name cset)]))
          else if selectorType = ''LabelSelector''
          then (case LabelSelectorAsSelector syn (cs_LabelSelector cset) of Inl e \<Rightarrow> Inl e | Inr s \<Rightarrow> Inr (Some s))
          else Inl (Errorf ''selectorType is not right''))"

definition GetClustersFromClusterSet ::
  "label_syntax \<Rightarrow> cluster_set option \<Rightarrow> (selector \<Rightarrow> managed_cluster list result) \<Rightarrow> managed_cluster list result" where
  "GetClustersFromClusterSet syn clusterSet listClusters =
     (if clusterSet = None then Inr []
      else case BuildClusterSelector syn clusterSet of
        Inl e \<Rightarrow> Inl e
      | Inr None \<Rightarrow> Inl (Errorf ''failed to build ClusterSelector'')
      | Inr (Some clusterSelector) \<Rightarrow>
          (case listClusters clusterSelector of
             Inl e \<Rightarrow> Inl (Wrapf ''failed to list ManagedClusters'' e)
           | Inr clusters \<Rightarrow> Inr clusters))"

text \<open>The loop over all cluster sets.\<close>

fun sets_loop :: "label_syntax \<Rightarrow> managed_cluster \<Rightarrow> cluster_set list \<Rightarrow> cluster_set list \<Rightarrow> cluster_set list result" where
  "sets_loop syn cluster [] returnClusterSets = Inr returnClusterSets"
| "sets_loop syn cluster (clusterSet # sets) returnClusterSets =
     (case BuildClusterSelector syn (Some clusterSet) of
        Inl e \<Rightarrow> Inl e
      | Inr None \<Rightarrow> Inl (Errorf ''failed to build ClusterSelector'')
      | Inr (Some clusterSelector) \<Rightarrow>
          if selector_matches clusterSelector (mc_Labels cluster)
          then sets_loop syn cluster sets (returnClusterSets @ [clusterSet])
          else sets_loop syn cluster sets returnClusterSets)"

definition GetClusterSetsOfCluster ::
  "label_syntax \<Rightarrow> managed_cluster option \<Rightarrow> (selector \<Rightarrow> cluster_set list result) \<Rightarrow> cluster_set list result" where
  "GetClusterSetsOfCluster syn cluster listSets =
     (case cluster of
        None \<Rightarrow> Inr []
      | Some c \<Rightarrow>
          (case listSets Everything of
             Inl e \<Rightarrow> Inl e
           | Inr allClusterSets \<Rightarrow> sets_loop syn c allClusterSets []))"

fun IsStatusConditionTrue :: "condition list \<Rightarrow> string \<Rightarrow> bool" where
  "IsStatusConditionTrue [] conditionType = False"
| "IsStatusConditionTrue (c # conditions) conditionType =
     (if cnd_Type c = conditionType then cnd_Status c = ''True'' else IsStatusConditionTrue conditions conditionType)"

definition GetBoundManagedClusterSetBindings ::
  "string \<Rightarrow> (string \<Rightarrow> selector \<Rightarrow> cluster_set_binding list result) \<Rightarrow> cluster_set_binding list result" where
  "GetBoundManagedClusterSetBindings namespace listBindings =
     (case listBindings namespace Everything of
        Inl e \<Rightarrow> Inl e
      | Inr bindings \<Rightarrow> Inr (filter (\<lambda>b. IsStatusConditionTrue (csb_Conditions b) ClusterSetBindingBoundType) bindings))"

section \<open>Listers\<close>

text \<open>
  A lister returns the stored objects that match, in the order of the store, if it does not fail: an
  interface of what the two directions of membership need.
\<close>

locale lister =
  fixes list_objects :: "selector \<Rightarrow> 'a list result" and labels_of :: "'a \<Rightarrow> labels" and stored :: "'a list"
  assumes lists_matching:
    "list_objects sel = Inr xs \<Longrightarrow> xs = filter (\<lambda>x. selector_matches sel (labels_of x)) stored"
begin

lemma lists_everything: "list_objects Everything = Inr xs \<Longrightarrow> xs = stored"
  using lists_matching [of Everything xs] by (simp add: Everything_def)

end

text \<open>\<open>ListAll\<close> of the informers' listers, over the objects of the store.\<close>

fun list_all_store :: "('a \<Rightarrow> labels) \<Rightarrow> 'a list \<Rightarrow> selector \<Rightarrow> 'a list" where
  "list_all_store labels_of [] sel = []"
| "list_all_store labels_of (m # ms) sel =
     (if selector_empty sel then m # list_all_store labels_of ms sel
      else if selector_matches sel (labels_of m) then m # list_all_store labels_of ms sel
      else list_all_store labels_of ms sel)"

definition cache_list :: "('a \<Rightarrow> labels) \<Rightarrow> 'a list \<Rightarrow> selector \<Rightarrow> 'a list result" where
  "cache_list labels_of store sel = Inr (list_all_store labels_of store sel)"

lemma empty_selector_matches: "selector_empty sel \<Longrightarrow> selector_matches sel ls"
  by (cases sel) auto

lemma list_all_store_filter: "list_all_store labels_of store sel = filter (\<lambda>x. selector_matches sel (labels_of x)) store"
  by (induction store) (auto simp: empty_selector_matches)

interpretation cached: lister "cache_list labels_of store" labels_of store for labels_of :: "'a \<Rightarrow> labels" and store
  by unfold_locales (simp add: cache_list_def list_all_store_filter)

section \<open>Membership\<close>

text \<open>What a label selector asks for, and when a cluster belongs to a cluster set.\<close>

definition expression_valid :: "label_syntax \<Rightarrow> label_selector_requirement \<Rightarrow> bool" where
  "expression_valid syn expr \<longleftrightarrow> ls_IsQualifiedName syn (lsr_Key expr) \<and> list_all (ls_IsValidLabelValue syn) (lsr_Values expr) \<and>
     (if lsr_Operator expr \<in> {''In'', ''NotIn''} then lsr_Values expr \<noteq> []
      else lsr_Operator expr \<in> {''Exists'', ''DoesNotExist''} \<and> lsr_Values expr = [])"

definition expression_holds :: "labels \<Rightarrow> label_selector_requirement \<Rightarrow> bool" where
  "expression_holds ls expr \<longleftrightarrow>
     (case map_of ls (lsr_Key expr) of
        Some v \<Rightarrow> lsr_Operator expr = ''In'' \<and> v \<in> set (lsr_Values expr) \<or>
                  lsr_Operator expr = ''NotIn'' \<and> v \<notin> set (lsr_Values expr) \<or> lsr_Operator expr = ''Exists''
      | None \<Rightarrow> lsr_Operator expr \<in> {''NotIn'', ''DoesNotExist''})"

definition exclusive :: "cluster_set \<Rightarrow> bool" where
  "exclusive s \<longleftrightarrow> cs_SelectorType s = [] \<or> cs_SelectorType s = ''ExclusiveClusterSetLabel''"

definition valid_cluster_set :: "label_syntax \<Rightarrow> cluster_set \<Rightarrow> bool" where
  "valid_cluster_set syn s \<longleftrightarrow> exclusive s \<or> cs_SelectorType s = ''LabelSelector'' \<and>
     (case cs_LabelSelector s of
        None \<Rightarrow> True
      | Some ps \<Rightarrow> list_all (\<lambda>(k, v). ls_IsQualifiedName syn k \<and> ls_IsValidLabelValue syn v) (lsl_MatchLabels ps) \<and>
                   list_all (expression_valid syn) (lsl_MatchExpressions ps))"

definition belongs :: "managed_cluster \<Rightarrow> cluster_set \<Rightarrow> bool" where
  "belongs c s \<longleftrightarrow>
     (if exclusive s then map_of (mc_Labels c) ClusterSetLabel = Some (cs_Name s)
      else case cs_LabelSelector s of
        None \<Rightarrow> False
      | Some ps \<Rightarrow> list_all (\<lambda>(k, v). map_of (mc_Labels c) k = Some v) (lsl_MatchLabels ps) \<and>
                   list_all (expression_holds (mc_Labels c)) (lsl_MatchExpressions ps))"

lemma NewRequirement_Inr:
  "NewRequirement syn key op vals = Inr r \<longleftrightarrow>
     ls_IsQualifiedName syn key \<and> list_all (ls_IsValidLabelValue syn) vals \<and>
     (case op of Equals \<Rightarrow> length vals = 1 | In \<Rightarrow> vals \<noteq> [] | NotIn \<Rightarrow> vals \<noteq> [] | Exists \<Rightarrow> vals = [] | DoesNotExist \<Rightarrow> vals = []) \<and>
     r = \<lparr>rq_key = key, rq_operator = op, rq_values = vals\<rparr>"
  by (auto simp: NewRequirement_def Let_def list_all_iff split: operator.split)

lemma equals_matches:
  "requirement_matches \<lparr>rq_key = k, rq_operator = Equals, rq_values = [v]\<rparr> ls \<longleftrightarrow> map_of ls k = Some v"
  by (auto simp: requirement_matches_def hasValue_def lookup_str_def Let_def split: option.split)

lemma expression_requirement_Inr:
  "expression_requirement syn expr = Inr r \<Longrightarrow>
     expression_valid syn expr \<and> (requirement_matches r ls \<longleftrightarrow> expression_holds ls expr)"
  by (auto simp: expression_requirement_def Let_def NewRequirement_Inr expression_valid_def expression_holds_def
      requirement_matches_def hasValue_def lookup_str_def list_ex_iff split: if_splits option.splits)

lemma expression_requirement_ok: "is_ok (expression_requirement syn expr) \<longleftrightarrow> expression_valid syn expr"
  by (auto simp: is_ok_def expression_requirement_def Let_def NewRequirement_Inr expression_valid_def split: if_splits option.splits)

lemma map_result_is_ok: "is_ok (map_result f xs) \<longleftrightarrow> list_all (\<lambda>x. is_ok (f x)) xs"
  by (induction xs) (auto split: sum.splits)

lemma map_result_list_all:
  "map_result f xs = Inr ys \<Longrightarrow> (\<And>x y. f x = Inr y \<Longrightarrow> P y \<longleftrightarrow> Q x) \<Longrightarrow> list_all P ys \<longleftrightarrow> list_all Q xs"
  by (induction xs arbitrary: ys) (auto split: sum.splits)

lemma list_all_sort_key [simp]: "list_all P (sort_key f xs) \<longleftrightarrow> list_all P xs"
  by (simp add: list_all_iff)

lemma LabelSelectorAsSelector_Inr:
  assumes "LabelSelectorAsSelector syn (Some ps) = Inr sel"
  shows "selector_matches sel ls \<longleftrightarrow>
    list_all (\<lambda>(k, v). map_of ls k = Some v) (lsl_MatchLabels ps) \<and> list_all (expression_holds ls) (lsl_MatchExpressions ps)"
proof (cases "length (lsl_MatchLabels ps) + length (lsl_MatchExpressions ps) = 0")
  case True
  then show ?thesis using assms by (auto simp: LabelSelectorAsSelector_def Everything_def)
next
  case False
  obtain rs rs' where rs: "map_result (\<lambda>(k, v). NewRequirement syn k Equals [v]) (lsl_MatchLabels ps) = Inr rs"
      "map_result (expression_requirement syn) (lsl_MatchExpressions ps) = Inr rs'"
    and sel: "sel = InternalSelector (sort_key rq_key (rs @ rs'))"
    using assms False by (auto simp: LabelSelectorAsSelector_def split: sum.splits)
  have "list_all (\<lambda>r. requirement_matches r ls) rs \<longleftrightarrow> list_all (\<lambda>(k, v). map_of ls k = Some v) (lsl_MatchLabels ps)"
    by (rule map_result_list_all [OF rs(1)]) (auto simp: NewRequirement_Inr equals_matches)
  moreover have "list_all (\<lambda>r. requirement_matches r ls) rs' \<longleftrightarrow> list_all (expression_holds ls) (lsl_MatchExpressions ps)"
    by (rule map_result_list_all [OF rs(2)]) (use expression_requirement_Inr in blast)
  ultimately show ?thesis by (simp add: sel del: sort_key_simps)
qed

lemma LabelSelectorAsSelector_ok:
  "is_ok (LabelSelectorAsSelector syn (Some ps)) \<longleftrightarrow>
     list_all (\<lambda>(k, v). ls_IsQualifiedName syn k \<and> ls_IsValidLabelValue syn v) (lsl_MatchLabels ps) \<and>
     list_all (expression_valid syn) (lsl_MatchExpressions ps)"
proof -
  have "is_ok (NewRequirement syn k Equals [v]) \<longleftrightarrow> ls_IsQualifiedName syn k \<and> ls_IsValidLabelValue syn v" for k v
    by (simp add: is_ok_def NewRequirement_Inr)
  then have l: "is_ok (map_result (\<lambda>(k, v). NewRequirement syn k Equals [v]) kvs) \<longleftrightarrow>
      list_all (\<lambda>(k, v). ls_IsQualifiedName syn k \<and> ls_IsValidLabelValue syn v) kvs" for kvs
    by (simp add: map_result_is_ok list_all_iff split: prod.split)
  have e: "is_ok (map_result (expression_requirement syn) es) \<longleftrightarrow> list_all (expression_valid syn) es" for es
    by (simp add: map_result_is_ok expression_requirement_ok)
  show ?thesis unfolding l [symmetric] e [symmetric]
    by (auto simp: LabelSelectorAsSelector_def split: sum.split)
qed

lemma BuildClusterSelector_cases:
  "case BuildClusterSelector syn (Some s) of
     Inl e \<Rightarrow> \<not> valid_cluster_set syn s
   | Inr None \<Rightarrow> False
   | Inr (Some sel) \<Rightarrow> valid_cluster_set syn s \<and> (\<forall>c. selector_matches sel (mc_Labels c) \<longleftrightarrow> belongs c s)"
proof -
  consider (exclusive) "exclusive s" | (labels) "\<not> exclusive s" "cs_SelectorType s = ''LabelSelector''"
    | (other) "\<not> exclusive s" "cs_SelectorType s \<noteq> ''LabelSelector''" by blast
  then show ?thesis
  proof cases
    case exclusive
    then show ?thesis
      by (auto simp: exclusive_def BuildClusterSelector_def valid_cluster_set_def belongs_def SelectorFromSet_def equals_matches Let_def)
  next
    case labels
    then have b: "BuildClusterSelector syn (Some s) =
        (case LabelSelectorAsSelector syn (cs_LabelSelector s) of Inl e \<Rightarrow> Inl e | Inr x \<Rightarrow> Inr (Some x))"
      by (simp add: exclusive_def BuildClusterSelector_def Let_def)
    show ?thesis
    proof (cases "cs_LabelSelector s")
      case None
      then show ?thesis using labels b
        by (simp add: LabelSelectorAsSelector_def valid_cluster_set_def belongs_def)
    next
      case (Some ps)
      show ?thesis
      proof (cases "LabelSelectorAsSelector syn (Some ps)")
        case (Inl e)
        then show ?thesis using labels b Some LabelSelectorAsSelector_ok [of syn ps] by (simp add: valid_cluster_set_def)
      next
        case (Inr sel)
        then show ?thesis
          using labels b Some LabelSelectorAsSelector_ok [of syn ps] LabelSelectorAsSelector_Inr [OF Inr]
          by (simp add: valid_cluster_set_def belongs_def)
      qed
    qed
  next
    case other
    then show ?thesis by (auto simp: exclusive_def BuildClusterSelector_def valid_cluster_set_def Let_def)
  qed
qed

lemma sets_loop_cases:
  "case sets_loop syn c sets acc of
     Inl e \<Rightarrow> \<not> list_all (valid_cluster_set syn) sets
   | Inr css \<Rightarrow> list_all (valid_cluster_set syn) sets \<and> css = acc @ filter (belongs c) sets"
proof (induction sets arbitrary: acc)
  case (Cons s sets)
  show ?case
    using BuildClusterSelector_cases [of syn s] Cons [of acc] Cons [of "acc @ [s]"]
    by (auto split: sum.splits option.splits)
qed simp

context lister
begin

lemma clusters_of_set:
  assumes "\<And>sel. is_ok (list_objects sel)" "\<And>c. labels_of c = mc_Labels (as_cluster c)"
    and "BuildClusterSelector syn (Some s) = Inr (Some sel)"
  shows "list_objects sel = Inr (filter (\<lambda>c. belongs (as_cluster c) s) stored)"
proof -
  obtain xs where xs: "list_objects sel = Inr xs" using assms(1) [of sel] by (auto simp: is_ok_def)
  have "selector_matches sel (mc_Labels c) \<longleftrightarrow> belongs c s" for c
    using BuildClusterSelector_cases [of syn s] assms(3) by simp
  then show ?thesis using xs lists_matching [OF xs] assms(2) by simp
qed

end

text \<open>
  C19. Clusters and cluster sets agree on membership. Asked for the sets of a cluster, the code
  returns exactly those among the listed ones to which it belongs, in their order, and asked for the
  clusters of a listed set, exactly those that belong to it, where a cluster belongs to an exclusive
  set if its label names the set, and to a set with a label selector if its labels fulfil every part
  of it; no selector selects nothing, an empty one everything. One set with an invalid selector
  is enough for the sets of no cluster to be returned, but the clusters of the valid ones still are.
\<close>

theorem cluster_set_membership:
  "(case GetClusterSetsOfCluster syn (Some c) (cache_list cs_Labels sets) of
      Inl e \<Rightarrow> \<not> list_all (valid_cluster_set syn) sets
    | Inr css \<Rightarrow> list_all (valid_cluster_set syn) sets \<and> css = filter (belongs c) sets) \<and>
   (case GetClustersFromClusterSet syn (Some s) (cache_list mc_Labels clusters) of
      Inl e \<Rightarrow> \<not> valid_cluster_set syn s
    | Inr cs \<Rightarrow> valid_cluster_set syn s \<and> cs = filter (\<lambda>c. belongs c s) clusters)"
proof
  have ok: "is_ok (cache_list l store sel)" for l :: "'a \<Rightarrow> labels" and store sel by (simp add: cache_list_def)
  obtain xs where "cache_list cs_Labels sets Everything = Inr xs" using ok [of cs_Labels sets] by (auto simp: is_ok_def)
  with cached.lists_everything [OF this] show "case GetClusterSetsOfCluster syn (Some c) (cache_list cs_Labels sets) of
      Inl e \<Rightarrow> \<not> list_all (valid_cluster_set syn) sets
    | Inr css \<Rightarrow> list_all (valid_cluster_set syn) sets \<and> css = filter (belongs c) sets"
    using sets_loop_cases [where syn = syn and c = c and sets = sets and acc = "[]"]
    by (simp add: GetClusterSetsOfCluster_def split: sum.splits)
  show "case GetClustersFromClusterSet syn (Some s) (cache_list mc_Labels clusters) of
      Inl e \<Rightarrow> \<not> valid_cluster_set syn s
    | Inr cs \<Rightarrow> valid_cluster_set syn s \<and> cs = filter (\<lambda>c. belongs c s) clusters"
    using BuildClusterSelector_cases [of syn s] cached.clusters_of_set [of mc_Labels clusters "\<lambda>c. c" syn s]
    by (auto simp: GetClustersFromClusterSet_def ok split: sum.splits option.splits)
qed

text \<open>A binding is bound if the first condition of that type is true.\<close>

lemma IsStatusConditionTrue_find:
  "IsStatusConditionTrue cs t \<longleftrightarrow> (case find (\<lambda>c. cnd_Type c = t) cs of Some c \<Rightarrow> cnd_Status c = ''True'' | None \<Rightarrow> False)"
  by (induction cs) auto

lemma bound_bindings:
  "GetBoundManagedClusterSetBindings ns (\<lambda>ns. cache_list csb_Labels (filter (\<lambda>b. csb_Namespace b = ns) store)) =
     Inr (filter (\<lambda>b. csb_Namespace b = ns \<and>
       (case find (\<lambda>c. cnd_Type c = ''Bound'') (csb_Conditions b) of Some c \<Rightarrow> cnd_Status c = ''True'' | None \<Rightarrow> False)) store)"
  by (simp add: GetBoundManagedClusterSetBindings_def cache_list_def list_all_store_filter Everything_def
      IsStatusConditionTrue_find ClusterSetBindingBoundType_def conj_commute)

end
