(* ===== verification/Cloud_Events.thy ===== *)
theory Cloud_Events
  imports Event_Types Go_Json
begin

text \<open>
  The cloud event of the vendored SDK (\<^verbatim>\<open>vendor/github.com/cloudevents/sdk-go/v2\<close>: \<open>event\<close>
  and \<open>types\<close>) as far as the code uses it, and the \<open>EventBuilder\<close> of
  \<^verbatim>\<open>pkg/cloudevents/generic/types/types.go\<close>. A time is the number of nanoseconds since the
  zero time, so that \<open>IsZero\<close> is equality with 0. The data of an event is a JSON value, other
  bytes, or absent. \<open>url.Parse\<close> followed by \<open>String\<close> on a source is a parameter.
\<close>

section \<open>Attribute values\<close>

datatype ce_value =
    CeBool bool
  | CeInteger int
  | CeString string
  | CeBinary string
  | CeURI string
  | CeURIRef string
  | CeTimestamp int

text \<open>The Go values the code passes to \<open>SetExtension\<close>.\<close>

datatype go_value = GoString string | GoInt64 int | GoTime int

definition ce_validate :: "go_value \<Rightarrow> ce_value result" where
  "ce_validate v = (case v of
       GoString s \<Rightarrow> Inr (CeString s)
     | GoInt64 i \<Rightarrow> if i > 2147483647 \<or> i < - 2147483648 then Inl (Errorf ''cannot convert: out of range'')
                  else Inr (CeInteger i)
     | GoTime t \<Rightarrow> Inr (CeTimestamp t))"

definition ToString :: "ce_value \<Rightarrow> string result" where
  "ToString v = (case v of CeString s \<Rightarrow> Inr s | _ \<Rightarrow> Inl (Errorf ''cannot convert to string''))"

section \<open>Times as text\<close>

text \<open>Year, month and day of a count of days since the first of January of year 1.\<close>

definition is_leap :: "int \<Rightarrow> bool" where
  "is_leap y \<longleftrightarrow> y mod 4 = 0 \<and> (y mod 100 \<noteq> 0 \<or> y mod 400 = 0)"

definition month_lengths :: "int \<Rightarrow> int list" where
  "month_lengths y = [31, if is_leap y then 29 else 28, 31, 30, 31, 30, 31, 31, 30, 31, 30, 31]"

fun month_day :: "int \<Rightarrow> int list \<Rightarrow> int \<Rightarrow> int \<times> int" where
  "month_day m [] d = (m, d + 1)"
| "month_day m (l # ls) d = (if d < l then (m, d + 1) else month_day (m + 1) ls (d - l))"

definition civil_date :: "int \<Rightarrow> int \<times> int \<times> int" where
  "civil_date days =
     (let n400 = days div 146097; d1 = days mod 146097;
          n100 = min 3 (d1 div 36524); d2 = d1 - 36524 * n100;
          n4 = d2 div 1461; d3 = d2 mod 1461;
          n1 = min 3 (d3 div 365); yday = d3 - 365 * n1;
          y = 400 * n400 + 100 * n100 + 4 * n4 + n1 + 1;
          (m, d) = month_day 1 (month_lengths y) yday
      in (y, m, d))"

definition pad :: "nat \<Rightarrow> int \<Rightarrow> string" where
  "pad w n = (let s = show_nat (nat n) in replicate (w - length s) CHR ''0'' @ s)"

definition fraction_text :: "int \<Rightarrow> string" where
  "fraction_text ns =
     (if ns = 0 then []
      else CHR ''.'' # rev (dropWhile (\<lambda>c. c = CHR ''0'') (rev (pad 9 ns))))"

text \<open>\<open>types.FormatTime\<close>: RFC 3339 with nanoseconds, in UTC.\<close>

definition FormatTime :: "int \<Rightarrow> string" where
  "FormatTime t =
     (let secs = t div 1000000000; ns = t mod 1000000000;
          (y, m, d) = civil_date (secs div 86400); s = secs mod 86400
      in pad 4 y @ ''-'' @ pad 2 m @ ''-'' @ pad 2 d @ ''T'' @
         pad 2 (s div 3600) @ '':'' @ pad 2 (s div 60 mod 60) @ '':'' @ pad 2 (s mod 60) @
         fraction_text ns @ ''Z'')"

text \<open>\<open>fmt.Sprintf("%s", v)\<close> of an attribute value.\<close>

definition sprint_s :: "ce_value \<Rightarrow> string" where
  "sprint_s v = (case v of
       CeString s \<Rightarrow> s
     | CeBinary b \<Rightarrow> b
     | CeURI u \<Rightarrow> u
     | CeURIRef u \<Rightarrow> u
     | CeTimestamp t \<Rightarrow> FormatTime t
     | CeInteger i \<Rightarrow> ''%!s(int32='' @ show_int i @ '')''
     | CeBool b \<Rightarrow> ''%!s(bool='' @ (if b then ''true'' else ''false'') @ '')'')"

section \<open>Events\<close>

datatype event_data = NoData | JsonData json | RawData string

record ce_event =
  ev_ID :: string
  ev_Type :: string
  ev_Source :: string
  ev_Time :: int
  ev_DataContentType :: "string option"
  ev_Extensions :: "(string, ce_value) gomap"
  ev_Data :: event_data
  ev_FieldErrors :: "string list"

definition ApplicationJSON :: string where
  "ApplicationJSON = ''application/json''"

definition new_event :: ce_event where
  "new_event = \<lparr>ev_ID = [], ev_Type = [], ev_Source = [], ev_Time = 0, ev_DataContentType = None,
     ev_Extensions = [], ev_Data = NoData, ev_FieldErrors = []\<rparr>"

definition field_error :: "string \<Rightarrow> ce_event \<Rightarrow> ce_event" where
  "field_error f e = e\<lparr>ev_FieldErrors := set_insert (ev_FieldErrors e) f\<rparr>"

definition field_ok :: "string \<Rightarrow> ce_event \<Rightarrow> ce_event" where
  "field_ok f e = e\<lparr>ev_FieldErrors := filter (\<lambda>g. g \<noteq> f) (ev_FieldErrors e)\<rparr>"

definition is_space :: "char \<Rightarrow> bool" where
  "is_space c \<longleftrightarrow> c \<in> {CHR '' '', CHR 0x09, CHR 0x0A, CHR 0x0B, CHR 0x0C, CHR 0x0D}"

definition trim_space :: "string \<Rightarrow> string" where
  "trim_space s = rev (dropWhile is_space (rev (dropWhile is_space s)))"

definition SetID :: "string \<Rightarrow> ce_event \<Rightarrow> ce_event" where
  "SetID i e = (if trim_space i = [] then field_error ''id'' e
                else field_ok ''id'' (e\<lparr>ev_ID := trim_space i\<rparr>))"

definition SetType :: "string \<Rightarrow> ce_event \<Rightarrow> ce_event" where
  "SetType t e = field_ok ''type'' (e\<lparr>ev_Type := trim_space t\<rparr>)"

definition SetTime :: "int \<Rightarrow> ce_event \<Rightarrow> ce_event" where
  "SetTime t e = field_ok ''time'' (e\<lparr>ev_Time := t\<rparr>)"

type_synonym url_parser = "string \<Rightarrow> string option"

definition SetSource :: "url_parser \<Rightarrow> string \<Rightarrow> ce_event \<Rightarrow> ce_event" where
  "SetSource url s e = (case url s of
       None \<Rightarrow> field_error ''source'' e
     | Some u \<Rightarrow> field_ok ''source'' (e\<lparr>ev_Source := u\<rparr>))"

definition valid_extension_name :: "string \<Rightarrow> bool" where
  "valid_extension_name s \<longleftrightarrow> s \<noteq> [] \<and>
     list_all (\<lambda>c. ascii_lower c \<in> set ''abcdefghijklmnopqrstuvwxyz0123456789'') s"

definition spec_attributes :: "string list" where
  "spec_attributes = [''id'', ''source'', ''type'', ''datacontenttype'', ''subject'', ''time'',
     ''specversion'', ''dataschema'']"

definition SetExtension :: "string \<Rightarrow> go_value \<Rightarrow> ce_event \<Rightarrow> ce_event" where
  "SetExtension name v e =
     (let lname = map ascii_lower name in
      if valid_extension_name name \<and> lname \<notin> set spec_attributes then
        (case ce_validate v of
           Inl _ \<Rightarrow> field_error (''extension:'' @ name) e
         | Inr x \<Rightarrow> field_ok (''extension:'' @ name)
                    (e\<lparr>ev_Extensions := AList.update lname x (ev_Extensions e)\<rparr>))
      else field_error (''extension:'' @ name) e)"

text \<open>\<open>GetExtension\<close> searches without regard to letter case; \<open>SetExtension\<close> stored lower case.\<close>

definition GetExtension :: "ce_event \<Rightarrow> string \<Rightarrow> ce_value result" where
  "GetExtension e key =
     (case find (\<lambda>(k, v). fold_name (map ascii_lower k) = fold_name (map ascii_lower key)) (ev_Extensions e) of
        None \<Rightarrow> Inl (Errorf ''extension not found'')
      | Some (k, v) \<Rightarrow> Inr v)"

definition SetData :: "json \<Rightarrow> ce_event \<Rightarrow> ce_event" where
  "SetData j e = field_ok ''datacontenttype'' (e\<lparr>ev_DataContentType := Some ApplicationJSON, ev_Data := JsonData j\<rparr>)"

text \<open>
  The validation that the SDK's client makes before it sends: errors recorded by the setters, and
  the required attributes.
\<close>

definition event_valid :: "ce_event \<Rightarrow> bool" where
  "event_valid e \<longleftrightarrow> ev_FieldErrors e = [] \<and> trim_space (ev_ID e) \<noteq> [] \<and>
     trim_space (ev_Source e) \<noteq> [] \<and> trim_space (ev_Type e) \<noteq> []"

section \<open>The event builder\<close>

record event_builder =
  eb_source :: string
  eb_clusterName :: string
  eb_originalSource :: string
  eb_resourceID :: string
  eb_sequenceID :: string
  eb_resourceVersion :: "int option"
  eb_eventType :: cloud_events_type
  eb_deletionTimestamp :: int

definition NewEventBuilder :: "string \<Rightarrow> cloud_events_type \<Rightarrow> event_builder" where
  "NewEventBuilder source eventType = \<lparr>eb_source = source, eb_clusterName = [], eb_originalSource = [],
     eb_resourceID = [], eb_sequenceID = [], eb_resourceVersion = None, eb_eventType = eventType,
     eb_deletionTimestamp = 0\<rparr>"

definition WithResourceID :: "string \<Rightarrow> event_builder \<Rightarrow> event_builder" where
  "WithResourceID resourceID b = b\<lparr>eb_resourceID := resourceID\<rparr>"

definition WithResourceVersion :: "int \<Rightarrow> event_builder \<Rightarrow> event_builder" where
  "WithResourceVersion resourceVersion b = b\<lparr>eb_resourceVersion := Some resourceVersion\<rparr>"

definition WithStatusUpdateSequenceID :: "string \<Rightarrow> event_builder \<Rightarrow> event_builder" where
  "WithStatusUpdateSequenceID sequenceID b = b\<lparr>eb_sequenceID := sequenceID\<rparr>"

definition WithClusterName :: "string \<Rightarrow> event_builder \<Rightarrow> event_builder" where
  "WithClusterName clusterName b = b\<lparr>eb_clusterName := clusterName\<rparr>"

definition WithOriginalSource :: "string \<Rightarrow> event_builder \<Rightarrow> event_builder" where
  "WithOriginalSource originalSource b = b\<lparr>eb_originalSource := originalSource\<rparr>"

definition WithDeletionTimestamp :: "int \<Rightarrow> event_builder \<Rightarrow> event_builder" where
  "WithDeletionTimestamp timestamp b = b\<lparr>eb_deletionTimestamp := timestamp\<rparr>"

definition set_nonempty :: "string \<Rightarrow> string \<Rightarrow> ce_event \<Rightarrow> ce_event" where
  "set_nonempty name s e = (if length s \<noteq> 0 then SetExtension name (GoString s) e else e)"

text \<open>\<open>uuid\<close> and \<open>now\<close> are what \<open>uuid.New().String()\<close> and \<open>time.Now()\<close> return.\<close>

definition NewEvent :: "url_parser \<Rightarrow> string \<Rightarrow> int \<Rightarrow> event_builder \<Rightarrow> ce_event" where
  "NewEvent url uuid now b =
     (let evt = SetSource url (eb_source b) (SetTime now
                  (SetType (event_type_string (eb_eventType b)) (SetID uuid new_event)));
          evt = set_nonempty ExtensionResourceID (eb_resourceID b) evt;
          evt = (case eb_resourceVersion b of
                   None \<Rightarrow> evt | Some v \<Rightarrow> SetExtension ExtensionResourceVersion (GoInt64 v) evt);
          evt = set_nonempty ExtensionStatusUpdateSequenceID (eb_sequenceID b) evt;
          evt = set_nonempty ExtensionClusterName (eb_clusterName b) evt;
          evt = set_nonempty ExtensionOriginalSource (eb_originalSource b) evt
      in if eb_deletionTimestamp b \<noteq> 0
         then SetExtension ExtensionDeletionTimestamp (GoTime (eb_deletionTimestamp b)) evt
         else evt)"

section \<open>What the builder makes\<close>

lemma extension_names_lower [simp]:
  "map ascii_lower ExtensionResourceID = ExtensionResourceID"
  "map ascii_lower ExtensionResourceVersion = ExtensionResourceVersion"
  "map ascii_lower ExtensionStatusUpdateSequenceID = ExtensionStatusUpdateSequenceID"
  "map ascii_lower ExtensionDeletionTimestamp = ExtensionDeletionTimestamp"
  "map ascii_lower ExtensionClusterName = ExtensionClusterName"
  "map ascii_lower ExtensionOriginalSource = ExtensionOriginalSource"
  "map ascii_lower ExtensionResourceMeta = ExtensionResourceMeta"
  by (simp_all add: extension_names ascii_lower_def)

lemma extension_names_valid [simp]:
  "valid_extension_name ExtensionResourceID" "valid_extension_name ExtensionResourceVersion"
  "valid_extension_name ExtensionStatusUpdateSequenceID" "valid_extension_name ExtensionDeletionTimestamp"
  "valid_extension_name ExtensionClusterName" "valid_extension_name ExtensionOriginalSource"
  "valid_extension_name ExtensionResourceMeta"
  "ExtensionResourceID \<notin> set spec_attributes" "ExtensionResourceVersion \<notin> set spec_attributes"
  "ExtensionStatusUpdateSequenceID \<notin> set spec_attributes" "ExtensionDeletionTimestamp \<notin> set spec_attributes"
  "ExtensionClusterName \<notin> set spec_attributes" "ExtensionOriginalSource \<notin> set spec_attributes"
  "ExtensionResourceMeta \<notin> set spec_attributes"
  by (simp_all add: extension_names valid_extension_name_def spec_attributes_def ascii_lower_def)

definition in_int32 :: "int \<Rightarrow> bool" where
  "in_int32 v \<longleftrightarrow> - 2147483648 \<le> v \<and> v \<le> 2147483647"

definition builder_extensions :: "event_builder \<Rightarrow> (string, ce_value) gomap" where
  "builder_extensions b =
     (if eb_resourceID b = [] then [] else [(ExtensionResourceID, CeString (eb_resourceID b))]) @
     (case eb_resourceVersion b of
        Some v \<Rightarrow> if in_int32 v then [(ExtensionResourceVersion, CeInteger v)] else []
      | None \<Rightarrow> []) @
     (if eb_sequenceID b = [] then [] else [(ExtensionStatusUpdateSequenceID, CeString (eb_sequenceID b))]) @
     (if eb_clusterName b = [] then [] else [(ExtensionClusterName, CeString (eb_clusterName b))]) @
     (if eb_originalSource b = [] then [] else [(ExtensionOriginalSource, CeString (eb_originalSource b))]) @
     (if eb_deletionTimestamp b = 0 then [] else [(ExtensionDeletionTimestamp, CeTimestamp (eb_deletionTimestamp b))])"

lemma SetExtension_string:
  assumes "valid_extension_name n" "map ascii_lower n = n" "n \<notin> set spec_attributes"
  shows "ev_Extensions (SetExtension n (GoString s) e) = AList.update n (CeString s) (ev_Extensions e)"
    and "ev_FieldErrors (SetExtension n (GoString s) e) = filter (\<lambda>g. g \<noteq> ''extension:'' @ n) (ev_FieldErrors e)"
    and "ev_Extensions (SetExtension n (GoTime t) e) = AList.update n (CeTimestamp t) (ev_Extensions e)"
    and "ev_FieldErrors (SetExtension n (GoTime t) e) = filter (\<lambda>g. g \<noteq> ''extension:'' @ n) (ev_FieldErrors e)"
  using assms by (simp_all add: SetExtension_def ce_validate_def field_ok_def)

lemma SetExtension_int:
  assumes "valid_extension_name n" "map ascii_lower n = n" "n \<notin> set spec_attributes"
  shows "in_int32 v \<Longrightarrow> ev_Extensions (SetExtension n (GoInt64 v) e) = AList.update n (CeInteger v) (ev_Extensions e)"
    and "\<not> in_int32 v \<Longrightarrow> ev_Extensions (SetExtension n (GoInt64 v) e) = ev_Extensions e"
    and "ev_FieldErrors (SetExtension n (GoInt64 v) e) =
      (if in_int32 v then filter (\<lambda>g. g \<noteq> ''extension:'' @ n) (ev_FieldErrors e)
       else set_insert (ev_FieldErrors e) (''extension:'' @ n))"
  using assms by (auto simp: SetExtension_def ce_validate_def field_ok_def field_error_def in_int32_def)

lemma set_extension_frame [simp]:
  "ev_ID (SetExtension n v e) = ev_ID e" "ev_Type (SetExtension n v e) = ev_Type e"
  "ev_Source (SetExtension n v e) = ev_Source e" "ev_Data (SetExtension n v e) = ev_Data e"
  "ev_Time (SetExtension n v e) = ev_Time e"
  "ev_DataContentType (SetExtension n v e) = ev_DataContentType e"
  by (auto simp: SetExtension_def field_ok_def field_error_def Let_def split: sum.splits)

lemma set_nonempty_frame [simp]:
  "ev_ID (set_nonempty n s e) = ev_ID e" "ev_Type (set_nonempty n s e) = ev_Type e"
  "ev_Source (set_nonempty n s e) = ev_Source e" "ev_Data (set_nonempty n s e) = ev_Data e"
  "ev_Time (set_nonempty n s e) = ev_Time e"
  "ev_DataContentType (set_nonempty n s e) = ev_DataContentType e"
  by (auto simp: set_nonempty_def)

lemma base_setters [simp]:
  "ev_Extensions (SetID i e) = ev_Extensions e" "ev_Extensions (SetType t e) = ev_Extensions e"
  "ev_Extensions (SetTime n e) = ev_Extensions e" "ev_Extensions (SetSource url s e) = ev_Extensions e"
  "ev_Type (SetID i e) = ev_Type e" "ev_Type (SetType t e) = trim_space t"
  "ev_Type (SetTime n e) = ev_Type e" "ev_Type (SetSource url s e) = ev_Type e"
  "ev_Data (SetID i e) = ev_Data e" "ev_Data (SetType t e) = ev_Data e"
  "ev_Data (SetTime n e) = ev_Data e" "ev_Data (SetSource url s e) = ev_Data e"
  "ev_Source (SetID i e) = ev_Source e" "ev_Source (SetType t e) = ev_Source e"
  "ev_Source (SetTime n e) = ev_Source e"
  "ev_ID (SetType t e) = ev_ID e" "ev_ID (SetTime n e) = ev_ID e" "ev_ID (SetSource url s e) = ev_ID e"
  by (auto simp: SetID_def SetType_def SetTime_def SetSource_def field_ok_def field_error_def split: option.splits)

lemma extension_names_differ [simp]:
  "ExtensionResourceID \<noteq> ExtensionResourceVersion" "ExtensionResourceVersion \<noteq> ExtensionResourceID"
  "ExtensionResourceID \<noteq> ExtensionStatusUpdateSequenceID" "ExtensionStatusUpdateSequenceID \<noteq> ExtensionResourceID"
  "ExtensionResourceID \<noteq> ExtensionDeletionTimestamp" "ExtensionDeletionTimestamp \<noteq> ExtensionResourceID"
  "ExtensionResourceID \<noteq> ExtensionClusterName" "ExtensionClusterName \<noteq> ExtensionResourceID"
  "ExtensionResourceID \<noteq> ExtensionOriginalSource" "ExtensionOriginalSource \<noteq> ExtensionResourceID"
  "ExtensionResourceVersion \<noteq> ExtensionStatusUpdateSequenceID" "ExtensionStatusUpdateSequenceID \<noteq> ExtensionResourceVersion"
  "ExtensionResourceVersion \<noteq> ExtensionDeletionTimestamp" "ExtensionDeletionTimestamp \<noteq> ExtensionResourceVersion"
  "ExtensionResourceVersion \<noteq> ExtensionClusterName" "ExtensionClusterName \<noteq> ExtensionResourceVersion"
  "ExtensionResourceVersion \<noteq> ExtensionOriginalSource" "ExtensionOriginalSource \<noteq> ExtensionResourceVersion"
  "ExtensionStatusUpdateSequenceID \<noteq> ExtensionDeletionTimestamp" "ExtensionDeletionTimestamp \<noteq> ExtensionStatusUpdateSequenceID"
  "ExtensionStatusUpdateSequenceID \<noteq> ExtensionClusterName" "ExtensionClusterName \<noteq> ExtensionStatusUpdateSequenceID"
  "ExtensionStatusUpdateSequenceID \<noteq> ExtensionOriginalSource" "ExtensionOriginalSource \<noteq> ExtensionStatusUpdateSequenceID"
  "ExtensionDeletionTimestamp \<noteq> ExtensionClusterName" "ExtensionClusterName \<noteq> ExtensionDeletionTimestamp"
  "ExtensionDeletionTimestamp \<noteq> ExtensionOriginalSource" "ExtensionOriginalSource \<noteq> ExtensionDeletionTimestamp"
  "ExtensionClusterName \<noteq> ExtensionOriginalSource" "ExtensionOriginalSource \<noteq> ExtensionClusterName"
  by (simp_all add: extension_names)

lemma update_absent: "map_of m k = None \<Longrightarrow> AList.update k v m = m @ [(k, v)]"
  by (induction m) (auto split: if_splits)

lemma NewEvent_extensions: "ev_Extensions (NewEvent url uuid now b) = builder_extensions b"
  by (cases "eb_resourceVersion b")
     (auto simp: NewEvent_def builder_extensions_def Let_def set_nonempty_def SetExtension_string SetExtension_int
        new_event_def in_int32_def)

lemma NewEvent_frame [simp]:
  "ev_Type (NewEvent url uuid now b) = trim_space (event_type_string (eb_eventType b))"
  "ev_Data (NewEvent url uuid now b) = NoData"
  by (auto simp: NewEvent_def Let_def new_event_def split: option.splits)

lemma NewEvent_source:
  "ev_Source (NewEvent url uuid now b) = (case url (eb_source b) of Some u \<Rightarrow> u | None \<Rightarrow> [])"
  by (auto simp: NewEvent_def Let_def SetSource_def field_ok_def field_error_def new_event_def SetTime_def SetType_def SetID_def
      split: option.splits)

lemma NewEvent_ID: "ev_ID (NewEvent url uuid now b) = trim_space uuid"
  by (auto simp: NewEvent_def Let_def SetID_def field_ok_def field_error_def new_event_def split: option.splits)

definition plain_names :: "(string \<times> 'a) list \<Rightarrow> bool" where
  "plain_names m \<longleftrightarrow> (\<forall>(k, v) \<in> set m. fold_name (map ascii_lower k) = k)"

lemma extension_names_plain [simp]:
  "fold_name ExtensionResourceID = ExtensionResourceID"
  "fold_name ExtensionResourceVersion = ExtensionResourceVersion"
  "fold_name ExtensionStatusUpdateSequenceID = ExtensionStatusUpdateSequenceID"
  "fold_name ExtensionDeletionTimestamp = ExtensionDeletionTimestamp"
  "fold_name ExtensionClusterName = ExtensionClusterName"
  "fold_name ExtensionOriginalSource = ExtensionOriginalSource"
  "fold_name ExtensionResourceMeta = ExtensionResourceMeta"
  by (simp_all add: extension_names ascii_lower_def)

lemma find_plain:
  "plain_names m \<Longrightarrow> find (\<lambda>(k, v). fold_name (map ascii_lower k) = x) m = map_option (Pair x) (map_of m x)"
  by (induction m) (auto simp: plain_names_def)

lemma GetExtension_plain:
  assumes "plain_names (ev_Extensions e)" "fold_name (map ascii_lower key) = key"
  shows "GetExtension e key = (case map_of (ev_Extensions e) key of
    Some v \<Rightarrow> Inr v | None \<Rightarrow> Inl (Errorf ''extension not found''))"
  by (auto simp: GetExtension_def assms find_plain split: option.split)

lemma builder_extensions_plain [simp]: "plain_names (builder_extensions b)"
  by (auto simp: plain_names_def builder_extensions_def split: if_splits option.splits)

lemma map_of_builder_extensions [simp]:
  "map_of (builder_extensions b) ExtensionResourceID =
     (if eb_resourceID b = [] then None else Some (CeString (eb_resourceID b)))"
  "map_of (builder_extensions b) ExtensionClusterName =
     (if eb_clusterName b = [] then None else Some (CeString (eb_clusterName b)))"
  "map_of (builder_extensions b) ExtensionOriginalSource =
     (if eb_originalSource b = [] then None else Some (CeString (eb_originalSource b)))"
  "map_of (builder_extensions b) ExtensionStatusUpdateSequenceID =
     (if eb_sequenceID b = [] then None else Some (CeString (eb_sequenceID b)))"
  "map_of (builder_extensions b) ExtensionDeletionTimestamp =
     (if eb_deletionTimestamp b = 0 then None else Some (CeTimestamp (eb_deletionTimestamp b)))"
  "map_of (builder_extensions b) ExtensionResourceVersion =
     (case eb_resourceVersion b of Some v \<Rightarrow> if in_int32 v then Some (CeInteger v) else None | None \<Rightarrow> None)"
  by (simp_all add: builder_extensions_def map_add_def split: option.split)

lemma NewEvent_GetExtension:
  assumes "fold_name (map ascii_lower key) = key"
  shows "GetExtension (NewEvent url uuid now b) key = (case map_of (builder_extensions b) key of
    Some v \<Rightarrow> Inr v | None \<Rightarrow> Inl (Errorf ''extension not found''))"
  using assms by (simp add: GetExtension_plain NewEvent_extensions)

lemma set_nonempty_errors:
  assumes "valid_extension_name n" "map ascii_lower n = n" "n \<notin> set spec_attributes"
    and "''extension:'' @ n \<notin> set (ev_FieldErrors e)"
  shows "ev_FieldErrors (set_nonempty n s e) = ev_FieldErrors e"
    and "ev_FieldErrors (SetExtension n (GoTime t) e) = ev_FieldErrors e"
proof -
  have "filter (\<lambda>g. g \<noteq> ''extension:'' @ n) (ev_FieldErrors e) = ev_FieldErrors e"
    using assms(4) by (simp add: filter_id_conv) metis
  then show "ev_FieldErrors (set_nonempty n s e) = ev_FieldErrors e"
    "ev_FieldErrors (SetExtension n (GoTime t) e) = ev_FieldErrors e"
    using SetExtension_string [OF assms(1-3)] by (simp_all add: set_nonempty_def)
qed

lemma NewEvent_field_errors:
  "ev_FieldErrors (NewEvent url uuid now b) = [] \<longleftrightarrow>
     trim_space uuid \<noteq> [] \<and> url (eb_source b) \<noteq> None \<and>
     (\<forall>v. eb_resourceVersion b = Some v \<longrightarrow> in_int32 v)"
proof -
  define e0 where "e0 = SetSource url (eb_source b) (SetTime now
      (SetType (event_type_string (eb_eventType b)) (SetID uuid new_event)))"
  have e0: "set (ev_FieldErrors e0) =
      (if trim_space uuid = [] then {''id''} else {}) \<union> (if url (eb_source b) = None then {''source''} else {})"
    by (auto simp: e0_def SetSource_def SetTime_def SetType_def SetID_def field_ok_def field_error_def new_event_def
        split: option.splits)
  then have n0: "''extension:'' @ n \<notin> set (ev_FieldErrors e0)" for n by (auto split: if_splits)
  define e1 where "e1 = set_nonempty ExtensionResourceID (eb_resourceID b) e0"
  have e1: "ev_FieldErrors e1 = ev_FieldErrors e0"
    unfolding e1_def by (rule set_nonempty_errors) (simp_all only: extension_names_valid extension_names_lower n0 not_False_eq_True)
  define e2 where "e2 = (case eb_resourceVersion b of
      None \<Rightarrow> e1 | Some v \<Rightarrow> SetExtension ExtensionResourceVersion (GoInt64 v) e1)"
  have e2: "set (ev_FieldErrors e2) = set (ev_FieldErrors e0) \<union>
      (case eb_resourceVersion b of
         Some v \<Rightarrow> if in_int32 v then {} else {''extension:'' @ ExtensionResourceVersion} | None \<Rightarrow> {})"
    using n0 [of ExtensionResourceVersion]
    by (auto simp: e2_def e1 SetExtension_int split: option.split simp del: append_Cons)
  have n2: "''extension:'' @ n \<notin> set (ev_FieldErrors e2)" if "n \<noteq> ExtensionResourceVersion" for n
    unfolding e2 using n0 that by (auto split: option.splits if_splits simp del: append_Cons)
  define e3 where "e3 = set_nonempty ExtensionStatusUpdateSequenceID (eb_sequenceID b) e2"
  define e4 where "e4 = set_nonempty ExtensionClusterName (eb_clusterName b) e3"
  define e5 where "e5 = set_nonempty ExtensionOriginalSource (eb_originalSource b) e4"
  have e3: "ev_FieldErrors e3 = ev_FieldErrors e2"
    unfolding e3_def by (rule set_nonempty_errors, simp, simp, simp, rule n2, simp)
  have e4: "ev_FieldErrors e4 = ev_FieldErrors e2"
    unfolding e4_def e3 [symmetric] by (rule set_nonempty_errors, simp, simp, simp, unfold e3, rule n2, simp)
  have e5: "ev_FieldErrors e5 = ev_FieldErrors e2"
    unfolding e5_def e4 [symmetric] by (rule set_nonempty_errors, simp, simp, simp, unfold e4, rule n2, simp)
  have e6: "ev_FieldErrors (SetExtension ExtensionDeletionTimestamp (GoTime t) e5) = ev_FieldErrors e2" for t
    unfolding e5 [symmetric] by (rule set_nonempty_errors(2), simp, simp, simp, unfold e5, rule n2, simp)
  have "ev_FieldErrors (NewEvent url uuid now b) = ev_FieldErrors e2"
    unfolding NewEvent_def Let_def e0_def [symmetric] e1_def [symmetric] e2_def [symmetric]
      e3_def [symmetric] e4_def [symmetric] e5_def [symmetric] by (simp add: e5 e6)
  moreover have "ev_FieldErrors e2 = [] \<longleftrightarrow> set (ev_FieldErrors e2) = {}" by simp
  ultimately show ?thesis
    unfolding e2 e0 by (auto split: option.splits if_splits)
qed

lemma trim_space_nonempty_iff: "trim_space s \<noteq> [] \<longleftrightarrow> (\<exists>c \<in> set s. \<not> is_space c)"
proof -
  have "dropWhile is_space (rev t) \<noteq> [] \<longleftrightarrow> (\<exists>c \<in> set t. \<not> is_space c)" for t
    by (auto simp: dropWhile_eq_Nil_conv)
  moreover have "(\<exists>c \<in> set (dropWhile is_space s). \<not> is_space c) \<longleftrightarrow> (\<exists>c \<in> set s. \<not> is_space c)"
    by (induction s) auto
  ultimately show ?thesis by (simp add: trim_space_def)
qed

lemma trim_space_idem_nonempty: "trim_space (trim_space s) \<noteq> [] \<longleftrightarrow> trim_space s \<noteq> []"
proof -
  have drop: "(\<exists>c \<in> set (dropWhile is_space t). \<not> is_space c) \<longleftrightarrow> (\<exists>c \<in> set t. \<not> is_space c)" for t
    by (induction t) auto
  have "(\<exists>c \<in> set (trim_space s). \<not> is_space c) \<longleftrightarrow> (\<exists>c \<in> set s. \<not> is_space c)"
    unfolding trim_space_def set_rev drop ..
  then show ?thesis by (simp only: trim_space_nonempty_iff)
qed

lemma trim_space_id: "list_all (\<lambda>c. \<not> is_space c) s \<Longrightarrow> trim_space s = s"
proof -
  assume "list_all (\<lambda>c. \<not> is_space c) s"
  then have "\<And>c. c \<in> set s \<Longrightarrow> \<not> is_space c" by (simp add: list_all_iff)
  then have "dropWhile is_space s = s" "dropWhile is_space (rev s) = rev s"
    unfolding dropWhile_eq_self_iff by (metis hd_in_set set_rev rev.simps(1) rev_rev_ident)+
  then show ?thesis by (simp add: trim_space_def)
qed

text \<open>
  C32. The event builder, on every input whose type has no blanks: the type of the event parses back
  to the type given; the extensions are exactly those that were given, each under its name and with
  its value; the event carries no data; and the SDK accepts it for sending if and only if the
  identifier and the source are usable and the resource version, when given, fits into 32 bits.
\<close>

theorem event_builder_faithful:
  assumes "wf_event_type (eb_eventType b)" "list_all (\<lambda>c. \<not> is_space c) (event_type_string (eb_eventType b))"
  shows "ParseCloudEventsType (ev_Type (NewEvent url uuid now b)) = Inr (eb_eventType b) \<and>
    ev_Extensions (NewEvent url uuid now b) = builder_extensions b \<and>
    ev_Data (NewEvent url uuid now b) = NoData \<and>
    (event_valid (NewEvent url uuid now b) \<longleftrightarrow>
       trim_space uuid \<noteq> [] \<and> (\<exists>u. url (eb_source b) = Some u \<and> trim_space u \<noteq> []) \<and>
       (\<forall>v. eb_resourceVersion b = Some v \<longrightarrow> in_int32 v))"
proof -
  have id: "ev_ID (NewEvent url uuid now b) = trim_space uuid"
    by (auto simp: NewEvent_def Let_def SetID_def field_ok_def field_error_def new_event_def split: option.splits)
  have ty: "trim_space (event_type_string (eb_eventType b)) = event_type_string (eb_eventType b)"
    by (rule trim_space_id [OF assms(2)])
  have "event_type_string (eb_eventType b) \<noteq> []" by (simp add: event_type_string_def)
  then have "event_valid (NewEvent url uuid now b) \<longleftrightarrow>
       trim_space uuid \<noteq> [] \<and> (\<exists>u. url (eb_source b) = Some u \<and> trim_space u \<noteq> []) \<and>
       (\<forall>v. eb_resourceVersion b = Some v \<longrightarrow> in_int32 v)"
    unfolding event_valid_def NewEvent_field_errors id trim_space_idem_nonempty NewEvent_source NewEvent_frame ty
    by auto
  then show ?thesis
    using parse_event_type_string [OF assms(1)] by (simp add: ty NewEvent_extensions)
qed

definition manifests_type :: cloud_events_data_type where
  "manifests_type = \<lparr>dt_Group = ''io.open-cluster-management.works'', dt_Version = ''v1alpha1'',
     dt_Resource = ''manifests''\<rparr>"

definition large_version_builder :: event_builder where
  "large_version_builder = WithResourceVersion 3000000000 (WithResourceID ''r1''
     (NewEventBuilder ''hub1'' \<lparr>et_DataType = manifests_type, et_SubResource = SubResourceSpec,
        et_Action = ''create_request''\<rparr>))"

text \<open>In particular an event with a resource version beyond 32 bits is never sent.\<close>

theorem event_builder_faithful_witness:
  "ParseCloudEventsType (ev_Type (NewEvent Some ''id'' 1 large_version_builder)) = Inr (eb_eventType large_version_builder) \<and>
   \<not> event_valid (NewEvent Some ''id'' 1 large_version_builder)"
proof -
  have wf: "wf_event_type (eb_eventType large_version_builder)"
    "list_all (\<lambda>c. \<not> is_space c) (event_type_string (eb_eventType large_version_builder))"
    by code_simp+
  have "eb_resourceVersion large_version_builder = Some 3000000000"
    by (simp add: large_version_builder_def WithResourceVersion_def)
  moreover have "\<not> in_int32 3000000000" by (simp add: in_int32_def)
  ultimately show ?thesis
    using event_builder_faithful [OF wf, of Some "''id''" 1] by simp
qed

end
