(* ===== verification/Base_Client.thy ===== *)
theory Base_Client
  imports Cloud_Events Go_Numbers
begin

text \<open>
  \<^verbatim>\<open>pkg/cloudevents/generic/baseclient.go\<close> (\<open>publish\<close>), \<^verbatim>\<open>ratelimiter.go\<close> and the
  interfaces of \<^verbatim>\<open>interface.go\<close> and \<^verbatim>\<open>options/options.go\<close>. The protocol behind
  \<open>CloudEventsOptions\<close> and the rate limiter are interfaces; they are functions of the model, told
  apart from call to call by the number of events published so far. A context is the topic it
  carries. The connection's goroutines are in the theory Connection.
\<close>

section \<open>Rate limits\<close>

record event_rate_limit =
  erl_QPS :: float64
  erl_Burst :: int

definition DefaultQPS :: float64 where
  "DefaultQPS = FFin 50 0"

definition DefaultBurst :: int where
  "DefaultBurst = 100"

definition float_le_zero :: "float64 \<Rightarrow> bool" where
  "float_le_zero f = (case f of FNaN \<Rightarrow> False | FInf neg \<Rightarrow> neg | FFin m e \<Rightarrow> m \<le> 0)"

text \<open>The rate and the burst of the token bucket that is made.\<close>

definition NewRateLimiter :: "event_rate_limit \<Rightarrow> float64 \<times> int" where
  "NewRateLimiter limit =
     (let qps = (if float_le_zero (erl_QPS limit) then DefaultQPS else erl_QPS limit);
          burst = (if erl_Burst limit \<le> 0 then DefaultBurst else erl_Burst limit)
      in (qps, burst))"

section \<open>Interfaces\<close>

record 'o resource_object =
  GetUID :: "'o \<Rightarrow> string"
  GetResourceVersion :: "'o \<Rightarrow> string"
  GetDeletionTimestamp :: "'o \<Rightarrow> int"

type_synonym 'o lister = "list_options \<Rightarrow> 'o list result"
type_synonym 'o status_hash_getter = "'o \<Rightarrow> string result"

record 'o codec =
  cd_EventDataType :: cloud_events_data_type
  cd_Encode :: "string \<Rightarrow> cloud_events_type \<Rightarrow> 'o \<Rightarrow> ce_event result"
  cd_Decode :: "ce_event \<Rightarrow> 'o result"

type_synonym 'o codecs = "(cloud_events_data_type, 'o codec) gomap"

text \<open>The map that the constructors build: a later codec of a type replaces an earlier one.\<close>

definition register_codecs :: "'o codec list \<Rightarrow> 'o codecs" where
  "register_codecs cs = foldl (\<lambda>m c. AList.update (cd_EventDataType c) c m) [] cs"

record cloud_events_options =
  ceo_WithContext :: "ce_event \<Rightarrow> string result"
  ceo_Client :: "(nat \<Rightarrow> string \<Rightarrow> ce_event \<Rightarrow> error option) result"

record cloud_events_source_options =
  cso_CloudEventsOptions :: cloud_events_options
  cso_SourceID :: string
  cso_EventRateLimit :: event_rate_limit

record cloud_events_agent_options =
  cao_CloudEventsOptions :: cloud_events_options
  cao_AgentID :: string
  cao_ClusterName :: string
  cao_EventRateLimit :: event_rate_limit

section \<open>The client\<close>

text \<open>
  \<open>bc_wait\<close> is what waiting for the limiter returns; \<open>bc_client\<close> sends an event to a topic and
  returns the error if it is not delivered; \<open>bc_sent\<close> are the deliveries. \<open>bc_url\<close>,
  \<open>bc_uuid\<close> and \<open>bc_now\<close> are the sources of new events.
\<close>

record base_client =
  bc_wait :: "nat \<Rightarrow> error option"
  bc_WithContext :: "ce_event \<Rightarrow> string result"
  bc_client :: "(nat \<Rightarrow> string \<Rightarrow> ce_event \<Rightarrow> error option) option"
  bc_limiter :: "float64 \<times> int"
  bc_url :: url_parser
  bc_uuid :: "nat \<Rightarrow> string"
  bc_now :: "nat \<Rightarrow> int"
  bc_calls :: nat
  bc_sent :: "(string \<times> ce_event) list"

text \<open>The SDK's client validates an event before it hands it to the protocol.\<close>

definition sdk_send :: "(string \<Rightarrow> ce_event \<Rightarrow> error option) \<Rightarrow> string \<Rightarrow> ce_event \<Rightarrow> error option" where
  "sdk_send send topic evt =
     (if event_valid evt then send topic evt else Some (Errorf ''invalid event''))"

definition publish :: "ce_event \<Rightarrow> base_client \<Rightarrow> error option \<times> base_client" where
  "publish evt c =
     (let c' = c\<lparr>bc_calls := bc_calls c + 1\<rparr> in
      case bc_wait c (bc_calls c) of
        Some e \<Rightarrow> (Some (Wrapf ''client rate limiter Wait returned an error'' e), c')
      | None \<Rightarrow>
          (case bc_WithContext c evt of
             Inl e \<Rightarrow> (Some e, c')
           | Inr topic \<Rightarrow>
               (case bc_client c of
                  None \<Rightarrow> (Some (Errorf ''the cloudevents client is not ready''), c')
                | Some client \<Rightarrow>
                    (case sdk_send (client (bc_calls c)) topic evt of
                       Some e \<Rightarrow> (Some (Errorf ''failed to send event''), c')
                     | None \<Rightarrow> (None, c'\<lparr>bc_sent := bc_sent c @ [(topic, evt)]\<rparr>)))))"

text \<open>A new event of the client.\<close>

definition build :: "event_builder \<Rightarrow> base_client \<Rightarrow> ce_event" where
  "build b c = NewEvent (bc_url c) (bc_uuid c (bc_calls c)) (bc_now c (bc_calls c)) b"

definition sent :: "base_client \<Rightarrow> ce_event list" where
  "sent c = map snd (bc_sent c)"

lemma publish_ok:
  assumes "publish evt c = (None, c')"
  obtains topic where "bc_WithContext c evt = Inr topic" "event_valid evt"
    "c' = c\<lparr>bc_calls := bc_calls c + 1, bc_sent := bc_sent c @ [(topic, evt)]\<rparr>"
  using assms by (fastforce simp: publish_def sdk_send_def Let_def split: option.splits sum.splits if_splits)

lemma publish_error:
  "publish evt c = (Some e, c') \<Longrightarrow> c' = c\<lparr>bc_calls := bc_calls c + 1\<rparr>"
  by (auto simp: publish_def Let_def split: option.splits sum.splits)

lemma publish_sent:
  "sent (snd (publish evt c)) = sent c @ (if fst (publish evt c) = None then [evt] else [])"
  by (auto simp: publish_def sent_def Let_def split: option.splits sum.splits)

text \<open>A client whose environment delivers every valid event.\<close>

definition reliable :: "base_client \<Rightarrow> bool" where
  "reliable c \<longleftrightarrow>
     (\<forall>n. bc_wait c n = None) \<and> (\<forall>e. \<exists>t. bc_WithContext c e = Inr t) \<and>
     (\<exists>client. bc_client c = Some client \<and> (\<forall>n t e. client n t e = None))"

lemma reliable_publish:
  assumes "reliable c" "event_valid evt"
  shows "fst (publish evt c) = None" "reliable (snd (publish evt c))"
proof -
  obtain t where t: "bc_WithContext c evt = Inr t" using assms(1) unfolding reliable_def by blast
  show "fst (publish evt c) = None"
    using assms t by (auto simp: publish_def reliable_def sdk_send_def)
  show "reliable (snd (publish evt c))"
    using assms t by (auto simp: publish_def reliable_def sdk_send_def)
qed

lemma publish_frame [simp]:
  "bc_url (snd (publish evt c)) = bc_url c" "bc_uuid (snd (publish evt c)) = bc_uuid c"
  "bc_now (snd (publish evt c)) = bc_now c" "bc_WithContext (snd (publish evt c)) = bc_WithContext c"
  "bc_client (snd (publish evt c)) = bc_client c" "bc_wait (snd (publish evt c)) = bc_wait c"
  "bc_calls (snd (publish evt c)) = Suc (bc_calls c)"
  by (auto simp: publish_def Let_def split: option.splits sum.splits)

end
