(* ===== verification/Resync_Payload.thy ===== *)
theory Resync_Payload
  imports Cloud_Events
begin

text \<open>
  \<^verbatim>\<open>pkg/cloudevents/generic/payload/payload.go\<close>: the two lists that resync requests carry,
  what \<open>SetData\<close> makes of them, and how they are decoded.
\<close>

record resource_version =
  rv_ResourceID :: string
  rv_ResourceVersion :: int

record resource_status_hash =
  rh_ResourceID :: string
  rh_StatusHash :: string

record resource_version_list =
  rvl_Versions :: "resource_version list"

record resource_status_hash_list =
  rhl_Hashes :: "resource_status_hash list"

section \<open>Encoding\<close>

definition marshal_version :: "resource_version \<Rightarrow> json" where
  "marshal_version v = JObject [(''resourceID'', JString (rv_ResourceID v)), (''resourceVersion'', JInt (rv_ResourceVersion v))]"

definition marshal_versions :: "resource_version_list \<Rightarrow> json" where
  "marshal_versions l = JObject [(''resourceVersions'', JArray (map marshal_version (rvl_Versions l)))]"

definition marshal_hash :: "resource_status_hash \<Rightarrow> json" where
  "marshal_hash h = JObject [(''resourceID'', JString (rh_ResourceID h)), (''statusHash'', JString (rh_StatusHash h))]"

definition marshal_hashes :: "resource_status_hash_list \<Rightarrow> json" where
  "marshal_hashes l = JObject [(''statusHashes'', JArray (map marshal_hash (rhl_Hashes l)))]"

section \<open>Decoding\<close>

definition unmarshal_version :: "json \<Rightarrow> resource_version result" where
  "unmarshal_version = unmarshal_struct
     (\<lambda>(k, j) v.
        if same_field ''resourceID'' k then
          map_sum id (\<lambda>s. v\<lparr>rv_ResourceID := s\<rparr>) (unmarshal_string (rv_ResourceID v) j)
        else if same_field ''resourceVersion'' k then
          map_sum id (\<lambda>i. v\<lparr>rv_ResourceVersion := i\<rparr>) (unmarshal_int64 (rv_ResourceVersion v) j)
        else Inr v)
     \<lparr>rv_ResourceID = [], rv_ResourceVersion = 0\<rparr>"

definition unmarshal_versions :: "json \<Rightarrow> resource_version_list result" where
  "unmarshal_versions = unmarshal_struct
     (\<lambda>(k, j) l.
        if same_field ''resourceVersions'' k then
          map_sum id (\<lambda>vs. l\<lparr>rvl_Versions := vs\<rparr>) (unmarshal_slice unmarshal_version j)
        else Inr l)
     \<lparr>rvl_Versions = []\<rparr>"

definition unmarshal_hash :: "json \<Rightarrow> resource_status_hash result" where
  "unmarshal_hash = unmarshal_struct
     (\<lambda>(k, j) h.
        if same_field ''resourceID'' k then
          map_sum id (\<lambda>s. h\<lparr>rh_ResourceID := s\<rparr>) (unmarshal_string (rh_ResourceID h) j)
        else if same_field ''statusHash'' k then
          map_sum id (\<lambda>s. h\<lparr>rh_StatusHash := s\<rparr>) (unmarshal_string (rh_StatusHash h) j)
        else Inr h)
     \<lparr>rh_ResourceID = [], rh_StatusHash = []\<rparr>"

definition unmarshal_hashes :: "json \<Rightarrow> resource_status_hash_list result" where
  "unmarshal_hashes = unmarshal_struct
     (\<lambda>(k, j) l.
        if same_field ''statusHashes'' k then
          map_sum id (\<lambda>hs. l\<lparr>rhl_Hashes := hs\<rparr>) (unmarshal_slice unmarshal_hash j)
        else Inr l)
     \<lparr>rhl_Hashes = []\<rparr>"

text \<open>Empty data and bytes that are no JSON are errors of \<open>json.Unmarshal\<close>.\<close>

definition DecodeSpecResyncRequest :: "ce_event \<Rightarrow> resource_version_list result" where
  "DecodeSpecResyncRequest evt =
     (case ev_Data evt of
        JsonData j \<Rightarrow>
          (case unmarshal_versions j of
             Inl e \<Rightarrow> Inl (Errorf ''failed to unmarshal spec resync request payload'')
           | Inr l \<Rightarrow> Inr l)
      | _ \<Rightarrow> Inl (Errorf ''failed to unmarshal spec resync request payload''))"

definition DecodeStatusResyncRequest :: "ce_event \<Rightarrow> resource_status_hash_list result" where
  "DecodeStatusResyncRequest evt =
     (case ev_Data evt of
        JsonData j \<Rightarrow>
          (case unmarshal_hashes j of
             Inl e \<Rightarrow> Inl (Errorf ''failed to unmarshal status resync request payload'')
           | Inr l \<Rightarrow> Inr l)
      | _ \<Rightarrow> Inl (Errorf ''failed to unmarshal status resync request payload''))"

section \<open>Round trips\<close>

lemma field_names_differ [simp]:
  "\<not> same_field ''resourceID'' ''resourceVersion''" "\<not> same_field ''resourceID'' ''statusHash''"
  by (simp_all add: same_field_def ascii_lower_def)

lemma unmarshal_marshal_version:
  "min_int64 \<le> rv_ResourceVersion v \<Longrightarrow> rv_ResourceVersion v \<le> max_int64 \<Longrightarrow>
   unmarshal_version (marshal_version v) = Inr v"
  by (simp add: unmarshal_version_def marshal_version_def)

lemma unmarshal_marshal_hash: "unmarshal_hash (marshal_hash h) = Inr h"
  by (simp add: unmarshal_hash_def marshal_hash_def)

lemma decode_versions:
  assumes "\<forall>v \<in> set vs. min_int64 \<le> rv_ResourceVersion v \<and> rv_ResourceVersion v \<le> max_int64"
    and "ev_Data e = JsonData (marshal_versions \<lparr>rvl_Versions = vs\<rparr>)"
  shows "DecodeSpecResyncRequest e = Inr \<lparr>rvl_Versions = vs\<rparr>"
proof -
  have "map_result unmarshal_version (map marshal_version vs) = Inr vs"
    unfolding map_result_Inr_iff list_all2_map1
    using assms(1) by (auto simp: list_all2_same unmarshal_marshal_version)
  then show ?thesis
    by (simp add: DecodeSpecResyncRequest_def assms(2) unmarshal_versions_def marshal_versions_def)
qed

lemma decode_hashes:
  assumes "ev_Data e = JsonData (marshal_hashes \<lparr>rhl_Hashes = hs\<rparr>)"
  shows "DecodeStatusResyncRequest e = Inr \<lparr>rhl_Hashes = hs\<rparr>"
proof -
  have "map_result unmarshal_hash (map marshal_hash hs) = Inr hs"
    unfolding map_result_Inr_iff list_all2_map1
    by (auto simp: list_all2_same unmarshal_marshal_hash)
  then show ?thesis
    by (simp add: DecodeStatusResyncRequest_def assms unmarshal_hashes_def marshal_hashes_def)
qed

end
