(* ===== verification/Agent_Client.thy ===== *)
theory Agent_Client
  imports Base_Client Resync_Payload
begin

text \<open>
  \<^verbatim>\<open>pkg/cloudevents/generic/agentclient.go\<close>: the client of an agent. \<open>receive\<close> returns what
  becomes of an event: it is dropped (with the reason that is logged), answered (with the error of
  the answer, if any), or passed with an action to every handler in turn.
\<close>

record 'o agent_client =
  ac_base :: base_client
  ac_ops :: "'o resource_object"
  ac_lister :: "'o lister"
  ac_codecs :: "'o codecs"
  ac_statusHashGetter :: "'o status_hash_getter"
  ac_agentID :: string
  ac_clusterName :: string

datatype 'o received =
    Dropped string
  | Answered "error option"
  | Handle string 'o

text \<open>The base client before it is connected, with the environment it runs in.\<close>

definition connect :: "cloud_events_options \<Rightarrow> base_client \<Rightarrow> base_client result" where
  "connect opts c =
     (case ceo_Client opts of
        Inl e \<Rightarrow> Inl e
      | Inr client \<Rightarrow> Inr (c\<lparr>bc_client := Some client\<rparr>))"

definition NewCloudEventAgentClient ::
  "base_client \<Rightarrow> cloud_events_agent_options \<Rightarrow> 'o resource_object \<Rightarrow> 'o lister \<Rightarrow> 'o status_hash_getter \<Rightarrow>
   'o codec list \<Rightarrow> 'o agent_client result" where
  "NewCloudEventAgentClient env agentOptions ops lister statusHashGetter codecs =
     (let base = env\<lparr>bc_WithContext := ceo_WithContext (cao_CloudEventsOptions agentOptions),
                     bc_limiter := NewRateLimiter (cao_EventRateLimit agentOptions)\<rparr>
      in case connect (cao_CloudEventsOptions agentOptions) base of
           Inl e \<Rightarrow> Inl e
         | Inr base' \<Rightarrow>
             Inr \<lparr>ac_base = base', ac_ops = ops, ac_lister = lister, ac_codecs = register_codecs codecs,
                  ac_statusHashGetter = statusHashGetter, ac_agentID = cao_AgentID agentOptions,
                  ac_clusterName = cao_ClusterName agentOptions\<rparr>)"

definition agent_publish :: "ce_event \<Rightarrow> 'o agent_client \<Rightarrow> error option \<times> 'o agent_client" where
  "agent_publish evt c = (let (r, b) = publish evt (ac_base c) in (r, c\<lparr>ac_base := b\<rparr>))"

definition object_version :: "'o resource_object \<Rightarrow> 'o \<Rightarrow> resource_version result" where
  "object_version ops obj =
     (case parse_int (GetResourceVersion ops obj) of
        Inl e \<Rightarrow> Inl e
      | Inr v \<Rightarrow> Inr \<lparr>rv_ResourceID = GetUID ops obj, rv_ResourceVersion = v\<rparr>)"

definition spec_resync_type :: "cloud_events_data_type \<Rightarrow> cloud_events_type" where
  "spec_resync_type t = \<lparr>et_DataType = t, et_SubResource = SubResourceSpec, et_Action = ResyncRequestAction\<rparr>"

definition agent_Resync :: "list_options \<Rightarrow> 'o agent_client \<Rightarrow> error option \<times> 'o agent_client" where
  "agent_Resync listOptions c =
     (case ac_lister c listOptions of
        Inl e \<Rightarrow> (Some e, c)
      | Inr objs \<Rightarrow>
          (case map_result (object_version (ac_ops c)) objs of
             Inl e \<Rightarrow> (Some e, c)
           | Inr versions \<Rightarrow>
               for_each (\<lambda>t c.
                   let b = WithClusterName (ac_clusterName c) (NewEventBuilder (ac_agentID c) (spec_resync_type t));
                       evt = SetData (marshal_versions \<lparr>rvl_Versions = versions\<rparr>) (build b (ac_base c))
                   in agent_publish evt c)
                 (map fst (ac_codecs c)) c))"

definition agent_Publish :: "cloud_events_type \<Rightarrow> 'o \<Rightarrow> 'o agent_client \<Rightarrow> error option \<times> 'o agent_client" where
  "agent_Publish eventType obj c =
     (case map_of (ac_codecs c) (et_DataType eventType) of
        None \<Rightarrow> (Some (Errorf ''failed to find a codec for event''), c)
      | Some codec \<Rightarrow>
          if et_SubResource eventType \<noteq> SubResourceStatus
          then (Some (Errorf ''unsupported event eventType''), c)
          else (case cd_Encode codec (ac_agentID c) eventType obj of
              Inl e \<Rightarrow> (Some e, c)
            | Inr evt \<Rightarrow> agent_publish evt c))"

fun getObj :: "'o resource_object \<Rightarrow> string \<Rightarrow> 'o list \<Rightarrow> 'o option" where
  "getObj ops resourceID [] = None"
| "getObj ops resourceID (obj # objs) =
     (if GetUID ops obj = resourceID then Some obj else getObj ops resourceID objs)"

fun findStatusHash :: "string \<Rightarrow> resource_status_hash list \<Rightarrow> string option" where
  "findStatusHash i [] = None"
| "findStatusHash i (h # hs) =
     (if i = rh_ResourceID h then Some (rh_StatusHash h) else findStatusHash i hs)"

definition status_response_type :: "cloud_events_data_type \<Rightarrow> cloud_events_type" where
  "status_response_type t = \<lparr>et_DataType = t, et_SubResource = SubResourceStatus, et_Action = ResyncResponseAction\<rparr>"

definition respondResyncStatusRequest ::
  "cloud_events_data_type \<Rightarrow> ce_event \<Rightarrow> 'o agent_client \<Rightarrow> error option \<times> 'o agent_client" where
  "respondResyncStatusRequest eventDataType evt c =
     (case ac_lister c \<lparr>lo_ClusterName = ac_clusterName c, lo_Source = ev_Source evt\<rparr> of
        Inl e \<Rightarrow> (Some e, c)
      | Inr objs \<Rightarrow>
          (case DecodeStatusResyncRequest evt of
             Inl e \<Rightarrow> (Some e, c)
           | Inr statusHashes \<Rightarrow>
               let eventType = status_response_type eventDataType in
               if length (rhl_Hashes statusHashes) = 0
               then for_each (\<lambda>obj c. agent_Publish eventType obj c) objs c
               else for_each (\<lambda>obj c.
                   case findStatusHash (GetUID (ac_ops c) obj) (rhl_Hashes statusHashes) of
                     None \<Rightarrow> (None, c)
                   | Some lastHash \<Rightarrow>
                       (case ac_statusHashGetter c obj of
                          Inl e \<Rightarrow> (None, c)
                        | Inr currentHash \<Rightarrow>
                            if currentHash = lastHash then (None, c)
                            else agent_Publish eventType obj c)) objs c))"

text \<open>The action for a decoded object, empty when there is none.\<close>

definition specAction :: "'o agent_client \<Rightarrow> string \<Rightarrow> 'o \<Rightarrow> string result" where
  "specAction c source obj =
     (case ac_lister c \<lparr>lo_ClusterName = ac_clusterName c, lo_Source = source\<rparr> of
        Inl e \<Rightarrow> Inl e
      | Inr objs \<Rightarrow>
          (case getObj (ac_ops c) (GetUID (ac_ops c) obj) objs of
             None \<Rightarrow> Inr ActionAdded
           | Some lastObj \<Rightarrow>
               if GetDeletionTimestamp (ac_ops c) obj \<noteq> 0 then Inr ActionDeleted
               else if GetResourceVersion (ac_ops c) obj = GetResourceVersion (ac_ops c) lastObj then Inr []
               else Inr ActionModified))"

definition agent_receive :: "ce_event \<Rightarrow> 'o agent_client \<Rightarrow> 'o received \<times> 'o agent_client" where
  "agent_receive evt c =
     (case ParseCloudEventsType (ev_Type evt) of
        Inl e \<Rightarrow> (Dropped ''failed to parse cloud event type'', c)
      | Inr eventType \<Rightarrow>
          if et_Action eventType = ResyncRequestAction then
            (if et_SubResource eventType \<noteq> SubResourceStatus
             then (Dropped ''unsupported resync event type'', c)
             else let (e, c') = respondResyncStatusRequest (et_DataType eventType) evt c in (Answered e, c'))
          else if et_SubResource eventType \<noteq> SubResourceSpec
          then (Dropped ''unsupported event type'', c)
          else (case map_of (ac_codecs c) (et_DataType eventType) of
              None \<Rightarrow> (Dropped ''failed to find the codec'', c)
            | Some codec \<Rightarrow>
                (case cd_Decode codec evt of
                   Inl e \<Rightarrow> (Dropped ''failed to decode spec'', c)
                 | Inr obj \<Rightarrow>
                     (case specAction c (ev_Source evt) obj of
                        Inl e \<Rightarrow> (Dropped ''failed to generate spec action'', c)
                      | Inr action \<Rightarrow>
                          if length action = 0 then (Dropped ''no action is required'', c)
                          else (Handle action obj, c)))))"

end
