(* ===== verification/Source_Client.thy ===== *)
theory Source_Client
  imports Agent_Client
begin

text \<open>
  \<^verbatim>\<open>pkg/cloudevents/generic/sourceclient.go\<close>: the client of a source. The results are those of
  the agent's client; \<open>getObj\<close> is shared with it.
\<close>

record 'o source_client =
  sc_base :: base_client
  sc_ops :: "'o resource_object"
  sc_lister :: "'o lister"
  sc_codecs :: "'o codecs"
  sc_statusHashGetter :: "'o status_hash_getter"
  sc_sourceID :: string

definition NewCloudEventSourceClient ::
  "base_client \<Rightarrow> cloud_events_source_options \<Rightarrow> 'o resource_object \<Rightarrow> 'o lister \<Rightarrow> 'o status_hash_getter \<Rightarrow>
   'o codec list \<Rightarrow> 'o source_client result" where
  "NewCloudEventSourceClient env sourceOptions ops lister statusHashGetter codecs =
     (let base = env\<lparr>bc_WithContext := ceo_WithContext (cso_CloudEventsOptions sourceOptions),
                     bc_limiter := NewRateLimiter (cso_EventRateLimit sourceOptions)\<rparr>
      in case connect (cso_CloudEventsOptions sourceOptions) base of
           Inl e \<Rightarrow> Inl e
         | Inr base' \<Rightarrow>
             Inr \<lparr>sc_base = base', sc_ops = ops, sc_lister = lister, sc_codecs = register_codecs codecs,
                  sc_statusHashGetter = statusHashGetter, sc_sourceID = cso_SourceID sourceOptions\<rparr>)"

definition source_publish :: "ce_event \<Rightarrow> 'o source_client \<Rightarrow> error option \<times> 'o source_client" where
  "source_publish evt c = (let (r, b) = publish evt (sc_base c) in (r, c\<lparr>sc_base := b\<rparr>))"

definition object_hash :: "'o source_client \<Rightarrow> 'o \<Rightarrow> resource_status_hash result" where
  "object_hash c obj =
     (case sc_statusHashGetter c obj of
        Inl e \<Rightarrow> Inl e
      | Inr h \<Rightarrow> Inr \<lparr>rh_ResourceID = GetUID (sc_ops c) obj, rh_StatusHash = h\<rparr>)"

definition status_resync_type :: "cloud_events_data_type \<Rightarrow> cloud_events_type" where
  "status_resync_type t = \<lparr>et_DataType = t, et_SubResource = SubResourceStatus, et_Action = ResyncRequestAction\<rparr>"

definition source_Resync :: "list_options \<Rightarrow> 'o source_client \<Rightarrow> error option \<times> 'o source_client" where
  "source_Resync listOptions c =
     (case sc_lister c listOptions of
        Inl e \<Rightarrow> (Some e, c)
      | Inr objs \<Rightarrow>
          (case map_result (object_hash c) objs of
             Inl e \<Rightarrow> (Some e, c)
           | Inr hashes \<Rightarrow>
               for_each (\<lambda>t c.
                   let b = NewEventBuilder (sc_sourceID c) (status_resync_type t);
                       evt = SetData (marshal_hashes \<lparr>rhl_Hashes = hashes\<rparr>) (build b (sc_base c))
                   in source_publish evt c)
                 (map fst (sc_codecs c)) c))"

definition source_Publish :: "cloud_events_type \<Rightarrow> 'o \<Rightarrow> 'o source_client \<Rightarrow> error option \<times> 'o source_client" where
  "source_Publish eventType obj c =
     (if et_SubResource eventType \<noteq> SubResourceSpec
      then (Some (Errorf ''unsupported event eventType''), c)
      else case map_of (sc_codecs c) (et_DataType eventType) of
          None \<Rightarrow> (Some (Errorf ''failed to find the codec for event''), c)
        | Some codec \<Rightarrow>
            (case cd_Encode codec (sc_sourceID c) eventType obj of
               Inl e \<Rightarrow> (Some e, c)
             | Inr evt \<Rightarrow> source_publish evt c))"

fun findResourceVersion :: "string \<Rightarrow> resource_version list \<Rightarrow> int" where
  "findResourceVersion i [] = 0"
| "findResourceVersion i (v # vs) =
     (if i = rv_ResourceID v then rv_ResourceVersion v else findResourceVersion i vs)"

definition spec_response_type :: "cloud_events_data_type \<Rightarrow> cloud_events_type" where
  "spec_response_type t = \<lparr>et_DataType = t, et_SubResource = SubResourceSpec, et_Action = ResyncResponseAction\<rparr>"

text \<open>The event that tells the agent to delete a resource; \<open>metav1.Now()\<close> is cut to seconds in JSON only.\<close>

definition delete_builder :: "'o source_client \<Rightarrow> cloud_events_type \<Rightarrow> string \<Rightarrow> resource_version \<Rightarrow> event_builder" where
  "delete_builder c eventType clusterName rv =
     WithDeletionTimestamp (bc_now (sc_base c) (bc_calls (sc_base c)))
       (WithClusterName clusterName
         (WithResourceVersion (rv_ResourceVersion rv)
           (WithResourceID (rv_ResourceID rv) (NewEventBuilder (sc_sourceID c) eventType))))"

definition resend_newer ::
  "cloud_events_type \<Rightarrow> resource_version list \<Rightarrow> 'o \<Rightarrow> 'o source_client \<Rightarrow> error option \<times> 'o source_client" where
  "resend_newer eventType versions obj c =
     (let lastResourceVersion = findResourceVersion (GetUID (sc_ops c) obj) versions in
      case parse_int (GetResourceVersion (sc_ops c) obj) of
        Inl e \<Rightarrow> (None, c)
      | Inr currentResourceVersion \<Rightarrow>
          if currentResourceVersion > lastResourceVersion then source_Publish eventType obj c
          else (None, c))"

definition send_delete ::
  "cloud_events_type \<Rightarrow> string \<Rightarrow> 'o list \<Rightarrow> resource_version \<Rightarrow> 'o source_client \<Rightarrow> error option \<times> 'o source_client" where
  "send_delete eventType clusterName objs rv c =
     (case getObj (sc_ops c) (rv_ResourceID rv) objs of
        Some _ \<Rightarrow> (None, c)
      | None \<Rightarrow> source_publish (build (delete_builder c eventType clusterName rv) (sc_base c)) c)"

definition respondResyncSpecRequest ::
  "cloud_events_data_type \<Rightarrow> ce_event \<Rightarrow> 'o source_client \<Rightarrow> error option \<times> 'o source_client" where
  "respondResyncSpecRequest evtDataType evt c =
     (case DecodeSpecResyncRequest evt of
        Inl e \<Rightarrow> (Some e, c)
      | Inr resourceVersions \<Rightarrow>
          let eventType = spec_response_type evtDataType in
          (case GetExtension evt ExtensionClusterName of
             Inl e \<Rightarrow> (Some e, c)
           | Inr clusterName \<Rightarrow>
               (case sc_lister c \<lparr>lo_ClusterName = sprint_s clusterName, lo_Source = sc_sourceID c\<rparr> of
                  Inl e \<Rightarrow> (Some e, c)
                | Inr objs \<Rightarrow>
                    (case for_each (resend_newer eventType (rvl_Versions resourceVersions)) objs c of
                       (Some e, c') \<Rightarrow> (Some e, c')
                     | (None, c') \<Rightarrow>
                         for_each (send_delete eventType (sprint_s clusterName) objs)
                           (rvl_Versions resourceVersions) c'))))"

definition statusAction :: "'o source_client \<Rightarrow> string \<Rightarrow> 'o \<Rightarrow> string result" where
  "statusAction c clusterName obj =
     (case sc_lister c \<lparr>lo_ClusterName = clusterName, lo_Source = sc_sourceID c\<rparr> of
        Inl e \<Rightarrow> Inl e
      | Inr objs \<Rightarrow>
          (case getObj (sc_ops c) (GetUID (sc_ops c) obj) objs of
             None \<Rightarrow> Inr []
           | Some lastObj \<Rightarrow>
               (case sc_statusHashGetter c lastObj of
                  Inl e \<Rightarrow> Inl e
                | Inr lastStatusHash \<Rightarrow>
                    (case sc_statusHashGetter c obj of
                       Inl e \<Rightarrow> Inr []
                     | Inr currentStatusHash \<Rightarrow>
                         if lastStatusHash = currentStatusHash then Inr [] else Inr ActionStatusModified))))"

definition source_receive :: "ce_event \<Rightarrow> 'o source_client \<Rightarrow> 'o received \<times> 'o source_client" where
  "source_receive evt c =
     (case ParseCloudEventsType (ev_Type evt) of
        Inl e \<Rightarrow> (Dropped ''failed to parse cloud event type'', c)
      | Inr eventType \<Rightarrow>
          if et_Action eventType = ResyncRequestAction then
            (if et_SubResource eventType \<noteq> SubResourceSpec
             then (Dropped ''unsupported event type'', c)
             else let (e, c') = respondResyncSpecRequest (et_DataType eventType) evt c in (Answered e, c'))
          else (case map_of (sc_codecs c) (et_DataType eventType) of
              None \<Rightarrow> (Dropped ''failed to find the codec'', c)
            | Some codec \<Rightarrow>
                if et_SubResource eventType \<noteq> SubResourceStatus
                then (Dropped ''unsupported event type'', c)
                else (case GetExtension evt ExtensionClusterName of
                    Inl e \<Rightarrow> (Dropped ''failed to find cluster name'', c)
                  | Inr clusterName \<Rightarrow>
                      (case cd_Decode codec evt of
                         Inl e \<Rightarrow> (Dropped ''failed to decode status'', c)
                       | Inr obj \<Rightarrow>
                           (case statusAction c (sprint_s clusterName) obj of
                              Inl e \<Rightarrow> (Dropped ''failed to generate status event'', c)
                            | Inr action \<Rightarrow>
                                if length action = 0 then (Dropped ''no action is required'', c)
                                else (Handle action obj, c))))))"

end
