(* ===== verification/Resync.thy ===== *)
theory Resync
  imports Source_Client
begin

text \<open>
  The resync protocol between an agent and a source: what a source answers to a spec resync request,
  what an agent answers to a status resync request, and that one round of the former brings the
  agent's resources to those of the source.
\<close>

section \<open>Objects and events\<close>

lemma getObj_Some: "getObj ops u objs = Some x \<Longrightarrow> x \<in> set objs \<and> GetUID ops x = u"
  by (induction objs) (auto split: if_splits)

lemma getObj_None: "getObj ops u objs = None \<longleftrightarrow> u \<notin> GetUID ops ` set objs"
  by (induction objs) auto

lemma getObj_append:
  "getObj ops u (xs @ ys) = (case getObj ops u xs of Some x \<Rightarrow> Some x | None \<Rightarrow> getObj ops u ys)"
  by (induction xs) auto

lemma getObj_filter:
  "getObj ops u (filter (\<lambda>x. GetUID ops x \<noteq> v) objs) = (if u = v then None else getObj ops u objs)"
  by (induction objs) auto

lemma getObj_replace:
  "GetUID ops y = v \<Longrightarrow>
   getObj ops u (map (\<lambda>x. if GetUID ops x = v then y else x) objs) =
     (if u = v then (if getObj ops v objs = None then None else Some y) else getObj ops u objs)"
  by (induction objs) auto

lemma getObj_distinct:
  "distinct (map (GetUID ops) objs) \<Longrightarrow> x \<in> set objs \<Longrightarrow> getObj ops (GetUID ops x) objs = Some x"
  by (induction objs) auto

text \<open>What an observer sees of a list of resources: the version of each identifier.\<close>

definition view :: "'o resource_object \<Rightarrow> 'o list \<Rightarrow> string \<Rightarrow> string option" where
  "view ops objs u = map_option (GetResourceVersion ops) (getObj ops u objs)"

section \<open>Loops that publish\<close>

text \<open>A loop whose body never fails and emits some items: what it emits in all.\<close>

lemma for_each_emits:
  assumes "\<And>x s. x \<in> set xs \<Longrightarrow> P s \<Longrightarrow>
      fst (f x s) = None \<and> P (snd (f x s)) \<and> (\<exists>es. out (snd (f x s)) = out s @ es \<and> E x es)"
    and "P s"
  shows "\<exists>ess s'. for_each f xs s = (None, s') \<and> P s' \<and> list_all2 E xs ess \<and> out s' = out s @ concat ess"
  using assms
proof (induction xs arbitrary: s)
  case (Cons x xs)
  obtain s1 es where fx: "f x s = (None, s1)" and "P s1" and es: "out s1 = out s @ es" "E x es"
    using Cons.prems(1) [of x s] Cons.prems(2) by (cases "f x s") auto
  then obtain ess s' where "for_each f xs s1 = (None, s')" "P s'" "list_all2 E xs ess" "out s' = out s1 @ concat ess"
    using Cons.IH [of s1] Cons.prems(1) by (metis list.set_intros(2))
  with fx es show ?case by (intro exI [of _ "es # ess"] exI [of _ s']) simp
qed auto

text \<open>The clients that a call leaves behind: only the base client has moved on.\<close>

definition base_moved :: "base_client \<Rightarrow> base_client \<Rightarrow> bool" where
  "base_moved b b' \<longleftrightarrow> reliable b' \<and> bc_url b' = bc_url b \<and> bc_uuid b' = bc_uuid b \<and> bc_now b' = bc_now b"

lemma base_moved_refl: "reliable b \<Longrightarrow> base_moved b b"
  by (simp add: base_moved_def)

lemma publish_moved:
  assumes "base_moved b b'" "event_valid evt"
  shows "fst (publish evt b') = None" "base_moved b (snd (publish evt b'))"
    "sent (snd (publish evt b')) = sent b' @ [evt]"
  using assms reliable_publish [of b' evt] publish_sent [of evt b'] by (auto simp: base_moved_def)

definition source_moved :: "'o source_client \<Rightarrow> 'o source_client \<Rightarrow> bool" where
  "source_moved c c' \<longleftrightarrow> (\<exists>b. c' = c\<lparr>sc_base := b\<rparr> \<and> base_moved (sc_base c) b)"

lemma source_publish_moved:
  assumes "source_moved c c'" "event_valid evt"
  shows "fst (source_publish evt c') = None" "source_moved c (snd (source_publish evt c'))"
    "sent (sc_base (snd (source_publish evt c'))) = sent (sc_base c') @ [evt]"
  using assms publish_moved
  by (fastforce simp: source_publish_def source_moved_def split: prod.splits)+

section \<open>The source's answer\<close>

text \<open>What the protocol asks of the codec of a source: it encodes every resource into a valid event.\<close>

definition encodes :: "'o codec \<Rightarrow> string \<Rightarrow> cloud_events_type \<Rightarrow> 'o \<Rightarrow> ce_event \<Rightarrow> bool" where
  "encodes codec source t obj e \<longleftrightarrow> cd_Encode codec source t obj = Inr e \<and> event_valid e"

text \<open>The resources to send again, and the requested versions whose resource is gone.\<close>

definition is_newer :: "'o resource_object \<Rightarrow> resource_version list \<Rightarrow> 'o \<Rightarrow> bool" where
  "is_newer ops versions obj \<longleftrightarrow>
     (\<exists>v. parse_int (GetResourceVersion ops obj) = Inr v \<and> v > findResourceVersion (GetUID ops obj) versions)"

definition is_gone :: "'o resource_object \<Rightarrow> 'o list \<Rightarrow> resource_version \<Rightarrow> bool" where
  "is_gone ops objs rv \<longleftrightarrow> rv_ResourceID rv \<notin> GetUID ops ` set objs"

text \<open>An event that tells the agents of a cluster to delete a resource.\<close>

definition deletes :: "cloud_events_type \<Rightarrow> string \<Rightarrow> resource_version \<Rightarrow> ce_event \<Rightarrow> bool" where
  "deletes t cluster rv e \<longleftrightarrow>
     ev_Type e = trim_space (event_type_string t) \<and> ev_Data e = NoData \<and>
     (\<exists>now. now \<noteq> 0 \<and> ev_Extensions e =
        builder_extensions (WithDeletionTimestamp now (WithClusterName cluster
          (WithResourceVersion (rv_ResourceVersion rv) (WithResourceID (rv_ResourceID rv) (NewEventBuilder [] t))))))"

lemma builder_extensions_source:
  "builder_extensions (b\<lparr>eb_source := s\<rparr>) = builder_extensions b"
  by (simp add: builder_extensions_def)

lemma build_delete:
  assumes "source_moved c c'" "trim_space (event_type_string t) \<noteq> []"
    and "\<forall>n. trim_space (bc_uuid (sc_base c) n) \<noteq> []" "\<forall>n. bc_now (sc_base c) n \<noteq> 0"
    and "bc_url (sc_base c) (sc_sourceID c) = Some src" "trim_space src \<noteq> []" "in_int32 (rv_ResourceVersion rv)"
  shows "event_valid (build (delete_builder c' t cluster rv) (sc_base c'))"
    and "deletes t cluster rv (build (delete_builder c' t cluster rv) (sc_base c'))"
    and "ev_Source (build (delete_builder c' t cluster rv) (sc_base c')) = src"
proof -
  obtain b where c': "c' = c\<lparr>sc_base := b\<rparr>" and b: "base_moved (sc_base c) b"
    using assms(1) by (auto simp: source_moved_def)
  let ?b = "delete_builder c' t cluster rv"
  have b0: "eb_source ?b = sc_sourceID c" "eb_resourceVersion ?b = Some (rv_ResourceVersion rv)" "eb_eventType ?b = t"
    by (simp_all add: delete_builder_def c' WithDeletionTimestamp_def WithClusterName_def WithResourceVersion_def
        WithResourceID_def NewEventBuilder_def)
  have bb: "bc_url (sc_base c') = bc_url (sc_base c)" "bc_uuid (sc_base c') = bc_uuid (sc_base c)"
    "bc_now (sc_base c') = bc_now (sc_base c)"
    using b by (simp_all add: c' base_moved_def)
  have id: "ev_ID (NewEvent url uuid now x) = trim_space uuid" for url uuid now x
    by (auto simp: NewEvent_def Let_def SetID_def field_ok_def field_error_def new_event_def split: option.splits)
  show src: "ev_Source (build ?b (sc_base c')) = src"
    using assms(5) by (simp add: build_def NewEvent_source b0 bb)
  show "event_valid (build ?b (sc_base c'))"
    unfolding event_valid_def src
    using assms(2-7) trim_space_idem_nonempty
    by (simp add: build_def NewEvent_field_errors id b0 bb)
  have "builder_extensions ?b = builder_extensions (?b\<lparr>eb_source := []\<rparr>)"
    by (simp add: builder_extensions_source)
  also have "?b\<lparr>eb_source := []\<rparr> = WithDeletionTimestamp (bc_now (sc_base c') (bc_calls (sc_base c')))
      (WithClusterName cluster (WithResourceVersion (rv_ResourceVersion rv)
        (WithResourceID (rv_ResourceID rv) (NewEventBuilder [] t))))"
    by (simp add: delete_builder_def WithDeletionTimestamp_def WithClusterName_def WithResourceVersion_def
        WithResourceID_def NewEventBuilder_def)
  finally show "deletes t cluster rv (build ?b (sc_base c'))"
    unfolding deletes_def
    using assms(4) by (auto simp: build_def NewEvent_extensions b0 bb)
qed

definition source_ready :: "'o source_client \<Rightarrow> cloud_events_data_type \<Rightarrow> 'o codec \<Rightarrow> 'o list \<Rightarrow> bool" where
  "source_ready c dt codec objs \<longleftrightarrow>
     reliable (sc_base c) \<and> map_of (sc_codecs c) dt = Some codec \<and>
     (\<forall>n. trim_space (bc_uuid (sc_base c) n) \<noteq> [] \<and> bc_now (sc_base c) n \<noteq> 0) \<and>
     (\<exists>src. bc_url (sc_base c) (sc_sourceID c) = Some src \<and> trim_space src \<noteq> []) \<and>
     (\<forall>obj \<in> set objs. \<exists>e. encodes codec (sc_sourceID c) (spec_response_type dt) obj e)"

lemma list_all2_concat_filter:
  assumes "list_all2 (\<lambda>x es. if Q x then \<exists>e. es = [e] \<and> R x e else es = []) xs ess"
  shows "list_all2 R (filter Q xs) (concat ess)"
  using assms by (induction rule: list_all2_induct) (auto split: if_splits)

lemma respondResyncSpecRequest_sends:
  assumes ready: "source_ready c dt codec objs"
    and req: "DecodeSpecResyncRequest req = Inr \<lparr>rvl_Versions = vs\<rparr>"
      "GetExtension req ExtensionClusterName = Inr (CeString cluster)"
    and lst: "sc_lister c \<lparr>lo_ClusterName = cluster, lo_Source = sc_sourceID c\<rparr> = Inr objs"
    and gone: "\<forall>rv \<in> set vs. is_gone (sc_ops c) objs rv \<longrightarrow> in_int32 (rv_ResourceVersion rv)"
  shows "\<exists>c' ups dels. respondResyncSpecRequest dt req c = (None, c') \<and> source_moved c c' \<and>
    sent (sc_base c') = sent (sc_base c) @ ups @ dels \<and>
    list_all2 (encodes codec (sc_sourceID c) (spec_response_type dt)) (filter (is_newer (sc_ops c) vs) objs) ups \<and>
    list_all2 (deletes (spec_response_type dt) cluster) (filter (is_gone (sc_ops c) objs) vs) dels"
proof -
  let ?t = "spec_response_type dt"
  have start: "source_moved c c" using ready base_moved_refl
    unfolding source_moved_def source_ready_def by (intro exI [of _ "sc_base c"]) simp
  have tne: "trim_space (event_type_string ?t) \<noteq> []"
    unfolding trim_space_nonempty_iff by (auto simp: event_type_string_def is_space_def intro!: bexI [of _ "CHR ''.''"])
  have up: "fst (resend_newer ?t vs obj s) = None \<and> source_moved c (snd (resend_newer ?t vs obj s)) \<and>
      (\<exists>es. sent (sc_base (snd (resend_newer ?t vs obj s))) = sent (sc_base s) @ es \<and>
         (if is_newer (sc_ops c) vs obj then \<exists>e. es = [e] \<and> encodes codec (sc_sourceID c) ?t obj e else es = []))"
    if "obj \<in> set objs" and s: "source_moved c s" for obj s
  proof -
    obtain b where sb: "s = c\<lparr>sc_base := b\<rparr>" using s by (auto simp: source_moved_def)
    show ?thesis
    proof (cases "is_newer (sc_ops c) vs obj")
      case True
      then obtain v where v: "parse_int (GetResourceVersion (sc_ops c) obj) = Inr v"
        "v > findResourceVersion (GetUID (sc_ops c) obj) vs" by (auto simp: is_newer_def)
      obtain e where e: "encodes codec (sc_sourceID c) ?t obj e"
        using ready \<open>obj \<in> set objs\<close> by (auto simp: source_ready_def)
      have "resend_newer ?t vs obj s = source_publish e s"
        using v e ready sb
        by (simp add: resend_newer_def source_Publish_def spec_response_type_def encodes_def source_ready_def)
      moreover have "event_valid e" using e by (simp add: encodes_def)
      ultimately show ?thesis
        using source_publish_moved [OF s, of e] True e by simp
    next
      case False
      then have "resend_newer ?t vs obj s = (None, s)"
        by (auto simp: resend_newer_def is_newer_def sb split: sum.splits)
      then show ?thesis using s False by simp
    qed
  qed
  have del: "fst (send_delete ?t cluster objs rv s) = None \<and> source_moved c (snd (send_delete ?t cluster objs rv s)) \<and>
      (\<exists>es. sent (sc_base (snd (send_delete ?t cluster objs rv s))) = sent (sc_base s) @ es \<and>
         (if is_gone (sc_ops c) objs rv then \<exists>e. es = [e] \<and> deletes ?t cluster rv e else es = []))"
    if "rv \<in> set vs" and s: "source_moved c s" for rv s
  proof -
    obtain b where sb: "s = c\<lparr>sc_base := b\<rparr>" using s by (auto simp: source_moved_def)
    have g: "is_gone (sc_ops c) objs rv \<longleftrightarrow> getObj (sc_ops s) (rv_ResourceID rv) objs = None"
      by (simp add: is_gone_def getObj_None sb)
    show ?thesis
    proof (cases "is_gone (sc_ops c) objs rv")
      case True
      let ?e = "build (delete_builder s ?t cluster rv) (sc_base s)"
      obtain src where src: "bc_url (sc_base c) (sc_sourceID c) = Some src" "trim_space src \<noteq> []"
        using ready by (auto simp: source_ready_def)
      have rdy: "\<forall>n. trim_space (bc_uuid (sc_base c) n) \<noteq> []" "\<forall>n. bc_now (sc_base c) n \<noteq> 0"
        using ready by (auto simp: source_ready_def)
      have i32: "in_int32 (rv_ResourceVersion rv)" using gone that(1) True by blast
      note d = build_delete [OF s tne rdy src i32, of cluster]
      have "send_delete ?t cluster objs rv s = source_publish ?e s"
        using True g by (simp add: send_delete_def)
      then show ?thesis
        using source_publish_moved [OF s d(1)] d(2) True by simp
    next
      case False
      then have "send_delete ?t cluster objs rv s = (None, s)"
        using g by (auto simp: send_delete_def split: option.split)
      then show ?thesis using s False by simp
    qed
  qed
  obtain ess c1 where 1: "for_each (resend_newer ?t vs) objs c = (None, c1)" "source_moved c c1"
    "list_all2 (\<lambda>obj es. if is_newer (sc_ops c) vs obj then \<exists>e. es = [e] \<and> encodes codec (sc_sourceID c) ?t obj e else es = []) objs ess"
    "sent (sc_base c1) = sent (sc_base c) @ concat ess"
    using for_each_emits [where P = "source_moved c" and out = "\<lambda>s. sent (sc_base s)"
        and E = "\<lambda>obj es. if is_newer (sc_ops c) vs obj then \<exists>e. es = [e] \<and> encodes codec (sc_sourceID c) ?t obj e else es = []",
        OF up start] by blast
  obtain dss c2 where 2: "for_each (send_delete ?t cluster objs) vs c1 = (None, c2)" "source_moved c c2"
    "list_all2 (\<lambda>rv es. if is_gone (sc_ops c) objs rv then \<exists>e. es = [e] \<and> deletes ?t cluster rv e else es = []) vs dss"
    "sent (sc_base c2) = sent (sc_base c1) @ concat dss"
    using for_each_emits [where P = "source_moved c" and out = "\<lambda>s. sent (sc_base s)"
        and E = "\<lambda>rv es. if is_gone (sc_ops c) objs rv then \<exists>e. es = [e] \<and> deletes ?t cluster rv e else es = []",
        OF del 1(2)] by blast
  have "respondResyncSpecRequest dt req c = (None, c2)"
    using 1(1) 2(1) lst by (simp add: respondResyncSpecRequest_def req sprint_s_def)
  then show ?thesis
    using 1(4) 2(2,4) list_all2_concat_filter [OF 1(3)] list_all2_concat_filter [OF 2(3)]
    by (intro exI [of _ c2] exI [of _ "concat ess"] exI [of _ "concat dss"]) simp
qed

section \<open>The agent's side of a spec resync\<close>

text \<open>What the handler of an agent does to its resources for an action.\<close>

definition apply_action :: "'o resource_object \<Rightarrow> string \<Rightarrow> 'o \<Rightarrow> 'o list \<Rightarrow> 'o list" where
  "apply_action ops action obj store =
     (if action = ActionAdded then store @ [obj]
      else if action = ActionDeleted then filter (\<lambda>x. GetUID ops x \<noteq> GetUID ops obj) store
      else if action = ActionModified then map (\<lambda>x. if GetUID ops x = GetUID ops obj then obj else x) store
      else store)"

text \<open>The agent with given resources receives an event, and its handler acts on it.\<close>

definition agent_step :: "'o agent_client \<Rightarrow> ce_event \<Rightarrow> 'o list \<Rightarrow> 'o list" where
  "agent_step a e store =
     (case fst (agent_receive e (a\<lparr>ac_lister := \<lambda>_. Inr store\<rparr>)) of
        Handle action obj \<Rightarrow> apply_action (ac_ops a) action obj store
      | _ \<Rightarrow> store)"

definition deliver :: "'o agent_client \<Rightarrow> ce_event list \<Rightarrow> 'o list \<Rightarrow> 'o list" where
  "deliver a es store = foldl (\<lambda>st e. agent_step a e st) store es"

lemma actions_differ [simp]:
  "ActionAdded \<noteq> []" "ActionDeleted \<noteq> []" "ActionModified \<noteq> []"
  "ActionDeleted \<noteq> ActionAdded" "ActionModified \<noteq> ActionAdded" "ActionModified \<noteq> ActionDeleted"
  by (simp_all add: resource_actions)

lemma agent_step_decoded:
  assumes "ParseCloudEventsType (ev_Type e) = Inr (spec_response_type dt)"
    and "map_of (ac_codecs a) dt = Some codec" "cd_Decode codec e = Inr obj"
  shows "agent_step a e store =
    (case getObj (ac_ops a) (GetUID (ac_ops a) obj) store of
       None \<Rightarrow> store @ [obj]
     | Some old \<Rightarrow>
         if GetDeletionTimestamp (ac_ops a) obj \<noteq> 0
         then filter (\<lambda>x. GetUID (ac_ops a) x \<noteq> GetUID (ac_ops a) obj) store
         else if GetResourceVersion (ac_ops a) obj = GetResourceVersion (ac_ops a) old then store
         else map (\<lambda>x. if GetUID (ac_ops a) x = GetUID (ac_ops a) obj then obj else x) store)"
  using assms
  by (auto simp: agent_step_def agent_receive_def spec_response_type_def specAction_def apply_action_def split: option.split)

lemma view_step_present:
  assumes "ParseCloudEventsType (ev_Type e) = Inr (spec_response_type dt)"
    and "map_of (ac_codecs a) dt = Some codec" "cd_Decode codec e = Inr obj"
    and "GetDeletionTimestamp (ac_ops a) obj = 0"
  shows "view (ac_ops a) (agent_step a e store) =
    (view (ac_ops a) store)(GetUID (ac_ops a) obj \<mapsto> GetResourceVersion (ac_ops a) obj)"
proof (rule ext)
  fix u
  show "view (ac_ops a) (agent_step a e store) u =
    ((view (ac_ops a) store)(GetUID (ac_ops a) obj \<mapsto> GetResourceVersion (ac_ops a) obj)) u"
  proof (cases "getObj (ac_ops a) (GetUID (ac_ops a) obj) store")
    case None
    then show ?thesis
      by (auto simp: agent_step_decoded [OF assms(1-3)] view_def getObj_append split: option.split)
  next
    case (Some l)
    then show ?thesis
      using assms(4)
      by (auto simp: agent_step_decoded [OF assms(1-3)] view_def getObj_replace)
  qed
qed

lemma view_step_gone:
  assumes "ParseCloudEventsType (ev_Type e) = Inr (spec_response_type dt)"
    and "map_of (ac_codecs a) dt = Some codec" "cd_Decode codec e = Inr obj"
    and "GetDeletionTimestamp (ac_ops a) obj \<noteq> 0" "view (ac_ops a) store (GetUID (ac_ops a) obj) \<noteq> None"
  shows "view (ac_ops a) (agent_step a e store) = (view (ac_ops a) store)(GetUID (ac_ops a) obj := None)"
proof -
  obtain l where "getObj (ac_ops a) (GetUID (ac_ops a) obj) store = Some l"
    using assms(5) by (auto simp: view_def)
  then show ?thesis
    using assms(4) by (auto simp: agent_step_decoded [OF assms(1-3)] view_def getObj_filter fun_eq_iff)
qed

text \<open>
  The codecs of source and agent fit together: what the source encodes, and the deletions it
  announces, the agent decodes to a resource of the same identifier, version and deletion time.
\<close>

definition codecs_fit ::
  "'o resource_object \<Rightarrow> cloud_events_data_type \<Rightarrow> string \<Rightarrow> string \<Rightarrow> 'o codec \<Rightarrow> 'o codec \<Rightarrow> bool" where
  "codecs_fit ops dt source cluster enc dec \<longleftrightarrow>
     (\<forall>obj e. encodes enc source (spec_response_type dt) obj e \<longrightarrow>
        ev_Type e = event_type_string (spec_response_type dt) \<and>
        (\<exists>obj'. cd_Decode dec e = Inr obj' \<and> GetUID ops obj' = GetUID ops obj \<and>
           GetResourceVersion ops obj' = GetResourceVersion ops obj \<and>
           GetDeletionTimestamp ops obj' = GetDeletionTimestamp ops obj)) \<and>
     (\<forall>rv e. deletes (spec_response_type dt) cluster rv e \<longrightarrow>
        (\<exists>obj'. cd_Decode dec e = Inr obj' \<and> GetUID ops obj' = rv_ResourceID rv \<and>
           GetDeletionTimestamp ops obj' \<noteq> 0))"

definition plain_type :: "cloud_events_data_type \<Rightarrow> bool" where
  "plain_type dt \<longleftrightarrow> wf_data_type dt \<and> list_all (\<lambda>c. \<not> is_space c) (data_type_string dt)"

lemma spec_response_parses:
  assumes "plain_type dt"
  shows "ParseCloudEventsType (event_type_string (spec_response_type dt)) = Inr (spec_response_type dt)"
    and "trim_space (event_type_string (spec_response_type dt)) = event_type_string (spec_response_type dt)"
proof -
  show "ParseCloudEventsType (event_type_string (spec_response_type dt)) = Inr (spec_response_type dt)"
    using assms by (intro parse_event_type_string) (simp add: wf_event_type_def spec_response_type_def plain_type_def)
  have "event_type_string (spec_response_type dt) =
      data_type_string dt @ ''.'' @ SubResourceSpec @ ''.'' @ ResyncResponseAction"
    by (simp add: event_type_string_def data_type_string_def spec_response_type_def)
  moreover have "list_all (\<lambda>c. \<not> is_space c) (''.'' @ SubResourceSpec @ ''.'' @ ResyncResponseAction)"
    by code_simp
  ultimately show "trim_space (event_type_string (spec_response_type dt)) = event_type_string (spec_response_type dt)"
    using assms by (intro trim_space_id) (simp add: plain_type_def)
qed

lemma deliver_updates:
  assumes "codecs_fit ops dt source cluster enc dec" "ac_ops a = ops" "map_of (ac_codecs a) dt = Some dec"
    and "plain_type dt" "list_all2 (encodes enc source (spec_response_type dt)) objs es"
    and "\<forall>obj \<in> set objs. GetDeletionTimestamp ops obj = 0"
  shows "view ops (deliver a es store) =
    foldl (\<lambda>m obj. m(GetUID ops obj \<mapsto> GetResourceVersion ops obj)) (view ops store) objs"
  using assms(5,6)
proof (induction arbitrary: store rule: list_all2_induct)
  case (Cons obj objs e es)
  obtain obj' where d: "cd_Decode dec e = Inr obj'" "GetUID ops obj' = GetUID ops obj"
    "GetResourceVersion ops obj' = GetResourceVersion ops obj" "GetDeletionTimestamp ops obj' = 0"
    and t: "ev_Type e = event_type_string (spec_response_type dt)"
    using assms(1) Cons.hyps(1) Cons.prems by (fastforce simp: codecs_fit_def)
  have "view ops (agent_step a e store) = (view ops store)(GetUID ops obj \<mapsto> GetResourceVersion ops obj)"
    using view_step_present [of e dt a dec obj' store] spec_response_parses(1) [OF assms(4)] t d assms(2,3) by simp
  with Cons show ?case by (simp add: deliver_def del: fun_upd_apply)
qed (simp add: deliver_def)

lemma deliver_deletes:
  assumes "codecs_fit ops dt source cluster enc dec" "ac_ops a = ops" "map_of (ac_codecs a) dt = Some dec"
    and "plain_type dt" "list_all2 (deletes (spec_response_type dt) cluster) rvs es"
    and "distinct (map rv_ResourceID rvs)" "\<forall>rv \<in> set rvs. view ops store (rv_ResourceID rv) \<noteq> None"
  shows "view ops (deliver a es store) = (\<lambda>u. if u \<in> rv_ResourceID ` set rvs then None else view ops store u)"
  using assms(5-7)
proof (induction arbitrary: store rule: list_all2_induct)
  case (Cons rv rvs e es)
  obtain obj' where d: "cd_Decode dec e = Inr obj'" "GetUID ops obj' = rv_ResourceID rv"
    "GetDeletionTimestamp ops obj' \<noteq> 0"
    using assms(1) Cons.hyps(1) unfolding codecs_fit_def by blast
  have t: "ev_Type e = event_type_string (spec_response_type dt)"
    using Cons.hyps(1) spec_response_parses(2) [OF assms(4)] by (simp add: deletes_def)
  have step: "view ops (agent_step a e store) = (view ops store)(rv_ResourceID rv := None)"
    using view_step_gone [of e dt a dec obj' store] spec_response_parses(1) [OF assms(4)] t d assms(2,3) Cons.prems(2)
    by simp
  have "\<forall>r \<in> set rvs. view ops (agent_step a e store) (rv_ResourceID r) \<noteq> None"
  proof
    fix r assume r: "r \<in> set rvs"
    then have "rv_ResourceID r \<noteq> rv_ResourceID rv" using Cons.prems(1) by (metis distinct.simps(2) imageI list.set_map list.simps(9))
    then show "view ops (agent_step a e store) (rv_ResourceID r) \<noteq> None" using Cons.prems(2) r by (simp add: step)
  qed
  from Cons.IH [OF _ this] Cons.prems(1) show ?case by (auto simp: deliver_def step fun_eq_iff)
qed (simp add: deliver_def)

section \<open>A round of spec resync\<close>

lemma foldl_updates:
  assumes "distinct (map (GetUID ops) objs)"
  shows "foldl (\<lambda>m obj. m(GetUID ops obj \<mapsto> GetResourceVersion ops obj)) m objs u =
    (case getObj ops u objs of Some obj \<Rightarrow> Some (GetResourceVersion ops obj) | None \<Rightarrow> m u)"
  using assms
proof (induction objs arbitrary: m)
  case (Cons obj objs)
  have "getObj ops (GetUID ops obj) objs = None" using Cons.prems by (simp add: getObj_None)
  with Cons show ?case by (auto split: option.split)
qed simp

lemma object_versions:
  assumes "map_result (object_version ops) store = Inr vs"
  shows "map rv_ResourceID vs = map (GetUID ops) store"
    and "getObj ops u store = Some x \<Longrightarrow> parse_int (GetResourceVersion ops x) = Inr (findResourceVersion u vs)"
    and "getObj ops u store = None \<Longrightarrow> findResourceVersion u vs = 0"
proof -
  have all: "list_all2 (\<lambda>x v. object_version ops x = Inr v) store vs"
    using assms by (simp add: map_result_Inr_iff)
  show "map rv_ResourceID vs = map (GetUID ops) store"
    using all by (induction rule: list_all2_induct) (auto simp: object_version_def split: sum.splits)
  show "getObj ops u store = Some x \<Longrightarrow> parse_int (GetResourceVersion ops x) = Inr (findResourceVersion u vs)"
    using all by (induction rule: list_all2_induct) (auto simp: object_version_def split: sum.splits if_splits)
  show "getObj ops u store = None \<Longrightarrow> findResourceVersion u vs = 0"
    using all by (induction rule: list_all2_induct) (auto simp: object_version_def split: sum.splits if_splits)
qed

text \<open>
  The resources of the agent are those of the source at an earlier time: versions are positive and
  only grow, and equal versions are written the same.
\<close>

definition agent_behind :: "'o resource_object \<Rightarrow> 'o list \<Rightarrow> 'o list \<Rightarrow> bool" where
  "agent_behind ops store objs \<longleftrightarrow>
     (\<forall>obj \<in> set objs. GetDeletionTimestamp ops obj = 0 \<and>
        (\<exists>v > 0. parse_int (GetResourceVersion ops obj) = Inr v \<and>
           (\<forall>x \<in> set store. GetUID ops x = GetUID ops obj \<longrightarrow>
              (\<exists>w \<le> v. parse_int (GetResourceVersion ops x) = Inr w \<and>
                 (w = v \<longrightarrow> GetResourceVersion ops x = GetResourceVersion ops obj)))))"

lemma resync_view:
  assumes vs: "map_result (object_version ops) store = Inr vs"
    and dist: "distinct (map (GetUID ops) store)" "distinct (map (GetUID ops) objs)"
    and behind: "agent_behind ops store objs"
    and fit: "codecs_fit ops dt source cluster enc dec" "ac_ops a = ops" "map_of (ac_codecs a) dt = Some dec" "plain_type dt"
    and ups: "list_all2 (encodes enc source (spec_response_type dt)) (filter (is_newer ops vs) objs) ups"
    and dels: "list_all2 (deletes (spec_response_type dt) cluster) (filter (is_gone ops objs) vs) dels"
  shows "view ops (deliver a (ups @ dels) store) = view ops objs"
proof
  fix u
  let ?newer = "filter (is_newer ops vs) objs" and ?gone = "filter (is_gone ops objs) vs"
  note ov = object_versions [OF vs]
  have "\<forall>obj \<in> set ?newer. GetDeletionTimestamp ops obj = 0"
    using behind by (auto simp: agent_behind_def)
  then have v1: "view ops (deliver a ups store) u =
      (case getObj ops u ?newer of Some obj \<Rightarrow> Some (GetResourceVersion ops obj) | None \<Rightarrow> view ops store u)" for u
    using deliver_updates [OF fit ups] foldl_updates [of ops ?newer] dist(2) by (simp add: distinct_map_filter)
  have gone_uids: "rv_ResourceID ` set ?gone = GetUID ops ` set store - GetUID ops ` set objs"
  proof -
    have "rv_ResourceID ` set vs = GetUID ops ` set store" using ov(1) by (metis list.set_map)
    moreover have "rv_ResourceID ` set ?gone = {i \<in> rv_ResourceID ` set vs. i \<notin> GetUID ops ` set objs}"
      by (auto simp: is_gone_def)
    ultimately show ?thesis by auto
  qed
  have not_newer: "getObj ops u ?newer = None" if "u \<notin> GetUID ops ` set objs" for u
    using that by (auto simp: getObj_None)
  have "distinct (map rv_ResourceID ?gone)"
    using dist(1) ov(1) by (metis distinct_map_filter)
  moreover have "view ops (deliver a ups store) (rv_ResourceID rv) \<noteq> None" if "rv \<in> set ?gone" for rv
  proof -
    have "rv_ResourceID rv \<in> GetUID ops ` set store - GetUID ops ` set objs" using that gone_uids by blast
    then have "view ops (deliver a ups store) (rv_ResourceID rv) = view ops store (rv_ResourceID rv)"
      "view ops store (rv_ResourceID rv) \<noteq> None"
      by (auto simp: v1 not_newer) (auto simp: view_def getObj_None)
    then show ?thesis by simp
  qed
  ultimately have v2: "view ops (deliver a (ups @ dels) store) u =
      (if u \<in> GetUID ops ` set store - GetUID ops ` set objs then None else view ops (deliver a ups store) u)"
    using deliver_deletes [OF fit dels, of "deliver a ups store"] gone_uids by (simp add: deliver_def)
  show "view ops (deliver a (ups @ dels) store) u = view ops objs u"
  proof (cases "getObj ops u objs")
    case None
    then have "u \<notin> GetUID ops ` set objs" by (simp add: getObj_None)
    then have "view ops (deliver a (ups @ dels) store) u = (if u \<in> GetUID ops ` set store then None else view ops store u)"
      unfolding v2 v1 by (simp add: not_newer)
    also have "\<dots> = None" by (auto simp: view_def getObj_None)
    finally show ?thesis using None by (simp add: view_def)
  next
    case (Some obj)
    then have o: "obj \<in> set objs" "GetUID ops obj = u" using getObj_Some by metis+
    then have in_objs: "u \<in> GetUID ops ` set objs" by blast
    obtain v where v: "v > 0" "parse_int (GetResourceVersion ops obj) = Inr v"
      "\<And>x. x \<in> set store \<Longrightarrow> GetUID ops x = u \<Longrightarrow>
         \<exists>w \<le> v. parse_int (GetResourceVersion ops x) = Inr w \<and> (w = v \<longrightarrow> GetResourceVersion ops x = GetResourceVersion ops obj)"
      using behind o unfolding agent_behind_def by blast
    show ?thesis
    proof (cases "is_newer ops vs obj")
      case True
      then have "getObj ops u ?newer = Some obj"
        using getObj_distinct [of ops ?newer obj] o dist(2) by (simp add: distinct_map_filter)
      then show ?thesis using Some in_objs unfolding v2 v1 by (simp add: view_def)
    next
      case False
      have "getObj ops u ?newer = None"
        using False o dist(2) getObj_distinct [OF dist(2)] by (auto simp: getObj_None)
           (metis option.inject)
      moreover have "v \<le> findResourceVersion u vs" using False v(2) o by (auto simp: is_newer_def)
      then have "getObj ops u store \<noteq> None" using v(1) ov(3) by force
      then obtain x where x: "getObj ops u store = Some x" by blast
      then have "x \<in> set store" "GetUID ops x = u" using getObj_Some by metis+
      with v(3) ov(2) [OF x] \<open>v \<le> findResourceVersion u vs\<close>
      have "GetResourceVersion ops x = GetResourceVersion ops obj" by force
      ultimately show ?thesis using Some x in_objs unfolding v2 v1 by (simp add: view_def)
    qed
  qed
qed

definition usable_base :: "base_client \<Rightarrow> string \<Rightarrow> bool" where
  "usable_base b source \<longleftrightarrow> reliable b \<and> (\<forall>n. trim_space (bc_uuid b n) \<noteq> []) \<and>
     (\<exists>src. bc_url b source = Some src \<and> trim_space src \<noteq> [])"

lemma SetData_frame [simp]:
  "ev_Type (SetData j e) = ev_Type e" "ev_Extensions (SetData j e) = ev_Extensions e"
  "ev_ID (SetData j e) = ev_ID e" "ev_Source (SetData j e) = ev_Source e"
  "ev_Data (SetData j e) = JsonData j"
  "ev_FieldErrors e = [] \<Longrightarrow> ev_FieldErrors (SetData j e) = []"
  "GetExtension (SetData j e) key = GetExtension e key"
  by (simp_all add: SetData_def field_ok_def GetExtension_def)

lemma resync_request_types:
  assumes "plain_type dt" "sub = SubResourceSpec \<or> sub = SubResourceStatus"
  shows "ParseCloudEventsType (event_type_string \<lparr>et_DataType = dt, et_SubResource = sub, et_Action = ResyncRequestAction\<rparr>) =
      Inr \<lparr>et_DataType = dt, et_SubResource = sub, et_Action = ResyncRequestAction\<rparr>"
    and "trim_space (event_type_string \<lparr>et_DataType = dt, et_SubResource = sub, et_Action = ResyncRequestAction\<rparr>) =
      event_type_string \<lparr>et_DataType = dt, et_SubResource = sub, et_Action = ResyncRequestAction\<rparr>"
proof -
  show "ParseCloudEventsType (event_type_string \<lparr>et_DataType = dt, et_SubResource = sub, et_Action = ResyncRequestAction\<rparr>) =
      Inr \<lparr>et_DataType = dt, et_SubResource = sub, et_Action = ResyncRequestAction\<rparr>"
    using assms by (intro parse_event_type_string) (auto simp: wf_event_type_def plain_type_def)
  have "event_type_string \<lparr>et_DataType = dt, et_SubResource = sub, et_Action = ResyncRequestAction\<rparr> =
      data_type_string dt @ ''.'' @ sub @ ''.'' @ ResyncRequestAction"
    by (simp add: event_type_string_def data_type_string_def)
  moreover have "list_all (\<lambda>c. \<not> is_space c) (''.'' @ SubResourceSpec @ ''.'' @ ResyncRequestAction)"
    "list_all (\<lambda>c. \<not> is_space c) (''.'' @ SubResourceStatus @ ''.'' @ ResyncRequestAction)"
    by code_simp+
  ultimately show "trim_space (event_type_string \<lparr>et_DataType = dt, et_SubResource = sub, et_Action = ResyncRequestAction\<rparr>) =
      event_type_string \<lparr>et_DataType = dt, et_SubResource = sub, et_Action = ResyncRequestAction\<rparr>"
    using assms by (intro trim_space_id) (auto simp: plain_type_def)
qed

text \<open>The request of an agent with one codec.\<close>

lemma agent_Resync_sends:
  assumes "usable_base (ac_base a) (ac_agentID a)" "ac_codecs a = [(dt, dec)]" "ac_lister a opts = Inr store"
    and "map_result (object_version (ac_ops a)) store = Inr vs" "ac_clusterName a \<noteq> []" "plain_type dt"
  shows "\<exists>req a'. agent_Resync opts a = (None, a') \<and> sent (ac_base a') = sent (ac_base a) @ [req] \<and>
    ParseCloudEventsType (ev_Type req) = Inr (spec_resync_type dt) \<and>
    GetExtension req ExtensionClusterName = Inr (CeString (ac_clusterName a)) \<and>
    DecodeSpecResyncRequest req = Inr \<lparr>rvl_Versions = vs\<rparr>"
proof -
  let ?b = "WithClusterName (ac_clusterName a) (NewEventBuilder (ac_agentID a) (spec_resync_type dt))"
  let ?req = "SetData (marshal_versions \<lparr>rvl_Versions = vs\<rparr>) (build ?b (ac_base a))"
  have b: "eb_source ?b = ac_agentID a" "eb_resourceVersion ?b = None" "eb_eventType ?b = spec_resync_type dt"
    "eb_clusterName ?b = ac_clusterName a"
    by (simp_all add: WithClusterName_def NewEventBuilder_def)
  note ty = resync_request_types [OF assms(6), of SubResourceSpec, folded spec_resync_type_def]
  obtain src where src: "bc_url (ac_base a) (ac_agentID a) = Some src" "trim_space src \<noteq> []"
    and ids: "\<forall>n. trim_space (bc_uuid (ac_base a) n) \<noteq> []" and rel: "reliable (ac_base a)"
    using assms(1) by (auto simp: usable_base_def)
  have "event_type_string (spec_resync_type dt) \<noteq> []" by (simp add: event_type_string_def)
  then have valid: "event_valid ?req"
    using src ids ty(2)
    by (simp add: event_valid_def build_def NewEvent_field_errors NewEvent_ID NewEvent_source b trim_space_idem_nonempty)
  have "agent_Resync opts a = agent_publish ?req a \<or>
      (\<exists>e. fst (agent_publish ?req a) = Some e)"
    using assms(2-4) by (auto simp: agent_Resync_def Let_def split: prod.split option.split)
  moreover have pub: "fst (publish ?req (ac_base a)) = None" "sent (snd (publish ?req (ac_base a))) = sent (ac_base a) @ [?req]"
    using publish_moved [OF base_moved_refl [OF rel] valid] by auto
  moreover have "agent_publish ?req a = (None, a\<lparr>ac_base := snd (publish ?req (ac_base a))\<rparr>)"
    using pub(1) by (cases "publish ?req (ac_base a)") (simp add: agent_publish_def)
  moreover have "DecodeSpecResyncRequest ?req = Inr \<lparr>rvl_Versions = vs\<rparr>"
  proof (rule decode_versions)
    have "list_all2 (\<lambda>x v. object_version (ac_ops a) x = Inr v) store vs"
      using assms(4) by (simp add: map_result_Inr_iff)
    then show "\<forall>v \<in> set vs. min_int64 \<le> rv_ResourceVersion v \<and> rv_ResourceVersion v \<le> max_int64"
      by (induction rule: list_all2_induct) (auto simp: object_version_def dest: parse_int_range split: sum.splits)
  qed simp
  moreover have "ParseCloudEventsType (ev_Type ?req) = Inr (spec_resync_type dt)"
    using ty by (simp add: build_def b)
  moreover have "GetExtension ?req ExtensionClusterName = Inr (CeString (ac_clusterName a))"
    using assms(5) by (simp add: build_def NewEvent_GetExtension b)
  ultimately show ?thesis
    by (intro exI [of _ ?req] exI [of _ "a\<lparr>ac_base := snd (publish ?req (ac_base a))\<rparr>"]) auto
qed


section \<open>An example of a round\<close>

text \<open>A resource with an identifier, a version and a deletion time, and codecs for it.\<close>

type_synonym example_resource = "string \<times> int \<times> int"

definition example_ops :: "example_resource resource_object" where
  "example_ops = \<lparr>GetUID = fst, GetResourceVersion = (\<lambda>(u, v, d). show_int v), GetDeletionTimestamp = (\<lambda>(u, v, d). d)\<rparr>"

definition example_encoder :: "cloud_events_data_type \<Rightarrow> example_resource codec" where
  "example_encoder dt = \<lparr>cd_EventDataType = dt,
     cd_Encode = (\<lambda>source t (u, v, d). Inr (NewEvent Some ''id'' 1
        (WithDeletionTimestamp d (WithResourceVersion v (WithResourceID u (NewEventBuilder source t)))))),
     cd_Decode = (\<lambda>e. Inl (Errorf ''unsupported''))\<rparr>"

definition decode_example :: "ce_event \<Rightarrow> example_resource" where
  "decode_example e =
     ((case GetExtension e ExtensionResourceID of Inr (CeString s) \<Rightarrow> s | _ \<Rightarrow> []),
      (case GetExtension e ExtensionResourceVersion of Inr (CeInteger i) \<Rightarrow> i | _ \<Rightarrow> 0),
      (case GetExtension e ExtensionDeletionTimestamp of Inr (CeTimestamp t) \<Rightarrow> t | _ \<Rightarrow> 0))"

definition example_decoder :: "cloud_events_data_type \<Rightarrow> example_resource codec" where
  "example_decoder dt = \<lparr>cd_EventDataType = dt, cd_Encode = (\<lambda>_ _ _. Inl (Errorf ''unsupported'')),
     cd_Decode = (\<lambda>e. Inr (decode_example e))\<rparr>"

lemma example_codecs_fit:
  assumes "plain_type dt" "cluster \<noteq> []"
  shows "codecs_fit example_ops dt source cluster (example_encoder dt) (example_decoder dt)"
  unfolding codecs_fit_def
proof (intro conjI allI impI)
  note b = WithDeletionTimestamp_def WithClusterName_def WithResourceVersion_def WithResourceID_def NewEventBuilder_def
  fix obj e
  assume e: "encodes (example_encoder dt) source (spec_response_type dt) obj e"
  obtain u v d where obj: "obj = (u, v, d)" by (cases obj)
  let ?b = "WithDeletionTimestamp d (WithResourceVersion v (WithResourceID u (NewEventBuilder source (spec_response_type dt))))"
  have eq: "e = NewEvent Some ''id'' 1 ?b" and val: "event_valid e"
    using e by (simp_all add: encodes_def example_encoder_def obj)
  have "ev_FieldErrors e = []" using val by (simp add: event_valid_def)
  then have "in_int32 v" by (simp add: eq NewEvent_field_errors b)
  then have "decode_example e = (u, v, d)"
    by (simp add: decode_example_def eq NewEvent_GetExtension b)
  then show "\<exists>obj'. cd_Decode (example_decoder dt) e = Inr obj' \<and> GetUID example_ops obj' = GetUID example_ops obj \<and>
      GetResourceVersion example_ops obj' = GetResourceVersion example_ops obj \<and>
      GetDeletionTimestamp example_ops obj' = GetDeletionTimestamp example_ops obj"
    by (simp add: example_decoder_def example_ops_def obj)
  show "ev_Type e = event_type_string (spec_response_type dt)"
    by (simp add: eq b spec_response_parses(2) [OF assms(1)])
next
  note b = WithDeletionTimestamp_def WithClusterName_def WithResourceVersion_def WithResourceID_def NewEventBuilder_def
  fix rv e
  assume "deletes (spec_response_type dt) cluster rv e"
  then obtain now where now: "now \<noteq> 0" and ext: "ev_Extensions e = builder_extensions
      (WithDeletionTimestamp now (WithClusterName cluster (WithResourceVersion (rv_ResourceVersion rv)
        (WithResourceID (rv_ResourceID rv) (NewEventBuilder [] (spec_response_type dt))))))"
    by (auto simp: deletes_def)
  have "fst (decode_example e) = rv_ResourceID rv" "snd (snd (decode_example e)) = now"
    using now by (simp_all add: decode_example_def GetExtension_plain ext b)
  then show "\<exists>obj'. cd_Decode (example_decoder dt) e = Inr obj' \<and> GetUID example_ops obj' = rv_ResourceID rv \<and>
      GetDeletionTimestamp example_ops obj' \<noteq> 0"
    using now by (auto simp: example_decoder_def example_ops_def split: prod.splits)
qed

definition example_base :: base_client where
  "example_base = \<lparr>bc_wait = (\<lambda>_. None), bc_WithContext = (\<lambda>_. Inr ''topic''), bc_client = Some (\<lambda>_ _ _. None),
     bc_limiter = (DefaultQPS, DefaultBurst), bc_url = Some, bc_uuid = (\<lambda>_. ''id''), bc_now = (\<lambda>_. 1),
     bc_calls = 0, bc_sent = []\<rparr>"

lemma reliable_example: "reliable example_base"
  by (simp add: reliable_def example_base_def)

definition example_agent :: "example_resource list \<Rightarrow> example_resource agent_client" where
  "example_agent store = \<lparr>ac_base = example_base, ac_ops = example_ops, ac_lister = (\<lambda>_. Inr store),
     ac_codecs = [(manifests_type, example_decoder manifests_type)], ac_statusHashGetter = (\<lambda>_. Inr []),
     ac_agentID = ''agent1'', ac_clusterName = ''cluster1''\<rparr>"

definition example_source :: "example_resource list \<Rightarrow> example_resource source_client" where
  "example_source objs = \<lparr>sc_base = example_base, sc_ops = example_ops, sc_lister = (\<lambda>_. Inr objs),
     sc_codecs = [(manifests_type, example_encoder manifests_type)], sc_statusHashGetter = (\<lambda>_. Inr []),
     sc_sourceID = ''hub1''\<rparr>"

definition old_resources :: "example_resource list" where
  "old_resources = [(''a'', 1, 0), (''b'', 2, 0), (''c'', 1, 0)]"

definition current_resources :: "example_resource list" where
  "current_resources = [(''b'', 3, 0), (''c'', 1, 0), (''d'', 1, 0)]"

lemma manifests_plain: "plain_type manifests_type"
  by code_simp

lemma example_source_ready:
  "source_ready (example_source current_resources) manifests_type (example_encoder manifests_type) current_resources"
proof -
  note b = WithDeletionTimestamp_def WithResourceVersion_def WithResourceID_def NewEventBuilder_def
  have "\<exists>e. encodes (example_encoder manifests_type) ''hub1'' (spec_response_type manifests_type) obj e"
    if "obj \<in> set current_resources" for obj
  proof -
    obtain u v d where obj: "obj = (u, v, d)" by (cases obj)
    then have v: "in_int32 v" using that by (auto simp: current_resources_def in_int32_def)
    let ?b = "WithDeletionTimestamp d (WithResourceVersion v (WithResourceID u (NewEventBuilder ''hub1'' (spec_response_type manifests_type))))"
    have "trim_space (event_type_string (spec_response_type manifests_type)) \<noteq> []"
      by code_simp
    then have "event_valid (NewEvent Some ''id'' 1 ?b)"
      using v by (simp add: event_valid_def NewEvent_field_errors NewEvent_ID NewEvent_source b trim_space_idem_nonempty)
         (simp add: trim_space_def is_space_def)
    then show ?thesis by (simp add: encodes_def example_encoder_def obj)
  qed
  then show ?thesis
    by (simp add: source_ready_def example_source_def reliable_example)
       (simp add: example_base_def trim_space_def is_space_def)
qed

lemma example_behind: "agent_behind example_ops old_resources current_resources"
proof -
  have "parse_int (show_int i) = Inr i" if "i \<in> {1, 2, 3}" for i
    using that by (intro parse_int_show_int) (auto simp: min_int64_def max_int64_def)
  then show ?thesis
    by (simp add: agent_behind_def current_resources_def old_resources_def example_ops_def)
qed


section \<open>The agent's answer to a status resync request\<close>

definition agent_moved :: "'o agent_client \<Rightarrow> 'o agent_client \<Rightarrow> bool" where
  "agent_moved c c' \<longleftrightarrow> (\<exists>b. c' = c\<lparr>ac_base := b\<rparr> \<and> base_moved (ac_base c) b)"

lemma agent_publish_moved:
  assumes "agent_moved c c'" "event_valid evt"
  shows "fst (agent_publish evt c') = None" "agent_moved c (snd (agent_publish evt c'))"
    "sent (ac_base (snd (agent_publish evt c'))) = sent (ac_base c') @ [evt]"
  using assms publish_moved
  by (fastforce simp: agent_publish_def agent_moved_def split: prod.splits)+

text \<open>The resources whose status the source has to hear of.\<close>

definition status_changed :: "'o agent_client \<Rightarrow> resource_status_hash list \<Rightarrow> 'o \<Rightarrow> bool" where
  "status_changed c hashes obj \<longleftrightarrow> hashes = [] \<or>
     (\<exists>old new. findStatusHash (GetUID (ac_ops c) obj) hashes = Some old \<and>
        ac_statusHashGetter c obj = Inr new \<and> new \<noteq> old)"

text \<open>
  C9. The answer of an agent to a status resync request: it publishes, in order, the status of
  exactly those of its resources whose hash differs from the one the source sent, or of all of them
  when the source sent none; resources the source did not name, or whose hash cannot be
  computed, are left out.
\<close>

theorem status_resync_answer:
  assumes "usable_base (ac_base c) (ac_agentID c)" "map_of (ac_codecs c) dt = Some codec"
    and "ac_lister c \<lparr>lo_ClusterName = ac_clusterName c, lo_Source = ev_Source req\<rparr> = Inr objs"
    and "DecodeStatusResyncRequest req = Inr \<lparr>rhl_Hashes = hashes\<rparr>"
    and "\<forall>obj \<in> set objs. \<exists>e. encodes codec (ac_agentID c) (status_response_type dt) obj e"
  shows "\<exists>c' answer. respondResyncStatusRequest dt req c = (None, c') \<and>
    sent (ac_base c') = sent (ac_base c) @ answer \<and>
    list_all2 (encodes codec (ac_agentID c) (status_response_type dt)) (filter (status_changed c hashes) objs) answer"
proof -
  let ?t = "status_response_type dt"
  let ?E = "\<lambda>obj es. if status_changed c hashes obj
      then \<exists>e. es = [e] \<and> encodes codec (ac_agentID c) ?t obj e else es = []"
  let ?step = "\<lambda>obj c. if hashes = [] then agent_Publish ?t obj c
      else case findStatusHash (GetUID (ac_ops c) obj) hashes of
             None \<Rightarrow> (None, c)
           | Some lastHash \<Rightarrow>
               (case ac_statusHashGetter c obj of
                  Inl e \<Rightarrow> (None, c)
                | Inr currentHash \<Rightarrow> if currentHash = lastHash then (None, c) else agent_Publish ?t obj c)"
  have start: "agent_moved c c" using assms(1) base_moved_refl
    unfolding agent_moved_def usable_base_def by (intro exI [of _ "ac_base c"]) simp
  have step: "fst (?step obj s) = None \<and> agent_moved c (snd (?step obj s)) \<and>
      (\<exists>es. sent (ac_base (snd (?step obj s))) = sent (ac_base s) @ es \<and> ?E obj es)"
    if "obj \<in> set objs" and s: "agent_moved c s" for obj s
  proof -
    obtain b where sb: "s = c\<lparr>ac_base := b\<rparr>" using s by (auto simp: agent_moved_def)
    show ?thesis
    proof (cases "status_changed c hashes obj")
      case True
      from bspec [OF assms(5) that(1)] obtain e where e: "encodes codec (ac_agentID c) ?t obj e" ..
      have pub: "agent_Publish ?t obj s = agent_publish e s"
        using e assms(2) sb by (simp add: agent_Publish_def status_response_type_def encodes_def)
      have "ac_ops s = ac_ops c" "ac_statusHashGetter s = ac_statusHashGetter c" by (simp_all add: sb)
      with True have "?step obj s = agent_publish e s"
        unfolding status_changed_def pub by (elim disjE exE conjE) simp_all
      moreover have "event_valid e" using e by (simp add: encodes_def)
      ultimately show ?thesis using agent_publish_moved [OF s, of e] True e by simp
    next
      case False
      moreover have "ac_ops s = ac_ops c" "ac_statusHashGetter s = ac_statusHashGetter c" by (simp_all add: sb)
      ultimately have "?step obj s = (None, s)"
        unfolding status_changed_def by (simp split: option.split sum.split)
      then show ?thesis using s False by simp
    qed
  qed
  obtain ess c1 where 1: "for_each ?step objs c = (None, c1)" "list_all2 ?E objs ess"
    "sent (ac_base c1) = sent (ac_base c) @ concat ess"
    using for_each_emits [where P = "agent_moved c" and out = "\<lambda>s. sent (ac_base s)" and E = ?E, OF step start] by blast
  have "respondResyncStatusRequest dt req c = for_each ?step objs c"
    by (cases "hashes = []") (simp_all add: respondResyncStatusRequest_def assms(3,4))
  then show ?thesis using 1(1,3) list_all2_concat_filter [OF 1(2)] by auto
qed

definition hashing_agent :: "example_resource agent_client" where
  "hashing_agent = (example_agent old_resources)\<lparr>ac_codecs := [(manifests_type, example_encoder manifests_type)],
     ac_statusHashGetter := (\<lambda>(u, v, d). Inr (show_int v))\<rparr>"

definition hash_request :: ce_event where
  "hash_request = SetData (marshal_hashes \<lparr>rhl_Hashes =
       [\<lparr>rh_ResourceID = ''a'', rh_StatusHash = ''1''\<rparr>, \<lparr>rh_ResourceID = ''b'', rh_StatusHash = ''1''\<rparr>]\<rparr>) new_event"

theorem status_resync_answer_witness:
  "\<exists>c' answer. respondResyncStatusRequest manifests_type hash_request hashing_agent = (None, c') \<and>
    sent (ac_base c') = sent (ac_base hashing_agent) @ answer \<and> length answer = 1"
proof -
  note b = WithDeletionTimestamp_def WithResourceVersion_def WithResourceID_def NewEventBuilder_def
  let ?hs = "[\<lparr>rh_ResourceID = ''a'', rh_StatusHash = ''1''\<rparr>, \<lparr>rh_ResourceID = ''b'', rh_StatusHash = ''1''\<rparr>]"
  have base: "usable_base (ac_base hashing_agent) (ac_agentID hashing_agent)"
    by (simp add: hashing_agent_def example_agent_def usable_base_def reliable_example)
       (simp add: example_base_def trim_space_def is_space_def)
  have enc: "\<exists>e. encodes (example_encoder manifests_type) ''agent1'' (status_response_type manifests_type) obj e"
    if "obj \<in> set old_resources" for obj
  proof -
    obtain u v d where obj: "obj = (u, v, d)" by (cases obj)
    then have v: "in_int32 v" using that by (auto simp: old_resources_def in_int32_def)
    let ?b = "WithDeletionTimestamp d (WithResourceVersion v (WithResourceID u (NewEventBuilder ''agent1'' (status_response_type manifests_type))))"
    have "trim_space (event_type_string (status_response_type manifests_type)) \<noteq> []" by code_simp
    then have "event_valid (NewEvent Some ''id'' 1 ?b)"
      using v by (simp add: event_valid_def NewEvent_field_errors NewEvent_ID NewEvent_source b trim_space_idem_nonempty)
         (simp add: trim_space_def is_space_def)
    then show ?thesis by (simp add: encodes_def example_encoder_def obj)
  qed
  have dec: "DecodeStatusResyncRequest hash_request = Inr \<lparr>rhl_Hashes = ?hs\<rparr>"
    by (rule decode_hashes) (simp add: hash_request_def)
  have "map_of (ac_codecs hashing_agent) manifests_type = Some (example_encoder manifests_type)"
    "ac_lister hashing_agent \<lparr>lo_ClusterName = ac_clusterName hashing_agent, lo_Source = ev_Source hash_request\<rparr> = Inr old_resources"
    by (simp_all add: hashing_agent_def example_agent_def)
  moreover have "\<forall>obj \<in> set old_resources. \<exists>e. encodes (example_encoder manifests_type)
      (ac_agentID hashing_agent) (status_response_type manifests_type) obj e"
    using enc by (simp add: hashing_agent_def example_agent_def)
  ultimately obtain c' answer where ans: "respondResyncStatusRequest manifests_type hash_request hashing_agent = (None, c')"
    "sent (ac_base c') = sent (ac_base hashing_agent) @ answer"
    and l: "list_all2 (encodes (example_encoder manifests_type) (ac_agentID hashing_agent) (status_response_type manifests_type))
      (filter (status_changed hashing_agent ?hs) old_resources) answer"
    using status_resync_answer [OF base _ _ dec] by blast
  have "show_int 1 = ''1''" "show_int 2 = ''2''" by code_simp+
  then have "length (filter (status_changed hashing_agent ?hs) old_resources) = 1"
    by (simp add: status_changed_def old_resources_def hashing_agent_def example_agent_def example_ops_def)
  with l ans show ?thesis using list_all2_lengthD by metis
qed

end
