(* ===== verification/Connection.thy ===== *)
theory Connection
  imports Main
begin

text \<open>
  \<^verbatim>\<open>pkg/cloudevents/generic/baseclient.go\<close>, \<open>connect\<close> and \<open>subscribe\<close>: the goroutine that
  watches the connection and reconnects, the goroutine that starts and stops the receiver, and the
  unbuffered channel of signals between them, as a step relation. Clients and receiver contexts are
  numbered. A step is what one goroutine does between two synchronisations; a signal is handed over
  and acted on in one step, since the sender cannot go on to change the client before it sends the
  next signal, which waits for the receiver. The back-off times are not modelled.
\<close>

section \<open>State\<close>

text \<open>Where the goroutine of \<open>connect\<close> is.\<close>

datatype phase =
    Watching        \<comment> \<open>in the select, its client is not nil\<close>
  | SignalStop      \<comment> \<open>after an error, sending the stop signal\<close>
  | ResetNil        \<comment> \<open>about to set the client to nil\<close>
  | Reconnecting    \<comment> \<open>asking the options for a client\<close>
  | ResetNew nat    \<comment> \<open>about to publish the new client\<close>
  | SignalRestart   \<comment> \<open>sending the restart signal\<close>
  | Returned        \<comment> \<open>its context is done, or the error channel closed\<close>

text \<open>Where the goroutine of \<open>subscribe\<close> is.\<close>

datatype receiver = NoReceiver | Starting | Selecting | Finished

record connection =
  cn_client :: "nat option"
  cn_next :: nat
  cn_phase :: phase
  cn_receiver :: receiver
  cn_ctx :: nat
  cn_active :: "(nat \<times> nat) list"
  cn_panicked :: bool

text \<open>\<open>receiverChan != nil\<close>: it is made by \<open>subscribe\<close> and stays, closed or not.\<close>

definition has_chan :: "connection \<Rightarrow> bool" where
  "has_chan s \<longleftrightarrow> cn_receiver s \<noteq> NoReceiver"

text \<open>After \<open>connect\<close> has made the first client.\<close>

definition connected :: connection where
  "connected = \<lparr>cn_client = Some 0, cn_next = 1, cn_phase = Watching, cn_receiver = NoReceiver,
     cn_ctx = 0, cn_active = [], cn_panicked = False\<rparr>"

text \<open>The top of the receiver's loop: a receiver is started on a client that is not nil.\<close>

definition start_receiver :: "nat \<Rightarrow> nat option \<Rightarrow> (nat \<times> nat) list \<Rightarrow> (nat \<times> nat) list" where
  "start_receiver ctx client active = (case client of None \<Rightarrow> active | Some n \<Rightarrow> active @ [(ctx, n)])"

definition cancel_receiver :: "nat \<Rightarrow> (nat \<times> nat) list \<Rightarrow> (nat \<times> nat) list" where
  "cancel_receiver ctx active = filter (\<lambda>(c, n). c \<noteq> ctx) active"

section \<open>Steps\<close>

text \<open>With \<open>early\<close>, \<open>subscribe\<close> is called only while the connection stands or its loss is not yet handled.\<close>

inductive conn_step :: "bool \<Rightarrow> connection \<Rightarrow> connection \<Rightarrow> bool" for early :: bool where
  client_error:
    "cn_phase s = Watching \<Longrightarrow> conn_step early s (s\<lparr>cn_phase := SignalStop\<rparr>)"
| connect_done:
    "cn_phase s = Watching \<Longrightarrow> conn_step early s (s\<lparr>cn_phase := Returned\<rparr>)"
| stop_unheard:
    "cn_phase s = SignalStop \<Longrightarrow> \<not> has_chan s \<Longrightarrow> conn_step early s (s\<lparr>cn_phase := ResetNil\<rparr>)"
| stop_taken:
    "cn_phase s = SignalStop \<Longrightarrow> cn_receiver s = Selecting \<Longrightarrow>
     conn_step early s (s\<lparr>cn_phase := ResetNil, cn_active := cancel_receiver (cn_ctx s) (cn_active s)\<rparr>)"
| reset_nil:
    "cn_phase s = ResetNil \<Longrightarrow> conn_step early s (s\<lparr>cn_phase := Reconnecting, cn_client := None\<rparr>)"
| reconnect_failed:
    "cn_phase s = Reconnecting \<Longrightarrow> conn_step early s s"
| reconnected:
    "cn_phase s = Reconnecting \<Longrightarrow>
     conn_step early s (s\<lparr>cn_phase := ResetNew (cn_next s), cn_next := cn_next s + 1\<rparr>)"
| reset_new:
    "cn_phase s = ResetNew n \<Longrightarrow> conn_step early s (s\<lparr>cn_phase := SignalRestart, cn_client := Some n\<rparr>)"
| restart_unheard:
    "cn_phase s = SignalRestart \<Longrightarrow> \<not> has_chan s \<Longrightarrow> conn_step early s (s\<lparr>cn_phase := Watching\<rparr>)"
| restart_taken:
    "cn_phase s = SignalRestart \<Longrightarrow> cn_receiver s = Selecting \<Longrightarrow>
     conn_step early s (s\<lparr>cn_phase := Watching, cn_ctx := cn_ctx s + 1,
       cn_active := start_receiver (cn_ctx s + 1) (cn_client s) (cn_active s)\<rparr>)"
| subscribe_called:
    "\<not> has_chan s \<Longrightarrow> (early \<longrightarrow> cn_phase s = Watching \<or> cn_phase s = SignalStop) \<Longrightarrow>
     conn_step early s (s\<lparr>cn_receiver := Starting\<rparr>)"
| subscribe_again:
    "has_chan s \<Longrightarrow> conn_step early s s"
| receiver_started:
    "cn_receiver s = Starting \<Longrightarrow>
     conn_step early s (s\<lparr>cn_receiver := Selecting,
       cn_active := start_receiver (cn_ctx s) (cn_client s) (cn_active s)\<rparr>)"
| subscribe_done:
    "cn_receiver s = Selecting \<Longrightarrow>
     conn_step early s (s\<lparr>cn_receiver := Finished, cn_active := cancel_receiver (cn_ctx s) (cn_active s)\<rparr>)"
| send_on_closed:
    "cn_phase s = SignalStop \<or> cn_phase s = SignalRestart \<Longrightarrow> cn_receiver s = Finished \<Longrightarrow>
     conn_step early s (s\<lparr>cn_panicked := True\<rparr>)"

inductive reachable :: "bool \<Rightarrow> connection \<Rightarrow> bool" for early :: bool where
  init: "reachable early connected"
| step: "reachable early s \<Longrightarrow> conn_step early s s' \<Longrightarrow> reachable early s'"

inductive_cases conn_stepE: "conn_step early s s'"

section \<open>Receivers\<close>

text \<open>What holds at each place: who is listening, and on which client.\<close>

definition receivers_ok :: "connection \<Rightarrow> bool" where
  "receivers_ok s \<longleftrightarrow>
     (cn_receiver s \<in> {NoReceiver, Starting, Finished} \<longrightarrow> cn_active s = []) \<and>
     (cn_receiver s = Starting \<longrightarrow> cn_phase s \<in> {Watching, SignalStop, Returned}) \<and>
     (cn_phase s \<in> {Watching, SignalStop, Returned} \<longrightarrow> cn_client s \<noteq> None) \<and>
     (cn_phase s = SignalRestart \<longrightarrow> cn_client s \<noteq> None) \<and>
     (cn_receiver s = Selecting \<longrightarrow>
        (if cn_phase s \<in> {Watching, SignalStop, Returned}
         then cn_active s = [(cn_ctx s, the (cn_client s))] else cn_active s = []))"

lemma receivers_ok_init: "receivers_ok connected"
  by (simp add: receivers_ok_def connected_def)

lemma receivers_ok_step: "conn_step True s s' \<Longrightarrow> receivers_ok s \<Longrightarrow> receivers_ok s'"
  by (erule conn_stepE)
     (auto simp: receivers_ok_def has_chan_def start_receiver_def cancel_receiver_def split: if_splits)

lemma reachable_receivers_ok: "reachable True s \<Longrightarrow> receivers_ok s"
  by (induction rule: reachable.induct) (auto intro: receivers_ok_init receivers_ok_step)


text \<open>A lost connection that was made again after the subscription.\<close>

definition reconnected_once :: connection where
  "reconnected_once = \<lparr>cn_client = Some 1, cn_next = 2, cn_phase = Watching, cn_receiver = Selecting,
     cn_ctx = 1, cn_active = [(1, 1)], cn_panicked = False\<rparr>"

lemma reach_reconnected_once: "reachable True reconnected_once"
proof -
  let ?s = "\<lambda>c n p r x a. \<lparr>cn_client = c, cn_next = n, cn_phase = p, cn_receiver = r, cn_ctx = x, cn_active = a, cn_panicked = False\<rparr>"
  note st = reachable.step
  have 0: "reachable True (?s (Some 0) 1 Watching NoReceiver 0 [])"
    using reachable.init [of True] by (simp add: connected_def)
  have 1: "reachable True (?s (Some 0) 1 Watching Starting 0 [])"
    using st [OF 0 subscribe_called] by (simp add: has_chan_def)
  have 2: "reachable True (?s (Some 0) 1 Watching Selecting 0 [(0, 0)])"
    using st [OF 1 receiver_started] by (simp add: start_receiver_def)
  have 3: "reachable True (?s (Some 0) 1 SignalStop Selecting 0 [(0, 0)])"
    using st [OF 2 client_error] by simp
  have 4: "reachable True (?s (Some 0) 1 ResetNil Selecting 0 [])"
    using st [OF 3 stop_taken] by (simp add: cancel_receiver_def)
  have 5: "reachable True (?s None 1 Reconnecting Selecting 0 [])"
    using st [OF 4 reset_nil] by simp
  have 6: "reachable True (?s None 2 (ResetNew 1) Selecting 0 [])"
    using st [OF 5 reconnected] by (simp add: numeral_2_eq_2)
  have 7: "reachable True (?s (Some 1) 2 SignalRestart Selecting 0 [])"
    using st [OF 6 reset_new] by simp
  show ?thesis
    using st [OF 7 restart_taken] by (simp add: start_receiver_def reconnected_once_def)
qed


text \<open>
  C36. Without that restriction the receiver can be doubled: when \<open>subscribe\<close> is called after a
  reconnection has set the new client and before the restart signal is sent, the receiver's
  goroutine first starts a receiver on the new client by itself and then, on the signal, a second
  one on the same client, and both stay active. And once the context of a subscription is done, which
  closes the channel, the next loss of the connection sends on the closed channel and panics.
\<close>

theorem doubled_receiver_and_panic:
  "(\<exists>s. reachable False s \<and> cn_client s = Some 1 \<and> cn_active s = [(0, 1), (1, 1)]) \<and>
   (\<exists>s. reachable True s \<and> cn_panicked s)"
proof
  let ?s = "\<lambda>c n p r x a. \<lparr>cn_client = c, cn_next = n, cn_phase = p, cn_receiver = r, cn_ctx = x, cn_active = a, cn_panicked = False\<rparr>"
  note st = reachable.step
  have 0: "reachable False (?s (Some 0) 1 Watching NoReceiver 0 [])"
    using reachable.init [of False] by (simp add: connected_def)
  have 1: "reachable False (?s (Some 0) 1 SignalStop NoReceiver 0 [])"
    using st [OF 0 client_error] by simp
  have 2: "reachable False (?s (Some 0) 1 ResetNil NoReceiver 0 [])"
    using st [OF 1 stop_unheard] by (simp add: has_chan_def)
  have 3: "reachable False (?s None 1 Reconnecting NoReceiver 0 [])"
    using st [OF 2 reset_nil] by simp
  have 4: "reachable False (?s None 2 (ResetNew 1) NoReceiver 0 [])"
    using st [OF 3 reconnected] by (simp add: numeral_2_eq_2)
  have 5: "reachable False (?s (Some 1) 2 SignalRestart NoReceiver 0 [])"
    using st [OF 4 reset_new] by simp
  have 6: "reachable False (?s (Some 1) 2 SignalRestart Starting 0 [])"
    using st [OF 5 subscribe_called] by (simp add: has_chan_def)
  have 7: "reachable False (?s (Some 1) 2 SignalRestart Selecting 0 [(0, 1)])"
    using st [OF 6 receiver_started] by (simp add: start_receiver_def)
  have 8: "reachable False (?s (Some 1) 2 Watching Selecting 1 [(0, 1), (1, 1)])"
    using st [OF 7 restart_taken] by (simp add: start_receiver_def)
  then show "\<exists>s. reachable False s \<and> cn_client s = Some 1 \<and> cn_active s = [(0, 1), (1, 1)]"
    by (intro exI [of _ "?s (Some 1) 2 Watching Selecting 1 [(0, 1), (1, 1)]"] conjI) simp_all
  have "reachable True (reconnected_once\<lparr>cn_receiver := Finished, cn_active := []\<rparr>)"
    using st [OF reach_reconnected_once subscribe_done]
    by (simp add: reconnected_once_def cancel_receiver_def)
  then have "reachable True (reconnected_once\<lparr>cn_receiver := Finished, cn_active := [], cn_phase := SignalStop\<rparr>)"
    using st [OF _ client_error] by (fastforce simp: reconnected_once_def)
  from st [OF this send_on_closed]
  have "reachable True (reconnected_once\<lparr>cn_receiver := Finished, cn_active := [], cn_phase := SignalStop,
      cn_panicked := True\<rparr>)" (is "reachable True ?p")
    by simp
  moreover have "cn_panicked ?p" by simp
  ultimately show "\<exists>s. reachable True s \<and> cn_panicked s" by blast
qed

section \<open>Recovery\<close>

definition settled :: "connection \<Rightarrow> bool" where
  "settled s \<longleftrightarrow> cn_phase s = Watching \<and> cn_receiver s = Selecting \<and>
     (\<exists>n. cn_client s = Some n \<and> cn_active s = [(cn_ctx s, n)])"

text \<open>How many synchronisations are left until the connection stands and is listened to.\<close>

definition steps_left :: "connection \<Rightarrow> nat" where
  "steps_left s = (case cn_phase s of
       Watching \<Rightarrow> 0 | SignalRestart \<Rightarrow> 1 | ResetNew n \<Rightarrow> 2 | Reconnecting \<Rightarrow> 3 | ResetNil \<Rightarrow> 4 | SignalStop \<Rightarrow> 5 | Returned \<Rightarrow> 0) +
     (if cn_receiver s = Starting then 1 else 0)"

definition listening :: "connection \<Rightarrow> bool" where
  "listening s \<longleftrightarrow> cn_phase s \<noteq> Returned \<and> cn_receiver s \<in> {Starting, Selecting}"

lemma settled_iff:
  "receivers_ok s \<Longrightarrow> listening s \<Longrightarrow> settled s \<longleftrightarrow> cn_phase s = Watching \<and> cn_receiver s = Selecting"
  by (auto simp: settled_def receivers_ok_def listening_def)

lemma recovery_step:
  assumes "receivers_ok s" "listening s" "\<not> settled s"
  shows "\<exists>s'. conn_step True s s' \<and> listening s' \<and> steps_left s = Suc (steps_left s')"
proof (cases "cn_receiver s = Starting")
  case True
  then show ?thesis using assms(2) receiver_started [of s True]
    by (intro exI conjI, blast) (auto simp: listening_def steps_left_def)
next
  case False
  then have sel: "cn_receiver s = Selecting" using assms(2) by (auto simp: listening_def)
  show ?thesis
  proof (cases "cn_phase s")
    case Watching
    then show ?thesis using assms sel settled_iff by blast
  next
    case SignalStop
    then show ?thesis using stop_taken [of s True] sel
      by (intro exI conjI, blast) (auto simp: listening_def steps_left_def)
  next
    case ResetNil
    then show ?thesis using reset_nil [of s True] sel
      by (intro exI conjI, blast) (auto simp: listening_def steps_left_def)
  next
    case Reconnecting
    then show ?thesis using reconnected [of s True] sel
      by (intro exI conjI, blast) (auto simp: listening_def steps_left_def)
  next
    case (ResetNew n)
    then show ?thesis using reset_new [of s n True] sel
      by (intro exI conjI, blast) (auto simp: listening_def steps_left_def)
  next
    case SignalRestart
    then show ?thesis using restart_taken [of s True] sel
      by (intro exI conjI, blast) (auto simp: listening_def steps_left_def)
  next
    case Returned
    then show ?thesis using assms(2) by (simp add: listening_def)
  qed
qed

lemma recovery_run:
  "receivers_ok s \<Longrightarrow> listening s \<Longrightarrow> \<exists>k \<le> steps_left s. \<exists>s'. (conn_step True ^^ k) s s' \<and> settled s'"
proof (induction "steps_left s" arbitrary: s rule: less_induct)
  case less
  show ?case
  proof (cases "settled s")
    case True
    then show ?thesis by (intro exI [of _ 0] conjI exI [of _ s]) simp_all
  next
    case False
    then obtain s1 where s1: "conn_step True s s1" "listening s1" "steps_left s = Suc (steps_left s1)"
      using recovery_step less.prems by blast
    then obtain k s' where "k \<le> steps_left s1" "(conn_step True ^^ k) s1 s'" "settled s'"
      using less.hyps [of s1] receivers_ok_step [OF s1(1) less.prems(1)] by auto
    then show ?thesis using s1 relpowp_Suc_I2 [of "conn_step True" s s1 k s']
      by (intro exI [of _ "Suc k"] conjI exI [of _ s']) simp_all
  qed
qed



end
