(* ===== verification/Grpc_Message.thy ===== *)
theory Grpc_Message
  imports Cloud_Events
begin

text \<open>
  \<^verbatim>\<open>pkg/cloudevents/generic/options/grpc/protocol\<close>, \<^verbatim>\<open>message.go\<close> and
  \<^verbatim>\<open>write_message.go\<close>: how a cloud event is written into the protobuf message and read from
  it. The SDK's \<open>BinaryWriter\<close> interface is a record of operations on a state; the writer of the
  code is one, the SDK's event builder (\<^verbatim>\<open>binding/to_event.go\<close>, version 1.0) is another. The
  data is carried along unchanged. A map is an association list; \<open>nil\<close> is \<open>None\<close>, and an
  assignment to it, which panics, is the error of that name.
\<close>

section \<open>Messages\<close>

datatype pb_value =
    PbUnset
  | PbBoolean bool
  | PbInteger int
  | PbString string
  | PbBytes string
  | PbUri string
  | PbUriRef string
  | PbTimestamp int

record pb_event =
  pb_Id :: string
  pb_Source :: string
  pb_SpecVersion :: string
  pb_Type :: string
  pb_Attributes :: "(string, pb_value) gomap option"
  pb_Data :: event_data

definition empty_pb :: pb_event where
  "empty_pb = \<lparr>pb_Id = [], pb_Source = [], pb_SpecVersion = [], pb_Type = [], pb_Attributes = None, pb_Data = NoData\<rparr>"

definition prefix_name :: string where "prefix_name = ''ce-''"

definition contenttype :: string where "contenttype = ''contenttype''"

definition subject_name :: string where "subject_name = ''subject''"

definition time_name :: string where "time_name = ''time''"

text \<open>The SDK's kinds of attributes and their names in version 1.0.\<close>

datatype attr_kind = KID | KSource | KSpecVersion | KType | KDataContentType | KDataSchema | KSubject | KTime

fun kind_name :: "attr_kind \<Rightarrow> string" where
  "kind_name KID = ''id''"
| "kind_name KSource = ''source''"
| "kind_name KSpecVersion = ''specversion''"
| "kind_name KType = ''type''"
| "kind_name KDataContentType = ''datacontenttype''"
| "kind_name KDataSchema = ''dataschema''"
| "kind_name KSubject = ''subject''"
| "kind_name KTime = ''time''"

definition all_kinds :: "attr_kind list" where
  "all_kinds = [KID, KSource, KSpecVersion, KType, KDataContentType, KDataSchema, KSubject, KTime]"

text \<open>A value handed to a writer: of one of the types of cloud events, or a Go time.\<close>

datatype attr_arg = ArgValue ce_value | ArgTime int

definition arg_validate :: "attr_arg \<Rightarrow> ce_value" where
  "arg_validate v = (case v of ArgValue x \<Rightarrow> x | ArgTime t \<Rightarrow> CeTimestamp t)"

section \<open>Writing\<close>

definition attributeFor :: "attr_arg \<Rightarrow> pb_value" where
  "attributeFor v = (case arg_validate v of
       CeBool b \<Rightarrow> PbBoolean b
     | CeInteger i \<Rightarrow> PbInteger i
     | CeString s \<Rightarrow> PbString s
     | CeBinary b \<Rightarrow> PbBytes b
     | CeURI u \<Rightarrow> PbUri u
     | CeURIRef u \<Rightarrow> PbUriRef u
     | CeTimestamp t \<Rightarrow> PbTimestamp t)"

text \<open>The \<open>BinaryWriter\<close>; a missing value is \<open>nil\<close>.\<close>

record 's binary_writer =
  bw_SetAttribute :: "attr_kind \<Rightarrow> attr_arg option \<Rightarrow> 's \<Rightarrow> error option \<times> 's"
  bw_SetExtension :: "string \<Rightarrow> attr_arg option \<Rightarrow> 's \<Rightarrow> error option \<times> 's"
  bw_SetData :: "event_data \<Rightarrow> 's \<Rightarrow> error option \<times> 's"

definition nil_map_panic :: error where
  "nil_map_panic = Errorf ''panic: assignment to entry in nil map''"

definition put_attribute :: "string \<Rightarrow> pb_value \<Rightarrow> pb_event \<Rightarrow> error option \<times> pb_event" where
  "put_attribute k v b = (case pb_Attributes b of
       None \<Rightarrow> (Some nil_map_panic, b)
     | Some m \<Rightarrow> (None, b\<lparr>pb_Attributes := Some (AList.update k v m)\<rparr>))"

definition delete_attribute :: "string \<Rightarrow> pb_event \<Rightarrow> pb_event" where
  "delete_attribute k b = b\<lparr>pb_Attributes := map_option (AList.delete k) (pb_Attributes b)\<rparr>"

definition put_or_delete :: "string \<Rightarrow> attr_arg option \<Rightarrow> pb_event \<Rightarrow> error option \<times> pb_event" where
  "put_or_delete k v b = (case v of
       None \<Rightarrow> (None, delete_attribute k b)
     | Some x \<Rightarrow> put_attribute k (attributeFor x) b)"

definition string_arg :: "attr_arg option \<Rightarrow> string option" where
  "string_arg v = (case v of Some (ArgValue (CeString s)) \<Rightarrow> Some s | _ \<Rightarrow> None)"

definition pb_start :: "pb_event \<Rightarrow> pb_event" where
  "pb_start b = (if pb_Attributes b = None then b\<lparr>pb_Attributes := Some []\<rparr> else b)"

definition pb_SetStructuredEvent :: "string \<Rightarrow> event_data \<Rightarrow> pb_event \<Rightarrow> error option \<times> pb_event" where
  "pb_SetStructuredEvent mediaType event b =
     (case put_attribute contenttype (attributeFor (ArgValue (CeString mediaType))) (pb_start b) of
        (Some e, b') \<Rightarrow> (Some e, b')
      | (None, b') \<Rightarrow> (None, b'\<lparr>pb_Data := event\<rparr>))"

definition pb_SetData :: "event_data \<Rightarrow> pb_event \<Rightarrow> error option \<times> pb_event" where
  "pb_SetData d b = (None, b\<lparr>pb_Data := d\<rparr>)"

definition pb_SetAttribute :: "attr_kind \<Rightarrow> attr_arg option \<Rightarrow> pb_event \<Rightarrow> error option \<times> pb_event" where
  "pb_SetAttribute k v b = (case k of
       KSpecVersion \<Rightarrow> (case string_arg v of
           None \<Rightarrow> (Some (Errorf ''invalid SpecVersion type''), b) | Some s \<Rightarrow> (None, b\<lparr>pb_SpecVersion := s\<rparr>))
     | KID \<Rightarrow> (case string_arg v of
           None \<Rightarrow> (Some (Errorf ''invalid ID type''), b) | Some s \<Rightarrow> (None, b\<lparr>pb_Id := s\<rparr>))
     | KSource \<Rightarrow> (case string_arg v of
           None \<Rightarrow> (Some (Errorf ''invalid Source type''), b) | Some s \<Rightarrow> (None, b\<lparr>pb_Source := s\<rparr>))
     | KType \<Rightarrow> (case string_arg v of
           None \<Rightarrow> (Some (Errorf ''invalid Type type''), b) | Some s \<Rightarrow> (None, b\<lparr>pb_Type := s\<rparr>))
     | KDataContentType \<Rightarrow> put_or_delete contenttype v b
     | KSubject \<Rightarrow> put_or_delete (prefix_name @ subject_name) v b
     | KTime \<Rightarrow> put_or_delete (prefix_name @ time_name) v b
     | KDataSchema \<Rightarrow> put_or_delete (prefix_name @ kind_name KDataSchema) v b)"

definition pb_SetExtension :: "string \<Rightarrow> attr_arg option \<Rightarrow> pb_event \<Rightarrow> error option \<times> pb_event" where
  "pb_SetExtension n v b = put_or_delete (prefix_name @ n) v b"

definition pb_writer :: "pb_event binary_writer" where
  "pb_writer = \<lparr>bw_SetAttribute = pb_SetAttribute, bw_SetExtension = pb_SetExtension, bw_SetData = pb_SetData\<rparr>"

text \<open>
  The SDK's \<open>EventMessage.ReadBinary\<close>: the attributes that are set, in the order of the version,
  then the extensions, then the data.
\<close>

definition string_value :: "string \<Rightarrow> attr_arg option" where
  "string_value s = (if s = [] then None else Some (ArgValue (CeString s)))"

fun event_attribute :: "ce_event \<Rightarrow> attr_kind \<Rightarrow> attr_arg option" where
  "event_attribute e KID = string_value (ev_ID e)"
| "event_attribute e KSource = string_value (ev_Source e)"
| "event_attribute e KSpecVersion = string_value ''1.0''"
| "event_attribute e KType = string_value (ev_Type e)"
| "event_attribute e KDataContentType = Option.bind (ev_DataContentType e) string_value"
| "event_attribute e KDataSchema = None"
| "event_attribute e KSubject = None"
| "event_attribute e KTime = (if ev_Time e = 0 then None else Some (ArgTime (ev_Time e)))"

definition no_data :: "event_data \<Rightarrow> bool" where
  "no_data d \<longleftrightarrow> d = NoData \<or> d = RawData []"

definition event_ReadBinary :: "ce_event \<Rightarrow> 's binary_writer \<Rightarrow> 's \<Rightarrow> error option \<times> 's" where
  "event_ReadBinary e w s =
     (case for_each (\<lambda>k. case event_attribute e k of
               None \<Rightarrow> Pair None | Some v \<Rightarrow> bw_SetAttribute w k (Some v)) all_kinds s of
        (Some err, s') \<Rightarrow> (Some err, s')
      | (None, s') \<Rightarrow>
          (case for_each (\<lambda>(n, v). bw_SetExtension w n (Some (ArgValue v))) (ev_Extensions e) s' of
             (Some err, s'') \<Rightarrow> (Some err, s'')
           | (None, s'') \<Rightarrow> if no_data (ev_Data e) then (None, s'') else bw_SetData w (ev_Data e) s''))"

text \<open>\<open>WritePBMessage\<close> of an event: \<open>Start\<close>, the event, and \<open>End\<close>, which does nothing.\<close>

definition WritePBMessage :: "ce_event \<Rightarrow> pb_event \<Rightarrow> error option \<times> pb_event" where
  "WritePBMessage e pbEvt = event_ReadBinary e pb_writer (pb_start pbEvt)"

section \<open>Reading\<close>

record pb_message =
  msg_internal :: pb_event
  msg_version :: "string option"
  msg_format :: "string option"

text \<open>The SDK's formats and versions.\<close>

definition is_format :: "string \<Rightarrow> bool" where
  "is_format mediaType \<longleftrightarrow> has_prefix mediaType ''application/cloudevents''"

definition format_lookup :: "string \<Rightarrow> string option" where
  "format_lookup ct =
     (let m = trim_space (map ascii_lower (takeWhile (\<lambda>c. c \<noteq> CHR '';'') ct))
      in if m = ''application/cloudevents+json'' \<or> m = ''application/cloudevents-batch+json'' then Some m else None)"

definition specs_version :: "string \<Rightarrow> string option" where
  "specs_version s = (if s = ''1.0'' \<or> s = ''0.3'' then Some s else None)"

definition get_ce_string :: "pb_value \<Rightarrow> string" where
  "get_ce_string v = (case v of PbString s \<Rightarrow> s | _ \<Rightarrow> [])"

definition NewMessage :: "pb_event \<Rightarrow> pb_message" where
  "NewMessage msg =
     (case pb_Attributes msg of
        None \<Rightarrow> \<lparr>msg_internal = msg, msg_version = None, msg_format = None\<rparr>
      | Some m \<Rightarrow>
          (case map_of m contenttype of
             Some ct \<Rightarrow>
               if is_format (get_ce_string ct)
               then \<lparr>msg_internal = msg, msg_version = None, msg_format = format_lookup (get_ce_string ct)\<rparr>
               else \<lparr>msg_internal = msg, msg_version = specs_version (pb_SpecVersion msg), msg_format = None\<rparr>
           | None \<Rightarrow> \<lparr>msg_internal = msg, msg_version = specs_version (pb_SpecVersion msg), msg_format = None\<rparr>))"

datatype encoding = EncodingBinary | EncodingStructured | EncodingUnknown

definition ReadEncoding :: "pb_message \<Rightarrow> encoding" where
  "ReadEncoding m =
     (if msg_version m \<noteq> None then EncodingBinary
      else if msg_format m \<noteq> None then EncodingStructured else EncodingUnknown)"

definition valueFrom :: "url_parser \<Rightarrow> pb_value \<Rightarrow> ce_value result" where
  "valueFrom url attr = (case attr of
       PbBoolean b \<Rightarrow> Inr (CeBool b)
     | PbInteger i \<Rightarrow> Inr (CeInteger i)
     | PbString s \<Rightarrow> Inr (CeString s)
     | PbBytes b \<Rightarrow> Inr (CeBinary b)
     | PbUri u \<Rightarrow> (case url u of None \<Rightarrow> Inl (Errorf ''failed to parse URI value'') | Some u' \<Rightarrow> Inr (CeURI u'))
     | PbUriRef u \<Rightarrow> (case url u of None \<Rightarrow> Inl (Errorf ''failed to parse URIRef value'') | Some u' \<Rightarrow> Inr (CeURIRef u'))
     | PbTimestamp t \<Rightarrow> Inr (CeTimestamp t)
     | PbUnset \<Rightarrow> Inl (Errorf ''unsupported attribute type''))"

text \<open>The SDK finds an attribute by its prefixed name, without regard to letter case.\<close>

definition attribute_named :: "string \<Rightarrow> attr_kind option" where
  "attribute_named n = find (\<lambda>k. prefix_name @ kind_name k = map ascii_lower n) all_kinds"

text \<open>The attributes of the message's own fields, which are set when they are not empty.\<close>

definition set_field :: "'s binary_writer \<Rightarrow> attr_kind \<Rightarrow> string \<Rightarrow> 's \<Rightarrow> error option \<times> 's" where
  "set_field w k s st = (if s \<noteq> [] then bw_SetAttribute w k (Some (ArgValue (CeString s))) st else (None, st))"

text \<open>The body of the loop over the attributes.\<close>

definition read_attribute :: "url_parser \<Rightarrow> 's binary_writer \<Rightarrow> string \<times> pb_value \<Rightarrow> 's \<Rightarrow> error option \<times> 's" where
  "read_attribute url w nv st = (case nv of (n, value) \<Rightarrow>
     (case valueFrom url value of
        Inl e \<Rightarrow> (Some (Wrapf ''failed to convert attribute'' e), st)
      | Inr attrVal \<Rightarrow>
          if has_prefix n prefix_name then
            (case attribute_named n of
               Some k \<Rightarrow> bw_SetAttribute w k (Some (ArgValue attrVal)) st
             | None \<Rightarrow> bw_SetExtension w (trim_prefix n prefix_name) (Some (ArgValue attrVal)) st)
          else if n = contenttype then bw_SetAttribute w KDataContentType (Some (ArgValue attrVal)) st
          else (None, st)))"

definition err_not_binary :: error where "err_not_binary = Errorf ''message is not in binary mode''"

definition ReadBinary :: "url_parser \<Rightarrow> pb_message \<Rightarrow> 's binary_writer \<Rightarrow> 's \<Rightarrow> error option \<times> 's" where
  "ReadBinary url m w st =
     (if msg_version m = None \<or> msg_format m \<noteq> None then (Some err_not_binary, st)
      else let b = msg_internal m in
        case for_each (\<lambda>(k, s). set_field w k s)
               [(KSpecVersion, pb_SpecVersion b), (KID, pb_Id b), (KSource, pb_Source b), (KType, pb_Type b)] st of
          (Some e, st1) \<Rightarrow> (Some e, st1)
        | (None, st1) \<Rightarrow>
            (case for_each (read_attribute url w) (case pb_Attributes b of None \<Rightarrow> [] | Some as \<Rightarrow> as) st1 of
               (Some e, st2) \<Rightarrow> (Some e, st2)
             | (None, st2) \<Rightarrow> if pb_Data b \<noteq> NoData then bw_SetData w (pb_Data b) st2 else (None, st2)))"

definition ReadStructured :: "pb_message \<Rightarrow> (string \<Rightarrow> event_data \<Rightarrow> 's \<Rightarrow> error option \<times> 's) \<Rightarrow> 's \<Rightarrow> error option \<times> 's" where
  "ReadStructured m setStructuredEvent st =
     (case msg_format m of
        None \<Rightarrow> (Some (Errorf ''message is not in structured mode''), st)
      | Some f \<Rightarrow> setStructuredEvent f (pb_Data (msg_internal m)) st)"

text \<open>
  The metadata readers return the value of the map, or the \<open>nil\<close> pointer, \<open>MetaValue None\<close>;
  \<open>GetAttribute\<close> of a message without a version panics, which is \<open>None\<close>.
\<close>

datatype metadata = MetaString string | MetaValue "pb_value option"

definition lookup_attribute :: "pb_message \<Rightarrow> string \<Rightarrow> pb_value option" where
  "lookup_attribute m n = Option.bind (pb_Attributes (msg_internal m)) (\<lambda>as. map_of as n)"

definition msg_GetAttribute :: "pb_message \<Rightarrow> attr_kind \<Rightarrow> metadata option" where
  "msg_GetAttribute m k =
     (if msg_version m = None then None
      else Some (case k of
         KSpecVersion \<Rightarrow> MetaString (pb_SpecVersion (msg_internal m))
       | KType \<Rightarrow> MetaString (pb_Type (msg_internal m))
       | KSource \<Rightarrow> MetaString (pb_Source (msg_internal m))
       | KID \<Rightarrow> MetaString (pb_Id (msg_internal m))
       | _ \<Rightarrow> MetaValue (lookup_attribute m (prefix_name @ kind_name k))))"

definition msg_GetExtension :: "pb_message \<Rightarrow> string \<Rightarrow> metadata" where
  "msg_GetExtension m n = MetaValue (lookup_attribute m (prefix_name @ n))"

section \<open>The event builder of the SDK\<close>

text \<open>The setters of the version 1.0 context, which trim as those of the event do.\<close>

definition ctx_SetString :: "url_parser \<Rightarrow> attr_kind \<Rightarrow> string \<Rightarrow> ce_event \<Rightarrow> error option \<times> ce_event" where
  "ctx_SetString url k s e = (case k of
       KID \<Rightarrow> if trim_space s = [] then (Some (Errorf ''id is required to be a non-empty string''), e)
              else (None, e\<lparr>ev_ID := trim_space s\<rparr>)
     | KSource \<Rightarrow> (case url s of None \<Rightarrow> (Some (Errorf ''parse''), e) | Some u \<Rightarrow> (None, e\<lparr>ev_Source := u\<rparr>))
     | KType \<Rightarrow> (None, e\<lparr>ev_Type := trim_space s\<rparr>)
     | KDataContentType \<Rightarrow> (None, e\<lparr>ev_DataContentType := (if trim_space s = [] then None else Some (trim_space s))\<rparr>)
     | KSpecVersion \<Rightarrow> if s = ''1.0'' then (None, e) else (Some (Errorf ''unrecognized event version''), e)
     | _ \<Rightarrow> (None, e))"

definition ctx_SetExtension :: "string \<Rightarrow> ce_value \<Rightarrow> ce_event \<Rightarrow> error option \<times> ce_event" where
  "ctx_SetExtension n v e =
     (let lname = map ascii_lower n in
      if \<not> valid_extension_name n then (Some (Errorf ''bad key''), e)
      else if lname \<in> set spec_attributes then (Some (Errorf ''bad key''), e)
      else (None, e\<lparr>ev_Extensions := AList.update lname v (ev_Extensions e)\<rparr>))"

text \<open>
  \<open>parse_time\<close> is \<open>time.Parse\<close> of RFC 3339 text. The event has no data schema and no subject,
  so that those are not kept.
\<close>

definition builder_SetAttribute ::
  "url_parser \<Rightarrow> (string \<Rightarrow> int result) \<Rightarrow> attr_kind \<Rightarrow> attr_arg option \<Rightarrow> ce_event \<Rightarrow> error option \<times> ce_event" where
  "builder_SetAttribute url parse_time k v e =
     (case v of
        None \<Rightarrow> (None, e)
      | Some a \<Rightarrow>
          if k = KTime then
            (case arg_validate a of
               CeTimestamp t \<Rightarrow> (None, e\<lparr>ev_Time := t\<rparr>)
             | CeString s \<Rightarrow> (case parse_time s of Inl err \<Rightarrow> (Some (Errorf ''invalid value''), e)
                                               | Inr t \<Rightarrow> (None, e\<lparr>ev_Time := t\<rparr>))
             | _ \<Rightarrow> (Some (Errorf ''invalid value''), e))
          else (case arg_validate a of
             CeString s \<Rightarrow> ctx_SetString url k s e
           | _ \<Rightarrow> (Some (Errorf ''invalid value''), e)))"

definition builder_SetExtension :: "string \<Rightarrow> attr_arg option \<Rightarrow> ce_event \<Rightarrow> error option \<times> ce_event" where
  "builder_SetExtension n v e = (case v of
       None \<Rightarrow> if valid_extension_name n \<and> map ascii_lower n \<notin> set spec_attributes
               then (None, e\<lparr>ev_Extensions := AList.delete (map ascii_lower n) (ev_Extensions e)\<rparr>)
               else (Some (Errorf ''bad key''), e)
     | Some a \<Rightarrow> ctx_SetExtension n (arg_validate a) e)"

definition event_writer :: "url_parser \<Rightarrow> (string \<Rightarrow> int result) \<Rightarrow> ce_event binary_writer" where
  "event_writer url parse_time = \<lparr>bw_SetAttribute = builder_SetAttribute url parse_time,
     bw_SetExtension = builder_SetExtension,
     bw_SetData = (\<lambda>d e. (None, if no_data d then e else e\<lparr>ev_Data := d\<rparr>))\<rparr>"

text \<open>\<open>ToEvent\<close> of a message in binary mode.\<close>

definition message_to_event ::
  "url_parser \<Rightarrow> (string \<Rightarrow> int result) \<Rightarrow> pb_message \<Rightarrow> error option \<times> ce_event" where
  "message_to_event url parse_time m = ReadBinary url m (event_writer url parse_time) new_event"

end
