(* ===== verification/Grpc_Roundtrip.thy ===== *)
theory Grpc_Roundtrip
  imports Grpc_Message "HOL-Library.Multiset"
begin

text \<open>
  What survives the protobuf message: an event that is written, sent and read is the event, whatever
  the order of the attributes on the wire. The one exception is an event without any optional
  attribute, whose empty map is nil on arrival.
\<close>

section \<open>Events that can be written\<close>

definition uri_stable :: "url_parser \<Rightarrow> ce_value \<Rightarrow> bool" where
  "uri_stable url v = (case v of CeURI u \<Rightarrow> url u = Some u | CeURIRef u \<Rightarrow> url u = Some u | _ \<Rightarrow> True)"

definition good_extension :: "url_parser \<Rightarrow> string \<times> ce_value \<Rightarrow> bool" where
  "good_extension url nv = (valid_extension_name (fst nv) \<and> map ascii_lower (fst nv) = fst nv \<and>
     fst nv \<notin> set spec_attributes \<and> uri_stable url (snd nv))"

definition wf_event :: "url_parser \<Rightarrow> ce_event \<Rightarrow> bool" where
  "wf_event url e \<longleftrightarrow>
     ev_ID e \<noteq> [] \<and> trim_space (ev_ID e) = ev_ID e \<and>
     ev_Source e \<noteq> [] \<and> url (ev_Source e) = Some (ev_Source e) \<and>
     ev_Type e \<noteq> [] \<and> trim_space (ev_Type e) = ev_Type e \<and>
     (\<forall>ct \<in> set_option (ev_DataContentType e). ct \<noteq> [] \<and> trim_space ct = ct \<and> \<not> is_format ct) \<and>
     wf_map (ev_Extensions e) \<and> list_all (good_extension url) (ev_Extensions e) \<and>
     ev_Data e \<noteq> RawData [] \<and> ev_FieldErrors e = []"

definition attributes_of :: "ce_event \<Rightarrow> (string, pb_value) gomap" where
  "attributes_of e =
     (case ev_DataContentType e of None \<Rightarrow> [] | Some ct \<Rightarrow> [(contenttype, PbString ct)]) @
     (if ev_Time e = 0 then [] else [(prefix_name @ time_name, PbTimestamp (ev_Time e))]) @
     map (\<lambda>(n, v). (prefix_name @ n, attributeFor (ArgValue v))) (ev_Extensions e)"

lemma update_append: "k \<notin> fst ` set m \<Longrightarrow> AList.update k v m = m @ [(k, v)]"
  by (induction m) auto

lemma write_extensions:
  assumes "distinct (map fst exts)" "pb_Attributes b = Some as" "\<forall>n \<in> fst ` set exts. prefix_name @ n \<notin> fst ` set as"
  shows "for_each (\<lambda>(n, v). pb_SetExtension n (Some (ArgValue v))) exts b =
    (None, b\<lparr>pb_Attributes := Some (as @ map (\<lambda>(n, v). (prefix_name @ n, attributeFor (ArgValue v))) exts)\<rparr>)"
  using assms
proof (induction exts arbitrary: b as)
  case (Cons nv exts)
  obtain n v where nv: "nv = (n, v)" by (cases nv)
  let ?as = "as @ [(prefix_name @ n, attributeFor (ArgValue v))]"
  have step: "pb_SetExtension n (Some (ArgValue v)) b = (None, b\<lparr>pb_Attributes := Some ?as\<rparr>)"
    using Cons.prems by (simp add: pb_SetExtension_def put_or_delete_def put_attribute_def update_append nv)
  have "\<forall>m \<in> fst ` set exts. prefix_name @ m \<notin> fst ` set ?as"
    using Cons.prems by (auto simp: nv)
  then show ?case
    using Cons.IH [of "b\<lparr>pb_Attributes := Some ?as\<rparr>" ?as] Cons.prems(1) by (simp add: nv step)
qed simp

lemma names_apart [simp]: "contenttype \<noteq> prefix_name @ n" "prefix_name @ n \<noteq> contenttype"
  by (simp_all add: contenttype_def prefix_name_def)

lemma good_extension_not_time: "good_extension url (n, v) \<Longrightarrow> n \<noteq> time_name"
  by (auto simp: good_extension_def time_name_def spec_attributes_def)

lemma attributes_distinct:
  assumes "wf_event url e"
  shows "distinct (map fst (attributes_of e))"
proof -
  have "time_name \<notin> fst ` set (ev_Extensions e)"
    using assms by (force simp: wf_event_def list_all_iff dest: good_extension_not_time)
  moreover have "distinct (map (\<lambda>x. prefix_name @ fst x) (ev_Extensions e))"
    using assms by (auto simp: wf_event_def wf_map_def distinct_map inj_on_def)
  ultimately show ?thesis
    by (auto simp: attributes_of_def case_prod_beta comp_def image_iff split: option.split)
qed

text \<open>What \<open>WritePBMessage\<close> makes of a well-formed event.\<close>

lemma write_event:
  assumes "wf_event url e"
  shows "WritePBMessage e empty_pb =
    (None, \<lparr>pb_Id = ev_ID e, pb_Source = ev_Source e, pb_SpecVersion = ''1.0'', pb_Type = ev_Type e,
       pb_Attributes = Some (attributes_of e), pb_Data = ev_Data e\<rparr>)"
proof -
  note wf = assms [unfolded wf_event_def]
  let ?as = "(case ev_DataContentType e of None \<Rightarrow> [] | Some ct \<Rightarrow> [(contenttype, PbString ct)]) @
     (if ev_Time e = 0 then [] else [(prefix_name @ time_name, PbTimestamp (ev_Time e))])"
  let ?b = "\<lparr>pb_Id = ev_ID e, pb_Source = ev_Source e, pb_SpecVersion = ''1.0'', pb_Type = ev_Type e,
       pb_Attributes = Some ?as, pb_Data = NoData\<rparr>"
  have fields: "for_each (\<lambda>k. case event_attribute e k of
      None \<Rightarrow> Pair None | Some v \<Rightarrow> pb_SetAttribute k (Some v)) all_kinds (pb_start empty_pb) = (None, ?b)"
    using wf by (auto simp: all_kinds_def pb_start_def empty_pb_def string_value_def pb_SetAttribute_def
        string_arg_def put_or_delete_def put_attribute_def attributeFor_def arg_validate_def split: option.split)
  have "time_name \<notin> fst ` set (ev_Extensions e)"
    using wf by (force simp: list_all_iff dest: good_extension_not_time)
  then have "\<forall>n \<in> fst ` set (ev_Extensions e). prefix_name @ n \<notin> fst ` set ?as"
    by (auto simp: image_iff split: option.split)
  then have exts: "for_each (\<lambda>(n, v). pb_SetExtension n (Some (ArgValue v))) (ev_Extensions e) ?b =
      (None, ?b\<lparr>pb_Attributes := Some (attributes_of e)\<rparr>)"
    using write_extensions [of "ev_Extensions e" ?b ?as] wf by (simp add: wf_map_def attributes_of_def)
  have "ev_Data e = NoData \<or> \<not> no_data (ev_Data e)" using wf by (auto simp: no_data_def)
  then show ?thesis
    unfolding WritePBMessage_def event_ReadBinary_def pb_writer_def binary_writer.simps fields exts
    by (auto simp: fields exts pb_SetData_def no_data_def)
qed

section \<open>Reading\<close>

text \<open>A state of the event builder that has the fields of \<open>e\<close>, and of the attributes those in \<open>K\<close>.\<close>

definition has_read :: "ce_event \<Rightarrow> string set \<Rightarrow> ce_event \<Rightarrow> bool" where
  "has_read e K st \<longleftrightarrow> ev_ID st = ev_ID e \<and> ev_Source st = ev_Source e \<and> ev_Type st = ev_Type e \<and>
     ev_Data st = NoData \<and> ev_FieldErrors st = [] \<and>
     ev_DataContentType st = (if contenttype \<in> K then ev_DataContentType e else None) \<and>
     ev_Time st = (if prefix_name @ time_name \<in> K then ev_Time e else 0) \<and>
     wf_map (ev_Extensions st) \<and>
     map_of (ev_Extensions st) = (\<lambda>n. if prefix_name @ n \<in> K then map_of (ev_Extensions e) n else None)"

lemma valueFrom_attributeFor:
  "uri_stable url v \<Longrightarrow> valueFrom url (attributeFor (ArgValue v)) = Inr v"
  by (cases v) (simp_all add: valueFrom_def attributeFor_def arg_validate_def uri_stable_def)

lemma prefix_name_lower [simp]: "map ascii_lower prefix_name = prefix_name"
  by (simp add: prefix_name_def ascii_lower_def)

lemma kind_names: "set (map kind_name all_kinds) = set spec_attributes"
  by (auto simp: all_kinds_def spec_attributes_def)

lemma attribute_named_extension:
  assumes "good_extension url (n, v)"
  shows "attribute_named (prefix_name @ n) = None"
proof -
  have "kind_name k \<noteq> n" if "k \<in> set all_kinds" for k
    using assms that kind_names by (auto simp: good_extension_def)
  then show ?thesis
    using assms by (simp add: attribute_named_def find_None_iff good_extension_def)
qed

lemma attribute_named_time: "attribute_named (prefix_name @ time_name) = Some KTime"
  by code_simp

lemma attributes_cases:
  assumes "kv \<in> set (attributes_of e)"
  obtains (content) ct where "kv = (contenttype, PbString ct)" "ev_DataContentType e = Some ct"
  | (time) "kv = (prefix_name @ time_name, PbTimestamp (ev_Time e))"
  | (extension) n v where "kv = (prefix_name @ n, attributeFor (ArgValue v))" "(n, v) \<in> set (ev_Extensions e)"
  using assms by (auto simp: attributes_of_def split: option.splits if_splits)

lemma read_attribute_step:
  assumes "wf_event url e" "has_read e K st" "kv \<in> set (attributes_of e)"
  shows "\<exists>st'. read_attribute url (event_writer url parse_time) kv st = (None, st') \<and> has_read e (insert (fst kv) K) st'"
  using assms(3)
proof (cases rule: attributes_cases)
  case (content ct)
  have "\<not> has_prefix contenttype prefix_name" by (simp add: has_prefix_def contenttype_def prefix_name_def)
  moreover have "ct \<noteq> []" "trim_space ct = ct" using assms(1) content(2) by (auto simp: wf_event_def)
  ultimately show ?thesis
    using assms(2) content
    by (simp add: read_attribute_def valueFrom_def event_writer_def builder_SetAttribute_def arg_validate_def
        ctx_SetString_def has_read_def)
next
  case time
  have "map_of (ev_Extensions e) time_name = None"
    using assms(1) by (force simp: wf_event_def list_all_iff map_of_eq_None_iff dest: good_extension_not_time)
  then show ?thesis
    using assms(2) time
    by (auto simp add: read_attribute_def valueFrom_def event_writer_def builder_SetAttribute_def arg_validate_def
        attribute_named_time has_read_def fun_eq_iff)
next
  case (extension n v)
  have good: "good_extension url (n, v)" and m: "map_of (ev_Extensions e) n = Some v"
    using assms(1) extension(2) by (auto simp: wf_event_def list_all_iff wf_map_of_iff)
  have "n \<noteq> time_name" using good by (rule good_extension_not_time)
  then show ?thesis
    using assms(2) extension(1) good m
    by (auto simp: read_attribute_def valueFrom_attributeFor event_writer_def builder_SetExtension_def
        ctx_SetExtension_def arg_validate_def attribute_named_extension [OF good] has_read_def good_extension_def
        fun_eq_iff Let_def)
qed

lemma read_attributes:
  assumes "wf_event url e" "has_read e K st" "set kvs \<subseteq> set (attributes_of e)"
  shows "\<exists>st'. for_each (read_attribute url (event_writer url parse_time)) kvs st = (None, st') \<and>
    has_read e (K \<union> fst ` set kvs) st'"
  using assms(2,3)
proof (induction kvs arbitrary: K st)
  case (Cons kv kvs)
  then obtain st1 where st1: "read_attribute url (event_writer url parse_time) kv st = (None, st1)"
    "has_read e (insert (fst kv) K) st1"
    using read_attribute_step [OF assms(1)] by (metis insert_subset list.simps(15))
  with Cons.IH [OF st1(2)] Cons.prems(2) show ?case by auto
qed simp

text \<open>
  What may happen to a message on the wire: the attributes are a map, so that their order is not
  kept, and an empty map arrives as nil.
\<close>

definition transmitted :: "pb_event \<Rightarrow> pb_event \<Rightarrow> bool" where
  "transmitted b b' \<longleftrightarrow>
     (case pb_Attributes b of
        None \<Rightarrow> b' = b
      | Some as \<Rightarrow> if as = [] then b' = b\<lparr>pb_Attributes := None\<rparr>
          else \<exists>as'. mset as' = mset as \<and> b' = b\<lparr>pb_Attributes := Some as'\<rparr>)"

definition same_event :: "ce_event \<Rightarrow> ce_event \<Rightarrow> bool" where
  "same_event e e' \<longleftrightarrow> e' = e\<lparr>ev_Extensions := ev_Extensions e'\<rparr> \<and>
     map_of (ev_Extensions e') = map_of (ev_Extensions e)"

lemma attributes_of_extension_key:
  assumes "(n, v) \<in> set (ev_Extensions e)"
  shows "prefix_name @ n \<in> fst ` set (attributes_of e)"
proof -
  have "(prefix_name @ n, attributeFor (ArgValue v)) \<in> set (attributes_of e)"
    using assms by (auto simp: attributes_of_def)
  then show ?thesis by force
qed

lemma has_read_all:
  assumes "has_read e (fst ` set (attributes_of e)) st"
  shows "same_event e (st\<lparr>ev_Data := ev_Data e\<rparr>) \<or> ev_FieldErrors e \<noteq> []"
proof -
  have "ev_DataContentType st = ev_DataContentType e"
    using assms by (cases "ev_DataContentType e") (auto simp: has_read_def attributes_of_def)
  moreover have "ev_Time st = ev_Time e"
    using assms by (auto simp: has_read_def attributes_of_def split: if_splits)
  moreover have "map_of (ev_Extensions st) n = map_of (ev_Extensions e) n" for n
    using assms attributes_of_extension_key [of n _ e]
    by (auto simp: has_read_def map_of_eq_None_iff dest: map_of_SomeD)
      (metis map_of_SomeD option.exhaust)
  ultimately show ?thesis
    using assms by (auto simp: same_event_def has_read_def fun_eq_iff)
qed

lemma version_of_message:
  assumes "wf_event url e" "mset as' = mset (attributes_of e)" "as' \<noteq> []"
  shows "NewMessage \<lparr>pb_Id = i, pb_Source = s, pb_SpecVersion = ''1.0'', pb_Type = t, pb_Attributes = Some as', pb_Data = d\<rparr> =
    \<lparr>msg_internal = \<lparr>pb_Id = i, pb_Source = s, pb_SpecVersion = ''1.0'', pb_Type = t, pb_Attributes = Some as', pb_Data = d\<rparr>,
     msg_version = Some ''1.0'', msg_format = None\<rparr>"
proof -
  have content: "\<not> is_format (get_ce_string v)" if "map_of as' contenttype = Some v" for v
  proof -
    have "(contenttype, v) \<in> set (attributes_of e)"
      using map_of_SomeD [OF that] mset_eq_setD [OF assms(2)] by simp
    then show ?thesis
      by (cases rule: attributes_cases) (use assms(1) in \<open>auto simp: wf_event_def get_ce_string_def\<close>)
  qed
  then show ?thesis
    by (auto simp: NewMessage_def specs_version_def split: option.split)
qed

text \<open>Writing, transmitting and reading an event.\<close>

lemma event_roundtrip:
  assumes "wf_event url e"
  shows "\<exists>b. WritePBMessage e empty_pb = (None, b) \<and>
    (\<forall>b'. transmitted b b' \<longrightarrow>
       (if ev_DataContentType e = None \<and> ev_Time e = 0 \<and> ev_Extensions e = []
        then ReadEncoding (NewMessage b') = EncodingUnknown
        else \<exists>e'. message_to_event url parse_time (NewMessage b') = (None, e') \<and> same_event e e'))"
proof -
  let ?b = "\<lambda>as. \<lparr>pb_Id = ev_ID e, pb_Source = ev_Source e, pb_SpecVersion = ''1.0'', pb_Type = ev_Type e,
       pb_Attributes = Some as, pb_Data = ev_Data e\<rparr>"
  have empty: "attributes_of e = [] \<longleftrightarrow> ev_DataContentType e = None \<and> ev_Time e = 0 \<and> ev_Extensions e = []"
    by (auto simp: attributes_of_def split: option.split)
  have read: "\<exists>e'. message_to_event url parse_time (NewMessage (?b as)) = (None, e') \<and> same_event e e'"
    if as: "mset as = mset (attributes_of e)" "as \<noteq> []" for as
  proof -
    let ?w = "event_writer url parse_time" and ?st = "new_event\<lparr>ev_ID := ev_ID e, ev_Source := ev_Source e, ev_Type := ev_Type e\<rparr>"
    have fields: "for_each (\<lambda>(k, s). set_field ?w k s)
        [(KSpecVersion, ''1.0''), (KID, ev_ID e), (KSource, ev_Source e), (KType, ev_Type e)] new_event = (None, ?st)"
      using assms by (simp add: wf_event_def set_field_def event_writer_def builder_SetAttribute_def
          arg_validate_def ctx_SetString_def)
    have "has_read e {} ?st" by (simp add: has_read_def new_event_def)
    from read_attributes [OF assms this, of as parse_time] obtain st where
      st: "for_each (read_attribute url ?w) as ?st = (None, st)" "has_read e (fst ` set (attributes_of e)) st"
      using mset_eq_setD [OF as(1)] by auto
    have set_data: "bw_SetData ?w d e' = (None, if no_data d then e' else e'\<lparr>ev_Data := d\<rparr>)" for d e'
      by (simp add: event_writer_def)
    have data: "ev_Data st = NoData" "ev_Data e = NoData \<or> \<not> no_data (ev_Data e)"
      using st(2) assms by (auto simp: has_read_def wf_event_def no_data_def)
    have "message_to_event url parse_time (NewMessage (?b as)) = (None, st\<lparr>ev_Data := ev_Data e\<rparr>)"
      unfolding message_to_event_def ReadBinary_def version_of_message [OF assms as]
      using data by (auto simp: fields st(1) set_data Let_def simp del: for_each.simps)
    then show ?thesis using has_read_all [OF st(2)] assms by (auto simp: wf_event_def)
  qed
  have unknown: "ReadEncoding (NewMessage b) = EncodingUnknown" if "pb_Attributes b = None" for b
    using that by (simp add: NewMessage_def ReadEncoding_def)
  have sent: "if attributes_of e = [] then pb_Attributes b' = None
      else \<exists>as. mset as = mset (attributes_of e) \<and> as \<noteq> [] \<and> b' = ?b as"
    if "transmitted (?b (attributes_of e)) b'" for b'
    using that by (auto simp: transmitted_def split: if_splits)
  show ?thesis
  proof (intro exI conjI allI impI)
    show "WritePBMessage e empty_pb = (None, ?b (attributes_of e))" by (rule write_event [OF assms])
    fix b' assume "transmitted (?b (attributes_of e)) b'"
    from sent [OF this] show "if ev_DataContentType e = None \<and> ev_Time e = 0 \<and> ev_Extensions e = []
        then ReadEncoding (NewMessage b') = EncodingUnknown
        else \<exists>e'. message_to_event url parse_time (NewMessage b') = (None, e') \<and> same_event e e'"
      using read unknown unfolding empty [symmetric] by (cases "attributes_of e = []") auto
  qed
qed

text \<open>Events of the builder are well formed, so that what they carry arrives.\<close>

lemma trim_space_twice [simp]: "trim_space (trim_space s) = trim_space s"
proof -
  define t u where "t = dropWhile is_space s" and "u = rev (dropWhile is_space (rev t))"
  have "t = u @ rev (takeWhile is_space (rev t))"
    unfolding u_def by (metis rev_append rev_rev_ident takeWhile_dropWhile_id)
  then have "u \<noteq> [] \<Longrightarrow> hd u = hd t \<and> t \<noteq> []" by (metis Nil_is_append_conv hd_append2)
  then have "u \<noteq> [] \<Longrightarrow> \<not> is_space (hd u)" using hd_dropWhile [of is_space s] by (simp add: t_def)
  then have "dropWhile is_space u = u" by (cases u) auto
  then show ?thesis by (simp add: trim_space_def t_def u_def)
qed

text \<open>
  For a URL parser whose results parse to themselves, a valid event of the builder with a type in the
  form the protocol has is well formed; so it survives gRPC, as does its answer with data.
\<close>

lemma setter_frame [simp]:
  "ev_DataContentType (SetExtension n v e) = ev_DataContentType e" "ev_DataContentType (SetTime t e) = ev_DataContentType e"
  "ev_DataContentType (SetSource url u e) = ev_DataContentType e" "ev_DataContentType (SetType s e) = ev_DataContentType e"
  "ev_DataContentType (SetID s e) = ev_DataContentType e" "ev_DataContentType (set_nonempty n s e) = ev_DataContentType e"
  "ev_Time (SetExtension n v e) = ev_Time e" "ev_Time (SetTime t e) = t"
  "ev_Time (SetSource url u e) = ev_Time e" "ev_Time (set_nonempty n s e) = ev_Time e"
  by (simp_all add: SetExtension_def SetTime_def SetSource_def SetType_def SetID_def set_nonempty_def
      field_ok_def field_error_def Let_def split: sum.split option.split)

lemma NewEvent_optional:
  "ev_DataContentType (NewEvent url uuid now b) = None" "ev_Time (NewEvent url uuid now b) = now"
  by (cases "eb_resourceVersion b"; simp add: NewEvent_def Let_def new_event_def)+

lemma builder_extensions_good: "list_all (good_extension url) (builder_extensions b)"
  by (auto simp: builder_extensions_def good_extension_def uri_stable_def split: option.split)

lemma builder_extensions_wf: "wf_map (builder_extensions b)"
  by (auto simp: builder_extensions_def wf_map_def split: option.split)

lemma NewEvent_wf:
  assumes "event_valid (NewEvent url uuid now b)" "\<forall>u u'. url u = Some u' \<longrightarrow> url u' = Some u'"
    and "trim_space uuid \<noteq> []"
  shows "wf_event url (NewEvent url uuid now b)"
proof -
  let ?e = "NewEvent url uuid now b"
  have e: "ev_FieldErrors ?e = []" "trim_space (ev_Source ?e) \<noteq> []" "trim_space (ev_Type ?e) \<noteq> []" "trim_space (ev_ID ?e) \<noteq> []"
    using assms(1) by (simp_all add: event_valid_def)
  have t: "trim_space [] = []" by (simp add: trim_space_def)
  have "url (ev_Source ?e) = Some (ev_Source ?e)" "ev_Source ?e \<noteq> []"
    using e(2) assms(2) t by (auto simp: NewEvent_source split: option.splits)
  moreover have "ev_ID ?e = trim_space uuid" using assms(3) by (simp add: NewEvent_ID)
  ultimately show ?thesis
    using e(1,3) assms(3) t
    by (auto simp: wf_event_def NewEvent_extensions builder_extensions_good builder_extensions_wf NewEvent_optional)
qed

definition example_status :: ce_event where
  "example_status = NewEvent Some ''id'' 5 (WithOriginalSource ''hub1'' (WithResourceVersion 7 (WithResourceID ''r1''
     (NewEventBuilder ''agent1'' \<lparr>et_DataType = manifests_type, et_SubResource = SubResourceStatus, et_Action = ''update''\<rparr>))))"

lemma example_status_wf: "wf_event Some example_status" "ev_Time example_status \<noteq> 0"
  by code_simp+

text \<open>
  The metadata readers of a message do not find what was written: the content type of an event
  that has one is looked up under another name than it is stored under, and an extension is not the
  value that the event has but the protobuf value.
\<close>

theorem message_metadata_lookup:
  assumes "wf_event url e" "ev_DataContentType e = Some ct"
  shows "\<exists>b. WritePBMessage e empty_pb = (None, b) \<and> map_of (the (pb_Attributes b)) contenttype = Some (PbString ct) \<and>
    msg_GetAttribute (NewMessage b) KDataContentType = Some (MetaValue None) \<and>
    (\<forall>n v. map_of (ev_Extensions e) n = Some v \<longrightarrow>
       msg_GetExtension (NewMessage b) n = MetaValue (Some (attributeFor (ArgValue v))))"
proof -
  let ?b = "\<lparr>pb_Id = ev_ID e, pb_Source = ev_Source e, pb_SpecVersion = ''1.0'', pb_Type = ev_Type e,
       pb_Attributes = Some (attributes_of e), pb_Data = ev_Data e\<rparr>"
  have ne: "attributes_of e \<noteq> []" using assms(2) by (simp add: attributes_of_def)
  note msg = version_of_message [OF assms(1) refl ne]
  have "kind_name KDataContentType \<in> set spec_attributes"
    unfolding kind_names [symmetric] by (simp add: all_kinds_def)
  then have "kind_name KDataContentType \<notin> fst ` set (ev_Extensions e)"
    using assms(1) unfolding wf_event_def list_all_iff good_extension_def by (metis imageE)
  moreover have "time_name \<noteq> kind_name KDataContentType" by (simp add: time_name_def)
  ultimately have "map_of (attributes_of e) (prefix_name @ kind_name KDataContentType) = None"
    by (auto simp: attributes_of_def map_of_eq_None_iff assms(2) image_iff)
  moreover have "map_of (attributes_of e) (prefix_name @ n) = Some (attributeFor (ArgValue v))"
    if "map_of (ev_Extensions e) n = Some v" for n v
    using attributes_distinct [OF assms(1)] map_of_SomeD [OF that]
    by (intro map_of_is_SomeI) (auto simp: attributes_of_def)
  moreover have "map_of (attributes_of e) contenttype = Some (PbString ct)"
    by (simp add: attributes_of_def assms(2))
  ultimately show ?thesis
    unfolding write_event [OF assms(1)]
    by (intro exI [of _ ?b])
      (simp add: msg msg_GetAttribute_def msg_GetExtension_def lookup_attribute_def)
qed

definition example_answer :: ce_event where
  "example_answer = SetData JNull example_status"

theorem message_metadata_lookup_witness:
  "\<exists>b. WritePBMessage example_answer empty_pb = (None, b) \<and>
     msg_GetAttribute (NewMessage b) KDataContentType = Some (MetaValue None) \<and>
     msg_GetExtension (NewMessage b) ExtensionOriginalSource = MetaValue (Some (PbString ''hub1''))"
proof -
  have wf: "wf_event Some example_answer" "ev_DataContentType example_answer = Some ApplicationJSON"
    "map_of (ev_Extensions example_answer) ExtensionOriginalSource = Some (CeString ''hub1'')"
    by code_simp+
  obtain b where "WritePBMessage example_answer empty_pb = (None, b)"
    "msg_GetAttribute (NewMessage b) KDataContentType = Some (MetaValue None)"
    "\<forall>n v. map_of (ev_Extensions example_answer) n = Some v \<longrightarrow>
       msg_GetExtension (NewMessage b) n = MetaValue (Some (attributeFor (ArgValue v)))"
    using message_metadata_lookup [OF wf(1,2)] by (elim exE conjE) (rule that)
  with wf(3) show ?thesis by (intro exI [of _ b]) (auto simp: attributeFor_def arg_validate_def)
qed

end
