(* ===== verification/Grpc_Protocol.thy ===== *)
theory Grpc_Protocol
  imports Grpc_Roundtrip
begin

text \<open>
  \<^verbatim>\<open>pkg/cloudevents/generic/options/grpc/protocol\<close>, \<^verbatim>\<open>option.go\<close> and
  \<^verbatim>\<open>protocol.go\<close>: the protocol object that the SDK's client sends with and receives from.
  The generated gRPC client is a record of functions. What arrives on a subscription waits in its
  goroutine until \<open>Receive\<close> takes it from the unbuffered channel; the pending messages of all
  goroutines are one list, in the order of arrival.
\<close>

section \<open>The protocol and its options\<close>

record pb_client =
  pbc_Publish :: "string \<Rightarrow> pb_event \<Rightarrow> error option"
  pbc_Subscribe :: "string \<Rightarrow> error option"

text \<open>
  \<open>gp_subscribed\<close> are the topics that were subscribed to, \<open>gp_running\<close> those whose goroutine still
  reads its stream, \<open>gp_pending\<close> the messages that the goroutines hold, and \<open>gp_arrived\<close> and \<open>gp_received\<close> record what came from the server and what was taken.
\<close>

record grpc_protocol =
  gp_client :: pb_client
  gp_publishOption :: "string option"
  gp_subscribeOption :: "string list option"
  gp_subscribed :: "string list"
  gp_running :: "string list"
  gp_pending :: "(string \<times> pb_event) list"
  gp_arrived :: "(string \<times> pb_event) list"
  gp_received :: "(string \<times> pb_event) list"
  gp_closed :: bool

type_synonym protocol_option = "grpc_protocol \<Rightarrow> error option \<times> grpc_protocol"

definition WithPublishOption :: "string option \<Rightarrow> protocol_option" where
  "WithPublishOption publishOpt p =
     (if publishOpt = None then (Some (Errorf ''the publish option must not be nil''), p)
      else (None, p\<lparr>gp_publishOption := publishOpt\<rparr>))"

definition WithSubscribeOption :: "string list option \<Rightarrow> protocol_option" where
  "WithSubscribeOption subscribeOpt p =
     (if subscribeOpt = None then (Some (Errorf ''the subscribe option must not be nil''), p)
      else (None, p\<lparr>gp_subscribeOption := subscribeOpt\<rparr>))"

definition applyOptions :: "protocol_option list \<Rightarrow> protocol_option" where
  "applyOptions opts p = for_each (\<lambda>fn p. fn p) opts p"

definition NewProtocol :: "pb_client option \<Rightarrow> protocol_option list \<Rightarrow> grpc_protocol result" where
  "NewProtocol clientConn opts =
     (case clientConn of
        None \<Rightarrow> Inl (Errorf ''the client connection must not be nil'')
      | Some client \<Rightarrow>
          (case applyOptions opts
                  \<lparr>gp_client = client, gp_publishOption = None, gp_subscribeOption = None, gp_subscribed = [], gp_running = [],
                   gp_pending = [], gp_arrived = [], gp_received = [], gp_closed = False\<rparr> of
             (Some e, _) \<Rightarrow> Inl e
           | (None, p) \<Rightarrow> Inr p))"

section \<open>Sending\<close>

text \<open>\<open>ctxTopic\<close> is the topic in the context. The request that is published is returned as well.\<close>

definition send_topic :: "grpc_protocol \<Rightarrow> string \<Rightarrow> string" where
  "send_topic p ctxTopic =
     (let topic = (case gp_publishOption p of Some t \<Rightarrow> t | None \<Rightarrow> [])
      in if ctxTopic \<noteq> [] then ctxTopic else topic)"

definition grpc_Send :: "grpc_protocol \<Rightarrow> string \<Rightarrow> ce_event \<Rightarrow> error option \<times> (string \<times> pb_event) option" where
  "grpc_Send p ctxTopic e =
     (case WritePBMessage e empty_pb of
        (Some err, _) \<Rightarrow> (Some err, None)
      | (None, msg) \<Rightarrow> (pbc_Publish (gp_client p) (send_topic p ctxTopic) msg, Some (send_topic p ctxTopic, msg)))"

text \<open>
  C5. A cloud event crosses gRPC unchanged. \<open>Send\<close> publishes one request, to the topic of its
  context or else to that of the publish option, and returns the error of the call. Whatever order
  the attributes have on arrival, reading the message gives back the event: its identifier, source,
  type, time, content type, data and every extension with its type and value. Only an event with no
  content type, no time and no extension is lost: it arrives with a nil map, and its message is of no
  known encoding.
\<close>

theorem grpc_delivers_the_event:
  assumes "wf_event url e"
  shows "\<exists>topic b. grpc_Send p ctxTopic e = (pbc_Publish (gp_client p) topic b, Some (topic, b)) \<and>
    (ctxTopic \<noteq> [] \<longrightarrow> topic = ctxTopic) \<and> (ctxTopic = [] \<longrightarrow> gp_publishOption p \<in> {None, Some topic}) \<and>
    (\<forall>b'. transmitted b b' \<longrightarrow>
       (if ev_DataContentType e = None \<and> ev_Time e = 0 \<and> ev_Extensions e = []
        then ReadEncoding (NewMessage b') = EncodingUnknown
        else \<exists>e'. message_to_event url parse_time (NewMessage b') = (None, e') \<and> same_event e e'))"
proof -
  obtain b where b: "WritePBMessage e empty_pb = (None, b)"
    "\<forall>b'. transmitted b b' \<longrightarrow>
       (if ev_DataContentType e = None \<and> ev_Time e = 0 \<and> ev_Extensions e = []
        then ReadEncoding (NewMessage b') = EncodingUnknown
        else \<exists>e'. message_to_event url parse_time (NewMessage b') = (None, e') \<and> same_event e e')"
    using event_roundtrip [OF assms, of parse_time] by (elim exE conjE) (rule that)
  have "ctxTopic = [] \<longrightarrow> gp_publishOption p \<in> {None, Some (send_topic p ctxTopic)}"
    by (auto simp: send_topic_def split: option.split)
  moreover have "ctxTopic \<noteq> [] \<longrightarrow> send_topic p ctxTopic = ctxTopic" by (simp add: send_topic_def)
  moreover have "grpc_Send p ctxTopic e = (pbc_Publish (gp_client p) (send_topic p ctxTopic) b, Some (send_topic p ctxTopic, b))"
    by (simp add: grpc_Send_def b(1))
  ultimately show ?thesis using b(2) by (intro exI conjI)
qed

definition example_protocol :: grpc_protocol where
  "example_protocol = \<lparr>gp_client = \<lparr>pbc_Publish = \<lambda>_ _. None, pbc_Subscribe = \<lambda>_. None\<rparr>, gp_publishOption = Some [],
     gp_subscribeOption = Some [''a'', ''b''], gp_subscribed = [], gp_running = [], gp_pending = [], gp_arrived = [], gp_received = [],
     gp_closed = False\<rparr>"

theorem grpc_delivers_the_event_witness:
  "\<exists>b. grpc_Send example_protocol ''t'' example_status = (None, Some (''t'', b)) \<and>
     (\<forall>b'. transmitted b b' \<longrightarrow>
        (\<exists>e'. message_to_event Some (\<lambda>_. Inr 0) (NewMessage b') = (None, e') \<and> same_event example_status e'))"
  using grpc_delivers_the_event [OF example_status_wf(1), of example_protocol "''t''" "\<lambda>_. Inr 0"] example_status_wf(2)
  by (auto simp: example_protocol_def)

section \<open>Receiving\<close>

text \<open>
  The loop of \<open>OpenInbound\<close> over the topics; after it, the call waits for its context or for
  \<open>Close\<close>. An error leaves the goroutines of the topics before it.
\<close>

definition subscribe_topic :: "string \<Rightarrow> protocol_option" where
  "subscribe_topic topic p =
     (case pbc_Subscribe (gp_client p) topic of
        Some err \<Rightarrow> (Some err, p)
      | None \<Rightarrow> (None, p\<lparr>gp_subscribed := gp_subscribed p @ [topic], gp_running := gp_running p @ [topic]\<rparr>))"

definition OpenInbound :: "grpc_protocol \<Rightarrow> error option \<times> grpc_protocol" where
  "OpenInbound p =
     (case gp_subscribeOption p of
        None \<Rightarrow> (Some (Errorf ''the subscribe option must not be nil''), p)
      | Some topics \<Rightarrow>
          if length topics = 0 then (Some (Errorf ''the subscribe option topics must not be empty''), p)
          else for_each subscribe_topic topics p)"

text \<open>Closing twice panics: \<open>None\<close>.\<close>

definition grpc_Close :: "grpc_protocol \<Rightarrow> grpc_protocol option" where
  "grpc_Close p = (if gp_closed p then None else Some (p\<lparr>gp_closed := True\<rparr>))"

text \<open>
  \<open>Receive\<close> takes a message that a goroutine holds, the first of its topic; which one, \<open>i\<close>, is
  up to the scheduler. It waits (\<open>None\<close>) when there is no such message.
\<close>

definition grpc_Receive :: "nat \<Rightarrow> grpc_protocol \<Rightarrow> (pb_message \<times> grpc_protocol) option" where
  "grpc_Receive i p =
     (let before = take i (gp_pending p) in
      case drop i (gp_pending p) of
        [] \<Rightarrow> None
      | (topic, m) # after \<Rightarrow>
          if topic \<in> fst ` set before then None
          else Some (NewMessage m, p\<lparr>gp_pending := before @ after, gp_received := gp_received p @ [(topic, m)]\<rparr>))"

text \<open>
  A goroutine gets a message from its stream or ends with an error of it, or one of the operations is
  called. A call of \<open>Receive\<close> whose context is done returns \<open>io.EOF\<close> and takes nothing.
\<close>

inductive protocol_step :: "grpc_protocol \<Rightarrow> grpc_protocol \<Rightarrow> bool" where
  opened: "protocol_step p (snd (OpenInbound p))"
| arrives: "topic \<in> set (gp_running p) \<Longrightarrow>
    protocol_step p (p\<lparr>gp_pending := gp_pending p @ [(topic, m)], gp_arrived := gp_arrived p @ [(topic, m)]\<rparr>)"
| receives: "grpc_Receive i p = Some (msg, p') \<Longrightarrow> protocol_step p p'"
| receives_eof: "protocol_step p p"
| stream_ends: "topic \<in> set (gp_running p) \<Longrightarrow> protocol_step p (p\<lparr>gp_running := remove1 topic (gp_running p)\<rparr>)"
| closes: "grpc_Close p = Some p' \<Longrightarrow> protocol_step p p'"

inductive protocol_reachable :: "grpc_protocol \<Rightarrow> bool" where
  new: "NewProtocol conn opts = Inr p \<Longrightarrow> set opts \<subseteq> range WithPublishOption \<union> range WithSubscribeOption \<Longrightarrow>
    protocol_reachable p"
| step: "protocol_reachable p \<Longrightarrow> protocol_step p p' \<Longrightarrow> protocol_reachable p'"

definition of_topic :: "string \<Rightarrow> (string \<times> pb_event) list \<Rightarrow> (string \<times> pb_event) list" where
  "of_topic topic ms = filter (\<lambda>x. fst x = topic) ms"

lemma of_topic_simps [simp]:
  "of_topic t [] = []" "of_topic t (xs @ ys) = of_topic t xs @ of_topic t ys"
  "of_topic t (x # xs) = (if fst x = t then x # of_topic t xs else of_topic t xs)"
  by (simp_all add: of_topic_def)

lemma of_topic_absent: "t \<notin> fst ` set xs \<Longrightarrow> of_topic t xs = []"
  by (auto simp: of_topic_def filter_empty_conv)

definition in_order :: "grpc_protocol \<Rightarrow> bool" where
  "in_order p \<longleftrightarrow> (\<forall>t. of_topic t (gp_arrived p) = of_topic t (gp_received p) @ of_topic t (gp_pending p)) \<and>
     fst ` set (gp_arrived p) \<subseteq> set (gp_subscribed p) \<and> set (gp_running p) \<subseteq> set (gp_subscribed p)"

lemma subscribe_topics_frame:
  "gp_arrived (snd (for_each subscribe_topic ts p)) = gp_arrived p \<and>
   gp_received (snd (for_each subscribe_topic ts p)) = gp_received p \<and>
   gp_pending (snd (for_each subscribe_topic ts p)) = gp_pending p \<and>
   set (gp_subscribed p) \<subseteq> set (gp_subscribed (snd (for_each subscribe_topic ts p))) \<and>
   (set (gp_running p) \<subseteq> set (gp_subscribed p) \<longrightarrow>
      set (gp_running (snd (for_each subscribe_topic ts p))) \<subseteq> set (gp_subscribed (snd (for_each subscribe_topic ts p))))"
proof (induction ts arbitrary: p)
  case (Cons t ts)
  from Cons [of "p\<lparr>gp_subscribed := gp_subscribed p @ [t], gp_running := gp_running p @ [t]\<rparr>"] show ?case
    by (auto simp: subscribe_topic_def split: option.splits)
qed simp

lemma OpenInbound_in_order:
  assumes "in_order p"
  shows "in_order (snd (OpenInbound p))"
proof (cases "gp_subscribeOption p")
  case (Some ts)
  have "in_order (snd (for_each subscribe_topic ts p))"
    using assms subscribe_topics_frame [of ts p] unfolding in_order_def by (metis subset_trans)
  with assms Some show ?thesis by (simp add: OpenInbound_def)
qed (use assms in \<open>simp add: OpenInbound_def\<close>)

lemma NewProtocol_in_order:
  assumes "NewProtocol conn opts = Inr p" "set opts \<subseteq> range WithPublishOption \<union> range WithSubscribeOption"
  shows "in_order p"
proof -
  obtain client p0 where p0: "applyOptions opts p0 = (None, p)" "in_order p0"
    using assms(1) by (auto simp: NewProtocol_def in_order_def split: option.splits prod.splits)
  have "in_order (snd (for_each (\<lambda>fn p. fn p) opts p0))"
  proof (rule for_each_invariant)
    fix fn q assume fn: "fn \<in> set opts" and q: "in_order q"
    then consider o1 where "fn = WithPublishOption o1" | o2 where "fn = WithSubscribeOption o2"
      using assms(2) by (meson UnE imageE subsetD)
    then show "in_order (snd (fn q))"
      using q by cases (simp_all add: WithPublishOption_def WithSubscribeOption_def in_order_def)
  qed (rule p0(2))
  then show ?thesis using p0(1) by (simp add: applyOptions_def)
qed

lemma protocol_step_in_order: "protocol_step p p' \<Longrightarrow> in_order p \<Longrightarrow> in_order p'"
proof (induction rule: protocol_step.induct)
  case (opened p)
  then show ?case by (rule OpenInbound_in_order)
next
  case (receives i p msg p')
  obtain topic m after where split: "drop i (gp_pending p) = (topic, m) # after" "topic \<notin> fst ` set (take i (gp_pending p))"
    and p': "p' = p\<lparr>gp_pending := take i (gp_pending p) @ after, gp_received := gp_received p @ [(topic, m)]\<rparr>"
    using receives(1) by (auto simp: grpc_Receive_def Let_def split: list.splits if_splits)
  have pending: "gp_pending p = take i (gp_pending p) @ (topic, m) # after"
    by (metis append_take_drop_id split(1))
  have "of_topic t (gp_received p @ [(topic, m)]) @ of_topic t (take i (gp_pending p) @ after) =
      of_topic t (gp_received p) @ of_topic t (gp_pending p)" for t
    by (subst (2) pending) (use split(2) in \<open>cases "t = topic"; simp add: of_topic_absent\<close>)
  with receives(2) show ?case by (simp add: in_order_def p')
next
  case (closes p p')
  then have "p' = p\<lparr>gp_closed := True\<rparr>" by (simp add: grpc_Close_def split: if_splits)
  with closes show ?case by (simp add: in_order_def)
next
  case (stream_ends topic p)
  then show ?case using set_remove1_subset [of topic "gp_running p"] by (auto simp: in_order_def)
qed (auto simp: in_order_def)

lemma reachable_in_order: "protocol_reachable p \<Longrightarrow> in_order p"
  by (induction rule: protocol_reachable.induct) (erule NewProtocol_in_order, assumption, rule protocol_step_in_order)


definition two_topics_protocol :: grpc_protocol where
  "two_topics_protocol = snd (OpenInbound (case NewProtocol (Some (gp_client example_protocol))
       [WithPublishOption (Some []), WithSubscribeOption (Some [''a'', ''b''])] of Inr p \<Rightarrow> p | Inl _ \<Rightarrow> example_protocol))"

lemma two_topics_reachable: "protocol_reachable two_topics_protocol" "gp_running two_topics_protocol = [''a'', ''b'']"
proof -
  let ?conn = "Some (gp_client example_protocol)"
  let ?opts = "[WithPublishOption (Some []), WithSubscribeOption (Some [''a'', ''b''])]"
  obtain p where p: "NewProtocol ?conn ?opts = Inr p" "gp_subscribeOption p = Some [''a'', ''b'']" "gp_running p = []"
      "gp_client p = gp_client example_protocol"
    by (simp add: NewProtocol_def applyOptions_def WithPublishOption_def WithSubscribeOption_def)
  have "protocol_reachable p" using p(1) by (rule protocol_reachable.new) simp
  then show "protocol_reachable two_topics_protocol"
    unfolding two_topics_protocol_def p(1) by (auto intro: protocol_reachable.step protocol_step.opened)
  show "gp_running two_topics_protocol = [''a'', ''b'']"
    unfolding two_topics_protocol_def p(1)
    by (simp add: OpenInbound_def p subscribe_topic_def example_protocol_def)
qed


section \<open>Streams that end\<close>

text \<open>The steps that are left when \<open>OpenInbound\<close> waits, and is not called again.\<close>

definition open_step :: "grpc_protocol \<Rightarrow> grpc_protocol \<Rightarrow> bool" where
  "open_step p p' \<longleftrightarrow> protocol_step p p' \<and> gp_subscribed p' = gp_subscribed p"

lemma grpc_Receive_frame:
  "grpc_Receive i p = Some (msg, p') \<Longrightarrow>
     gp_running p' = gp_running p \<and> gp_arrived p' = gp_arrived p \<and> gp_subscribed p' = gp_subscribed p"
  by (auto simp: grpc_Receive_def Let_def split: list.splits if_splits)

lemma grpc_Close_frame:
  "grpc_Close p = Some p' \<Longrightarrow>
     gp_running p' = gp_running p \<and> gp_arrived p' = gp_arrived p \<and> gp_subscribed p' = gp_subscribed p"
  by (auto simp: grpc_Close_def split: if_splits)

lemma subscribe_topics_grow:
  "length (gp_subscribed p) \<le> length (gp_subscribed (snd (for_each subscribe_topic ts p))) \<and>
   (length (gp_subscribed (snd (for_each subscribe_topic ts p))) = length (gp_subscribed p) \<longrightarrow>
      gp_running (snd (for_each subscribe_topic ts p)) = gp_running p)"
proof (induction ts arbitrary: p)
  case (Cons t ts)
  from Cons [of "p\<lparr>gp_subscribed := gp_subscribed p @ [t], gp_running := gp_running p @ [t]\<rparr>"] show ?case
    by (auto simp: subscribe_topic_def split: option.splits)
qed simp

lemma open_step_frame:
  assumes "open_step p p'" "t \<notin> set (gp_running p)"
  shows "t \<notin> set (gp_running p') \<and> of_topic t (gp_arrived p') = of_topic t (gp_arrived p)"
proof -
  have step: "protocol_step p p'" and sub: "gp_subscribed p' = gp_subscribed p" using assms(1) by (auto simp: open_step_def)
  from step show ?thesis
  proof cases
    case opened
    then show ?thesis
      using assms(2) sub subscribe_topics_grow [of p] subscribe_topics_frame [of _ p]
      by (auto simp: OpenInbound_def split: option.splits)
  next
    case (stream_ends topic)
    then show ?thesis using assms(2) set_remove1_subset [of topic "gp_running p"] by auto
  qed (use assms(2) in \<open>auto dest: grpc_Receive_frame grpc_Close_frame\<close>)
qed



end
