(* ===== verification/Work_Codec.thy ===== *)
theory Work_Codec
  imports Work_Api Cloud_Events Base_Client
begin

text \<open>
  \<^verbatim>\<open>pkg/cloudevents/work/agent/codec\<close>: the two codecs of an agent, for a single manifest and
  for a bundle of manifests. The environment gives what a call reads besides its arguments: the
  sources of a new event, the next number of the sequence generator, and JSON of the payload types.
\<close>

section \<open>Environment\<close>

record codec_env =
  cv_url :: url_parser
  cv_uuid :: string
  cv_now :: int
  cv_sequence :: string
  cv_parse_time :: "string \<Rightarrow> int result"
  cv_status_json :: "manifest_status \<Rightarrow> json result"
  cv_bundle_status_json :: "manifest_bundle_status \<Rightarrow> json result"
  cv_manifest_data :: "event_data \<Rightarrow> manifest_payload result"
  cv_bundle_data :: "event_data \<Rightarrow> manifest_bundle result"
  cv_marshal :: "json \<Rightarrow> string result"
  cv_decode :: "string \<Rightarrow> json result"
  cv_mapper :: "(gvk \<Rightarrow> gvr result) option"

definition CloudEventsDataTypeAnnotationKey :: string where
  "CloudEventsDataTypeAnnotationKey = ''cloudevents.open-cluster-management.io/datatype''"

definition CloudEventsOriginalSourceAnnotationKey :: string where
  "CloudEventsOriginalSourceAnnotationKey = ''cloudevents.open-cluster-management.io/originalsource''"

lemma annotation_keys [simp]: "CloudEventsDataTypeAnnotationKey \<noteq> CloudEventsOriginalSourceAnnotationKey"
  "CloudEventsOriginalSourceAnnotationKey \<noteq> CloudEventsDataTypeAnnotationKey"
  by (simp_all add: CloudEventsDataTypeAnnotationKey_def CloudEventsOriginalSourceAnnotationKey_def)

section \<open>Encoding a status\<close>

text \<open>What both codecs read from the work, and the event they build.\<close>

definition status_builder :: "codec_env \<Rightarrow> string \<Rightarrow> cloud_events_type \<Rightarrow> manifest_work \<Rightarrow> int \<Rightarrow> string \<Rightarrow> event_builder" where
  "status_builder env source eventType work resourceVersion originalSource =
     WithOriginalSource originalSource
       (WithClusterName (mw_Namespace work)
         (WithResourceVersion resourceVersion
           (WithStatusUpdateSequenceID (cv_sequence env)
             (WithResourceID (mw_UID work) (NewEventBuilder source eventType)))))"

definition status_event :: "codec_env \<Rightarrow> string \<Rightarrow> cloud_events_type \<Rightarrow> manifest_work \<Rightarrow> int \<Rightarrow> string \<Rightarrow> ce_event" where
  "status_event env source eventType work resourceVersion originalSource =
     NewEvent (cv_url env) (cv_uuid env) (cv_now env)
       (status_builder env source eventType work resourceVersion originalSource)"

definition manifest_Encode ::
  "codec_env \<Rightarrow> string \<Rightarrow> cloud_events_type \<Rightarrow> manifest_work \<Rightarrow> ce_event result" where
  "manifest_Encode env source eventType work =
     (if et_DataType eventType \<noteq> ManifestEventDataType then Inl (Errorf ''unsupported cloudevents data type'')
      else case parse_int (mw_ResourceVersion work) of
        Inl e \<Rightarrow> Inl (Errorf ''failed to parse the resourceversion of the work'')
      | Inr resourceVersion \<Rightarrow>
          (case map_of (mw_Annotations work) CloudEventsOriginalSourceAnnotationKey of
             None \<Rightarrow> Inl (Errorf ''failed to find originalsource from the work'')
           | Some originalSource \<Rightarrow>
               if length (wsp_Manifests (mw_Spec work)) \<noteq> 1 then Inl (Errorf ''too many manifests in the work'')
               else
                 let evt = status_event env source eventType work resourceVersion originalSource;
                     statusPayload = \<lparr>mst_Conditions = wst_Conditions (mw_Status work),
                       mst_Status = (case wst_Manifests (mw_Status work) of [] \<Rightarrow> None | m # _ \<Rightarrow> Some m)\<rparr>
                 in (case cv_status_json env statusPayload of
                       Inl e \<Rightarrow> Inl (Errorf ''failed to encode manifestwork status to a cloudevent'')
                     | Inr j \<Rightarrow> Inr (SetData j evt))))"

definition bundle_Encode ::
  "codec_env \<Rightarrow> string \<Rightarrow> cloud_events_type \<Rightarrow> manifest_work \<Rightarrow> ce_event result" where
  "bundle_Encode env source eventType work =
     (if et_DataType eventType \<noteq> ManifestBundleEventDataType then Inl (Errorf ''unsupported cloudevents data type'')
      else case parse_int (mw_ResourceVersion work) of
        Inl e \<Rightarrow> Inl (Errorf ''failed to parse the resourceversion of the work'')
      | Inr resourceVersion \<Rightarrow>
          (case map_of (mw_Annotations work) CloudEventsOriginalSourceAnnotationKey of
             None \<Rightarrow> Inl (Errorf ''failed to find originalsource from the work'')
           | Some originalSource \<Rightarrow>
               let evt = status_event env source eventType work resourceVersion originalSource;
                   manifestBundleStatus = \<lparr>mbs_Conditions = wst_Conditions (mw_Status work),
                     mbs_ResourceStatus = wst_Manifests (mw_Status work)\<rparr>
               in (case cv_bundle_status_json env manifestBundleStatus of
                     Inl e \<Rightarrow> Inl (Errorf ''failed to encode manifestwork status to a cloudevent'')
                   | Inr j \<Rightarrow> Inr (SetData j evt))))"

section \<open>Decoding a spec\<close>

text \<open>\<open>ToString\<close> and \<open>ToTime\<close> of an extension; the value of a missing one is nil, which is no text.\<close>

definition extension_string :: "ce_event \<Rightarrow> string \<Rightarrow> string result" where
  "extension_string evt n = (case map_of (ev_Extensions evt) n of
       None \<Rightarrow> Inl (Errorf ''invalid CloudEvents value'') | Some v \<Rightarrow> ToString v)"

definition ToTime :: "(string \<Rightarrow> int result) \<Rightarrow> ce_value \<Rightarrow> int result" where
  "ToTime parse_time v = (case v of
       CeTimestamp t \<Rightarrow> Inr t
     | CeString s \<Rightarrow> parse_time s
     | _ \<Rightarrow> Inl (Errorf ''cannot convert to time''))"

text \<open>The metadata of the work that both codecs make from the extensions.\<close>

definition decode_meta :: "ce_event \<Rightarrow> cloud_events_type \<Rightarrow> manifest_work result" where
  "decode_meta evt eventType =
     (case extension_string evt ExtensionResourceID of
        Inl e \<Rightarrow> Inl (Errorf ''failed to get resourceid extension'')
      | Inr resourceID \<Rightarrow>
          (case extension_string evt ExtensionResourceVersion of
             Inl e \<Rightarrow> Inl (Errorf ''failed to get resourceversion extension'')
           | Inr resourceVersion \<Rightarrow>
               (case extension_string evt ExtensionClusterName of
                  Inl e \<Rightarrow> Inl (Errorf ''failed to get clustername extension'')
                | Inr clusterName \<Rightarrow>
                    Inr (empty_work\<lparr>mw_UID := resourceID, mw_ResourceVersion := resourceVersion,
                      mw_Name := resourceID, mw_Namespace := clusterName,
                      mw_Annotations := [(CloudEventsDataTypeAnnotationKey, data_type_string (et_DataType eventType)),
                                         (CloudEventsOriginalSourceAnnotationKey, ev_Source evt)]\<rparr>))))"

text \<open>
  The common frame of the two \<open>Decode\<close>: the type, the metadata, and the deletion timestamp, with
  which the data is not read.
\<close>

definition decode_frame ::
  "codec_env \<Rightarrow> cloud_events_data_type \<Rightarrow> ce_event \<Rightarrow> (manifest_work \<Rightarrow> manifest_work result) \<Rightarrow> manifest_work result" where
  "decode_frame env dataType evt decode_data =
     (case ParseCloudEventsType (ev_Type evt) of
        Inl e \<Rightarrow> Inl (Errorf ''failed to parse cloud event type'')
      | Inr eventType \<Rightarrow>
          if et_DataType eventType \<noteq> dataType then Inl (Errorf ''unsupported cloudevents data type'')
          else case decode_meta evt eventType of
            Inl e \<Rightarrow> Inl e
          | Inr work \<Rightarrow>
              (case map_of (ev_Extensions evt) ExtensionDeletionTimestamp of
                 Some v \<Rightarrow>
                   (case ToTime (cv_parse_time env) v of
                      Inl e \<Rightarrow> Inl (Errorf ''failed to get deletiontimestamp'')
                    | Inr t \<Rightarrow> Inr (work\<lparr>mw_DeletionTimestamp := t\<rparr>))
               | None \<Rightarrow> decode_data work))"

text \<open>An unstructured object as a runtime object.\<close>

definition parse_group_version :: "string \<Rightarrow> (string \<times> string) option" where
  "parse_group_version s =
     (if s = [] \<or> s = ''/'' then Some ([], [])
      else case split_on CHR ''/'' s of
        [v] \<Rightarrow> Some ([], v)
      | [g, v] \<Rightarrow> Some (g, v)
      | _ \<Rightarrow> None)"

definition unstructured_object :: "json \<Rightarrow> runtime_object" where
  "unstructured_object j =
     \<lparr>ro_gvk = (case parse_group_version (nested_string [''apiVersion''] j) of
          None \<Rightarrow> \<lparr>gvk_Group = [], gvk_Version = [], gvk_Kind = []\<rparr>
        | Some (g, v) \<Rightarrow> \<lparr>gvk_Group = g, gvk_Version = v, gvk_Kind = nested_string [''kind''] j\<rparr>),
      ro_schemeKinds = [], ro_genericKinds = [], ro_accessor = Inr (GetNamespace j, GetName j)\<rparr>"

definition manifest_configs :: "codec_env \<Rightarrow> json \<Rightarrow> config_option option \<Rightarrow> manifest_config list result" where
  "manifest_configs env obj configOption =
     (case configOption of
        None \<Rightarrow> Inr []
      | Some c \<Rightarrow>
          (case BuildResourceMeta 0 (Some (unstructured_object obj)) (cv_mapper env) of
             (_, _, Some e) \<Rightarrow> Inl (Errorf ''failed to get manifest GVR from event'')
           | (_, gvr, None) \<Rightarrow>
               Inr [\<lparr>mcf_Group = gvr_Group gvr, mcf_Resource = gvr_Resource gvr, mcf_Name = GetName obj,
                     mcf_Namespace = GetNamespace obj, mcf_FeedbackRules = co_FeedbackRules c,
                     mcf_UpdateStrategy = co_UpdateStrategy c\<rparr>]))"

definition manifest_Decode :: "codec_env \<Rightarrow> ce_event \<Rightarrow> manifest_work result" where
  "manifest_Decode env evt =
     decode_frame env ManifestEventDataType evt (\<lambda>work.
       (case cv_manifest_data env (ev_Data evt) of
          Inl e \<Rightarrow> Inl (Errorf ''failed to unmarshal event data'')
        | Inr manifestPayload \<Rightarrow>
            (case cv_marshal env (mp_Manifest manifestPayload) of
               Inl e \<Rightarrow> Inl (Errorf ''failed to get manifest GVR from event'')
             | Inr rawJson \<Rightarrow>
                 (case manifest_configs env (mp_Manifest manifestPayload) (mp_ConfigOption manifestPayload) of
                    Inl e \<Rightarrow> Inl e
                  | Inr configs \<Rightarrow>
                      (case ValidateManifests ManifestValidator (cv_decode env) [rawJson] of
                         Some e \<Rightarrow> Inl (Wrapf ''manifest is invalid'' e)
                       | None \<Rightarrow> Inr (work\<lparr>mw_Spec := \<lparr>wsp_Manifests = [rawJson],
                             wsp_DeleteOption = mp_DeleteOption manifestPayload,
                             wsp_ManifestConfigs = configs, wsp_Executor = None\<rparr>\<rparr>))))))"

definition bundle_Decode :: "codec_env \<Rightarrow> ce_event \<Rightarrow> manifest_work result" where
  "bundle_Decode env evt =
     decode_frame env ManifestBundleEventDataType evt (\<lambda>work.
       (case cv_bundle_data env (ev_Data evt) of
          Inl e \<Rightarrow> Inl (Errorf ''failed to unmarshal event data'')
        | Inr manifests \<Rightarrow>
            (case ValidateManifests ManifestValidator (cv_decode env) (mb_Manifests manifests) of
               Some e \<Rightarrow> Inl (Wrapf ''manifests are invalid'' e)
             | None \<Rightarrow> Inr (work\<lparr>mw_Spec := \<lparr>wsp_Manifests = mb_Manifests manifests,
                   wsp_DeleteOption = mb_DeleteOption manifests,
                   wsp_ManifestConfigs = mb_ManifestConfigs manifests, wsp_Executor = None\<rparr>\<rparr>))))"

definition ManifestCodec :: "codec_env \<Rightarrow> manifest_work codec" where
  "ManifestCodec env = \<lparr>cd_EventDataType = ManifestEventDataType, cd_Encode = manifest_Encode env,
     cd_Decode = manifest_Decode env\<rparr>"

definition ManifestBundleCodec :: "codec_env \<Rightarrow> manifest_work codec" where
  "ManifestBundleCodec env = \<lparr>cd_EventDataType = ManifestBundleEventDataType, cd_Encode = bundle_Encode env,
     cd_Decode = bundle_Decode env\<rparr>"

end
