(* ===== verification/Topics.thy ===== *)
theory Topics
  imports Base_Client
begin

text \<open>
  The topics of \<^verbatim>\<open>pkg/cloudevents/generic/options/mqtt\<close> and \<^verbatim>\<open>options/grpc\<close>: the default
  names, how a \<open>+\<close> is replaced by a name, and what the topic filters of a broker accept. A layout
  of topics is an interface: which levels the four topics have, so that the names of sources and
  clusters have their places and no two topics overlap. The routing laws are proved for a layout and
  interpreted on the default topics.
\<close>

section \<open>Default topics\<close>

definition defaultSpecTopic :: string where
  "defaultSpecTopic = ''sources/+/clusters/+/spec''"

definition defaultStatusTopic :: string where
  "defaultStatusTopic = ''sources/+/clusters/+/status''"

definition defaultSpecResyncTopic :: string where
  "defaultSpecResyncTopic = ''sources/clusters/+/specresync''"

definition defaultStatusResyncTopic :: string where
  "defaultStatusResyncTopic = ''sources/+/clusters/statusresync''"

lemmas default_topics =
  defaultSpecTopic_def defaultStatusTopic_def defaultSpecResyncTopic_def defaultStatusResyncTopic_def

section \<open>Replacing the nth occurrence\<close>

text \<open>
  The loop of \<open>replaceNth\<close>: \<open>i\<close> is the index from which the search goes on, and the number
  counts the occurrences that are still to be found.
\<close>

fun replaceNth_loop :: "string \<Rightarrow> string \<Rightarrow> string \<Rightarrow> nat \<Rightarrow> nat \<Rightarrow> string" where
  "replaceNth_loop str old new i 0 = str"
| "replaceNth_loop str old new i (Suc k) =
     (case index_of (drop i str) old of
        None \<Rightarrow> str
      | Some x \<Rightarrow>
          if k = 0 then take (i + x) str @ new @ drop (i + x + length old) str
          else replaceNth_loop str old new (i + x + length old) k)"

definition replaceNth :: "string \<Rightarrow> string \<Rightarrow> string \<Rightarrow> int \<Rightarrow> string" where
  "replaceNth str old new n = replaceNth_loop str old new 0 (nat n)"

lemma replaceNth_second:
  assumes "c \<notin> set a" "c \<notin> set b"
  shows "replaceNth (a @ c # b @ c # d) [c] new 2 = a @ c # b @ new @ d"
proof -
  have 1: "index_of (a @ c # b @ c # d) [c] = Some (length a)"
    using assms(1) by (rule index_of_char_append)
  have 2: "index_of (b @ c # d) [c] = Some (length b)"
    using assms(2) by (rule index_of_char_append)
  show ?thesis
    unfolding replaceNth_def by (simp add: 1 2 numeral_2_eq_2)
qed

lemma replaceNth_missing:
  assumes "c \<notin> set a" "c \<notin> set b"
  shows "replaceNth (a @ c # b) [c] new 2 = a @ c # b"
  using assms
  by (simp add: replaceNth_def numeral_2_eq_2 index_of_char_append index_of_char_None_iff [THEN iffD2])

section \<open>Filters\<close>

definition levels :: "string \<Rightarrow> string list" where
  "levels s = split_on CHR ''/'' s"

text \<open>\<open>instance_of f t\<close>: the levels \<open>t\<close> are those of \<open>f\<close>, where \<open>+\<close> stands for any level.\<close>

definition instance_of :: "string list \<Rightarrow> string list \<Rightarrow> bool" where
  "instance_of f t \<longleftrightarrow> list_all2 (\<lambda>p l. p = ''+'' \<or> p = l) f t"

definition overlap :: "string list \<Rightarrow> string list \<Rightarrow> bool" where
  "overlap f g \<longleftrightarrow> list_all2 (\<lambda>p q. p = ''+'' \<or> q = ''+'' \<or> p = q) f g"

lemma instance_trans: "instance_of f g \<Longrightarrow> instance_of g t \<Longrightarrow> instance_of f t"
  unfolding instance_of_def list_all2_conv_all_nth by metis

lemma instance_refl [simp]: "instance_of f f"
  by (simp add: instance_of_def list_all2_same)

lemma instances_overlap: "instance_of f t \<Longrightarrow> instance_of g t \<Longrightarrow> overlap f g"
  unfolding instance_of_def overlap_def list_all2_conv_all_nth by metis

text \<open>A name that can be one level of a topic: a source ID or a cluster name.\<close>

definition plain :: "string \<Rightarrow> bool" where
  "plain s \<longleftrightarrow> list_all (\<lambda>c. c \<notin> {CHR ''/'', CHR ''+'', CHR ''#'', CHR ''$''}) s"

lemma plain_chars:
  "plain s \<Longrightarrow> CHR ''/'' \<notin> set s" "plain s \<Longrightarrow> CHR ''+'' \<notin> set s"
  "plain s \<Longrightarrow> CHR ''#'' \<notin> set s" "plain s \<Longrightarrow> CHR ''$'' \<notin> set s"
  by (auto simp: plain_def list_all_iff)

lemma plain_neq_plus: "plain s \<Longrightarrow> s \<noteq> ''+''"
  by (auto simp: plain_def)

text \<open>
  What the clients rely on of a broker: a filter without \<open>#\<close> accepts a published topic exactly if
  the levels of the topic are an instance of those of the filter. (Topics with a \<open>$\<close> are reserved.)
\<close>

definition accepts_by_level :: "(string \<Rightarrow> string \<Rightarrow> bool) \<Rightarrow> bool" where
  "accepts_by_level matches \<longleftrightarrow>
     (\<forall>f t. CHR ''#'' \<notin> set f \<and> CHR ''+'' \<notin> set t \<and> CHR ''#'' \<notin> set t \<and> CHR ''$'' \<notin> set t \<longrightarrow>
        matches f t = instance_of (levels f) (levels t))"

definition delivered :: "(string \<Rightarrow> string \<Rightarrow> bool) \<Rightarrow> string list \<Rightarrow> string \<Rightarrow> bool" where
  "delivered matches filters topic \<longleftrightarrow> list_ex (\<lambda>f. matches f topic) filters"

section \<open>Slots\<close>

text \<open>The text before, between and after the slots of a topic.\<close>

definition prefix_text :: "string list \<Rightarrow> string" where
  "prefix_text ls = concat (map (\<lambda>l. l @ ''/'') ls)"

definition suffix_text :: "string list \<Rightarrow> string" where
  "suffix_text ls = concat (map (\<lambda>l. ''/'' @ l) ls)"

definition two_slots :: "string list \<Rightarrow> string list \<Rightarrow> string list \<Rightarrow> string \<Rightarrow> string \<Rightarrow> string" where
  "two_slots pre mid post x y = prefix_text pre @ x @ ''/'' @ prefix_text mid @ y @ suffix_text post"

definition one_slot :: "string list \<Rightarrow> string list \<Rightarrow> string \<Rightarrow> string" where
  "one_slot pre post x = prefix_text pre @ x @ suffix_text post"

lemma levels_prefix:
  "list_all plain pre \<Longrightarrow> levels (prefix_text pre @ s) = pre @ levels s"
  by (induction pre) (simp_all add: prefix_text_def levels_def split_on_append_sep plain_chars)

lemma levels_suffix:
  "CHR ''/'' \<notin> set x \<Longrightarrow> list_all plain post \<Longrightarrow> levels (x @ suffix_text post) = x # post"
proof (induction post arbitrary: x)
  case Nil
  then show ?case by (simp add: levels_def suffix_text_def split_on_no_sep)
next
  case (Cons l ls)
  have "levels (x @ suffix_text (l # ls)) = x # levels (l @ suffix_text ls)"
    using Cons.prems(1) by (simp add: levels_def suffix_text_def split_on_append_sep)
  with Cons show ?case by (simp add: plain_chars)
qed

lemma levels_one_slot:
  "list_all plain pre \<Longrightarrow> list_all plain post \<Longrightarrow> CHR ''/'' \<notin> set x \<Longrightarrow>
   levels (one_slot pre post x) = pre @ x # post"
  by (simp add: one_slot_def levels_prefix levels_suffix)

lemma levels_two_slots:
  assumes "list_all plain pre" "list_all plain mid" "list_all plain post" "CHR ''/'' \<notin> set x" "CHR ''/'' \<notin> set y"
  shows "levels (two_slots pre mid post x y) = pre @ x # mid @ y # post"
proof -
  have "levels (x @ CHR ''/'' # prefix_text mid @ y @ suffix_text post) =
      x # levels (prefix_text mid @ y @ suffix_text post)"
    using assms(4) by (simp add: levels_def split_on_append_sep)
  with assms show ?thesis by (simp add: two_slots_def levels_prefix levels_suffix)
qed

lemma prefix_text_chars: "list_all plain ls \<Longrightarrow> c \<in> {CHR ''+'', CHR ''#'', CHR ''$''} \<Longrightarrow> c \<notin> set (prefix_text ls)"
  by (induction ls) (auto simp: prefix_text_def plain_def list_all_iff)

lemma suffix_text_chars: "list_all plain ls \<Longrightarrow> c \<in> {CHR ''+'', CHR ''#'', CHR ''$''} \<Longrightarrow> c \<notin> set (suffix_text ls)"
  by (induction ls) (auto simp: suffix_text_def plain_def list_all_iff)


text \<open>What \<open>strings.Replace\<close> and \<open>replaceNth\<close> do to the slots.\<close>

lemma fill_first_slot:
  assumes "list_all plain pre"
  shows "replace_char (two_slots pre mid post ''+'' y) CHR ''+'' x 1 = two_slots pre mid post x y"
  using prefix_text_chars [OF assms, of "CHR ''+''"]
  by (simp add: two_slots_def replace_char_first)

lemma fill_other_slots:
  assumes "list_all plain pre" "list_all plain mid" "list_all plain post" "plain x" "n \<noteq> 0"
  shows "replace_char (two_slots pre mid post x ''+'') CHR ''+'' y n = two_slots pre mid post x y"
proof -
  have "CHR ''+'' \<notin> set (prefix_text pre @ x @ ''/'' @ prefix_text mid)"
    using assms by (simp add: prefix_text_chars plain_chars)
  from replace_char_first [OF this assms(5), of "suffix_text post" y]
  show ?thesis
    using assms(3) by (simp add: two_slots_def replace_char_absent suffix_text_chars)
qed

lemma fill_second_slot:
  assumes "list_all plain pre" "list_all plain mid"
  shows "replaceNth (two_slots pre mid post ''+'' ''+'') ''+'' y 2 = two_slots pre mid post ''+'' y"
proof -
  have "CHR ''+'' \<notin> set (''/'' @ prefix_text mid)" "CHR ''+'' \<notin> set (prefix_text pre)"
    using assms by (simp_all add: prefix_text_chars)
  from replaceNth_second [OF this(2,1), of "suffix_text post" y]
  show ?thesis by (simp add: two_slots_def)
qed

lemma fill_one_slot:
  assumes "list_all plain pre" "list_all plain post" "n \<noteq> 0"
  shows "replace_char (one_slot pre post ''+'') CHR ''+'' x n = one_slot pre post x"
  using prefix_text_chars [OF assms(1), of "CHR ''+''"] suffix_text_chars [OF assms(2), of "CHR ''+''"] assms(3)
  by (simp add: one_slot_def replace_char_first replace_char_absent)

section \<open>The layout of the four topics\<close>

text \<open>A topic all of whose levels are plain, but for \<open>n\<close> levels that are \<open>+\<close>.\<close>

definition has_slots :: "nat \<Rightarrow> string \<Rightarrow> bool" where
  "has_slots n t \<longleftrightarrow> length (filter (\<lambda>l. l = ''+'') (levels t)) = n \<and>
     list_all (\<lambda>l. l = ''+'' \<or> plain l) (levels t)"

lemma join_levels: "join_with CHR ''/'' (levels t) = t"
  by (simp add: levels_def)

lemma join_suffix: "join_with CHR ''/'' (x # post) = x @ suffix_text post"
  by (induction post arbitrary: x) (simp_all add: suffix_text_def)

lemma suffix_text_middle:
  "suffix_text (mid @ x # post) = CHR ''/'' # prefix_text mid @ x @ suffix_text post"
  by (induction mid) (simp_all add: suffix_text_def prefix_text_def)

lemma join_prefix: "xs \<noteq> [] \<Longrightarrow> join_with CHR ''/'' (pre @ xs) = prefix_text pre @ join_with CHR ''/'' xs"
  by (induction pre) (simp_all add: prefix_text_def join_with_Cons)

lemma filter_eq_empty: "filter (\<lambda>l. l = p) xs = [] \<longleftrightarrow> p \<notin> set xs"
  by (auto simp: filter_empty_conv)

lemma filter_eq_member: "length (filter (\<lambda>l. l = p) xs) = Suc n \<Longrightarrow> p \<in> set xs"
  using filter_eq_empty [of p xs] by fastforce

lemma list_all_without: "list_all (\<lambda>l. l = p \<or> Q l) xs \<Longrightarrow> p \<notin> set xs \<Longrightarrow> list_all Q xs"
  by (induction xs) auto

lemma has_slots_1E:
  assumes "has_slots 1 t"
  obtains pre post where "t = one_slot pre post ''+''" "list_all plain pre" "list_all plain post"
proof -
  obtain p where p: "p = ''+''" by simp
  have ls: "length (filter (\<lambda>l. l = p) (levels t)) = Suc 0" "list_all (\<lambda>l. l = p \<or> plain l) (levels t)"
    using assms by (simp_all add: has_slots_def p)
  obtain pre post where split: "levels t = pre @ p # post"
    using filter_eq_member [OF ls(1)] by (meson split_list)
  have "p \<notin> set pre" "p \<notin> set post"
    using ls(1) by (simp_all add: split filter_eq_empty)
  then have "list_all plain pre" "list_all plain post"
    using ls(2) by (auto simp: split intro: list_all_without)
  moreover have "t = one_slot pre post p"
    using join_levels [of t] by (simp add: split join_prefix join_suffix one_slot_def)
  ultimately show ?thesis using that p by blast
qed

lemma has_slots_2E:
  assumes "has_slots 2 t"
  obtains pre mid post where "t = two_slots pre mid post ''+'' ''+''"
    "list_all plain pre" "list_all plain mid" "list_all plain post"
proof -
  obtain p where p: "p = ''+''" by simp
  have ls: "length (filter (\<lambda>l. l = p) (levels t)) = Suc (Suc 0)" "list_all (\<lambda>l. l = p \<or> plain l) (levels t)"
    using assms by (simp_all add: has_slots_def p)
  obtain pre rest where split: "levels t = pre @ p # rest" "p \<notin> set pre"
    using filter_eq_member [OF ls(1)] by (meson split_list_first)
  have rest: "length (filter (\<lambda>l. l = p) rest) = Suc 0"
    using ls(1) split(2) filter_eq_empty [of p pre] by (simp add: split(1))
  obtain mid post where split2: "rest = mid @ p # post"
    using filter_eq_member [OF rest] by (meson split_list)
  have "p \<notin> set mid" "p \<notin> set post"
    using rest by (simp_all add: split2 filter_eq_empty)
  then have "list_all plain pre" "list_all plain mid" "list_all plain post"
    using ls(2) split(2) by (auto simp: split split2 intro: list_all_without)
  moreover have "t = two_slots pre mid post p p"
    using join_levels [of t]
    by (simp add: split split2 join_prefix join_suffix two_slots_def suffix_text_middle)
  ultimately show ?thesis using that p by blast
qed

text \<open>What holds of the characters of a topic holds of its levels.\<close>

lemma set_join_with: "set (join_with c xs) \<subseteq> insert c (\<Union> (set ` set xs))"
  by (induction c xs rule: join_with.induct) auto

lemma chars_of_levels:
  assumes "list_all (\<lambda>l. c \<notin> set l) (levels t)" "c \<noteq> CHR ''/''"
  shows "c \<notin> set t"
  using set_join_with [of "CHR ''/''" "levels t"] assms by (auto simp: join_levels list_all_iff)

lemma plain_levels_chars:
  assumes "list_all plain (levels t)" "c \<in> {CHR ''+'', CHR ''#'', CHR ''$''}"
  shows "c \<notin> set t"
proof (rule chars_of_levels)
  show "list_all (\<lambda>l. c \<notin> set l) (levels t)"
    using assms(1) by (rule list.pred_mono_strong) (use assms(2) in \<open>auto simp: plain_chars\<close>)
  show "c \<noteq> CHR ''/''" using assms(2) by auto
qed

lemma filter_levels_chars:
  assumes "list_all (\<lambda>l. l = ''+'' \<or> plain l) (levels f)"
  shows "CHR ''#'' \<notin> set f"
proof (rule chars_of_levels)
  show "list_all (\<lambda>l. CHR ''#'' \<notin> set l) (levels f)"
    using assms by (rule list.pred_mono_strong) (auto simp: plain_chars)
qed simp

lemma instance_append:
  "length a = length b \<Longrightarrow> instance_of (a @ x) (b @ y) \<longleftrightarrow> instance_of a b \<and> instance_of x y"
  by (simp add: instance_of_def list_all2_append)

lemma instance_Cons: "instance_of (p # f) (l # t) \<longleftrightarrow> (p = ''+'' \<or> p = l) \<and> instance_of f t"
  by (simp add: instance_of_def)

lemma accepts_levels:
  assumes "accepts_by_level matches" "list_all (\<lambda>l. l = ''+'' \<or> plain l) (levels f)" "list_all plain (levels t)"
  shows "matches f t = instance_of (levels f) (levels t)"
  using assms filter_levels_chars [OF assms(2)] plain_levels_chars [OF assms(3)]
  by (simp add: accepts_by_level_def)

text \<open>Topics that do not overlap are never mistaken for each other.\<close>

lemma no_route:
  assumes "\<not> overlap (levels a) (levels b)" "instance_of (levels a) (levels f)" "instance_of (levels b) (levels t)"
  shows "\<not> instance_of (levels f) (levels t)"
  using assms by (meson instances_overlap instance_trans)

lemma overlap_sym: "overlap f g \<longleftrightarrow> overlap g f"
  unfolding overlap_def list_all2_conv_all_nth by metis

section \<open>Routes\<close>

text \<open>The topics that are published to, and the filters that are subscribed to.\<close>

definition spec_topic :: "topics \<Rightarrow> string \<Rightarrow> string \<Rightarrow> string" where
  "spec_topic ts sourceID clusterName =
     replace_char (replace_char (t_Spec ts) CHR ''+'' sourceID 1) CHR ''+'' clusterName (- 1)"

definition status_topic :: "topics \<Rightarrow> string \<Rightarrow> string \<Rightarrow> string" where
  "status_topic ts originalSource clusterName =
     replace_char (replace_char (t_Status ts) CHR ''+'' originalSource 1) CHR ''+'' clusterName (- 1)"

definition spec_resync_topic :: "topics \<Rightarrow> string \<Rightarrow> string" where
  "spec_resync_topic ts clusterName = replace_char (t_SpecResync ts) CHR ''+'' clusterName (- 1)"

definition status_resync_topic :: "topics \<Rightarrow> string \<Rightarrow> string" where
  "status_resync_topic ts sourceID = replace_char (t_StatusResync ts) CHR ''+'' sourceID (- 1)"

definition agent_filters :: "topics \<Rightarrow> string \<Rightarrow> string list" where
  "agent_filters ts clusterName = [replaceNth (t_Spec ts) ''+'' clusterName 2, t_StatusResync ts]"

definition source_filters :: "topics \<Rightarrow> string \<Rightarrow> string list" where
  "source_filters ts sourceID = [replace_char (t_Status ts) CHR ''+'' sourceID 1, t_SpecResync ts]"

text \<open>A configuration whose topics have their slots and do not overlap.\<close>

locale topic_layout =
  fixes ts :: topics
  assumes slots: "has_slots 2 (t_Spec ts)" "has_slots 2 (t_Status ts)"
      "has_slots 1 (t_SpecResync ts)" "has_slots 1 (t_StatusResync ts)"
    and apart: "\<not> overlap (levels (t_Spec ts)) (levels (t_Status ts))"
      "\<not> overlap (levels (t_Spec ts)) (levels (t_SpecResync ts))"
      "\<not> overlap (levels (t_Spec ts)) (levels (t_StatusResync ts))"
      "\<not> overlap (levels (t_Status ts)) (levels (t_SpecResync ts))"
      "\<not> overlap (levels (t_Status ts)) (levels (t_StatusResync ts))"
      "\<not> overlap (levels (t_SpecResync ts)) (levels (t_StatusResync ts))"
begin

text \<open>The levels of the topics and filters: names fill the slots.\<close>

lemma spec_levels:
  obtains pre mid post where "levels (t_Spec ts) = pre @ ''+'' # mid @ ''+'' # post"
    "\<And>s c. plain s \<Longrightarrow> plain c \<Longrightarrow> levels (spec_topic ts s c) = pre @ s # mid @ c # post"
    "\<And>c. plain c \<Longrightarrow> levels (replaceNth (t_Spec ts) ''+'' c 2) = pre @ ''+'' # mid @ c # post"
    "list_all plain pre" "list_all plain mid" "list_all plain post"
proof -
  obtain pre mid post where t: "t_Spec ts = two_slots pre mid post ''+'' ''+''"
    and p: "list_all plain pre" "list_all plain mid" "list_all plain post"
    using has_slots_2E [OF slots(1)] .
  show ?thesis
    using p by (intro that [of pre mid post])
      (simp_all add: t spec_topic_def fill_first_slot fill_other_slots fill_second_slot levels_two_slots plain_chars)
qed

lemma status_levels:
  obtains pre mid post where "levels (t_Status ts) = pre @ ''+'' # mid @ ''+'' # post"
    "\<And>s c. plain s \<Longrightarrow> plain c \<Longrightarrow> levels (status_topic ts s c) = pre @ s # mid @ c # post"
    "\<And>s. plain s \<Longrightarrow> levels (replace_char (t_Status ts) CHR ''+'' s 1) = pre @ s # mid @ ''+'' # post"
    "list_all plain pre" "list_all plain mid" "list_all plain post"
proof -
  obtain pre mid post where t: "t_Status ts = two_slots pre mid post ''+'' ''+''"
    and p: "list_all plain pre" "list_all plain mid" "list_all plain post"
    using has_slots_2E [OF slots(2)] .
  show ?thesis
    using p by (intro that [of pre mid post])
      (simp_all add: t status_topic_def fill_first_slot fill_other_slots levels_two_slots plain_chars)
qed

lemma resync_levels:
  assumes "has_slots 1 t"
  obtains pre post where "levels t = pre @ ''+'' # post"
    "\<And>x. plain x \<Longrightarrow> levels (replace_char t CHR ''+'' x (- 1)) = pre @ x # post"
    "list_all plain pre" "list_all plain post"
proof -
  obtain pre post where t: "t = one_slot pre post ''+''" and p: "list_all plain pre" "list_all plain post"
    using has_slots_1E [OF assms] .
  show ?thesis
    using p by (intro that [of pre post]) (simp_all add: t fill_one_slot levels_one_slot plain_chars)
qed

end

context topic_layout
begin

text \<open>A topic of the configuration is an instance of its pattern, and so is a filter.\<close>

lemma instances:
  assumes "plain s" "plain c"
  shows "instance_of (levels (t_Spec ts)) (levels (spec_topic ts s c))"
    "instance_of (levels (t_Status ts)) (levels (status_topic ts s c))"
    "instance_of (levels (t_SpecResync ts)) (levels (spec_resync_topic ts c))"
    "instance_of (levels (t_StatusResync ts)) (levels (status_resync_topic ts s))"
    "instance_of (levels (t_Spec ts)) (levels (replaceNth (t_Spec ts) ''+'' c 2))"
    "instance_of (levels (t_Status ts)) (levels (replace_char (t_Status ts) CHR ''+'' s 1))"
proof -
  show "instance_of (levels (t_Spec ts)) (levels (spec_topic ts s c))"
    by (rule spec_levels) (simp add: instance_append instance_Cons assms)
  show "instance_of (levels (t_Status ts)) (levels (status_topic ts s c))"
    by (rule status_levels) (simp add: instance_append instance_Cons assms)
  show "instance_of (levels (t_SpecResync ts)) (levels (spec_resync_topic ts c))"
    by (rule resync_levels [OF slots(3)]) (simp add: instance_append instance_Cons assms spec_resync_topic_def)
  show "instance_of (levels (t_StatusResync ts)) (levels (status_resync_topic ts s))"
    by (rule resync_levels [OF slots(4)]) (simp add: instance_append instance_Cons assms status_resync_topic_def)
  show "instance_of (levels (t_Spec ts)) (levels (replaceNth (t_Spec ts) ''+'' c 2))"
    by (rule spec_levels) (simp add: instance_append instance_Cons assms)
  show "instance_of (levels (t_Status ts)) (levels (replace_char (t_Status ts) CHR ''+'' s 1))"
    by (rule status_levels) (simp add: instance_append instance_Cons assms)
qed

lemma topics_plain:
  assumes "plain s" "plain c"
  shows "list_all plain (levels (spec_topic ts s c))" "list_all plain (levels (status_topic ts s c))"
    "list_all plain (levels (spec_resync_topic ts c))" "list_all plain (levels (status_resync_topic ts s))"
proof -
  show "list_all plain (levels (spec_topic ts s c))"
    by (rule spec_levels) (simp add: assms)
  show "list_all plain (levels (status_topic ts s c))"
    by (rule status_levels) (simp add: assms)
  show "list_all plain (levels (spec_resync_topic ts c))"
    by (rule resync_levels [OF slots(3)]) (simp add: assms spec_resync_topic_def)
  show "list_all plain (levels (status_resync_topic ts s))"
    by (rule resync_levels [OF slots(4)]) (simp add: assms status_resync_topic_def)
qed

lemma filters_plus:
  assumes "plain s" "plain c"
  shows "list_all (\<lambda>l. l = ''+'' \<or> plain l) (levels (replaceNth (t_Spec ts) ''+'' c 2))"
    "list_all (\<lambda>l. l = ''+'' \<or> plain l) (levels (replace_char (t_Status ts) CHR ''+'' s 1))"
    "list_all (\<lambda>l. l = ''+'' \<or> plain l) (levels (t_SpecResync ts))"
    "list_all (\<lambda>l. l = ''+'' \<or> plain l) (levels (t_StatusResync ts))"
proof -
  have "list_all (\<lambda>l. l = ''+'' \<or> plain l) ls" if "list_all plain ls" for ls
    using that by (rule list.pred_mono_strong) simp
  note mono = this
  show "list_all (\<lambda>l. l = ''+'' \<or> plain l) (levels (replaceNth (t_Spec ts) ''+'' c 2))"
    using assms by (rule_tac spec_levels) (simp add: mono)
  show "list_all (\<lambda>l. l = ''+'' \<or> plain l) (levels (replace_char (t_Status ts) CHR ''+'' s 1))"
    using assms by (rule_tac status_levels) (simp add: mono)
  show "list_all (\<lambda>l. l = ''+'' \<or> plain l) (levels (t_SpecResync ts))"
    "list_all (\<lambda>l. l = ''+'' \<or> plain l) (levels (t_StatusResync ts))"
    using slots(3,4) by (simp_all add: has_slots_def)
qed

lemma spec_to_cluster:
  assumes "plain s" "plain c" "plain c'"
  shows "instance_of (levels (replaceNth (t_Spec ts) ''+'' c' 2)) (levels (spec_topic ts s c)) \<longleftrightarrow> c' = c"
  using assms by (rule_tac spec_levels) (auto simp: instance_append instance_Cons dest: plain_neq_plus)

lemma status_to_source:
  assumes "plain s" "plain c" "plain s'"
  shows "instance_of (levels (replace_char (t_Status ts) CHR ''+'' s' 1)) (levels (status_topic ts s c)) \<longleftrightarrow> s' = s"
  using assms by (rule_tac status_levels) (auto simp: instance_append instance_Cons dest: plain_neq_plus)

lemma spec_events_reach_the_cluster:
  assumes "accepts_by_level matches" "plain s" "plain c" "plain c'"
  shows "delivered matches (agent_filters ts c') (spec_topic ts s c) \<longleftrightarrow> c' = c"
    and "plain s' \<Longrightarrow> \<not> delivered matches (source_filters ts s') (spec_topic ts s c)"
proof -
  note m = accepts_levels [OF assms(1)] and t = topics_plain [OF assms(2,3)] and i = instances [OF assms(2,3)]
  show "delivered matches (agent_filters ts c') (spec_topic ts s c) \<longleftrightarrow> c' = c"
    using filters_plus [OF assms(2,4)] t(1) spec_to_cluster [OF assms(2-4)]
      no_route [OF apart(3) [unfolded overlap_sym [of "levels (t_Spec ts)"]] instance_refl i(1)]
    by (simp add: delivered_def agent_filters_def m)
  show "\<not> delivered matches (source_filters ts s') (spec_topic ts s c)" if "plain s'"
    using filters_plus [OF that assms(3)] t(1)
      no_route [OF apart(1) [unfolded overlap_sym [of "levels (t_Spec ts)"]] instances(6) [OF that assms(3)] i(1)]
      no_route [OF apart(2) [unfolded overlap_sym [of "levels (t_Spec ts)"]] instance_refl i(1)]
    by (simp add: delivered_def source_filters_def m)
qed

lemma status_events_reach_the_source:
  assumes "accepts_by_level matches" "plain s" "plain c" "plain s'"
  shows "delivered matches (source_filters ts s') (status_topic ts s c) \<longleftrightarrow> s' = s"
    and "plain c' \<Longrightarrow> \<not> delivered matches (agent_filters ts c') (status_topic ts s c)"
proof -
  note m = accepts_levels [OF assms(1)] and t = topics_plain [OF assms(2,3)] and i = instances [OF assms(2,3)]
  show "delivered matches (source_filters ts s') (status_topic ts s c) \<longleftrightarrow> s' = s"
    using filters_plus [OF assms(4,3)] t(2) status_to_source [OF assms(2-4)]
      no_route [OF apart(4) [unfolded overlap_sym [of "levels (t_Status ts)"]] instance_refl i(2)]
    by (simp add: delivered_def source_filters_def m)
  show "\<not> delivered matches (agent_filters ts c') (status_topic ts s c)" if "plain c'"
    using filters_plus [OF assms(2) that] t(2)
      no_route [OF apart(1) instances(5) [OF assms(2) that] i(2)]
      no_route [OF apart(5) [unfolded overlap_sym [of "levels (t_Status ts)"]] instance_refl i(2)]
    by (simp add: delivered_def agent_filters_def m)
qed

lemma resync_requests_reach_the_other_side:
  assumes "accepts_by_level matches" "plain s" "plain c"
  shows "delivered matches (source_filters ts s) (spec_resync_topic ts c)"
    and "delivered matches (agent_filters ts c) (status_resync_topic ts s)"
    and "plain c' \<Longrightarrow> \<not> delivered matches (agent_filters ts c') (spec_resync_topic ts c)"
    and "plain s' \<Longrightarrow> \<not> delivered matches (source_filters ts s') (status_resync_topic ts s)"
proof -
  note m = accepts_levels [OF assms(1)] and t = topics_plain [OF assms(2,3)] and i = instances [OF assms(2,3)]
    and f = filters_plus [OF assms(2,3)]
  show "delivered matches (source_filters ts s) (spec_resync_topic ts c)"
    using f t(3) i(3) by (simp add: delivered_def source_filters_def m)
  show "delivered matches (agent_filters ts c) (status_resync_topic ts s)"
    using f t(4) i(4) by (simp add: delivered_def agent_filters_def m)
  show "\<not> delivered matches (agent_filters ts c') (spec_resync_topic ts c)" if "plain c'"
    using filters_plus [OF assms(2) that] t(3)
      no_route [OF apart(2) instances(5) [OF assms(2) that] i(3)]
      no_route [OF apart(6) [unfolded overlap_sym [of "levels (t_SpecResync ts)"]] instance_refl i(3)]
    by (simp add: delivered_def agent_filters_def m)
  show "\<not> delivered matches (source_filters ts s') (status_resync_topic ts s)" if "plain s'"
    using filters_plus [OF that assms(3)] t(4)
      no_route [OF apart(5) instances(6) [OF that assms(3)] i(4)]
      no_route [OF apart(6) instance_refl i(4)]
    by (simp add: delivered_def source_filters_def m)
qed

end

definition default_topic_names :: topics where
  "default_topic_names = \<lparr>t_Spec = defaultSpecTopic, t_Status = defaultStatusTopic,
     t_SpecResync = defaultSpecResyncTopic, t_StatusResync = defaultStatusResyncTopic\<rparr>"

interpretation default_layout: topic_layout default_topic_names
  by unfold_locales code_simp+

end
