(* ===== verification/Mqtt_Options.thy ===== *)
theory Mqtt_Options
  imports Topics "HOL-Library.Word"
begin

text \<open>
  \<^verbatim>\<open>pkg/cloudevents/generic/options/mqtt\<close>: the options of an MQTT client, read from a
  file or made by default, and the options of an agent and of a source: the topic an event is sent
  to, and the client with its subscriptions. Files, YAML, certificates, connections and the MQTT
  protocol of the SDK are parameters. The channel of connection errors is in the theory Connection.
\<close>

section \<open>Options\<close>

record mqtt_options =
  mo_Topics :: topics
  mo_BrokerHost :: string
  mo_Username :: string
  mo_Password :: string
  mo_CAFile :: string
  mo_ClientCertFile :: string
  mo_ClientKeyFile :: string
  mo_KeepAlive :: "16 word"
  mo_PubQoS :: int
  mo_SubQoS :: int

record mqtt_config =
  mc_BrokerHost :: string
  mc_Username :: string
  mc_Password :: string
  mc_CAFile :: string
  mc_ClientCertFile :: string
  mc_ClientKeyFile :: string
  mc_KeepAlive :: "16 word option"
  mc_PubQoS :: "int option"
  mc_SubQoS :: "int option"
  mc_Topics :: "topics option"

definition NewMQTTOptions :: mqtt_options where
  "NewMQTTOptions = \<lparr>mo_Topics = default_topic_names, mo_BrokerHost = [], mo_Username = [], mo_Password = [],
     mo_CAFile = [], mo_ClientCertFile = [], mo_ClientKeyFile = [], mo_KeepAlive = 60, mo_PubQoS = 1, mo_SubQoS = 1\<rparr>"

text \<open>The check of the certificate files, which the gRPC options repeat.\<close>

definition check_cert_files :: "string \<Rightarrow> string \<Rightarrow> string \<Rightarrow> error option" where
  "check_cert_files caFile clientCertFile clientKeyFile =
     (if clientCertFile = [] \<and> clientKeyFile \<noteq> [] \<or> clientCertFile \<noteq> [] \<and> clientKeyFile = []
      then Some (Errorf ''either both or none of clientCertFile and clientKeyFile must be set'')
      else if clientCertFile \<noteq> [] \<and> clientKeyFile \<noteq> [] \<and> caFile = []
      then Some (Errorf ''setting clientCertFile and clientKeyFile requires caFile'')
      else None)"

definition mqtt_options_of_config :: "mqtt_config \<Rightarrow> mqtt_options result" where
  "mqtt_options_of_config config =
     (if mc_BrokerHost config = [] then Inl (Errorf ''brokerHost is required'')
      else case check_cert_files (mc_CAFile config) (mc_ClientCertFile config) (mc_ClientKeyFile config) of
        Some e \<Rightarrow> Inl e
      | None \<Rightarrow>
          if (case mc_Topics config of
                None \<Rightarrow> False
              | Some t \<Rightarrow> t_Spec t = [] \<or> t_Status t = [] \<or> t_SpecResync t = [] \<or> t_StatusResync t = [])
          then Inl (Errorf ''topics must be set'')
          else Inr \<lparr>mo_Topics = (case mc_Topics config of Some t \<Rightarrow> t | None \<Rightarrow> default_topic_names),
                 mo_BrokerHost = mc_BrokerHost config, mo_Username = mc_Username config,
                 mo_Password = mc_Password config, mo_CAFile = mc_CAFile config,
                 mo_ClientCertFile = mc_ClientCertFile config, mo_ClientKeyFile = mc_ClientKeyFile config,
                 mo_KeepAlive = (case mc_KeepAlive config of Some k \<Rightarrow> k | None \<Rightarrow> 60),
                 mo_PubQoS = (case mc_PubQoS config of Some q \<Rightarrow> q | None \<Rightarrow> 1),
                 mo_SubQoS = (case mc_SubQoS config of Some q \<Rightarrow> q | None \<Rightarrow> 1)\<rparr>)"

text \<open>\<open>readFile\<close> is \<open>os.ReadFile\<close>, \<open>unmarshal\<close> is \<open>yaml.Unmarshal\<close> into an empty configuration.\<close>

definition BuildMQTTOptionsFromFlags ::
  "(string \<Rightarrow> string result) \<Rightarrow> (string \<Rightarrow> mqtt_config result) \<Rightarrow> string \<Rightarrow> mqtt_options result" where
  "BuildMQTTOptionsFromFlags readFile unmarshal configPath =
     (case readFile configPath of
        Inl e \<Rightarrow> Inl e
      | Inr configData \<Rightarrow>
          (case unmarshal configData of
             Inl e \<Rightarrow> Inl e
           | Inr config \<Rightarrow> mqtt_options_of_config config))"

section \<open>Connections\<close>

text \<open>
  What the connection code calls: the system's certificates, files, \<open>AppendCertsFromPEM\<close> (false
  when it finds no certificate), \<open>tls.LoadX509KeyPair\<close>, and dialling a host with a CA and a
  client certificate or without TLS.
\<close>

record 'conn net_env =
  ne_SystemCertPool :: "error option"
  ne_ReadFile :: "string \<Rightarrow> string result"
  ne_AppendCertsFromPEM :: "string \<Rightarrow> bool"
  ne_LoadX509KeyPair :: "string \<Rightarrow> string \<Rightarrow> string result"
  ne_DialTLS :: "string \<Rightarrow> string \<Rightarrow> string \<Rightarrow> 'conn result"
  ne_Dial :: "string \<Rightarrow> 'conn result"

text \<open>The CA and the client certificate of a TLS configuration, as both protocols load them.\<close>

definition load_tls :: "'conn net_env \<Rightarrow> string \<Rightarrow> string \<Rightarrow> string \<Rightarrow> (string \<times> string) result" where
  "load_tls env caFile clientCertFile clientKeyFile =
     (case ne_SystemCertPool env of
        Some e \<Rightarrow> Inl e
      | None \<Rightarrow>
          (case ne_ReadFile env caFile of
             Inl e \<Rightarrow> Inl e
           | Inr caPEM \<Rightarrow>
               if \<not> ne_AppendCertsFromPEM env caPEM then Inl (Errorf ''invalid CA'')
               else (case ne_LoadX509KeyPair env clientCertFile clientKeyFile of
                       Inl e \<Rightarrow> Inl e
                     | Inr clientCerts \<Rightarrow> Inr (caPEM, clientCerts))))"

definition GetNetConn :: "'conn net_env \<Rightarrow> mqtt_options \<Rightarrow> 'conn result" where
  "GetNetConn env opts =
     (if length (mo_CAFile opts) \<noteq> 0 then
        (case load_tls env (mo_CAFile opts) (mo_ClientCertFile opts) (mo_ClientKeyFile opts) of
           Inl e \<Rightarrow> Inl e
         | Inr (ca, cert) \<Rightarrow>
             (case ne_DialTLS env (mo_BrokerHost opts) ca cert of
                Inl e \<Rightarrow> Inl (Errorf ''failed to connect to MQTT broker'')
              | Inr conn \<Rightarrow> Inr conn))
      else
        (case ne_Dial env (mo_BrokerHost opts) of
           Inl e \<Rightarrow> Inl (Errorf ''failed to connect to MQTT broker'')
         | Inr conn \<Rightarrow> Inr conn))"

record paho_connect =
  pc_ClientID :: string
  pc_KeepAlive :: "16 word"
  pc_CleanStart :: bool
  pc_Username :: string
  pc_UsernameFlag :: bool
  pc_Password :: string
  pc_PasswordFlag :: bool

definition GetMQTTConnectOption :: "mqtt_options \<Rightarrow> string \<Rightarrow> paho_connect" where
  "GetMQTTConnectOption opts clientID =
     (let connect = \<lparr>pc_ClientID = clientID, pc_KeepAlive = mo_KeepAlive opts, pc_CleanStart = True,
            pc_Username = [], pc_UsernameFlag = False, pc_Password = [], pc_PasswordFlag = False\<rparr>;
          connect = (if length (mo_Username opts) \<noteq> 0
            then connect\<lparr>pc_Username := mo_Username opts, pc_UsernameFlag := True\<rparr> else connect)
      in if length (mo_Password opts) \<noteq> 0
         then connect\<lparr>pc_Password := mo_Password opts, pc_PasswordFlag := True\<rparr> else connect)"

text \<open>What the protocol of the SDK is made from; subscriptions map a filter to its quality of service.\<close>

record 'conn mqtt_client_config =
  cc_ClientID :: string
  cc_Conn :: 'conn
  cc_Connect :: paho_connect
  cc_PubQoS :: "8 word"
  cc_Subscriptions :: "(string, 8 word) gomap"

type_synonym sender = "nat \<Rightarrow> string \<Rightarrow> ce_event \<Rightarrow> error option"

definition mqtt_GetCloudEventsClient ::
  "'conn net_env \<Rightarrow> ('conn mqtt_client_config \<Rightarrow> sender result) \<Rightarrow> mqtt_options \<Rightarrow> string \<Rightarrow> 8 word \<Rightarrow>
   (string, 8 word) gomap \<Rightarrow> sender result" where
  "mqtt_GetCloudEventsClient env newClient opts clientID pubQoS subscriptions =
     (case GetNetConn env opts of
        Inl e \<Rightarrow> Inl e
      | Inr netConn \<Rightarrow>
          newClient \<lparr>cc_ClientID = clientID, cc_Conn = netConn,
            cc_Connect = GetMQTTConnectOption opts clientID, cc_PubQoS = pubQoS,
            cc_Subscriptions = subscriptions\<rparr>)"

section \<open>Agents\<close>

record mqtt_agent_options =
  ma_options :: mqtt_options
  ma_clusterName :: string
  ma_agentID :: string

definition mqtt_agent_WithContext :: "mqtt_agent_options \<Rightarrow> ce_event \<Rightarrow> string result" where
  "mqtt_agent_WithContext opts evt =
     (let topics = mo_Topics (ma_options opts) in
      case ParseCloudEventsType (ev_Type evt) of
        Inl e \<Rightarrow> Inl (Errorf ''unsupported event type'')
      | Inr eventType \<Rightarrow>
          if et_Action eventType = ResyncRequestAction
          then Inr (replace_char (t_SpecResync topics) CHR ''+'' (ma_clusterName opts) (- 1))
          else (case GetExtension evt ExtensionOriginalSource of
                  Inl e \<Rightarrow> Inl e
                | Inr originalSource \<Rightarrow>
                    let statusTopic = replace_char (t_Status topics) CHR ''+'' (sprint_s originalSource) 1
                    in Inr (replace_char statusTopic CHR ''+'' (ma_clusterName opts) (- 1))))"

definition mqtt_agent_subscriptions :: "mqtt_agent_options \<Rightarrow> (string, 8 word) gomap" where
  "mqtt_agent_subscriptions opts =
     (let mo = ma_options opts in
      AList.update (t_StatusResync (mo_Topics mo)) (word_of_int (mo_SubQoS mo))
        (AList.update (replaceNth (t_Spec (mo_Topics mo)) ''+'' (ma_clusterName opts) 2)
           (word_of_int (mo_SubQoS mo)) []))"

definition mqtt_agent_Client ::
  "'conn net_env \<Rightarrow> ('conn mqtt_client_config \<Rightarrow> sender result) \<Rightarrow> mqtt_agent_options \<Rightarrow> sender result" where
  "mqtt_agent_Client env newClient opts =
     mqtt_GetCloudEventsClient env newClient (ma_options opts) (ma_agentID opts @ ''-client'')
       (word_of_int (mo_PubQoS (ma_options opts))) (mqtt_agent_subscriptions opts)"

definition zero_rate_limit :: event_rate_limit where
  "zero_rate_limit = \<lparr>erl_QPS = FFin 0 0, erl_Burst = 0\<rparr>"

definition mqtt_NewAgentOptions ::
  "'conn net_env \<Rightarrow> ('conn mqtt_client_config \<Rightarrow> sender result) \<Rightarrow> mqtt_options \<Rightarrow> string \<Rightarrow> string \<Rightarrow>
   cloud_events_agent_options" where
  "mqtt_NewAgentOptions env newClient mqttOptions clusterName agentID =
     (let opts = \<lparr>ma_options = mqttOptions, ma_clusterName = clusterName, ma_agentID = agentID\<rparr>
      in \<lparr>cao_CloudEventsOptions =
             \<lparr>ceo_WithContext = mqtt_agent_WithContext opts, ceo_Client = mqtt_agent_Client env newClient opts\<rparr>,
           cao_AgentID = ma_agentID opts, cao_ClusterName = ma_clusterName opts,
           cao_EventRateLimit = zero_rate_limit\<rparr>)"

section \<open>Sources\<close>

record mqtt_source_options =
  ms_options :: mqtt_options
  ms_sourceID :: string
  ms_clientID :: string

definition mqtt_source_WithContext :: "mqtt_source_options \<Rightarrow> ce_event \<Rightarrow> string result" where
  "mqtt_source_WithContext opts evt =
     (let topics = mo_Topics (ms_options opts) in
      case ParseCloudEventsType (ev_Type evt) of
        Inl e \<Rightarrow> Inl (Errorf ''unsupported event type'')
      | Inr eventType \<Rightarrow>
          if et_Action eventType = ResyncRequestAction
          then Inr (replace_char (t_StatusResync topics) CHR ''+'' (ms_sourceID opts) (- 1))
          else (case GetExtension evt ExtensionClusterName of
                  Inl e \<Rightarrow> Inl e
                | Inr clusterName \<Rightarrow>
                    let specTopic = replace_char (t_Spec topics) CHR ''+'' (ms_sourceID opts) 1
                    in Inr (replace_char specTopic CHR ''+'' (sprint_s clusterName) (- 1))))"

definition mqtt_source_subscriptions :: "mqtt_source_options \<Rightarrow> (string, 8 word) gomap" where
  "mqtt_source_subscriptions opts =
     (let mo = ms_options opts in
      AList.update (t_SpecResync (mo_Topics mo)) (word_of_int (mo_SubQoS mo))
        (AList.update (replace_char (t_Status (mo_Topics mo)) CHR ''+'' (ms_sourceID opts) 1)
           (word_of_int (mo_SubQoS mo)) []))"

definition mqtt_source_Client ::
  "'conn net_env \<Rightarrow> ('conn mqtt_client_config \<Rightarrow> sender result) \<Rightarrow> mqtt_source_options \<Rightarrow> sender result" where
  "mqtt_source_Client env newClient opts =
     mqtt_GetCloudEventsClient env newClient (ms_options opts) (ms_clientID opts)
       (word_of_int (mo_PubQoS (ms_options opts))) (mqtt_source_subscriptions opts)"

definition mqtt_NewSourceOptions ::
  "'conn net_env \<Rightarrow> ('conn mqtt_client_config \<Rightarrow> sender result) \<Rightarrow> mqtt_options \<Rightarrow> string \<Rightarrow> string \<Rightarrow>
   cloud_events_source_options" where
  "mqtt_NewSourceOptions env newClient mqttOptions clientID sourceID =
     (let opts = \<lparr>ms_options = mqttOptions, ms_sourceID = sourceID, ms_clientID = clientID\<rparr>
      in \<lparr>cso_CloudEventsOptions =
             \<lparr>ceo_WithContext = mqtt_source_WithContext opts, ceo_Client = mqtt_source_Client env newClient opts\<rparr>,
           cso_SourceID = ms_sourceID opts, cso_EventRateLimit = zero_rate_limit\<rparr>)"

section \<open>Lemmas\<close>

text \<open>Topics and filters in the terms of the theory Topics.\<close>

lemma mqtt_agent_topic:
  assumes "mqtt_agent_WithContext opts evt = Inr topic" "ParseCloudEventsType (ev_Type evt) = Inr t"
  shows "if et_Action t = ResyncRequestAction
    then topic = spec_resync_topic (mo_Topics (ma_options opts)) (ma_clusterName opts)
    else \<exists>v. GetExtension evt ExtensionOriginalSource = Inr v \<and>
      topic = status_topic (mo_Topics (ma_options opts)) (sprint_s v) (ma_clusterName opts)"
  using assms
  by (auto simp: mqtt_agent_WithContext_def Let_def spec_resync_topic_def status_topic_def split: sum.splits if_splits)

lemma mqtt_source_topic:
  assumes "mqtt_source_WithContext opts evt = Inr topic" "ParseCloudEventsType (ev_Type evt) = Inr t"
  shows "if et_Action t = ResyncRequestAction
    then topic = status_resync_topic (mo_Topics (ms_options opts)) (ms_sourceID opts)
    else \<exists>v. GetExtension evt ExtensionClusterName = Inr v \<and>
      topic = spec_topic (mo_Topics (ms_options opts)) (ms_sourceID opts) (sprint_s v)"
  using assms
  by (auto simp: mqtt_source_WithContext_def Let_def status_resync_topic_def spec_topic_def split: sum.splits if_splits)

lemma delivered_set: "set fs = set gs \<Longrightarrow> delivered matches fs t = delivered matches gs t"
  by (simp add: delivered_def list_ex_iff)

lemma mqtt_agent_filters:
  "delivered matches (map fst (mqtt_agent_subscriptions opts)) t =
   delivered matches (agent_filters (mo_Topics (ma_options opts)) (ma_clusterName opts)) t"
  by (rule delivered_set) (auto simp: mqtt_agent_subscriptions_def Let_def agent_filters_def)

lemma mqtt_source_filters:
  "delivered matches (map fst (mqtt_source_subscriptions opts)) t =
   delivered matches (source_filters (mo_Topics (ms_options opts)) (ms_sourceID opts)) t"
  by (rule delivered_set) (auto simp: mqtt_source_subscriptions_def Let_def source_filters_def)

lemma check_cert_files_None:
  "check_cert_files ca cert key = None \<longleftrightarrow> (cert = [] \<longleftrightarrow> key = []) \<and> (cert \<noteq> [] \<longrightarrow> ca \<noteq> [])"
  by (auto simp: check_cert_files_def)

lemma load_tls_Inr:
  "load_tls env ca cert key = Inr (pem, c) \<longleftrightarrow> ne_SystemCertPool env = None \<and> ne_ReadFile env ca = Inr pem \<and>
     ne_AppendCertsFromPEM env pem \<and> ne_LoadX509KeyPair env cert key = Inr c"
  by (auto simp: load_tls_def split: option.splits sum.splits)

lemma mqtt_config_checked:
  assumes "mqtt_options_of_config config = Inr opts"
  shows "mo_BrokerHost opts \<noteq> []" "check_cert_files (mo_CAFile opts) (mo_ClientCertFile opts) (mo_ClientKeyFile opts) = None"
    and "mo_Topics opts = default_topic_names \<or> t_Spec (mo_Topics opts) \<noteq> [] \<and> t_Status (mo_Topics opts) \<noteq> [] \<and>
      t_SpecResync (mo_Topics opts) \<noteq> [] \<and> t_StatusResync (mo_Topics opts) \<noteq> []"
  using assms by (auto simp: mqtt_options_of_config_def split: option.splits if_splits)

text \<open>
  C33. Options read from a file are checked, and a connection made with them is as safe as they say:
  the broker and the topics are named; without a CA file there is no TLS and no client certificate;
  with a CA file the connection is made over TLS, with that CA and the client certificate that the
  options name. In particular a CA file alone, which the checks accept, never connects: the pair of
  empty file names is loaded as well, and that fails.
\<close>

theorem mqtt_connection_as_configured:
  assumes "BuildMQTTOptionsFromFlags readFile unmarshal path = Inr opts"
    and "ne_LoadX509KeyPair env [] [] = Inl e"
  shows "mo_BrokerHost opts \<noteq> [] \<and> (mo_Topics opts = default_topic_names \<or> t_Spec (mo_Topics opts) \<noteq> []) \<and>
    (case GetNetConn env opts of
       Inr conn \<Rightarrow>
         if mo_CAFile opts = []
         then mo_ClientCertFile opts = [] \<and> mo_ClientKeyFile opts = [] \<and> ne_Dial env (mo_BrokerHost opts) = Inr conn
         else mo_ClientCertFile opts \<noteq> [] \<and> mo_ClientKeyFile opts \<noteq> [] \<and>
           (\<exists>pem cert. ne_ReadFile env (mo_CAFile opts) = Inr pem \<and> ne_AppendCertsFromPEM env pem \<and>
              ne_LoadX509KeyPair env (mo_ClientCertFile opts) (mo_ClientKeyFile opts) = Inr cert \<and>
              ne_DialTLS env (mo_BrokerHost opts) pem cert = Inr conn)
     | Inl _ \<Rightarrow> True) \<and>
    (mo_CAFile opts \<noteq> [] \<and> mo_ClientCertFile opts = [] \<longrightarrow> (\<exists>err. GetNetConn env opts = Inl err))"
proof -
  obtain config where "mqtt_options_of_config config = Inr opts"
    using assms(1) by (auto simp: BuildMQTTOptionsFromFlags_def split: sum.splits)
  note checked = mqtt_config_checked [OF this]
  have cert: "(mo_ClientCertFile opts = [] \<longleftrightarrow> mo_ClientKeyFile opts = [])"
    "mo_ClientCertFile opts \<noteq> [] \<longrightarrow> mo_CAFile opts \<noteq> []"
    using checked(2) by (simp_all add: check_cert_files_None)
  have tls: "\<not> (\<exists>x. load_tls env ca [] [] = Inr x)" for ca
    using assms(2) by (auto simp: load_tls_Inr)
  have conn: "if mo_CAFile opts = [] then ne_Dial env (mo_BrokerHost opts) = Inr conn
      else \<exists>pem cert. load_tls env (mo_CAFile opts) (mo_ClientCertFile opts) (mo_ClientKeyFile opts) = Inr (pem, cert) \<and>
        ne_DialTLS env (mo_BrokerHost opts) pem cert = Inr conn"
    if "GetNetConn env opts = Inr conn" for conn
    using that by (auto simp: GetNetConn_def split: sum.splits if_splits)
  then have "\<exists>err. GetNetConn env opts = Inl err" if "mo_CAFile opts \<noteq> []" "mo_ClientCertFile opts = []"
    using that tls cert(1) by (cases "GetNetConn env opts") auto
  moreover have "if mo_CAFile opts = []
      then mo_ClientCertFile opts = [] \<and> mo_ClientKeyFile opts = [] \<and> ne_Dial env (mo_BrokerHost opts) = Inr conn
      else mo_ClientCertFile opts \<noteq> [] \<and> mo_ClientKeyFile opts \<noteq> [] \<and>
        (\<exists>pem cert. ne_ReadFile env (mo_CAFile opts) = Inr pem \<and> ne_AppendCertsFromPEM env pem \<and>
           ne_LoadX509KeyPair env (mo_ClientCertFile opts) (mo_ClientKeyFile opts) = Inr cert \<and>
           ne_DialTLS env (mo_BrokerHost opts) pem cert = Inr conn)"
    if "GetNetConn env opts = Inr conn" for conn
    using conn [OF that] cert tls by (auto simp: load_tls_Inr split: if_splits)
  ultimately show ?thesis
    using checked(1,3) by (auto split: sum.split)
qed

definition file_env :: "string net_env" where
  "file_env = \<lparr>ne_SystemCertPool = None, ne_ReadFile = (\<lambda>f. if f = [] then Inl (Errorf ''no such file'') else Inr f),
     ne_AppendCertsFromPEM = (\<lambda>pem. True),
     ne_LoadX509KeyPair = (\<lambda>c k. if c = [] \<or> k = [] then Inl (Errorf ''no such file'') else Inr c),
     ne_DialTLS = (\<lambda>h ca cert. Inr h), ne_Dial = Inr\<rparr>"

definition ca_only_config :: mqtt_config where
  "ca_only_config = \<lparr>mc_BrokerHost = ''broker:8883'', mc_Username = [], mc_Password = [], mc_CAFile = ''ca.pem'',
     mc_ClientCertFile = [], mc_ClientKeyFile = [], mc_KeepAlive = None, mc_PubQoS = None, mc_SubQoS = None,
     mc_Topics = None\<rparr>"

theorem mqtt_connection_as_configured_witness:
  "\<exists>opts. BuildMQTTOptionsFromFlags Inr (\<lambda>_. Inr ca_only_config) ''config.yaml'' = Inr opts \<and>
     (\<exists>err. GetNetConn file_env opts = Inl err)"
proof -
  obtain opts where opts: "BuildMQTTOptionsFromFlags Inr (\<lambda>_. Inr ca_only_config) ''config.yaml'' = Inr opts"
    "mo_CAFile opts = ''ca.pem''" "mo_ClientCertFile opts = []"
    by (simp add: BuildMQTTOptionsFromFlags_def mqtt_options_of_config_def ca_only_config_def check_cert_files_def)
  have "ne_LoadX509KeyPair file_env [] [] = Inl (Errorf ''no such file'')" by (simp add: file_env_def)
  from mqtt_connection_as_configured [OF opts(1) this] opts show ?thesis
    by (intro exI [of _ opts] conjI) simp_all
qed

end
