(* ===== verification/Work_Transport.thy ===== *)
theory Work_Transport
  imports Work_Codec Grpc_Roundtrip Mqtt_Options
begin

text \<open>
  The codecs of \<^verbatim>\<open>pkg/cloudevents/work/agent/codec\<close> behind the two transports. MQTT carries
  the extensions of an event as texts, in the user properties of a message (the vendored
  \<^verbatim>\<open>protocol/mqtt_paho/v2\<close>); gRPC carries them with their types.
\<close>

section \<open>Events over MQTT\<close>

text \<open>The text form that \<open>types.Format\<close> gives; that of bytes, which is base 64, is left open.\<close>

definition text_form :: "ce_value \<Rightarrow> ce_value \<Rightarrow> bool" where
  "text_form v w \<longleftrightarrow> (case v of
       CeString s \<Rightarrow> w = CeString s
     | CeInteger i \<Rightarrow> w = CeString (show_int i)
     | CeTimestamp t \<Rightarrow> w = CeString (FormatTime t)
     | CeBool b \<Rightarrow> w = CeString (if b then ''true'' else ''false'')
     | CeURI u \<Rightarrow> w = CeString u
     | CeURIRef u \<Rightarrow> w = CeString u
     | CeBinary _ \<Rightarrow> \<exists>s. w = CeString s)"

definition over_mqtt :: "ce_event \<Rightarrow> ce_event \<Rightarrow> bool" where
  "over_mqtt e e' \<longleftrightarrow> e' = e\<lparr>ev_Extensions := ev_Extensions e'\<rparr> \<and>
     list_all2 (\<lambda>(n, v) (n', v'). n' = n \<and> text_form v v') (ev_Extensions e) (ev_Extensions e')"

lemma over_mqtt_fields:
  assumes "over_mqtt e e'"
  shows "ev_Type e' = ev_Type e" "ev_Source e' = ev_Source e" "ev_Data e' = ev_Data e"
proof -
  have "e' = e\<lparr>ev_Extensions := ev_Extensions e'\<rparr>" using assms by (simp add: over_mqtt_def)
  then show "ev_Type e' = ev_Type e" "ev_Source e' = ev_Source e" "ev_Data e' = ev_Data e"
    by (metis ce_event.select_convs ce_event.surjective ce_event.update_convs(6))+
qed

lemma text_form_map_of:
  "list_all2 (\<lambda>(n, v) (n', v'). n' = n \<and> text_form v v') xs ys \<Longrightarrow>
   (case map_of xs k of None \<Rightarrow> map_of ys k = None | Some v \<Rightarrow> \<exists>v'. map_of ys k = Some v' \<and> text_form v v')"
  by (induction rule: list_all2_induct) (auto split: option.splits)

lemma over_mqtt_extension:
  assumes "over_mqtt e e'"
  shows "map_of (ev_Extensions e) k = None \<Longrightarrow> map_of (ev_Extensions e') k = None"
    and "map_of (ev_Extensions e) k = Some v \<Longrightarrow> \<exists>v'. map_of (ev_Extensions e') k = Some v' \<and> text_form v v'"
  using assms text_form_map_of [of "ev_Extensions e" "ev_Extensions e'" k] by (auto simp: over_mqtt_def)

section \<open>Decoding\<close>

text \<open>The resource version is read as a text only.\<close>

lemma decode_frame_integer:
  assumes "map_of (ev_Extensions evt) ExtensionResourceVersion = Some (CeInteger v)"
  shows "\<exists>e. decode_frame env dataType evt f = Inl e"
proof -
  have "\<exists>e. decode_meta evt t = Inl e" for t
    using assms by (auto simp: decode_meta_def extension_string_def ToString_def split: sum.split)
  then show ?thesis
    by (auto simp: decode_frame_def split: sum.splits) (metis sum.distinct(1))
qed

definition decoded_meta :: "string \<Rightarrow> event_builder \<Rightarrow> int \<Rightarrow> manifest_work" where
  "decoded_meta source b v = empty_work\<lparr>mw_UID := eb_resourceID b, mw_ResourceVersion := show_int v,
     mw_Name := eb_resourceID b, mw_Namespace := eb_clusterName b,
     mw_Annotations := [(CloudEventsDataTypeAnnotationKey, data_type_string (et_DataType (eb_eventType b))),
                        (CloudEventsOriginalSourceAnnotationKey, source)]\<rparr>"

text \<open>A spec event of a source, with data or, for a deletion, without.\<close>

definition spec_event :: "url_parser \<Rightarrow> string \<Rightarrow> int \<Rightarrow> event_builder \<Rightarrow> json option \<Rightarrow> ce_event" where
  "spec_event url uuid now b d =
     (let e = NewEvent url uuid now b in case d of None \<Rightarrow> e | Some j \<Rightarrow> SetData j e)"

lemma spec_event_fields [simp]:
  "ev_Type (spec_event url uuid now b d) = ev_Type (NewEvent url uuid now b)"
  "ev_Source (spec_event url uuid now b d) = ev_Source (NewEvent url uuid now b)"
  "ev_Extensions (spec_event url uuid now b d) = builder_extensions b"
  by (auto simp: spec_event_def SetData_def field_ok_def Let_def NewEvent_extensions split: option.split)

lemma NewEvent_type_parse:
  assumes "wf_event_type (eb_eventType b)" "list_all (\<lambda>c. \<not> is_space c) (event_type_string (eb_eventType b))"
  shows "ParseCloudEventsType (ev_Type (NewEvent url uuid now b)) = Inr (eb_eventType b)"
  using parse_event_type_string [OF assms(1)] by (simp add: trim_space_id [OF assms(2)])

lemma decode_frame_over_mqtt:
  assumes "ParseCloudEventsType (ev_Type e) = Inr (eb_eventType b)" "ev_Extensions e = builder_extensions b"
    and "eb_resourceID b \<noteq> []" "eb_clusterName b \<noteq> []" "eb_resourceVersion b = Some v" "in_int32 v"
    and "over_mqtt e evt"
  shows "decode_frame env (et_DataType (eb_eventType b)) evt f =
    (if eb_deletionTimestamp b = 0 then f (decoded_meta (ev_Source evt) b v)
     else case cv_parse_time env (FormatTime (eb_deletionTimestamp b)) of
       Inl e \<Rightarrow> Inl (Errorf ''failed to get deletiontimestamp'')
     | Inr t \<Rightarrow> Inr ((decoded_meta (ev_Source evt) b v)\<lparr>mw_DeletionTimestamp := t\<rparr>))"
proof -
  note ext = over_mqtt_extension [OF assms(7), unfolded assms(2)]
  have type: "ParseCloudEventsType (ev_Type evt) = Inr (eb_eventType b)"
    using assms(1) by (simp add: over_mqtt_fields [OF assms(7)])
  have "map_of (ev_Extensions evt) ExtensionResourceID = Some (CeString (eb_resourceID b))"
    "map_of (ev_Extensions evt) ExtensionClusterName = Some (CeString (eb_clusterName b))"
    "map_of (ev_Extensions evt) ExtensionResourceVersion = Some (CeString (show_int v))"
    using ext(2) [of ExtensionResourceID "CeString (eb_resourceID b)"] ext(2) [of ExtensionClusterName "CeString (eb_clusterName b)"]
      ext(2) [of ExtensionResourceVersion "CeInteger v"] assms(3-6) by (simp_all add: text_form_def)
  then have meta: "decode_meta evt (eb_eventType b) = Inr (decoded_meta (ev_Source evt) b v)"
    by (simp add: decode_meta_def extension_string_def ToString_def decoded_meta_def)
  have "map_of (ev_Extensions evt) ExtensionDeletionTimestamp =
      (if eb_deletionTimestamp b = 0 then None else Some (CeString (FormatTime (eb_deletionTimestamp b))))"
    using ext(1) [of ExtensionDeletionTimestamp] ext(2) [of ExtensionDeletionTimestamp "CeTimestamp (eb_deletionTimestamp b)"]
    by (simp add: text_form_def)
  then show ?thesis
    by (simp add: decode_frame_def type meta ToTime_def split: sum.split)
qed

lemma validated:
  "(case ValidateManifests ManifestValidator decode ms of Some e \<Rightarrow> Inl (f e) | None \<Rightarrow> Inr x) = Inr w \<longleftrightarrow>
     ms \<noteq> [] \<and> (\<Sum>m\<leftarrow>ms. manifest_size m) \<le> 500 * 1024 \<and> list_all (valid_manifest decode) ms \<and> w = x"
  using ValidateManifests_None [of ManifestValidator decode ms]
  by (cases "ValidateManifests ManifestValidator decode ms") (auto simp: ManifestValidator_def)

lemma spec_event_wf:
  assumes "event_valid (NewEvent url uuid now b)" "\<forall>u u'. url u = Some u' \<longrightarrow> url u' = Some u'"
  shows "wf_event url (spec_event url uuid now b d)"
proof -
  have "trim_space uuid \<noteq> []" using assms(1) by (simp add: event_valid_def NewEvent_field_errors)
  from NewEvent_wf [OF assms this] have wf: "wf_event url (NewEvent url uuid now b)" .
  have "is_format ApplicationJSON = False" "trim_space ApplicationJSON = ApplicationJSON" "ApplicationJSON \<noteq> []"
    by code_simp+
  then show ?thesis
    using wf by (auto simp: spec_event_def SetData_def field_ok_def Let_def wf_event_def split: option.split)
qed

text \<open>
  C35. A spec event that a source builds for a bundle, with data or a deletion timestamp. Over MQTT
  the agent's codec decodes it to the work that it stands for: a deletion always, data if there are
  manifests, all valid and within the limit. The same event over gRPC arrives as it was sent, with
  the resource version as an integer, and the codec never decodes it.
\<close>

theorem spec_decoding_by_transport:
  assumes "wf_event_type (eb_eventType b)" "list_all (\<lambda>c. \<not> is_space c) (event_type_string (eb_eventType b))"
    and "et_DataType (eb_eventType b) = ManifestBundleEventDataType"
    and "eb_resourceID b \<noteq> []" "eb_clusterName b \<noteq> []" "eb_resourceVersion b = Some v"
    and "event_valid (NewEvent url uuid now b)" "\<forall>u u'. url u = Some u' \<longrightarrow> url u' = Some u'"
    and "cv_parse_time env (FormatTime (eb_deletionTimestamp b)) = Inr (eb_deletionTimestamp b)"
  shows "(\<forall>evt w. over_mqtt (spec_event url uuid now b d) evt \<longrightarrow>
      (bundle_Decode env evt = Inr w \<longleftrightarrow>
        (if eb_deletionTimestamp b \<noteq> 0
         then w = (decoded_meta (ev_Source (NewEvent url uuid now b)) b v)\<lparr>mw_DeletionTimestamp := eb_deletionTimestamp b\<rparr>
         else \<exists>mb. cv_bundle_data env (ev_Data evt) = Inr mb \<and> mb_Manifests mb \<noteq> [] \<and>
           (\<Sum>m\<leftarrow>mb_Manifests mb. manifest_size m) \<le> 500 * 1024 \<and> list_all (valid_manifest (cv_decode env)) (mb_Manifests mb) \<and>
           w = (decoded_meta (ev_Source (NewEvent url uuid now b)) b v)\<lparr>mw_Spec :=
             \<lparr>wsp_Manifests = mb_Manifests mb, wsp_DeleteOption = mb_DeleteOption mb,
              wsp_ManifestConfigs = mb_ManifestConfigs mb, wsp_Executor = None\<rparr>\<rparr>))) \<and>
    (\<exists>pb. WritePBMessage (spec_event url uuid now b d) empty_pb = (None, pb) \<and>
      (\<forall>pb'. transmitted pb pb' \<longrightarrow> (\<exists>evt. message_to_event url parse_time (NewMessage pb') = (None, evt) \<and>
         same_event (spec_event url uuid now b d) evt \<and> (\<exists>err. bundle_Decode env evt = Inl err))))"
proof (rule conjI, intro allI impI)
  fix evt w assume mqtt: "over_mqtt (spec_event url uuid now b d) evt"
  have v: "in_int32 v" using assms(6,7) by (simp add: event_valid_def NewEvent_field_errors)
  have src: "ev_Source evt = ev_Source (NewEvent url uuid now b)" by (simp add: over_mqtt_fields [OF mqtt])
  have "ParseCloudEventsType (ev_Type (spec_event url uuid now b d)) = Inr (eb_eventType b)"
    "ev_Extensions (spec_event url uuid now b d) = builder_extensions b"
    using NewEvent_type_parse [OF assms(1,2)] by simp_all
  note frame = decode_frame_over_mqtt [OF this assms(4-6) v mqtt, unfolded assms(3)]
  show "bundle_Decode env evt = Inr w \<longleftrightarrow>
        (if eb_deletionTimestamp b \<noteq> 0
         then w = (decoded_meta (ev_Source (NewEvent url uuid now b)) b v)\<lparr>mw_DeletionTimestamp := eb_deletionTimestamp b\<rparr>
         else \<exists>mb. cv_bundle_data env (ev_Data evt) = Inr mb \<and> mb_Manifests mb \<noteq> [] \<and>
           (\<Sum>m\<leftarrow>mb_Manifests mb. manifest_size m) \<le> 500 * 1024 \<and> list_all (valid_manifest (cv_decode env)) (mb_Manifests mb) \<and>
           w = (decoded_meta (ev_Source (NewEvent url uuid now b)) b v)\<lparr>mw_Spec :=
             \<lparr>wsp_Manifests = mb_Manifests mb, wsp_DeleteOption = mb_DeleteOption mb,
              wsp_ManifestConfigs = mb_ManifestConfigs mb, wsp_Executor = None\<rparr>\<rparr>)"
    unfolding bundle_Decode_def frame
    by (auto simp: assms(9) src validated split: sum.split)
next
  have v: "in_int32 v" using assms(6,7) by (simp add: event_valid_def NewEvent_field_errors)
  have ext: "map_of (builder_extensions b) ExtensionResourceVersion = Some (CeInteger v)"
    using assms(6) v by simp
  then have "builder_extensions b \<noteq> []" by (metis map_of.simps(1) option.distinct(1))
  from event_roundtrip [OF spec_event_wf [OF assms(7,8)], of d parse_time] this
  obtain pb where pb: "WritePBMessage (spec_event url uuid now b d) empty_pb = (None, pb)"
    "\<forall>pb'. transmitted pb pb' \<longrightarrow> (\<exists>evt. message_to_event url parse_time (NewMessage pb') = (None, evt) \<and>
       same_event (spec_event url uuid now b d) evt)"
    by auto
  have "\<exists>err. bundle_Decode env evt = Inl err" if "same_event (spec_event url uuid now b d) evt" for evt
  proof -
    have "map_of (ev_Extensions evt) ExtensionResourceVersion = Some (CeInteger v)"
      using that ext by (simp add: same_event_def)
    then show ?thesis unfolding bundle_Decode_def by (rule decode_frame_integer)
  qed
  with pb show "\<exists>pb. WritePBMessage (spec_event url uuid now b d) empty_pb = (None, pb) \<and>
      (\<forall>pb'. transmitted pb pb' \<longrightarrow> (\<exists>evt. message_to_event url parse_time (NewMessage pb') = (None, evt) \<and>
         same_event (spec_event url uuid now b d) evt \<and> (\<exists>err. bundle_Decode env evt = Inl err)))"
    by (intro exI [of _ pb]) blast
qed

definition codec_example :: codec_env where
  "codec_example = \<lparr>cv_url = Some, cv_uuid = ''id'', cv_now = 5, cv_sequence = ''7'',
     cv_parse_time = (\<lambda>s. if s = FormatTime 1000000000 then Inr 1000000000 else Inl (Errorf ''parsing time'')),
     cv_status_json = (\<lambda>s. Inr (JInt (int (length (mst_Conditions s))))),
     cv_bundle_status_json = (\<lambda>s. Inr (JInt (int (length (mbs_Conditions s))))),
     cv_manifest_data = (\<lambda>d. case d of JsonData j \<Rightarrow> Inr \<lparr>mp_Manifest = j, mp_DeleteOption = None, mp_ConfigOption = None\<rparr>
                                     | _ \<Rightarrow> Inl (Errorf ''no json'')),
     cv_bundle_data = (\<lambda>d. case d of JsonData (JString s) \<Rightarrow>
          Inr \<lparr>mb_Manifests = [s], mb_DeleteOption = None, mb_ManifestConfigs = []\<rparr> | _ \<Rightarrow> Inl (Errorf ''no json'')),
     cv_marshal = (\<lambda>_. Inr ''raw''),
     cv_decode = (\<lambda>s. Inr (JObject [(''metadata'', JObject [(''name'', JString s)])])),
     cv_mapper = None\<rparr>"

definition deletion_builder :: event_builder where
  "deletion_builder = WithDeletionTimestamp 1000000000 (WithClusterName ''cluster1'' (WithResourceVersion 3
     (WithResourceID ''r1'' (NewEventBuilder ''hub1'' \<lparr>et_DataType = ManifestBundleEventDataType,
        et_SubResource = SubResourceSpec, et_Action = ResyncResponseAction\<rparr>))))"

theorem spec_decoding_by_transport_witness:
  "\<exists>pb. WritePBMessage (spec_event Some ''id'' 1 deletion_builder None) empty_pb = (None, pb) \<and>
     (\<forall>pb'. transmitted pb pb' \<longrightarrow> (\<exists>evt err.
        message_to_event Some (\<lambda>_. Inr 0) (NewMessage pb') = (None, evt) \<and> bundle_Decode codec_example evt = Inl err))"
proof -
  have "wf_event_type (eb_eventType deletion_builder)"
    "list_all (\<lambda>c. \<not> is_space c) (event_type_string (eb_eventType deletion_builder))"
    "et_DataType (eb_eventType deletion_builder) = ManifestBundleEventDataType"
    "eb_resourceID deletion_builder \<noteq> []" "eb_clusterName deletion_builder \<noteq> []"
    "eb_resourceVersion deletion_builder = Some 3" "event_valid (NewEvent Some ''id'' 1 deletion_builder)"
    by code_simp+
  moreover have "cv_parse_time codec_example (FormatTime (eb_deletionTimestamp deletion_builder)) =
      Inr (eb_deletionTimestamp deletion_builder)"
    by (simp add: codec_example_def deletion_builder_def WithDeletionTimestamp_def)
  ultimately show ?thesis
    using spec_decoding_by_transport [of deletion_builder 3 Some "''id''" 1 codec_example None "\<lambda>_. Inr 0"] by fast
qed

section \<open>Status events\<close>

lemma SetData_keeps [simp]:
  "ev_Type (SetData j e) = ev_Type e" "ev_Extensions (SetData j e) = ev_Extensions e"
  by (simp_all add: SetData_def field_ok_def)

lemma extension_errors:
  "''datacontenttype'' \<notin> set (ev_FieldErrors e) \<Longrightarrow> ''datacontenttype'' \<notin> set (ev_FieldErrors (SetExtension n v e))"
  "''datacontenttype'' \<notin> set (ev_FieldErrors e) \<Longrightarrow> ''datacontenttype'' \<notin> set (ev_FieldErrors (set_nonempty n s e))"
  by (simp_all add: set_nonempty_def SetExtension_def field_error_def field_ok_def Let_def split: sum.split)

lemma SetData_errors:
  "ev_FieldErrors (SetData j (NewEvent url uuid now b)) = ev_FieldErrors (NewEvent url uuid now b)"
proof -
  define e0 where "e0 = SetSource url (eb_source b) (SetTime now
      (SetType (event_type_string (eb_eventType b)) (SetID uuid new_event)))"
  have "''datacontenttype'' \<notin> set (ev_FieldErrors e0)"
    by (auto simp: e0_def SetSource_def SetTime_def SetType_def SetID_def field_ok_def field_error_def new_event_def
        split: option.splits)
  then have "''datacontenttype'' \<notin> set (ev_FieldErrors (NewEvent url uuid now b))"
    unfolding NewEvent_def Let_def e0_def [symmetric] by (auto intro!: extension_errors split: option.split)
  then show ?thesis by (simp add: SetData_def field_ok_def filter_id_conv) metis
qed

lemma Encode_event:
  assumes "cd_Encode codec source t w = Inr evt" "codec \<in> {ManifestCodec env, ManifestBundleCodec env}"
  shows "\<exists>v src j. parse_int (mw_ResourceVersion w) = Inr v \<and>
    map_of (mw_Annotations w) CloudEventsOriginalSourceAnnotationKey = Some src \<and>
    et_DataType t = cd_EventDataType codec \<and> evt = SetData j (status_event env source t w v src)"
  using assms
  by (auto simp: ManifestCodec_def ManifestBundleCodec_def manifest_Encode_def bundle_Encode_def Let_def
      split: if_splits sum.splits option.splits)

lemma status_builder_fields [simp]:
  "eb_resourceID (status_builder env source t w v src) = mw_UID w"
  "eb_clusterName (status_builder env source t w v src) = mw_Namespace w"
  "eb_originalSource (status_builder env source t w v src) = src"
  "eb_resourceVersion (status_builder env source t w v src) = Some v"
  "eb_sequenceID (status_builder env source t w v src) = cv_sequence env"
  "eb_eventType (status_builder env source t w v src) = t"
  by (simp_all add: status_builder_def WithOriginalSource_def WithClusterName_def WithResourceVersion_def
      WithStatusUpdateSequenceID_def WithResourceID_def NewEventBuilder_def)

lemma Decode_work:
  assumes "cd_Decode codec evt = Inr w" "codec \<in> {ManifestCodec env, ManifestBundleCodec env}"
  shows "extension_string evt ExtensionResourceID = Inr (mw_UID w)"
    and "extension_string evt ExtensionResourceVersion = Inr (mw_ResourceVersion w)"
    and "extension_string evt ExtensionClusterName = Inr (mw_Namespace w)"
    and "map_of (mw_Annotations w) CloudEventsOriginalSourceAnnotationKey = Some (ev_Source evt)"
    and "mw_Name w = mw_UID w"
proof -
  have "extension_string evt ExtensionResourceID = Inr (mw_UID w) \<and>
    extension_string evt ExtensionResourceVersion = Inr (mw_ResourceVersion w) \<and>
    extension_string evt ExtensionClusterName = Inr (mw_Namespace w) \<and>
    map_of (mw_Annotations w) CloudEventsOriginalSourceAnnotationKey = Some (ev_Source evt) \<and> mw_Name w = mw_UID w"
    using assms
    by (auto simp: ManifestCodec_def ManifestBundleCodec_def manifest_Decode_def bundle_Decode_def decode_frame_def decode_meta_def
        split: if_splits sum.splits option.splits)
  then show "extension_string evt ExtensionResourceID = Inr (mw_UID w)"
    "extension_string evt ExtensionResourceVersion = Inr (mw_ResourceVersion w)"
    "extension_string evt ExtensionClusterName = Inr (mw_Namespace w)"
    "map_of (mw_Annotations w) CloudEventsOriginalSourceAnnotationKey = Some (ev_Source evt)"
    "mw_Name w = mw_UID w" by auto
qed

text \<open>
  C20. A status goes back to where its spec came from. Let a codec decode a spec event, let the work
  keep its identity and its annotations, and let the codec encode its status: the event names the
  resource, the cluster and the source of the spec, and the agent's MQTT options send it to that
  source's status topic. It carries the current resource version, or is refused by the SDK when this
  does not fit into 32 bits.
\<close>

theorem status_returns_to_its_source:
  assumes "codec \<in> {ManifestCodec env, ManifestBundleCodec env}" "codec' \<in> {ManifestCodec env', ManifestBundleCodec env'}"
    and "cd_Decode codec spec = Inr w" "ev_Source spec \<noteq> []" "mw_UID w \<noteq> []" "mw_Namespace w \<noteq> []"
    and "mw_UID w' = mw_UID w" "mw_Namespace w' = mw_Namespace w" "mw_Annotations w' = mw_Annotations w"
    and "cd_Encode codec' agentID t w' = Inr evt"
    and "wf_event_type t" "list_all (\<lambda>c. \<not> is_space c) (event_type_string t)" "et_Action t \<noteq> ResyncRequestAction"
  shows "mqtt_agent_WithContext opts evt =
      Inr (status_topic (mo_Topics (ma_options opts)) (ev_Source spec) (ma_clusterName opts)) \<and>
    map_of (ev_Extensions evt) ExtensionResourceID = map_of (ev_Extensions spec) ExtensionResourceID \<and>
    map_of (ev_Extensions evt) ExtensionClusterName = map_of (ev_Extensions spec) ExtensionClusterName \<and>
    (\<exists>v. parse_int (mw_ResourceVersion w') = Inr v \<and>
       (if in_int32 v then map_of (ev_Extensions evt) ExtensionResourceVersion = Some (CeInteger v)
        else \<not> event_valid evt))"
proof -
  obtain v src j where enc: "parse_int (mw_ResourceVersion w') = Inr v"
    "map_of (mw_Annotations w') CloudEventsOriginalSourceAnnotationKey = Some src"
    "evt = SetData j (status_event env' agentID t w' v src)"
    using Encode_event [OF assms(10,2)] by blast
  note dec = Decode_work [OF assms(3,1)]
  have src: "src = ev_Source spec" using enc(2) dec(4) assms(9) by simp
  let ?b = "status_builder env' agentID t w' v src"
  have ext: "ev_Extensions evt = builder_extensions ?b"
    by (simp add: enc(3) status_event_def NewEvent_extensions)
  have type: "ParseCloudEventsType (ev_Type evt) = Inr t"
    using NewEvent_type_parse [of ?b] assms(11,12) by (simp add: enc(3) status_event_def)
  have "GetExtension evt ExtensionOriginalSource = Inr (CeString (ev_Source spec))"
    using assms(4) by (simp add: GetExtension_plain ext src)
  then have "mqtt_agent_WithContext opts evt =
      Inr (status_topic (mo_Topics (ma_options opts)) (ev_Source spec) (ma_clusterName opts))"
    using assms(13) by (simp add: mqtt_agent_WithContext_def type status_topic_def sprint_s_def Let_def)
  moreover have "\<not> in_int32 v \<Longrightarrow> \<not> event_valid evt"
    by (simp add: enc(3) status_event_def event_valid_def SetData_errors NewEvent_field_errors)
  moreover have "map_of (ev_Extensions spec) ExtensionResourceID = Some (CeString (mw_UID w))"
    "map_of (ev_Extensions spec) ExtensionClusterName = Some (CeString (mw_Namespace w))"
    using dec(1,3) by (auto simp: extension_string_def ToString_def split: option.splits ce_value.splits)
  ultimately show ?thesis
    using enc(1) assms(5-8) by (simp add: ext)
qed

definition spec_example :: ce_event where
  "spec_example = new_event\<lparr>ev_Source := ''hub1'',
     ev_Type := ''io.open-cluster-management.works.v1alpha1.manifestbundles.spec.create_request'',
     ev_Extensions := [(ExtensionResourceID, CeString ''r1''), (ExtensionResourceVersion, CeString ''3''),
       (ExtensionClusterName, CeString ''cluster1'')], ev_Data := JsonData (JString ''m1'')\<rparr>"

definition work_example :: manifest_work where
  "work_example = empty_work\<lparr>mw_UID := ''r1'', mw_ResourceVersion := ''3'', mw_Name := ''r1'', mw_Namespace := ''cluster1'',
     mw_Annotations := [(CloudEventsDataTypeAnnotationKey, data_type_string ManifestBundleEventDataType),
       (CloudEventsOriginalSourceAnnotationKey, ''hub1'')],
     mw_Spec := empty_spec\<lparr>wsp_Manifests := [''m1'']\<rparr>\<rparr>"

definition bundle_update :: cloud_events_type where
  "bundle_update = \<lparr>et_DataType = ManifestBundleEventDataType, et_SubResource = SubResourceStatus, et_Action = ''update_request''\<rparr>"

lemma spec_example_decoded: "bundle_Decode codec_example spec_example = Inr work_example"
  by code_simp

theorem status_returns_to_its_source_witness:
  "\<exists>evt. bundle_Encode codec_example ''agent1'' bundle_update (work_example\<lparr>mw_ResourceVersion := ''4''\<rparr>) = Inr evt \<and>
     mqtt_agent_WithContext \<lparr>ma_options = NewMQTTOptions, ma_clusterName = ''cluster1'', ma_agentID = ''agent1''\<rparr> evt =
       Inr (status_topic default_topic_names ''hub1'' ''cluster1'')"
proof -
  have "parse_int ''4'' = Inr 4" by code_simp
  then have enc: "is_ok (bundle_Encode codec_example ''agent1'' bundle_update (work_example\<lparr>mw_ResourceVersion := ''4''\<rparr>))"
    by (simp add: bundle_Encode_def bundle_update_def work_example_def codec_example_def Let_def)
  obtain evt where evt: "cd_Encode (ManifestBundleCodec codec_example) ''agent1'' bundle_update (work_example\<lparr>mw_ResourceVersion := ''4''\<rparr>) = Inr evt"
    using enc by (auto simp: is_ok_def ManifestBundleCodec_def)
  have dec: "cd_Decode (ManifestBundleCodec codec_example) spec_example = Inr work_example"
    by (simp add: ManifestBundleCodec_def spec_example_decoded)
  have t: "wf_event_type bundle_update" "list_all (\<lambda>c. \<not> is_space c) (event_type_string bundle_update)"
    "et_Action bundle_update \<noteq> ResyncRequestAction"
    by code_simp+
  have c: "ManifestBundleCodec codec_example \<in> {ManifestCodec codec_example, ManifestBundleCodec codec_example}" by simp
  have src: "ev_Source spec_example = ''hub1''" by (simp add: spec_example_def)
  have w: "ev_Source spec_example \<noteq> []" "mw_UID work_example \<noteq> []" "mw_Namespace work_example \<noteq> []"
    by (simp_all add: spec_example_def work_example_def)
  show ?thesis
    using status_returns_to_its_source [OF c c dec w _ _ _ evt t,
        of "\<lparr>ma_options = NewMQTTOptions, ma_clusterName = ''cluster1'', ma_agentID = ''agent1''\<rparr>"] evt
    by (intro exI [of _ evt]) (simp add: src ManifestBundleCodec_def NewMQTTOptions_def)
qed

end
