(* ===== verification/Grpc_Options.thy ===== *)
theory Grpc_Options
  imports Mqtt_Options
begin

text \<open>
  \<^verbatim>\<open>pkg/cloudevents/generic/options/grpc\<close>: the options of a gRPC client and of its agents
  and sources. The topics are fixed. The certificate files are checked and loaded as for MQTT. The
  error channel is never written to: gRPC reconnects by itself.
\<close>

section \<open>Options and connections\<close>

definition SpecTopic :: string where "SpecTopic = ''sources/+/clusters/+/spec''"

definition StatusTopic :: string where "StatusTopic = ''sources/+/clusters/+/status''"

definition SpecResyncTopic :: string where "SpecResyncTopic = ''sources/clusters/+/specresync''"

definition StatusResyncTopic :: string where "StatusResyncTopic = ''sources/+/clusters/statusresync''"

record grpc_options =
  go_URL :: string
  go_CAFile :: string
  go_ClientCertFile :: string
  go_ClientKeyFile :: string

text \<open>\<open>GRPCConfig\<close> has the same fields.\<close>

type_synonym grpc_config = grpc_options

definition NewGRPCOptions :: grpc_options where
  "NewGRPCOptions = \<lparr>go_URL = [], go_CAFile = [], go_ClientCertFile = [], go_ClientKeyFile = []\<rparr>"

definition BuildGRPCOptionsFromFlags ::
  "(string \<Rightarrow> string result) \<Rightarrow> (string \<Rightarrow> grpc_config result) \<Rightarrow> string \<Rightarrow> grpc_options result" where
  "BuildGRPCOptionsFromFlags readFile unmarshal configPath =
     (case readFile configPath of
        Inl e \<Rightarrow> Inl e
      | Inr configData \<Rightarrow>
          (case unmarshal configData of
             Inl e \<Rightarrow> Inl e
           | Inr config \<Rightarrow>
               if go_URL config = [] then Inl (Errorf ''url is required'')
               else case check_cert_files (go_CAFile config) (go_ClientCertFile config) (go_ClientKeyFile config) of
                 Some e \<Rightarrow> Inl e
               | None \<Rightarrow> Inr \<lparr>go_URL = go_URL config, go_CAFile = go_CAFile config,
                             go_ClientCertFile = go_ClientCertFile config,
                             go_ClientKeyFile = go_ClientKeyFile config\<rparr>))"

definition GetGRPCClientConn :: "'conn net_env \<Rightarrow> grpc_options \<Rightarrow> 'conn result" where
  "GetGRPCClientConn env opts =
     (if length (go_CAFile opts) \<noteq> 0 then
        (case load_tls env (go_CAFile opts) (go_ClientCertFile opts) (go_ClientKeyFile opts) of
           Inl e \<Rightarrow> Inl e
         | Inr (ca, cert) \<Rightarrow>
             (case ne_DialTLS env (go_URL opts) ca cert of
                Inl e \<Rightarrow> Inl (Errorf ''failed to connect to grpc server'')
              | Inr conn \<Rightarrow> Inr conn))
      else
        (case ne_Dial env (go_URL opts) of
           Inl e \<Rightarrow> Inl (Errorf ''failed to connect to grpc server'')
         | Inr conn \<Rightarrow> Inr conn))"

text \<open>\<open>newClient\<close> makes the protocol on a connection, with its topics, and the client on it.\<close>

definition grpc_GetCloudEventsClient ::
  "'conn net_env \<Rightarrow> ('conn \<Rightarrow> string list \<Rightarrow> sender result) \<Rightarrow> grpc_options \<Rightarrow> string list \<Rightarrow> sender result" where
  "grpc_GetCloudEventsClient env newClient opts topics =
     (case GetGRPCClientConn env opts of
        Inl e \<Rightarrow> Inl e
      | Inr conn \<Rightarrow> newClient conn topics)"

section \<open>Agents\<close>

record grpc_agent_options =
  ga_options :: grpc_options
  ga_clusterName :: string

definition grpc_agent_WithContext :: "grpc_agent_options \<Rightarrow> ce_event \<Rightarrow> string result" where
  "grpc_agent_WithContext opts evt =
     (case ParseCloudEventsType (ev_Type evt) of
        Inl e \<Rightarrow> Inl (Errorf ''unsupported event type'')
      | Inr eventType \<Rightarrow>
          if et_Action eventType = ResyncRequestAction
          then Inr (replace_char SpecResyncTopic CHR ''+'' (ga_clusterName opts) (- 1))
          else (case GetExtension evt ExtensionOriginalSource of
                  Inl e \<Rightarrow> Inl e
                | Inr originalSource \<Rightarrow>
                    let statusTopic = replace_char StatusTopic CHR ''+'' (sprint_s originalSource) 1
                    in Inr (replace_char statusTopic CHR ''+'' (ga_clusterName opts) (- 1))))"

definition grpc_agent_topics :: "grpc_agent_options \<Rightarrow> string list" where
  "grpc_agent_topics opts = [replaceNth SpecTopic ''+'' (ga_clusterName opts) 2, StatusResyncTopic]"

definition grpc_agent_Client ::
  "'conn net_env \<Rightarrow> ('conn \<Rightarrow> string list \<Rightarrow> sender result) \<Rightarrow> grpc_agent_options \<Rightarrow> sender result" where
  "grpc_agent_Client env newClient opts =
     grpc_GetCloudEventsClient env newClient (ga_options opts) (grpc_agent_topics opts)"

definition grpc_NewAgentOptions ::
  "'conn net_env \<Rightarrow> ('conn \<Rightarrow> string list \<Rightarrow> sender result) \<Rightarrow> grpc_options \<Rightarrow> string \<Rightarrow> string \<Rightarrow>
   cloud_events_agent_options" where
  "grpc_NewAgentOptions env newClient grpcOptions clusterName agentID =
     (let opts = \<lparr>ga_options = grpcOptions, ga_clusterName = clusterName\<rparr>
      in \<lparr>cao_CloudEventsOptions =
             \<lparr>ceo_WithContext = grpc_agent_WithContext opts, ceo_Client = grpc_agent_Client env newClient opts\<rparr>,
           cao_AgentID = agentID, cao_ClusterName = clusterName, cao_EventRateLimit = zero_rate_limit\<rparr>)"

section \<open>Sources\<close>

record grpc_source_options =
  gs_options :: grpc_options
  gs_sourceID :: string

definition grpc_source_WithContext :: "grpc_source_options \<Rightarrow> ce_event \<Rightarrow> string result" where
  "grpc_source_WithContext opts evt =
     (case ParseCloudEventsType (ev_Type evt) of
        Inl e \<Rightarrow> Inl (Errorf ''unsupported event type'')
      | Inr eventType \<Rightarrow>
          if et_Action eventType = ResyncRequestAction
          then Inr (replace_char StatusResyncTopic CHR ''+'' (gs_sourceID opts) (- 1))
          else (case GetExtension evt ExtensionClusterName of
                  Inl e \<Rightarrow> Inl e
                | Inr clusterName \<Rightarrow>
                    let specTopic = replace_char SpecTopic CHR ''+'' (gs_sourceID opts) 1
                    in Inr (replace_char specTopic CHR ''+'' (sprint_s clusterName) (- 1))))"

definition grpc_source_topics :: "grpc_source_options \<Rightarrow> string list" where
  "grpc_source_topics opts = [replace_char StatusTopic CHR ''+'' (gs_sourceID opts) 1, SpecResyncTopic]"

definition grpc_source_Client ::
  "'conn net_env \<Rightarrow> ('conn \<Rightarrow> string list \<Rightarrow> sender result) \<Rightarrow> grpc_source_options \<Rightarrow> sender result" where
  "grpc_source_Client env newClient opts =
     grpc_GetCloudEventsClient env newClient (gs_options opts) (grpc_source_topics opts)"

definition grpc_NewSourceOptions ::
  "'conn net_env \<Rightarrow> ('conn \<Rightarrow> string list \<Rightarrow> sender result) \<Rightarrow> grpc_options \<Rightarrow> string \<Rightarrow>
   cloud_events_source_options" where
  "grpc_NewSourceOptions env newClient grpcOptions sourceID =
     (let opts = \<lparr>gs_options = grpcOptions, gs_sourceID = sourceID\<rparr>
      in \<lparr>cso_CloudEventsOptions =
             \<lparr>ceo_WithContext = grpc_source_WithContext opts, ceo_Client = grpc_source_Client env newClient opts\<rparr>,
           cso_SourceID = sourceID, cso_EventRateLimit = zero_rate_limit\<rparr>)"

section \<open>The two protocols route alike\<close>

lemma grpc_topic_names:
  "SpecTopic = t_Spec default_topic_names" "StatusTopic = t_Status default_topic_names"
  "SpecResyncTopic = t_SpecResync default_topic_names" "StatusResyncTopic = t_StatusResync default_topic_names"
  by (simp_all add: default_topic_names_def default_topics SpecTopic_def StatusTopic_def
      SpecResyncTopic_def StatusResyncTopic_def)

lemma grpc_filters:
  "grpc_agent_topics opts = agent_filters default_topic_names (ga_clusterName opts)"
  "grpc_source_topics sopts = source_filters default_topic_names (gs_sourceID sopts)"
  by (simp_all add: grpc_agent_topics_def grpc_source_topics_def grpc_topic_names agent_filters_def source_filters_def)

text \<open>
  C34. The gRPC options send an event to the topic that the MQTT options with the default topics
  send it to, errors included, and they subscribe to the same topics.
\<close>

theorem grpc_routes_like_mqtt:
  "grpc_agent_WithContext \<lparr>ga_options = g, ga_clusterName = cluster\<rparr> evt =
     mqtt_agent_WithContext \<lparr>ma_options = NewMQTTOptions, ma_clusterName = cluster, ma_agentID = agent\<rparr> evt \<and>
   grpc_source_WithContext \<lparr>gs_options = g, gs_sourceID = source\<rparr> evt =
     mqtt_source_WithContext \<lparr>ms_options = NewMQTTOptions, ms_sourceID = source, ms_clientID = client\<rparr> evt \<and>
   set (grpc_agent_topics \<lparr>ga_options = g, ga_clusterName = cluster\<rparr>) =
     fst ` set (mqtt_agent_subscriptions \<lparr>ma_options = NewMQTTOptions, ma_clusterName = cluster, ma_agentID = agent\<rparr>) \<and>
   set (grpc_source_topics \<lparr>gs_options = g, gs_sourceID = source\<rparr>) =
     fst ` set (mqtt_source_subscriptions \<lparr>ms_options = NewMQTTOptions, ms_sourceID = source, ms_clientID = client\<rparr>)"
  unfolding grpc_agent_WithContext_def mqtt_agent_WithContext_def grpc_source_WithContext_def
    mqtt_source_WithContext_def grpc_agent_topics_def grpc_source_topics_def
    mqtt_agent_subscriptions_def mqtt_source_subscriptions_def grpc_topic_names NewMQTTOptions_def Let_def
  by (auto split: sum.split)

end
