(* ===== verification/Routes.thy ===== *)
theory Routes
  imports Grpc_Options Agent_Client Source_Client
begin

text \<open>
  Clients on a broker: where the events go that an agent or a source publishes with the options of
  \<^verbatim>\<open>options/mqtt\<close>. The broker is a parameter that accepts topics level by level.
\<close>

text \<open>An event that is published is sent once, to the topic its options give.\<close>

lemma publish_topic:
  assumes "publish evt c = (None, c')"
  obtains topic where "bc_WithContext c evt = Inr topic" "bc_sent c' = bc_sent c @ [(topic, evt)]"
  using publish_ok [OF assms] that by fastforce

lemma agent_publish_topic:
  assumes "agent_publish evt a = (None, a')"
  obtains topic where "bc_WithContext (ac_base a) evt = Inr topic"
    "bc_sent (ac_base a') = bc_sent (ac_base a) @ [(topic, evt)]"
proof -
  have "publish evt (ac_base a) = (None, ac_base a')"
    using assms by (auto simp: agent_publish_def split: prod.splits)
  then show ?thesis using that by (rule publish_topic)
qed

lemma source_publish_topic:
  assumes "source_publish evt c = (None, c')"
  obtains topic where "bc_WithContext (sc_base c) evt = Inr topic"
    "bc_sent (sc_base c') = bc_sent (sc_base c) @ [(topic, evt)]"
proof -
  have "publish evt (sc_base c) = (None, sc_base c')"
    using assms by (auto simp: source_publish_def split: prod.splits)
  then show ?thesis using that by (rule publish_topic)
qed

definition agent_hears :: "(string \<Rightarrow> string \<Rightarrow> bool) \<Rightarrow> mqtt_options \<Rightarrow> string \<Rightarrow> string \<Rightarrow> bool" where
  "agent_hears matches opts cluster topic = delivered matches
     (map fst (mqtt_agent_subscriptions \<lparr>ma_options = opts, ma_clusterName = cluster, ma_agentID = []\<rparr>)) topic"

definition source_hears :: "(string \<Rightarrow> string \<Rightarrow> bool) \<Rightarrow> mqtt_options \<Rightarrow> string \<Rightarrow> string \<Rightarrow> bool" where
  "source_hears matches opts source topic = delivered matches
     (map fst (mqtt_source_subscriptions \<lparr>ms_options = opts, ms_sourceID = source, ms_clientID = []\<rparr>)) topic"

lemma hears_filters:
  "agent_hears matches opts cluster topic = delivered matches (agent_filters (mo_Topics opts) cluster) topic"
  "source_hears matches opts source topic = delivered matches (source_filters (mo_Topics opts) source) topic"
  by (simp_all add: agent_hears_def source_hears_def mqtt_agent_filters mqtt_source_filters)

lemmas routes =
  topic_layout.spec_events_reach_the_cluster topic_layout.status_events_reach_the_source
  topic_layout.resync_requests_reach_the_other_side

text \<open>
  C21. What an agent publishes over MQTT: a resync request reaches every source; any other event
  reaches the source that it names as its original source and no other source. No agent hears it.
\<close>

theorem agent_events_reach_their_source:
  assumes "bc_WithContext (ac_base a) =
      ceo_WithContext (cao_CloudEventsOptions (mqtt_NewAgentOptions net new opts cluster agentID))"
    and "topic_layout (mo_Topics opts)" "accepts_by_level matches" "plain cluster"
    and "agent_publish evt a = (None, a')" "ParseCloudEventsType (ev_Type evt) = Inr t"
  shows "\<exists>topic. bc_sent (ac_base a') = bc_sent (ac_base a) @ [(topic, evt)] \<and>
    (if et_Action t = ResyncRequestAction
     then (\<forall>s c. plain s \<and> plain c \<longrightarrow> source_hears matches opts s topic \<and> \<not> agent_hears matches opts c topic)
     else \<exists>v. GetExtension evt ExtensionOriginalSource = Inr v \<and>
       (plain (sprint_s v) \<longrightarrow> (\<forall>s c. plain s \<and> plain c \<longrightarrow>
          (source_hears matches opts s topic \<longleftrightarrow> s = sprint_s v) \<and> \<not> agent_hears matches opts c topic)))"
proof -
  obtain topic where topic: "bc_WithContext (ac_base a) evt = Inr topic"
      "bc_sent (ac_base a') = bc_sent (ac_base a) @ [(topic, evt)]"
    using assms(5) by (rule agent_publish_topic)
  have "mqtt_agent_WithContext \<lparr>ma_options = opts, ma_clusterName = cluster, ma_agentID = agentID\<rparr> evt = Inr topic"
    using topic(1) by (simp add: assms(1) mqtt_NewAgentOptions_def Let_def)
  from mqtt_agent_topic [OF this assms(6)] show ?thesis
    using topic(2) routes [OF assms(2,3)] assms(4)
    by (intro exI [of _ topic]) (auto simp: hears_filters split: if_splits)
qed

definition level_matches :: "string \<Rightarrow> string \<Rightarrow> bool" where
  "level_matches f t = instance_of (levels f) (levels t)"

lemma level_matches_accepts: "accepts_by_level level_matches"
  by (simp add: accepts_by_level_def level_matches_def)

definition delivering_base :: "(ce_event \<Rightarrow> string result) \<Rightarrow> base_client" where
  "delivering_base ctx = \<lparr>bc_wait = \<lambda>_. None, bc_WithContext = ctx, bc_client = Some (\<lambda>_ _ _. None),
     bc_limiter = NewRateLimiter zero_rate_limit, bc_url = Some, bc_uuid = \<lambda>_. ''id'', bc_now = \<lambda>_. 1,
     bc_calls = 0, bc_sent = []\<rparr>"

definition cluster_agent :: "nat agent_client" where
  "cluster_agent = \<lparr>ac_base = delivering_base (ceo_WithContext (cao_CloudEventsOptions
       (mqtt_NewAgentOptions file_env (\<lambda>_. Inr (\<lambda>_ _ _. None)) NewMQTTOptions ''cluster1'' ''agent1''))),
     ac_ops = \<lparr>GetUID = \<lambda>_. [], GetResourceVersion = \<lambda>_. [], GetDeletionTimestamp = \<lambda>_. 0\<rparr>,
     ac_lister = \<lambda>_. Inr [], ac_codecs = [], ac_statusHashGetter = \<lambda>_. Inr [],
     ac_agentID = ''agent1'', ac_clusterName = ''cluster1''\<rparr>"

definition hub_source :: "nat source_client" where
  "hub_source = \<lparr>sc_base = delivering_base (ceo_WithContext (cso_CloudEventsOptions
       (mqtt_NewSourceOptions file_env (\<lambda>_. Inr (\<lambda>_ _ _. None)) NewMQTTOptions ''client1'' ''hub1''))),
     sc_ops = \<lparr>GetUID = \<lambda>_. [], GetResourceVersion = \<lambda>_. [], GetDeletionTimestamp = \<lambda>_. 0\<rparr>,
     sc_lister = \<lambda>_. Inr [], sc_codecs = [], sc_statusHashGetter = \<lambda>_. Inr [], sc_sourceID = ''hub1''\<rparr>"

definition example_event :: "string \<Rightarrow> string \<Rightarrow> string \<Rightarrow> ce_event" where
  "example_event ty ext val = new_event\<lparr>ev_ID := ''1'', ev_Source := ''s'', ev_Type := ty,
     ev_Extensions := [(ext, CeString val)]\<rparr>"

definition status_update :: ce_event where
  "status_update = example_event ''io.v1.things.status.update'' ExtensionOriginalSource ''hub1''"

definition spec_update :: ce_event where
  "spec_update = example_event ''io.v1.things.spec.update'' ExtensionClusterName ''cluster1''"

lemma cluster_agent_delivers: "fst (agent_publish status_update cluster_agent) = None"
  by code_simp

lemma hub_source_delivers: "fst (source_publish spec_update hub_source) = None"
  by code_simp

lemma names_plain: "plain ''hub1''" "plain ''hub2''" "plain ''cluster1''" "plain ''cluster2''"
  by code_simp+

lemma example_types:
  "map_option et_Action (case ParseCloudEventsType (ev_Type status_update) of Inl _ \<Rightarrow> None | Inr t \<Rightarrow> Some t) = Some ''update''"
  "map_option et_Action (case ParseCloudEventsType (ev_Type spec_update) of Inl _ \<Rightarrow> None | Inr t \<Rightarrow> Some t) = Some ''update''"
  by code_simp+

theorem agent_events_reach_their_source_witness:
  "\<exists>a' topic. agent_publish status_update cluster_agent = (None, a') \<and> bc_sent (ac_base a') = [(topic, status_update)] \<and>
     source_hears level_matches NewMQTTOptions ''hub1'' topic \<and> \<not> source_hears level_matches NewMQTTOptions ''hub2'' topic"
proof -
  obtain a' where a': "agent_publish status_update cluster_agent = (None, a')"
    using cluster_agent_delivers by (cases "agent_publish status_update cluster_agent") simp
  obtain t where t: "ParseCloudEventsType (ev_Type status_update) = Inr t" "et_Action t = ''update''"
    using example_types(1) by (cases "ParseCloudEventsType (ev_Type status_update)") auto
  have ext: "GetExtension status_update ExtensionOriginalSource = Inr (CeString ''hub1'')" by code_simp
  have no: "et_Action t \<noteq> ResyncRequestAction" by (simp add: t(2) ResyncRequestAction_def)
  have base: "bc_WithContext (ac_base cluster_agent) = ceo_WithContext (cao_CloudEventsOptions
      (mqtt_NewAgentOptions file_env (\<lambda>_. Inr (\<lambda>_ _ _. None)) NewMQTTOptions ''cluster1'' ''agent1''))"
    by (simp add: cluster_agent_def delivering_base_def)
  have layout: "topic_layout (mo_Topics NewMQTTOptions)"
    using default_layout.topic_layout_axioms by (simp add: NewMQTTOptions_def)
  have sent: "bc_sent (ac_base cluster_agent) = []" by (simp add: cluster_agent_def delivering_base_def)
  from agent_events_reach_their_source [OF base layout level_matches_accepts names_plain(3) a' t(1)]
  obtain topic where "bc_sent (ac_base a') = [(topic, status_update)]"
    "\<forall>s c. plain s \<and> plain c \<longrightarrow> (source_hears level_matches NewMQTTOptions s topic \<longleftrightarrow> s = ''hub1'') \<and>
       \<not> agent_hears level_matches NewMQTTOptions c topic"
    unfolding sent ext by (auto simp: no sprint_s_def names_plain)
  with a' names_plain show ?thesis by fastforce
qed

text \<open>
  C6. What a source publishes over MQTT: a resync request reaches every agent; any other event
  reaches the agents of the cluster that it names and of no other cluster. No source hears it.
\<close>

theorem source_events_reach_their_cluster:
  assumes "bc_WithContext (sc_base c) =
      ceo_WithContext (cso_CloudEventsOptions (mqtt_NewSourceOptions net new opts clientID source))"
    and "topic_layout (mo_Topics opts)" "accepts_by_level matches" "plain source"
    and "source_publish evt c = (None, c')" "ParseCloudEventsType (ev_Type evt) = Inr t"
  shows "\<exists>topic. bc_sent (sc_base c') = bc_sent (sc_base c) @ [(topic, evt)] \<and>
    (if et_Action t = ResyncRequestAction
     then (\<forall>s cl. plain s \<and> plain cl \<longrightarrow> agent_hears matches opts cl topic \<and> \<not> source_hears matches opts s topic)
     else \<exists>v. GetExtension evt ExtensionClusterName = Inr v \<and>
       (plain (sprint_s v) \<longrightarrow> (\<forall>s cl. plain s \<and> plain cl \<longrightarrow>
          (agent_hears matches opts cl topic \<longleftrightarrow> cl = sprint_s v) \<and> \<not> source_hears matches opts s topic)))"
proof -
  obtain topic where topic: "bc_WithContext (sc_base c) evt = Inr topic"
      "bc_sent (sc_base c') = bc_sent (sc_base c) @ [(topic, evt)]"
    using assms(5) by (rule source_publish_topic)
  have "mqtt_source_WithContext \<lparr>ms_options = opts, ms_sourceID = source, ms_clientID = clientID\<rparr> evt = Inr topic"
    using topic(1) by (simp add: assms(1) mqtt_NewSourceOptions_def Let_def)
  from mqtt_source_topic [OF this assms(6)] show ?thesis
    using topic(2) routes [OF assms(2,3)] assms(4)
    by (intro exI [of _ topic]) (auto simp: hears_filters split: if_splits)
qed

theorem source_events_reach_their_cluster_witness:
  "\<exists>a' topic. source_publish spec_update hub_source = (None, a') \<and> bc_sent (sc_base a') = [(topic, spec_update)] \<and>
     agent_hears level_matches NewMQTTOptions ''cluster1'' topic \<and> \<not> agent_hears level_matches NewMQTTOptions ''cluster2'' topic"
proof -
  obtain a' where a': "source_publish spec_update hub_source = (None, a')"
    using hub_source_delivers by (cases "source_publish spec_update hub_source") simp
  obtain t where t: "ParseCloudEventsType (ev_Type spec_update) = Inr t" "et_Action t = ''update''"
    using example_types(2) by (cases "ParseCloudEventsType (ev_Type spec_update)") auto
  have ext: "GetExtension spec_update ExtensionClusterName = Inr (CeString ''cluster1'')" by code_simp
  have no: "et_Action t \<noteq> ResyncRequestAction" by (simp add: t(2) ResyncRequestAction_def)
  have base: "bc_WithContext (sc_base hub_source) = ceo_WithContext (cso_CloudEventsOptions
      (mqtt_NewSourceOptions file_env (\<lambda>_. Inr (\<lambda>_ _ _. None)) NewMQTTOptions ''client1'' ''hub1''))"
    by (simp add: hub_source_def delivering_base_def)
  have layout: "topic_layout (mo_Topics NewMQTTOptions)"
    using default_layout.topic_layout_axioms by (simp add: NewMQTTOptions_def)
  have sent: "bc_sent (sc_base hub_source) = []" by (simp add: hub_source_def delivering_base_def)
  from source_events_reach_their_cluster [OF base layout level_matches_accepts names_plain(1) a' t(1)]
  obtain topic where "bc_sent (sc_base a') = [(topic, spec_update)]"
    "\<forall>s c. plain s \<and> plain c \<longrightarrow> (agent_hears level_matches NewMQTTOptions c topic \<longleftrightarrow> c = ''cluster1'') \<and>
       \<not> source_hears level_matches NewMQTTOptions s topic"
    unfolding sent ext by (auto simp: no sprint_s_def names_plain)
  with a' names_plain show ?thesis by fastforce
qed

end
