(* ===== verification/Work_Agent.thy ===== *)
theory Work_Agent
  imports Work_Transport Routes
begin

text \<open>
  The agent's side of \<^verbatim>\<open>pkg/cloudevents/work\<close>: \<^verbatim>\<open>lister.go\<close>, the handler of spec events
  (\<^verbatim>\<open>agent/handler\<close>), the client for manifest works (\<^verbatim>\<open>agent/client\<close>) and the
  patches of \<^verbatim>\<open>utils\<close>. The informer's cache is an interface, the locale \<open>work_cache\<close>;
  it is interpreted on the cache of \<^verbatim>\<open>client-go\<close>, a map by the key of an object. The
  watcher that carries the events to the cache is in the theory Work_Watcher.
\<close>

section \<open>Watch events and the cache\<close>

datatype watch_type = WatchAdded | WatchModified | WatchDeleted

record watch_event =
  we_Type :: watch_type
  we_Object :: manifest_work

type_synonym work_store = "(string, manifest_work) gomap"

text \<open>\<open>MetaNamespaceKeyFunc\<close>, and the key by which the namespaced lister looks up a name.\<close>

definition cache_key :: "manifest_work \<Rightarrow> string" where
  "cache_key w = (if mw_Namespace w = [] then mw_Name w else mw_Namespace w @ ''/'' @ mw_Name w)"

definition store_Get :: "work_store \<Rightarrow> string \<Rightarrow> string \<Rightarrow> manifest_work result" where
  "store_Get s namespace name =
     (case map_of s (namespace @ ''/'' @ name) of None \<Rightarrow> Inl (StatusError NotFound) | Some w \<Rightarrow> Inr w)"

definition store_List :: "work_store \<Rightarrow> string \<Rightarrow> manifest_work list" where
  "store_List s namespace = filter (\<lambda>w. namespace = [] \<or> mw_Namespace w = namespace) (map snd s)"

definition store_apply :: "watch_event \<Rightarrow> work_store \<Rightarrow> work_store" where
  "store_apply e s = (case we_Type e of
       WatchDeleted \<Rightarrow> AList.delete (cache_key (we_Object e)) s
     | _ \<Rightarrow> AList.update (cache_key (we_Object e)) (we_Object e) s)"

text \<open>\<open>ManifestWorkLister.List\<close>, which does not look at the source, and the methods of a work.\<close>

definition work_List :: "work_store \<Rightarrow> manifest_work lister" where
  "work_List s options = Inr (store_List s (lo_ClusterName options))"

definition work_ops :: "manifest_work resource_object" where
  "work_ops = \<lparr>GetUID = mw_UID, GetResourceVersion = mw_ResourceVersion, GetDeletionTimestamp = mw_DeletionTimestamp\<rparr>"

text \<open>\<open>marshal\<close> and \<open>sha256\<close> are JSON and the hash in hexadecimal digits.\<close>

definition ManifestWorkStatusHash ::
  "(work_status \<Rightarrow> string result) \<Rightarrow> (string \<Rightarrow> string) \<Rightarrow> manifest_work status_hash_getter" where
  "ManifestWorkStatusHash marshal sha256 work =
     (case marshal (mw_Status work) of
        Inl e \<Rightarrow> Inl (Errorf ''failed to marshal work status'')
      | Inr statusBytes \<Rightarrow> Inr (sha256 statusBytes))"

section \<open>The handler\<close>

text \<open>The watch event that is passed to the watcher, if any, or the error that is returned.\<close>

definition work_handler ::
  "(string \<Rightarrow> manifest_work result) \<Rightarrow> string \<Rightarrow> manifest_work \<Rightarrow> watch_event option result" where
  "work_handler get action work =
     (if action = ActionAdded then Inr (Some \<lparr>we_Type = WatchAdded, we_Object = work\<rparr>)
      else if action = ActionModified then
        (case get (mw_Name work) of
           Inl e \<Rightarrow> Inl e
         | Inr lastWork \<Rightarrow>
             (case parse_int (mw_ResourceVersion work) of
                Inl e \<Rightarrow> Inl (Errorf ''failed to parse the resourceVersion of the manifestwork'')
              | Inr resourceVersion \<Rightarrow>
                  (case parse_int (mw_ResourceVersion lastWork) of
                     Inl e \<Rightarrow> Inl (Errorf ''failed to parse the resourceVersion of the manifestwork'')
                   | Inr lastResourceVersion \<Rightarrow>
                       if resourceVersion \<le> lastResourceVersion then Inr None
                       else
                         let updatedWork = work\<lparr>mw_Labels := mw_Labels lastWork, mw_Annotations := mw_Annotations lastWork,
                               mw_Finalizers := mw_Finalizers lastWork, mw_Status := mw_Status lastWork\<rparr>
                         in Inr (Some \<lparr>we_Type = WatchModified, we_Object = updatedWork\<rparr>))))
      else if action = ActionDeleted then
        (case get (mw_Name work) of
           Inl e \<Rightarrow> if is_not_found e then Inr None else Inl e
         | Inr lastWork \<Rightarrow>
             Inr (Some \<lparr>we_Type = WatchModified,
                        we_Object = lastWork\<lparr>mw_DeletionTimestamp := mw_DeletionTimestamp work\<rparr>\<rparr>))
      else Inl (Errorf ''unsupported resource action''))"

section \<open>Patches\<close>

text \<open>JSON of a work, and the two kinds of patches of \<^verbatim>\<open>evanphx/json-patch\<close>, on bytes.\<close>

record patch_env =
  pe_Marshal :: "manifest_work \<Rightarrow> string result"
  pe_DecodePatch :: "string \<Rightarrow> (string \<Rightarrow> string result) result"
  pe_MergePatch :: "string \<Rightarrow> string \<Rightarrow> string result"
  pe_Unmarshal :: "string \<Rightarrow> manifest_work result"

definition JSONPatchType :: string where
  "JSONPatchType = ''application/json-patch+json''"

definition MergePatchType :: string where
  "MergePatchType = ''application/merge-patch+json''"

definition work_Patch :: "patch_env \<Rightarrow> string \<Rightarrow> manifest_work \<Rightarrow> string \<Rightarrow> manifest_work result" where
  "work_Patch env patchType work patchData =
     (case pe_Marshal env work of
        Inl e \<Rightarrow> Inl e
      | Inr workData \<Rightarrow>
          (case (if patchType = JSONPatchType then
                   (case pe_DecodePatch env patchData of Inl e \<Rightarrow> Inl e | Inr patchObj \<Rightarrow> patchObj workData)
                 else if patchType = MergePatchType then pe_MergePatch env workData patchData
                 else Inl (Errorf ''unsupported patch type'')) of
             Inl e \<Rightarrow> Inl e
           | Inr patchedData \<Rightarrow> pe_Unmarshal env patchedData))"

definition isStatusUpdate :: "string list \<Rightarrow> bool result" where
  "isStatusUpdate subresources =
     (if length subresources = 0 then Inr False
      else if length subresources = 1 \<and> subresources ! 0 = ''status'' then Inr True
      else Inl (Errorf ''unsupported subresources''))"

text \<open>\<open>meta.SetStatusCondition\<close> with a condition that has no transition time of its own.\<close>

definition SetStatusCondition :: "int \<Rightarrow> condition list \<Rightarrow> condition \<Rightarrow> condition list" where
  "SetStatusCondition now conditions new =
     (if find (\<lambda>c. cnd_Type c = cnd_Type new) conditions = None
      then conditions @ [new\<lparr>cnd_LastTransitionTime := now\<rparr>]
      else let i = length (takeWhile (\<lambda>c. cnd_Type c \<noteq> cnd_Type new) conditions); old = conditions ! i
        in conditions[i := new\<lparr>cnd_LastTransitionTime :=
             (if cnd_Status old \<noteq> cnd_Status new then now else cnd_LastTransitionTime old)\<rparr>])"

section \<open>The client\<close>

definition ManifestsDeleted :: string where
  "ManifestsDeleted = ''Deleted''"

definition UpdateRequestAction :: string where
  "UpdateRequestAction = ''update_request''"

definition DeleteRequestAction :: string where
  "DeleteRequestAction = ''delete_request''"

text \<open>
  \<open>wc_watcher\<close> are the events that the client passed to the watcher. The lister is nil until it is
  set; a result of None is the panic of a call on the nil lister.
\<close>

record work_client =
  wc_cloudEventsClient :: "manifest_work agent_client"
  wc_watcher :: "watch_event list"
  wc_lister :: "(string \<Rightarrow> manifest_work result) option"

definition NewManifestWorkAgentClient :: "manifest_work agent_client \<Rightarrow> work_client" where
  "NewManifestWorkAgentClient cloudEventsClient =
     \<lparr>wc_cloudEventsClient = cloudEventsClient, wc_watcher = [], wc_lister = None\<rparr>"

definition SetLister :: "(string \<Rightarrow> manifest_work result) \<Rightarrow> work_client \<Rightarrow> work_client" where
  "SetLister lister c = c\<lparr>wc_lister := Some lister\<rparr>"

text \<open>Create, Update, UpdateStatus, Delete and DeleteCollection.\<close>

definition not_supported :: "work_client \<Rightarrow> 'a result \<times> work_client" where
  "not_supported c = (Inl (StatusError MethodNotSupported), c)"

definition client_Get :: "string \<Rightarrow> work_client \<Rightarrow> manifest_work result option" where
  "client_Get name c = map_option (\<lambda>get. get name) (wc_lister c)"

definition client_List :: "work_client \<Rightarrow> manifest_work list result \<times> work_client" where
  "client_List c =
     (case agent_Resync \<lparr>lo_ClusterName = [], lo_Source = []\<rparr> (wc_cloudEventsClient c) of
        (Some e, a) \<Rightarrow> (Inl e, c\<lparr>wc_cloudEventsClient := a\<rparr>)
      | (None, a) \<Rightarrow> (Inr [], c\<lparr>wc_cloudEventsClient := a\<rparr>))"

definition client_publish :: "cloud_events_type \<Rightarrow> manifest_work \<Rightarrow> work_client \<Rightarrow> error option \<times> work_client" where
  "client_publish eventType work c =
     (let (r, a) = agent_Publish eventType work (wc_cloudEventsClient c) in (r, c\<lparr>wc_cloudEventsClient := a\<rparr>))"

definition watcher_Receive :: "watch_type \<Rightarrow> manifest_work \<Rightarrow> work_client \<Rightarrow> work_client" where
  "watcher_Receive t work c = c\<lparr>wc_watcher := wc_watcher c @ [\<lparr>we_Type = t, we_Object = work\<rparr>]\<rparr>"

definition deleted_condition :: condition where
  "deleted_condition = \<lparr>cnd_Type = ManifestsDeleted, cnd_Status = ''True'', cnd_Reason = ''ManifestsDeleted'',
     cnd_Message = ''The manifests are deleted from the cluster'', cnd_LastTransitionTime = 0, cnd_ObservedGeneration = 0\<rparr>"

definition mark_deleted :: "int \<Rightarrow> manifest_work \<Rightarrow> manifest_work" where
  "mark_deleted now work = work\<lparr>mw_Status := (mw_Status work)\<lparr>wst_Conditions :=
     SetStatusCondition now (wst_Conditions (mw_Status work))
       (deleted_condition\<lparr>cnd_Message := cnd_Message deleted_condition @ '' '' @ mw_Namespace work\<rparr>)\<rparr>\<rparr>"

text \<open>What is published before the cache is told, and the event for the cache.\<close>

definition client_Patch ::
  "patch_env \<Rightarrow> int \<Rightarrow> string \<Rightarrow> string \<Rightarrow> string \<Rightarrow> string list \<Rightarrow> work_client \<Rightarrow> (manifest_work result \<times> work_client) option" where
  "client_Patch env now name pt data subresources c =
     (case client_Get name c of
        None \<Rightarrow> None
      | Some (Inl e) \<Rightarrow> Some (Inl e, c)
      | Some (Inr lastWork) \<Rightarrow> Some (
          case work_Patch env pt lastWork data of
            Inl e \<Rightarrow> (Inl e, c)
          | Inr patchedWork \<Rightarrow>
              (case ParseCloudEventsDataType (lookup_str (mw_Annotations patchedWork) CloudEventsDataTypeAnnotationKey) of
                 Inl e \<Rightarrow> (Inl e, c)
               | Inr eventDataType \<Rightarrow>
                   let eventType = (\<lambda>action. \<lparr>et_DataType = eventDataType, et_SubResource = SubResourceStatus, et_Action = action\<rparr>)
                   in case isStatusUpdate subresources of
                        Inl e \<Rightarrow> (Inl e, c)
                      | Inr True \<Rightarrow>
                          (case client_publish (eventType UpdateRequestAction) patchedWork c of
                             (Some e, c') \<Rightarrow> (Inl e, c')
                           | (None, c') \<Rightarrow> (Inr patchedWork, watcher_Receive WatchModified patchedWork c'))
                      | Inr False \<Rightarrow>
                          if mw_DeletionTimestamp patchedWork \<noteq> 0 \<and> length (mw_Finalizers patchedWork) = 0 then
                            (let newWork = mark_deleted now patchedWork in
                             case client_publish (eventType DeleteRequestAction) newWork c of
                               (Some e, c') \<Rightarrow> (Inl e, c')
                             | (None, c') \<Rightarrow> (Inr newWork, watcher_Receive WatchDeleted newWork c'))
                          else (Inr patchedWork, watcher_Receive WatchModified patchedWork c))))"

section \<open>The cache as an interface\<close>

text \<open>What the handler and the agent client rely on, for namespaces that may be part of a key.\<close>

definition key_part :: "string \<Rightarrow> bool" where
  "key_part ns \<longleftrightarrow> ns \<noteq> [] \<and> CHR ''/'' \<notin> set ns"

locale work_cache =
  fixes inv :: "'s \<Rightarrow> bool"
    and get :: "'s \<Rightarrow> string \<Rightarrow> string \<Rightarrow> manifest_work result"
    and list :: "'s \<Rightarrow> string \<Rightarrow> manifest_work list"
    and apply_event :: "watch_event \<Rightarrow> 's \<Rightarrow> 's"
  assumes get_found: "inv s \<Longrightarrow> key_part ns \<Longrightarrow> get s ns n = Inr w \<longleftrightarrow> w \<in> set (list s ns) \<and> mw_Name w = n"
    and get_missing: "inv s \<Longrightarrow> key_part ns \<Longrightarrow> get s ns n = Inl err \<Longrightarrow> is_not_found err"
    and list_namespace: "inv s \<Longrightarrow> key_part ns \<Longrightarrow> w \<in> set (list s ns) \<Longrightarrow> mw_Namespace w = ns"
    and apply_inv: "inv s \<Longrightarrow> key_part (mw_Namespace (we_Object e)) \<Longrightarrow> inv (apply_event e s)"
    and apply_get: "inv s \<Longrightarrow> key_part ns \<Longrightarrow> key_part (mw_Namespace (we_Object e)) \<Longrightarrow>
      get (apply_event e s) ns n =
        (if ns = mw_Namespace (we_Object e) \<and> n = mw_Name (we_Object e)
         then (if we_Type e = WatchDeleted then Inl (StatusError NotFound) else Inr (we_Object e))
         else get s ns n)"

text \<open>
  A spec event is received, handled, and what the handler passes on reaches the cache before the
  next event is received.
\<close>

definition deliver_spec ::
  "('s \<Rightarrow> string \<Rightarrow> string \<Rightarrow> manifest_work result) \<Rightarrow> ('s \<Rightarrow> string \<Rightarrow> manifest_work list) \<Rightarrow> (watch_event \<Rightarrow> 's \<Rightarrow> 's) \<Rightarrow>
   manifest_work agent_client \<Rightarrow> ce_event \<Rightarrow> 's \<Rightarrow> 's" where
  "deliver_spec get list apply_event a evt s =
     (case fst (agent_receive evt (a\<lparr>ac_lister := \<lambda>options. Inr (list s (lo_ClusterName options))\<rparr>)) of
        Handle action w \<Rightarrow>
          (case work_handler (get s (ac_clusterName a)) action w of
             Inr (Some e) \<Rightarrow> apply_event e s
           | _ \<Rightarrow> s)
      | _ \<Rightarrow> s)"

text \<open>The codecs name the work of an event after its resource and put it into the cluster of the agent.\<close>

definition for_cluster :: "manifest_work agent_client \<Rightarrow> ce_event \<Rightarrow> bool" where
  "for_cluster a evt \<longleftrightarrow> ac_ops a = work_ops \<and> key_part (ac_clusterName a) \<and>
     (\<forall>t codec w. map_of (ac_codecs a) t = Some codec \<longrightarrow> cd_Decode codec evt = Inr w \<longrightarrow>
        mw_Name w = mw_UID w \<and> mw_Namespace w = ac_clusterName a)"

text \<open>What stays of a work that the agent has: its local fields, and it is never set back.\<close>

definition version_le :: "string \<Rightarrow> string \<Rightarrow> bool" where
  "version_le v v' \<longleftrightarrow> v' = v \<or> (\<exists>i j. parse_int v = Inr i \<and> parse_int v' = Inr j \<and> i < j)"

definition kept :: "manifest_work \<Rightarrow> manifest_work \<Rightarrow> bool" where
  "kept w w' \<longleftrightarrow> mw_UID w' = mw_UID w \<and> mw_Labels w' = mw_Labels w \<and> mw_Annotations w' = mw_Annotations w \<and>
     mw_Finalizers w' = mw_Finalizers w \<and> mw_Status w' = mw_Status w \<and>
     version_le (mw_ResourceVersion w) (mw_ResourceVersion w')"

lemma kept_refl: "kept w w"
  by (simp add: kept_def version_le_def)

lemma kept_trans: "kept w w' \<Longrightarrow> kept w' w'' \<Longrightarrow> kept w w''"
  by (fastforce simp: kept_def version_le_def)

lemma agent_receive_Handle:
  assumes "fst (agent_receive evt a) = Handle action w"
  obtains t codec where "map_of (ac_codecs a) t = Some codec" "cd_Decode codec evt = Inr w"
    "specAction a (ev_Source evt) w = Inr action" "action \<noteq> []"
  using assms
  by (auto simp: agent_receive_def Let_def split: sum.splits if_splits option.splits prod.splits)

lemma getObj_found: "getObj ops u objs = Some w \<Longrightarrow> w \<in> set objs \<and> GetUID ops w = u"
  by (induction objs) (auto split: if_splits)

lemma getObj_missing: "getObj ops u objs = None \<longleftrightarrow> u \<notin> GetUID ops ` set objs"
  by (induction objs) auto

lemma work_actions_differ [simp]:
  "ActionAdded \<noteq> ActionModified" "ActionAdded \<noteq> ActionDeleted" "ActionModified \<noteq> ActionDeleted"
  "ActionModified \<noteq> ActionAdded" "ActionDeleted \<noteq> ActionAdded" "ActionDeleted \<noteq> ActionModified"
  by (simp_all add: resource_actions)

text \<open>The watch events that the handler makes of a work that is in the cache already.\<close>

lemma work_handler_object:
  assumes "work_handler get action w = Inr (Some e)" "action \<in> {ActionAdded, ActionModified, ActionDeleted}"
    and "\<And>n v. get n = Inr v \<Longrightarrow> mw_Name v = n \<and> mw_Namespace v = mw_Namespace w \<and> mw_UID v = n" "mw_UID w = mw_Name w"
  shows "mw_Name (we_Object e) = mw_Name w" "mw_Namespace (we_Object e) = mw_Namespace w" "mw_UID (we_Object e) = mw_Name w"
    "we_Type e \<noteq> WatchDeleted" "action \<noteq> ActionAdded \<Longrightarrow> \<exists>v. get (mw_Name w) = Inr v \<and> kept v (we_Object e)"
  using assms
  by (auto simp: work_handler_def Let_def kept_def version_le_def split: if_splits sum.splits)

context work_cache
begin

definition named :: "string \<Rightarrow> 's \<Rightarrow> bool" where
  "named cluster s \<longleftrightarrow> inv s \<and> (\<forall>w \<in> set (list s cluster). mw_UID w = mw_Name w)"

lemma deliver_keeps:
  assumes "for_cluster a evt" "named (ac_clusterName a) s"
  shows "named (ac_clusterName a) (deliver_spec get list apply_event a evt s)"
    and "get s (ac_clusterName a) n = Inr w \<Longrightarrow>
      \<exists>w'. get (deliver_spec get list apply_event a evt s) (ac_clusterName a) n = Inr w' \<and> kept w w'"
proof -
  let ?cl = "ac_clusterName a" and ?s' = "deliver_spec get list apply_event a evt s"
  let ?a = "a\<lparr>ac_lister := \<lambda>options. Inr (list s (lo_ClusterName options))\<rparr>"
  have cl: "key_part ?cl" and ops: "ac_ops a = work_ops" and inv: "inv s"
    using assms by (auto simp: for_cluster_def named_def)
  have cached: "mw_Name v = n \<and> mw_Namespace v = ?cl \<and> mw_UID v = n" if "get s ?cl n = Inr v" for n v
    using that assms(2) list_namespace [OF inv cl] by (auto simp: get_found [OF inv cl] named_def)
  have "named ?cl ?s' \<and> (\<forall>n w. get s ?cl n = Inr w \<longrightarrow> (\<exists>w'. get ?s' ?cl n = Inr w' \<and> kept w w'))"
  proof (cases "\<exists>action w e. fst (agent_receive evt ?a) = Handle action w \<and> work_handler (get s ?cl) action w = Inr (Some e)")
    case False
    then have "?s' = s" by (auto simp: deliver_spec_def split: received.split sum.split option.split)
    then show ?thesis using assms(2) kept_refl by auto
  next
    case True
    then obtain action w e where h: "fst (agent_receive evt ?a) = Handle action w"
      "work_handler (get s ?cl) action w = Inr (Some e)" by blast
    then have s': "?s' = apply_event e s" by (simp add: deliver_spec_def)
    obtain t codec where w: "map_of (ac_codecs a) t = Some codec" "cd_Decode codec evt = Inr w"
      and act: "specAction ?a (ev_Source evt) w = Inr action" "action \<noteq> []"
      using agent_receive_Handle [OF h(1)] by (metis agent_client.select_convs(4) agent_client.surjective agent_client.update_convs(3))
    have ids: "mw_UID w = mw_Name w" "mw_Namespace w = ?cl"
      using assms(1) w by (auto simp: for_cluster_def)
    have action: "action \<in> {ActionAdded, ActionModified, ActionDeleted}"
      and new: "action = ActionAdded \<Longrightarrow> mw_Name w \<notin> mw_UID ` set (list s ?cl)"
      using act ids by (auto simp: specAction_def ops work_ops_def getObj_missing split: option.splits if_splits)
    note obj = work_handler_object [OF h(2) action, unfolded ids(2), OF cached ids(1)]
    have get': "get ?s' ?cl n = (if n = mw_Name w then Inr (we_Object e) else get s ?cl n)" for n
      using apply_get [OF inv cl, of e n] obj cl by (simp add: s')
    have inv': "inv ?s'" using apply_inv [OF inv, of e] obj(2) cl by (simp add: s')
    have "mw_UID v = mw_Name v" if "v \<in> set (list ?s' ?cl)" for v
    proof -
      have v: "get ?s' ?cl (mw_Name v) = Inr v" using that by (simp add: get_found [OF inv' cl])
      show ?thesis
      proof (cases "mw_Name v = mw_Name w")
        case True
        then have "we_Object e = v" using v get' by simp
        then show ?thesis using obj(1,3) by simp
      next
        case False
        then have "get s ?cl (mw_Name v) = Inr v" using v get' by simp
        then show ?thesis using cached by blast
      qed
    qed
    then have "named ?cl ?s'" using inv' by (simp add: named_def)
    moreover have "\<exists>w'. get ?s' ?cl n = Inr w' \<and> kept v w'" if v: "get s ?cl n = Inr v" for n v
    proof (cases "n = mw_Name w")
      case True
      have "v \<in> set (list s ?cl)" using v by (simp add: get_found [OF inv cl])
      moreover have "mw_UID v = mw_Name w" using cached [OF v] True by simp
      ultimately have "action \<noteq> ActionAdded" using new by (metis imageI)
      then show ?thesis using obj(5) v True get' by auto
    qed (use v get' kept_refl in auto)
    ultimately show ?thesis by blast
  qed
  then show "named ?cl ?s'" "get s ?cl n = Inr w \<Longrightarrow> \<exists>w'. get ?s' ?cl n = Inr w' \<and> kept w w'" by blast+
qed

lemma deliveries_keep:
  assumes "\<forall>evt \<in> set evts. for_cluster a evt" "named (ac_clusterName a) s" "get s (ac_clusterName a) n = Inr w"
  shows "\<exists>w'. get (foldl (\<lambda>s evt. deliver_spec get list apply_event a evt s) s evts) (ac_clusterName a) n = Inr w' \<and> kept w w'"
  using assms
proof (induction evts arbitrary: s w)
  case (Cons evt evts)
  then have evt: "for_cluster a evt" and evts: "\<forall>evt \<in> set evts. for_cluster a evt" by simp_all
  let ?s = "deliver_spec get list apply_event a evt s"
  obtain w1 where w1: "get ?s (ac_clusterName a) n = Inr w1" "kept w w1"
    using deliver_keeps(2) [OF evt Cons.prems(2,3)] by blast
  obtain w2 where "get (foldl (\<lambda>s evt. deliver_spec get list apply_event a evt s) ?s evts) (ac_clusterName a) n = Inr w2"
    "kept w1 w2"
    using Cons.IH [OF evts deliver_keeps(1) [OF evt Cons.prems(2)] w1(1)] by blast
  then show ?case using kept_trans [OF w1(2)] by auto
qed (auto intro: kept_refl)

end

section \<open>The cache of client-go\<close>

definition store_inv :: "work_store \<Rightarrow> bool" where
  "store_inv s \<longleftrightarrow> wf_map s \<and> (\<forall>(k, w) \<in> set s. k = cache_key w \<and> key_part (mw_Namespace w))"

lemma split_at_first:
  "x \<notin> set xs \<Longrightarrow> x \<notin> set ys \<Longrightarrow> xs @ x # us = ys @ x # vs \<longleftrightarrow> xs = ys \<and> us = vs"
proof (induction xs arbitrary: ys)
  case (Cons a xs)
  then show ?case by (cases ys) auto
next
  case Nil
  then show ?case by (cases ys) auto
qed

lemma cache_key_eq:
  assumes "key_part ns" "key_part (mw_Namespace w)"
  shows "ns @ ''/'' @ n = cache_key w \<longleftrightarrow> ns = mw_Namespace w \<and> n = mw_Name w"
  using assms split_at_first [of "CHR ''/''" ns "mw_Namespace w" n "mw_Name w"] by (auto simp: cache_key_def key_part_def)

lemma store_found:
  assumes "store_inv s" "key_part ns"
  shows "store_Get s ns n = Inr w \<longleftrightarrow> w \<in> set (store_List s ns) \<and> mw_Name w = n"
proof -
  have "store_Get s ns n = Inr w \<longleftrightarrow> (ns @ ''/'' @ n, w) \<in> set s"
    using assms(1) by (auto simp: store_Get_def store_inv_def wf_map_of_iff split: option.split)
  also have "\<dots> \<longleftrightarrow> w \<in> set (store_List s ns) \<and> mw_Name w = n"
  proof
    assume "(ns @ ''/'' @ n, w) \<in> set s"
    moreover from this have "ns @ ''/'' @ n = cache_key w" "key_part (mw_Namespace w)"
      using assms(1) by (auto simp: store_inv_def)
    ultimately show "w \<in> set (store_List s ns) \<and> mw_Name w = n"
      using cache_key_eq [OF assms(2)] by (force simp: store_List_def)
  next
    assume w: "w \<in> set (store_List s ns) \<and> mw_Name w = n"
    then obtain k where k: "(k, w) \<in> set s" "mw_Namespace w = ns"
      using assms(2) by (auto simp: store_List_def key_part_def)
    then have "k = cache_key w" using assms(1) by (auto simp: store_inv_def)
    then show "(ns @ ''/'' @ n, w) \<in> set s"
      using cache_key_eq [OF assms(2), of w n] k w assms(2) by auto
  qed
  finally show ?thesis .
qed

lemma store_apply_inv:
  assumes "store_inv s" "key_part (mw_Namespace (we_Object e))"
  shows "store_inv (store_apply e s)"
proof -
  have "(k, w) \<in> set (AList.update key v s) \<Longrightarrow> (k, w) = (key, v) \<or> (k, w) \<in> set s" for k w key v
    by (induction s) (auto split: if_splits)
  moreover have "(k, w) \<in> set (AList.delete key s) \<Longrightarrow> (k, w) \<in> set s" for k w key
    by (auto simp: AList.delete_eq)
  ultimately show ?thesis
    using assms by (cases "we_Type e") (fastforce simp: store_inv_def store_apply_def)+
qed

interpretation client_go: work_cache store_inv store_Get store_List store_apply
proof
  fix s ns n and e :: watch_event
  assume "key_part ns" "key_part (mw_Namespace (we_Object e))"
  from cache_key_eq [OF this, of n]
  show "store_Get (store_apply e s) ns n =
      (if ns = mw_Namespace (we_Object e) \<and> n = mw_Name (we_Object e)
       then (if we_Type e = WatchDeleted then Inl (StatusError NotFound) else Inr (we_Object e))
       else store_Get s ns n)"
    by (cases "we_Type e") (auto simp: store_Get_def store_apply_def)
next
  show "store_inv s \<Longrightarrow> key_part ns \<Longrightarrow> store_Get s ns n = Inl err \<Longrightarrow> is_not_found err" for s ns n err
    by (auto simp: store_Get_def split: option.splits)
  show "store_inv s \<Longrightarrow> key_part ns \<Longrightarrow> w \<in> set (store_List s ns) \<Longrightarrow> mw_Namespace w = ns" for s ns w
    by (auto simp: store_List_def key_part_def)
qed (rule store_found store_apply_inv; assumption)+

section \<open>What spec events do to the works of an agent\<close>

definition work_agent :: "manifest_work agent_client \<Rightarrow> codec_env \<Rightarrow> bool" where
  "work_agent a env \<longleftrightarrow> ac_ops a = work_ops \<and> key_part (ac_clusterName a) \<and>
     (\<forall>codec \<in> snd ` set (ac_codecs a). codec \<in> {ManifestCodec env, ManifestBundleCodec env})"

lemma work_agent_events:
  assumes "work_agent a env" "map_of (ev_Extensions evt) ExtensionClusterName = Some (CeString (ac_clusterName a))"
  shows "for_cluster a evt"
proof -
  have "mw_Name w = mw_UID w \<and> mw_Namespace w = ac_clusterName a"
    if "map_of (ac_codecs a) t = Some codec" "cd_Decode codec evt = Inr w" for t codec w
  proof -
    have "codec \<in> {ManifestCodec env, ManifestBundleCodec env}"
      using that(1) assms(1) by (force simp: work_agent_def dest: map_of_SomeD)
    from Decode_work(3,5) [OF that(2) this] show ?thesis
      using assms(2) by (simp add: extension_string_def ToString_def)
  qed
  then show ?thesis using assms(1) by (auto simp: for_cluster_def work_agent_def)
qed

definition deliver_specs :: "manifest_work agent_client \<Rightarrow> ce_event list \<Rightarrow> work_store \<Rightarrow> work_store" where
  "deliver_specs a evts s = foldl (\<lambda>s evt. deliver_spec store_Get store_List store_apply a evt s) s evts"


definition example_work_agent :: "manifest_work agent_client" where
  "example_work_agent = \<lparr>ac_base = delivering_base (ceo_WithContext (cao_CloudEventsOptions
       (mqtt_NewAgentOptions file_env (\<lambda>_. Inr (\<lambda>_ _ _. None)) NewMQTTOptions ''cluster1'' ''agent1''))),
     ac_ops = work_ops, ac_lister = \<lambda>_. Inr [], ac_codecs = register_codecs [ManifestBundleCodec codec_example],
     ac_statusHashGetter = ManifestWorkStatusHash (\<lambda>s. Inr []) id, ac_agentID = ''agent1'', ac_clusterName = ''cluster1''\<rparr>"

lemma example_is_work_agent: "work_agent example_work_agent codec_example"
  by (simp add: work_agent_def example_work_agent_def key_part_def register_codecs_def)

definition local_work :: manifest_work where
  "local_work = work_example\<lparr>mw_ResourceVersion := ''2'', mw_Finalizers := [''cleanup'']\<rparr>"


section \<open>What a patch of the agent does\<close>

lemma agent_Publish_ok:
  assumes "agent_Publish t w a = (None, a')"
  shows "\<exists>codec evt. map_of (ac_codecs a) (et_DataType t) = Some codec \<and> cd_Encode codec (ac_agentID a) t w = Inr evt \<and>
    sent (ac_base a') = sent (ac_base a) @ [evt]"
proof -
  obtain codec evt where evt: "map_of (ac_codecs a) (et_DataType t) = Some codec" "cd_Encode codec (ac_agentID a) t w = Inr evt"
    "agent_publish evt a = (None, a')"
    using assms by (auto simp: agent_Publish_def split: option.splits if_splits sum.splits)
  obtain topic where "bc_sent (ac_base a') = bc_sent (ac_base a) @ [(topic, evt)]"
    using evt(3) by (rule agent_publish_topic)
  then have "sent (ac_base a') = sent (ac_base a) @ [evt]" by (simp add: sent_def)
  with evt show ?thesis by blast
qed

lemma SetStatusCondition_set:
  "\<exists>c \<in> set (SetStatusCondition now cs new). cnd_Type c = cnd_Type new \<and> cnd_Status c = cnd_Status new"
proof (cases "find (\<lambda>c. cnd_Type c = cnd_Type new) cs")
  case (Some c)
  let ?i = "length (takeWhile (\<lambda>c. cnd_Type c \<noteq> cnd_Type new) cs)"
  have "\<exists>c \<in> set cs. cnd_Type c = cnd_Type new" using Some by (auto simp: find_Some_iff)
  then have "?i < length cs" by (induction cs) auto
  then show ?thesis
    using Some by (auto simp: SetStatusCondition_def Let_def intro!: bexI [OF _ set_update_memI])
qed (simp add: SetStatusCondition_def)

definition sent_status :: "work_client \<Rightarrow> work_client \<Rightarrow> string \<Rightarrow> manifest_work \<Rightarrow> bool" where
  "sent_status c c' action w \<longleftrightarrow> (\<exists>t codec evt.
     ParseCloudEventsDataType (lookup_str (mw_Annotations w) CloudEventsDataTypeAnnotationKey) = Inr t \<and>
     map_of (ac_codecs (wc_cloudEventsClient c)) t = Some codec \<and>
     cd_Encode codec (ac_agentID (wc_cloudEventsClient c))
       \<lparr>et_DataType = t, et_SubResource = SubResourceStatus, et_Action = action\<rparr> w = Inr evt \<and>
     sent (ac_base (wc_cloudEventsClient c')) = sent (ac_base (wc_cloudEventsClient c)) @ [evt])"

lemma client_publish_watcher: "client_publish t w c = (r, c') \<Longrightarrow> wc_watcher c' = wc_watcher c"
  by (auto simp: client_publish_def split: prod.splits)

lemma client_publish_sent:
  assumes "client_publish \<lparr>et_DataType = t, et_SubResource = SubResourceStatus, et_Action = action\<rparr> w c = (r, c')"
    "ParseCloudEventsDataType (lookup_str (mw_Annotations w) CloudEventsDataTypeAnnotationKey) = Inr t"
  shows "r = None \<Longrightarrow> sent_status c c' action w"
proof -
  obtain a where a: "agent_Publish \<lparr>et_DataType = t, et_SubResource = SubResourceStatus, et_Action = action\<rparr> w (wc_cloudEventsClient c) = (r, a)"
    "c' = c\<lparr>wc_cloudEventsClient := a\<rparr>"
    using assms(1) by (auto simp: client_publish_def split: prod.splits)
  show "sent_status c c' action w" if "r = None"
    using agent_Publish_ok [OF a(1) [unfolded that]] assms(2) a(2) by (auto simp: sent_status_def)
qed

text \<open>
  C22. A patch that fails changes nothing in the cache. A patch that succeeds passes exactly one event
  to the cache, with the work that it returns; the work is taken out of the cache exactly if the patch
  is no status update and the work is being deleted and has no finalizers left. Before that a status
  update or a finished deletion has been sent, encoded from that same work by the codec that its
  annotation names, and a deleted work says so in its conditions. Other patches send nothing.
\<close>

theorem patch_reports_before_cache:
  assumes "client_Patch env now name pt data subresources c = Some (r, c')"
  shows "case r of
      Inl _ \<Rightarrow> wc_watcher c' = wc_watcher c
    | Inr w \<Rightarrow> \<exists>t. wc_watcher c' = wc_watcher c @ [\<lparr>we_Type = t, we_Object = w\<rparr>] \<and>
        (if subresources = [''status''] then t = WatchModified \<and> sent_status c c' UpdateRequestAction w
         else subresources = [] \<and>
           (if mw_DeletionTimestamp w \<noteq> 0 \<and> mw_Finalizers w = []
            then t = WatchDeleted \<and> sent_status c c' DeleteRequestAction w \<and>
              (\<exists>x \<in> set (wst_Conditions (mw_Status w)). cnd_Type x = ManifestsDeleted \<and> cnd_Status x = ''True'')
            else t = WatchModified \<and> wc_cloudEventsClient c' = wc_cloudEventsClient c))"
proof (cases r)
  case (Inl e)
  with assms show ?thesis
    by (auto dest: client_publish_watcher simp: client_Patch_def Let_def watcher_Receive_def split: option.splits sum.splits bool.splits prod.splits if_splits)
next
  case (Inr w)
  let ?key = "\<lambda>w. lookup_str (mw_Annotations w) CloudEventsDataTypeAnnotationKey"
  obtain p t s where p: "ParseCloudEventsDataType (?key p) = Inr t" "isStatusUpdate subresources = Inr s"
    and res: "(r, c') =
      (if s then (case client_publish \<lparr>et_DataType = t, et_SubResource = SubResourceStatus, et_Action = UpdateRequestAction\<rparr> p c of
           (Some e, c') \<Rightarrow> (Inl e, c') | (None, c') \<Rightarrow> (Inr p, watcher_Receive WatchModified p c'))
       else if mw_DeletionTimestamp p \<noteq> 0 \<and> length (mw_Finalizers p) = 0 then
         (case client_publish \<lparr>et_DataType = t, et_SubResource = SubResourceStatus, et_Action = DeleteRequestAction\<rparr> (mark_deleted now p) c of
           (Some e, c') \<Rightarrow> (Inl e, c') | (None, c') \<Rightarrow> (Inr (mark_deleted now p), watcher_Receive WatchDeleted (mark_deleted now p) c'))
       else (Inr p, watcher_Receive WatchModified p c))"
    using assms Inr by (auto simp: client_Patch_def Let_def split: option.splits sum.splits bool.splits if_splits)
  have sub: "if s then subresources = [''status''] else subresources = []"
    using p(2) by (auto simp: isStatusUpdate_def length_Suc_conv split: if_splits)
  have sent: "sent_status c (watcher_Receive x v c1) action v"
    if "client_publish \<lparr>et_DataType = t, et_SubResource = SubResourceStatus, et_Action = action\<rparr> v c = (None, c1)"
      "?key v = ?key p" for x v c1 action
    using client_publish_sent [OF that(1)] p(1) that(2) by (auto simp: sent_status_def watcher_Receive_def)
  have watched: "wc_watcher (watcher_Receive x v c1) = wc_watcher c @ [\<lparr>we_Type = x, we_Object = v\<rparr>]"
    if "client_publish \<lparr>et_DataType = t, et_SubResource = SubResourceStatus, et_Action = action\<rparr> v c = (None, c1)" for x v c1 action
    using client_publish_watcher [OF that] by (simp add: watcher_Receive_def)
  have marked: "?key (mark_deleted now p) = ?key p"
    "mw_DeletionTimestamp (mark_deleted now p) = mw_DeletionTimestamp p" "mw_Finalizers (mark_deleted now p) = mw_Finalizers p"
    by (simp_all add: mark_deleted_def)
  have cond: "\<exists>x \<in> set (wst_Conditions (mw_Status (mark_deleted now p))). cnd_Type x = ManifestsDeleted \<and> cnd_Status x = ''True''"
    using SetStatusCondition_set [of now "wst_Conditions (mw_Status p)"
        "deleted_condition\<lparr>cnd_Message := cnd_Message deleted_condition @ '' '' @ mw_Namespace p\<rparr>"]
    by (simp add: mark_deleted_def deleted_condition_def)
  show ?thesis
    using res sub Inr sent watched marked cond
    by (auto simp: watcher_Receive_def split: if_splits prod.splits option.splits)
qed

definition removed_finalizers :: patch_env where
  "removed_finalizers = \<lparr>pe_Marshal = \<lambda>w. Inr [], pe_DecodePatch = \<lambda>_. Inl (Errorf ''no patch''),
     pe_MergePatch = \<lambda>_ _. Inr [], pe_Unmarshal = \<lambda>_. Inr (work_example\<lparr>mw_DeletionTimestamp := 9\<rparr>)\<rparr>"

definition deleting_client :: work_client where
  "deleting_client = SetLister (\<lambda>n. Inr (local_work\<lparr>mw_DeletionTimestamp := 9\<rparr>)) (NewManifestWorkAgentClient example_work_agent)"

lemma deletion_reported:
  "case client_Patch removed_finalizers 9 ''r1'' MergePatchType [] [] deleting_client of
     Some (Inr w, c') \<Rightarrow> mw_DeletionTimestamp w = 9 \<and> mw_Finalizers w = [] | _ \<Rightarrow> False"
  by code_simp

theorem patch_reports_before_cache_witness:
  "\<exists>w c'. client_Patch removed_finalizers 9 ''r1'' MergePatchType [] [] deleting_client = Some (Inr w, c') \<and>
     wc_watcher c' = [\<lparr>we_Type = WatchDeleted, we_Object = w\<rparr>] \<and> sent_status deleting_client c' DeleteRequestAction w"
proof -
  obtain w c' where r: "client_Patch removed_finalizers 9 ''r1'' MergePatchType [] [] deleting_client = Some (Inr w, c')"
    "mw_DeletionTimestamp w = 9" "mw_Finalizers w = []"
    using deletion_reported by (auto split: option.splits prod.splits sum.splits)
  have "wc_watcher deleting_client = []" by (simp add: deleting_client_def SetLister_def NewManifestWorkAgentClient_def)
  with patch_reports_before_cache [OF r(1)] r show ?thesis by (intro exI [of _ w] exI [of _ c']) auto
qed

end
