(* ===== verification/Work_Resync.thy ===== *)
theory Work_Resync
  imports Resync Work_Agent
begin

text \<open>
  Agents of manifest works that have works of several sources: what a resync of their specs does,
  composed from the agent's client for works, the clients of \<^verbatim>\<open>generic\<close>, the codecs and MQTT.
\<close>

lemma work_ops_fields [simp]:
  "GetUID work_ops = mw_UID" "GetResourceVersion work_ops = mw_ResourceVersion"
  "GetDeletionTimestamp work_ops = mw_DeletionTimestamp"
  by (simp_all add: work_ops_def)

lemma list_all2_partner:
  assumes "list_all2 P xs ys"
  shows "x \<in> set xs \<Longrightarrow> \<exists>y \<in> set ys. P x y" and "y \<in> set ys \<Longrightarrow> \<exists>x \<in> set xs. P x y"
  using assms by (induction rule: list_all2_induct) auto

section \<open>Events of a deletion\<close>

lemma deletes_builder:
  assumes "deletes t cluster rv e"
  obtains b now where "ev_Extensions e = builder_extensions b" "eb_resourceID b = rv_ResourceID rv"
    "eb_clusterName b = cluster" "eb_resourceVersion b = Some (rv_ResourceVersion rv)" "eb_eventType b = t"
    "eb_deletionTimestamp b = now" "now \<noteq> 0"
  using assms
  by (auto simp: deletes_def WithDeletionTimestamp_def WithClusterName_def WithResourceVersion_def WithResourceID_def
      NewEventBuilder_def)

text \<open>Printed times are read back as times that are not zero.\<close>

definition reads_times :: "codec_env \<Rightarrow> bool" where
  "reads_times env \<longleftrightarrow> (\<forall>t. t \<noteq> 0 \<longrightarrow> (\<exists>t'. cv_parse_time env (FormatTime t) = Inr t' \<and> t' \<noteq> 0))"

lemma bundle_type: "plain_type ManifestBundleEventDataType" "plain_type ManifestEventDataType"
  by code_simp+

lemma decode_deletion:
  assumes "deletes (spec_response_type dt) cluster rv e" "plain_type dt" "reads_times env"
    and "rv_ResourceID rv \<noteq> []" "cluster \<noteq> []" "in_int32 (rv_ResourceVersion rv)" "over_mqtt e evt"
    and "codec \<in> {ManifestCodec env, ManifestBundleCodec env}" "cd_EventDataType codec = dt"
  shows "\<exists>w t. cd_Decode codec evt = Inr w \<and> mw_UID w = rv_ResourceID rv \<and> mw_Name w = rv_ResourceID rv \<and>
    mw_Namespace w = cluster \<and> mw_DeletionTimestamp w = t \<and> t \<noteq> 0 \<and> wsp_Manifests (mw_Spec w) = [] \<and>
    lookup_str (mw_Annotations w) CloudEventsDataTypeAnnotationKey = data_type_string dt"
proof -
  obtain b now where b: "ev_Extensions e = builder_extensions b" "eb_resourceID b = rv_ResourceID rv"
    "eb_clusterName b = cluster" "eb_resourceVersion b = Some (rv_ResourceVersion rv)" "eb_eventType b = spec_response_type dt"
    "eb_deletionTimestamp b = now" "now \<noteq> 0"
    using assms(1) by (rule deletes_builder)
  obtain t where t: "cv_parse_time env (FormatTime now) = Inr t" "t \<noteq> 0"
    using assms(3) b(7) by (auto simp: reads_times_def)
  have "ParseCloudEventsType (ev_Type e) = Inr (eb_eventType b)"
    using assms(1) spec_response_parses [OF assms(2)] by (simp add: deletes_def b(5))
  note frame = decode_frame_over_mqtt [OF this b(1) _ _ b(4) assms(6,7)]
  have "decode_frame env dt evt f = Inr ((decoded_meta (ev_Source evt) b (rv_ResourceVersion rv))\<lparr>mw_DeletionTimestamp := t\<rparr>)" for f
    using frame [of env f] b(2-7) assms(4,5) t by (simp add: spec_response_type_def)
  then have "cd_Decode codec evt = Inr ((decoded_meta (ev_Source evt) b (rv_ResourceVersion rv))\<lparr>mw_DeletionTimestamp := t\<rparr>)"
    using assms(8,9) by (auto simp: ManifestCodec_def ManifestBundleCodec_def manifest_Decode_def bundle_Decode_def)
  then show ?thesis
    using t(2) b(2,3,5) by (simp add: decoded_meta_def empty_work_def empty_spec_def lookup_str_def spec_response_type_def)
qed

text \<open>
  The agent handles a deletion: a work that it has gets the deletion timestamp, whoever asks for it; a
  work that it does not have is added.
\<close>

lemma deliver_deletion:
  assumes "work_agent a env" "store_inv s" "\<forall>w \<in> set (store_List s (ac_clusterName a)). mw_UID w = mw_Name w"
    and "ParseCloudEventsType (ev_Type evt) = Inr (spec_response_type dt)" "map_of (ac_codecs a) dt = Some codec"
    and "cd_Decode codec evt = Inr w" "mw_UID w = u" "mw_Name w = u" "mw_Namespace w = ac_clusterName a"
    and "mw_DeletionTimestamp w \<noteq> 0"
  shows "deliver_spec store_Get store_List store_apply a evt s =
    (case store_Get s (ac_clusterName a) u of
       Inr v \<Rightarrow> store_apply \<lparr>we_Type = WatchModified, we_Object = v\<lparr>mw_DeletionTimestamp := mw_DeletionTimestamp w\<rparr>\<rparr> s
     | Inl _ \<Rightarrow> store_apply \<lparr>we_Type = WatchAdded, we_Object = w\<rparr> s)"
proof -
  let ?cl = "ac_clusterName a" and ?a = "a\<lparr>ac_lister := \<lambda>options. Inr (store_List s (lo_ClusterName options))\<rparr>"
  have cl: "key_part ?cl" and ops: "ac_ops a = work_ops" using assms(1) by (auto simp: work_agent_def)
  have recv: "fst (agent_receive evt ?a) = (case specAction ?a (ev_Source evt) w of
      Inl e \<Rightarrow> Dropped ''failed to generate spec action''
    | Inr action \<Rightarrow> if length action = 0 then Dropped ''no action is required'' else Handle action w)"
    using assms(4-6) by (simp add: agent_receive_def spec_response_type_def split: sum.split)
  show ?thesis
  proof (cases "store_Get s ?cl u")
    case (Inl e)
    then have "u \<notin> mw_UID ` set (store_List s ?cl)"
      using assms(3) store_found [OF assms(2) cl, of u] by force
    then have "getObj work_ops u (store_List s ?cl) = None" by (simp add: getObj_missing)
    then have "specAction ?a (ev_Source evt) w = Inr ActionAdded"
      using assms(7) by (simp add: specAction_def ops)
    then show ?thesis
      using Inl recv by (simp add: deliver_spec_def work_handler_def ActionAdded_def)
  next
    case (Inr v)
    then have v: "v \<in> set (store_List s ?cl)" "mw_UID v = u"
      using assms(3) store_found [OF assms(2) cl] by auto
    then have "getObj work_ops u (store_List s ?cl) \<noteq> None" by (auto simp: getObj_missing)
    then obtain v' where "getObj work_ops u (store_List s ?cl) = Some v'" by auto
    then have "specAction ?a (ev_Source evt) w = Inr ActionDeleted"
      using assms(7,10) by (simp add: specAction_def ops)
    then show ?thesis
      using Inr recv assms(8) by (simp add: deliver_spec_def work_handler_def resource_actions)
  qed
qed

section \<open>A resync crosses sources\<close>

lemma work_List_all [simp]: "store_List s [] = map snd s"
  by (simp add: store_List_def)

text \<open>Listing asks for a resync with the versions of everything in the cache.\<close>

lemma client_List_requests:
  assumes "wc_cloudEventsClient client = a" "ac_ops a = work_ops" "key_part (ac_clusterName a)" "ac_codecs a = [(dt, codec)]"
    and "plain_type dt" "usable_base (ac_base a) (ac_agentID a)" "ac_lister a = work_List s"
    and "\<forall>v \<in> snd ` set s. \<exists>i. parse_int (mw_ResourceVersion v) = Inr i \<and> in_int32 i"
  shows "\<exists>client' req vs. client_List client = (Inr [], client') \<and>
    sent (ac_base (wc_cloudEventsClient client')) = sent (ac_base a) @ [req] \<and>
    ParseCloudEventsType (ev_Type req) = Inr (spec_resync_type dt) \<and>
    GetExtension req ExtensionClusterName = Inr (CeString (ac_clusterName a)) \<and>
    DecodeSpecResyncRequest req = Inr \<lparr>rvl_Versions = vs\<rparr> \<and>
    (\<forall>rv \<in> set vs. in_int32 (rv_ResourceVersion rv)) \<and>
    (\<forall>v \<in> snd ` set s. \<exists>rv \<in> set vs. rv_ResourceID rv = mw_UID v)"
proof -
  let ?version = "object_version (ac_ops a)"
  have lst: "ac_lister a \<lparr>lo_ClusterName = [], lo_Source = []\<rparr> = Inr (map snd s)" by (simp add: assms(7) work_List_def)
  have version: "\<exists>rv. ?version v = Inr rv \<and> rv_ResourceID rv = mw_UID v \<and> in_int32 (rv_ResourceVersion rv)"
    if "v \<in> set (map snd s)" for v
    using assms(8) that by (force simp: object_version_def assms(2))
  then obtain vs where vs: "map_result ?version (map snd s) = Inr vs"
    by (cases "map_result ?version (map snd s)") (force dest!: map_result_InlD)+
  then have versions: "list_all2 (\<lambda>v rv. ?version v = Inr rv) (map snd s) vs"
    by (simp add: map_result_Inr_iff)
  have int32: "\<forall>rv \<in> set vs. in_int32 (rv_ResourceVersion rv)"
  proof
    fix rv assume "rv \<in> set vs"
    then obtain v where "v \<in> set (map snd s)" "?version v = Inr rv"
      using list_all2_partner(2) [OF versions] by blast
    then show "in_int32 (rv_ResourceVersion rv)" using version [of v] by auto
  qed
  have ids: "\<exists>rv \<in> set vs. rv_ResourceID rv = mw_UID v" if v: "v \<in> set (map snd s)" for v
  proof -
    obtain rv where "rv \<in> set vs" "?version v = Inr rv" using list_all2_partner(1) [OF versions v] by blast
    then show ?thesis using version [OF v] by auto
  qed
  have "ac_clusterName a \<noteq> []" using assms(3) by (simp add: key_part_def)
  from agent_Resync_sends [OF assms(6,4) lst vs this assms(5)]
  obtain req a' where req: "agent_Resync \<lparr>lo_ClusterName = [], lo_Source = []\<rparr> a = (None, a')"
    "sent (ac_base a') = sent (ac_base a) @ [req]" "ParseCloudEventsType (ev_Type req) = Inr (spec_resync_type dt)"
    "GetExtension req ExtensionClusterName = Inr (CeString (ac_clusterName a))"
    "DecodeSpecResyncRequest req = Inr \<lparr>rvl_Versions = vs\<rparr>" by blast
  then show ?thesis
    using int32 ids assms(1)
    by (intro exI [of _ "client\<lparr>wc_cloudEventsClient := a'\<rparr>"] exI [of _ req] exI [of _ vs]) (simp add: client_List_def)
qed

text \<open>A deletion over MQTT of a work in the cache sets its deletion timestamp.\<close>

lemma deletion_applied:
  assumes "work_agent a env" "ac_codecs a = [(dt, codec)]" "dt = cd_EventDataType codec" "plain_type dt" "reads_times env"
    and "store_inv s" "\<forall>v \<in> snd ` set s. mw_UID v = mw_Name v"
    and "store_Get s (ac_clusterName a) (mw_UID w) = Inr w" "mw_UID w \<noteq> []" "rv_ResourceID rv = mw_UID w"
    and "in_int32 (rv_ResourceVersion rv)" "deletes (spec_response_type dt) (ac_clusterName a) rv del" "over_mqtt del evt"
  shows "\<exists>t. t \<noteq> 0 \<and> store_Get (deliver_specs a [evt] s) (ac_clusterName a) (mw_UID w) = Inr (w\<lparr>mw_DeletionTimestamp := t\<rparr>)"
proof -
  let ?cl = "ac_clusterName a"
  have cl: "key_part ?cl" and codec: "codec \<in> {ManifestCodec env, ManifestBundleCodec env}"
    using assms(1,2) by (auto simp: work_agent_def)
  have w: "w \<in> set (store_List s ?cl)" "mw_Name w = mw_UID w" using assms(8) store_found [OF assms(6) cl] by auto
  have "rv_ResourceID rv \<noteq> []" "?cl \<noteq> []" using cl assms(9,10) by (auto simp: key_part_def)
  from decode_deletion [OF assms(12,4,5) this assms(11,13) codec assms(3) [symmetric]]
  obtain v where v: "cd_Decode codec evt = Inr v" "mw_UID v = mw_UID w" "mw_Name v = mw_UID w"
    "mw_Namespace v = ?cl" "mw_DeletionTimestamp v \<noteq> 0"
    unfolding assms(10) by blast
  let ?e = "\<lparr>we_Type = WatchModified, we_Object = w\<lparr>mw_DeletionTimestamp := mw_DeletionTimestamp v\<rparr>\<rparr>"
  have type: "ParseCloudEventsType (ev_Type evt) = Inr (spec_response_type dt)"
    using assms(12) spec_response_parses [OF assms(4)] by (simp add: over_mqtt_fields [OF assms(13)] deletes_def)
  have named: "\<forall>w \<in> set (store_List s ?cl). mw_UID w = mw_Name w" using assms(7) by (auto simp: store_List_def)
  have "deliver_specs a [evt] s = store_apply ?e s"
    using deliver_deletion [OF assms(1,6) named type _ v(1-5)] assms(2,8) by (simp add: deliver_specs_def)
  moreover have "mw_Namespace w = ?cl" using client_go.list_namespace [OF assms(6) cl w(1)] .
  ultimately show ?thesis
    using v(5) client_go.apply_get [OF assms(6) cl, of ?e "mw_UID w"] cl w(2)
    by (intro exI [of _ "mw_DeletionTimestamp v"]) simp
qed

text \<open>
  C38. When an agent's client for works is listed, the agent asks for a resync with the versions of
  all its works, of whatever source. A source that does not know a work, since it belongs to another
  source, answers that it is deleted; and the agent, whose lister does not look at the source, sets
  the deletion timestamp of the other source's work.
\<close>

theorem resync_deletes_works_of_other_sources:
  assumes "work_agent (wc_cloudEventsClient client) env"
    and "ac_codecs (wc_cloudEventsClient client) = [(dt, codec)]" "dt = cd_EventDataType codec"
    and "usable_base (ac_base (wc_cloudEventsClient client)) (ac_agentID (wc_cloudEventsClient client))"
    and "ac_lister (wc_cloudEventsClient client) = work_List s" "store_inv s"
    and "\<forall>v \<in> snd ` set s. mw_UID v = mw_Name v \<and> (\<exists>i. parse_int (mw_ResourceVersion v) = Inr i \<and> in_int32 i)"
    and "store_Get s (ac_clusterName (wc_cloudEventsClient client)) (mw_UID w) = Inr w" "mw_UID w \<noteq> []"
    and "source_ready source dt enc objs" "mw_UID w \<notin> GetUID (sc_ops source) ` set objs"
    and "sc_lister source \<lparr>lo_ClusterName = ac_clusterName (wc_cloudEventsClient client), lo_Source = sc_sourceID source\<rparr> = Inr objs"
    and "reads_times env"
  shows "\<exists>client' req source' answer del. client_List client = (Inr [], client') \<and>
    sent (ac_base (wc_cloudEventsClient client')) = sent (ac_base (wc_cloudEventsClient client)) @ [req] \<and>
    source_receive req source = (Answered None, source') \<and>
    sent (sc_base source') = sent (sc_base source) @ answer \<and> del \<in> set answer \<and>
    (\<forall>evt. over_mqtt del evt \<longrightarrow> (\<exists>t. t \<noteq> 0 \<and>
       store_Get (deliver_specs (wc_cloudEventsClient client) [evt] s) (ac_clusterName (wc_cloudEventsClient client)) (mw_UID w) =
         Inr (w\<lparr>mw_DeletionTimestamp := t\<rparr>)))"
proof -
  define a where "a = wc_cloudEventsClient client"
  note A = assms [folded a_def]
  have cl: "key_part (ac_clusterName a)" and ops: "ac_ops a = work_ops"
    and codec: "codec \<in> {ManifestCodec env, ManifestBundleCodec env}" using A(1,2) by (auto simp: work_agent_def)
  have plain: "plain_type dt" using codec A(3) bundle_type by (auto simp: ManifestCodec_def ManifestBundleCodec_def)
  have parse: "\<forall>v \<in> snd ` set s. \<exists>i. parse_int (mw_ResourceVersion v) = Inr i \<and> in_int32 i"
    and ids: "\<forall>v \<in> snd ` set s. mw_UID v = mw_Name v" using A(7) by auto
  obtain client' req vs where req: "client_List client = (Inr [], client')"
    "sent (ac_base (wc_cloudEventsClient client')) = sent (ac_base a) @ [req]"
    "ParseCloudEventsType (ev_Type req) = Inr (spec_resync_type dt)"
    "GetExtension req ExtensionClusterName = Inr (CeString (ac_clusterName a))"
    "DecodeSpecResyncRequest req = Inr \<lparr>rvl_Versions = vs\<rparr>" "\<forall>rv \<in> set vs. in_int32 (rv_ResourceVersion rv)"
    "\<forall>v \<in> snd ` set s. \<exists>rv \<in> set vs. rv_ResourceID rv = mw_UID v"
    using client_List_requests [OF a_def [symmetric] ops cl A(2) plain A(4,5) parse] by blast
  have "w \<in> snd ` set s" using A(8) store_found [OF A(6) cl] by (auto simp: store_List_def)
  then obtain rv where rv: "rv \<in> set vs" "rv_ResourceID rv = mw_UID w" using req(7) by blast
  obtain source' ups dels where ans: "respondResyncSpecRequest dt req source = (None, source')"
    "sent (sc_base source') = sent (sc_base source) @ ups @ dels"
    "list_all2 (deletes (spec_response_type dt) (ac_clusterName a)) (filter (is_gone (sc_ops source) objs) vs) dels"
    using respondResyncSpecRequest_sends [OF A(10) req(5,4) A(12)] req(6) by blast
  have "rv \<in> set (filter (is_gone (sc_ops source) objs) vs)" using rv A(11) by (simp add: is_gone_def)
  then obtain del where del: "del \<in> set dels" "deletes (spec_response_type dt) (ac_clusterName a) rv del"
    using list_all2_partner(1) [OF ans(3)] by blast
  have "rv_ResourceID rv = mw_UID w" "in_int32 (rv_ResourceVersion rv)" using rv req(6) by auto
  note applied = deletion_applied [OF A(1-3) plain A(13,6) ids A(8,9) this del(2)]
  have "source_receive req source = (Answered None, source')"
    using req(3) ans(1) by (simp add: source_receive_def spec_resync_type_def)
  then show ?thesis
    using req(1,2) ans(2) del(1) applied unfolding a_def
    by (intro exI [of _ client'] exI [of _ req] exI [of _ source'] exI [of _ "ups @ dels"] exI [of _ del]) simp
qed

definition times_env :: codec_env where
  "times_env = codec_example\<lparr>cv_parse_time := \<lambda>_. Inr 1\<rparr>"

definition hub1_store :: work_store where
  "hub1_store = [(cache_key local_work, local_work)]"

definition hub1_client :: work_client where
  "hub1_client = NewManifestWorkAgentClient (example_work_agent\<lparr>ac_base := example_base, ac_lister := work_List hub1_store,
     ac_codecs := [(ManifestBundleEventDataType, ManifestBundleCodec times_env)]\<rparr>)"

text \<open>Another source, which has no works.\<close>

definition hub2_source :: "nat source_client" where
  "hub2_source = \<lparr>sc_base = example_base, sc_ops = \<lparr>GetUID = \<lambda>_. [], GetResourceVersion = \<lambda>_. [], GetDeletionTimestamp = \<lambda>_. 0\<rparr>,
     sc_lister = \<lambda>_. Inr [],
     sc_codecs = [(ManifestBundleEventDataType, \<lparr>cd_EventDataType = ManifestBundleEventDataType,
        cd_Encode = \<lambda>_ _ _. Inl (Errorf ''nothing to encode''), cd_Decode = \<lambda>_. Inl (Errorf ''nothing to decode'')\<rparr>)],
     sc_statusHashGetter = \<lambda>_. Inr [], sc_sourceID = ''hub2''\<rparr>"

lemma hub1_agent:
  "work_agent (wc_cloudEventsClient hub1_client) times_env"
  "ac_codecs (wc_cloudEventsClient hub1_client) = [(ManifestBundleEventDataType, ManifestBundleCodec times_env)]"
  "ac_lister (wc_cloudEventsClient hub1_client) = work_List hub1_store"
  "ac_clusterName (wc_cloudEventsClient hub1_client) = ''cluster1''"
  "ac_base (wc_cloudEventsClient hub1_client) = example_base"
  "ac_agentID (wc_cloudEventsClient hub1_client) = ''agent1''"
  by (simp_all add: hub1_client_def NewManifestWorkAgentClient_def work_agent_def example_work_agent_def key_part_def)

lemma example_base_usable: "usable_base example_base ''agent1''"
  by (simp add: usable_base_def reliable_example)
     (simp add: example_base_def trim_space_def is_space_def)

lemma hub1_store_facts:
  "store_inv hub1_store" "store_Get hub1_store ''cluster1'' (mw_UID local_work) = Inr local_work" "mw_UID local_work = ''r1''"
  "mw_Name local_work = ''r1''" "mw_ResourceVersion local_work = ''2''"
  by (simp_all add: hub1_store_def store_inv_def wf_map_def key_part_def store_Get_def cache_key_def local_work_def work_example_def)

lemma hub2_ready:
  "\<exists>enc. source_ready hub2_source ManifestBundleEventDataType enc []"
  by (simp add: source_ready_def hub2_source_def reliable_example)
     (simp add: example_base_def trim_space_def is_space_def)

theorem resync_deletes_works_of_other_sources_witness:
  "\<exists>client' req source' answer del. client_List hub1_client = (Inr [], client') \<and>
     source_receive req hub2_source = (Answered None, source') \<and> del \<in> set answer \<and>
     (\<forall>evt. over_mqtt del evt \<longrightarrow> (\<exists>t. t \<noteq> 0 \<and>
        store_Get (deliver_specs (wc_cloudEventsClient hub1_client) [evt] hub1_store) ''cluster1'' ''r1'' =
          Inr (local_work\<lparr>mw_DeletionTimestamp := t\<rparr>)))"
proof -
  obtain enc where enc: "source_ready hub2_source ManifestBundleEventDataType enc []" using hub2_ready by blast
  have version: "parse_int ''2'' = Inr 2" by code_simp
  have works: "\<forall>v \<in> snd ` set hub1_store. mw_UID v = mw_Name v \<and> (\<exists>i. parse_int (mw_ResourceVersion v) = Inr i \<and> in_int32 i)"
    using hub1_store_facts(3-5) version by (simp add: hub1_store_def in_int32_def)
  have codec: "ManifestBundleEventDataType = cd_EventDataType (ManifestBundleCodec times_env)"
    by (simp add: ManifestBundleCodec_def)
  have lister: "sc_lister hub2_source l = Inr []" for l by (simp add: hub2_source_def)
  have times: "reads_times times_env" by (simp add: reads_times_def times_env_def)
  have uid: "mw_UID local_work \<noteq> []" "mw_UID local_work \<notin> GetUID (sc_ops hub2_source) ` set []" by (simp_all add: hub1_store_facts)
  have get: "store_Get hub1_store (ac_clusterName (wc_cloudEventsClient hub1_client)) (mw_UID local_work) = Inr local_work"
    by (simp add: hub1_agent hub1_store_facts(2))
  have base: "usable_base (ac_base (wc_cloudEventsClient hub1_client)) (ac_agentID (wc_cloudEventsClient hub1_client))"
    by (simp add: hub1_agent example_base_usable)
  from resync_deletes_works_of_other_sources [OF hub1_agent(1,2) codec base hub1_agent(3) hub1_store_facts(1) works get uid(1)
      enc uid(2) lister times]
  show ?thesis unfolding hub1_agent(4) hub1_store_facts(3) by blast
qed

section \<open>Deletions of unknown works\<close>

lemma manifest_Encode_empty:
  "wsp_Manifests (mw_Spec w) = [] \<Longrightarrow> \<exists>e. manifest_Encode env source t w = Inl e"
  by (auto simp: manifest_Encode_def split: sum.split option.split)

text \<open>
  A deletion of a work that the agent does not have, here of a single manifest, is no deletion but
  adds a work that is being deleted and has no manifests. The agent can never report it as deleted: the
  patch that removes the last finalizer fails, since the status of a work without a manifest is not
  encoded, and the work stays in the cache.
\<close>

theorem unknown_deletion_stays:
  assumes "work_agent a env" "map_of (ac_codecs a) ManifestEventDataType = Some (ManifestCodec env)" "reads_times env"
    and "store_inv s" "\<forall>w \<in> set (store_List s (ac_clusterName a)). mw_UID w = mw_Name w"
    and "deletes (spec_response_type ManifestEventDataType) (ac_clusterName a) rv del" "over_mqtt del evt"
    and "rv_ResourceID rv \<noteq> []" "in_int32 (rv_ResourceVersion rv)"
    and "store_Get s (ac_clusterName a) (rv_ResourceID rv) = Inl e" "s' = deliver_specs a [evt] s"
    and "wc_cloudEventsClient c = a" "wc_lister c = Some (store_Get s' (ac_clusterName a))"
    and "\<forall>w. store_Get s' (ac_clusterName a) (rv_ResourceID rv) = Inr w \<longrightarrow>
           work_Patch penv pt w data = Inr (w\<lparr>mw_Finalizers := []\<rparr>)"
    and "client_Patch penv now (rv_ResourceID rv) pt data [] c = Some (r, c')"
  shows "\<exists>w err. store_Get s' (ac_clusterName a) (rv_ResourceID rv) = Inr w \<and> mw_DeletionTimestamp w \<noteq> 0 \<and>
    wsp_Manifests (mw_Spec w) = [] \<and> r = Inl err \<and> wc_watcher c' = wc_watcher c"
proof -
  let ?cl = "ac_clusterName a"
  have cl: "key_part ?cl" using assms(1) by (simp add: work_agent_def)
  have codec: "ManifestCodec env \<in> {ManifestCodec env, ManifestBundleCodec env}"
    "cd_EventDataType (ManifestCodec env) = ManifestEventDataType"
    by (simp_all add: ManifestCodec_def)
  obtain w where w: "cd_Decode (ManifestCodec env) evt = Inr w" "mw_UID w = rv_ResourceID rv" "mw_Name w = rv_ResourceID rv"
    "mw_Namespace w = ?cl" "mw_DeletionTimestamp w \<noteq> 0" "wsp_Manifests (mw_Spec w) = []"
    "lookup_str (mw_Annotations w) CloudEventsDataTypeAnnotationKey = data_type_string ManifestEventDataType"
    using decode_deletion [OF assms(6) bundle_type(2) assms(3,8) _ assms(9,7) codec] cl by (auto simp: key_part_def)
  have type: "ParseCloudEventsType (ev_Type evt) = Inr (spec_response_type ManifestEventDataType)"
    using assms(6) spec_response_parses [OF bundle_type(2)] by (simp add: over_mqtt_fields [OF assms(7)] deletes_def)
  have "s' = store_apply \<lparr>we_Type = WatchAdded, we_Object = w\<rparr> s"
    using deliver_deletion [OF assms(1,4,5) type assms(2) w(1-5)] assms(10,11) by (simp add: deliver_specs_def)
  then have get: "store_Get s' ?cl (rv_ResourceID rv) = Inr w"
    using client_go.apply_get [OF assms(4) cl, of "\<lparr>we_Type = WatchAdded, we_Object = w\<rparr>" "rv_ResourceID rv"] cl w(3,4) by simp
  let ?w = "mark_deleted now (w\<lparr>mw_Finalizers := []\<rparr>)"
  have "wf_data_type ManifestEventDataType" using bundle_type(2) by (simp add: plain_type_def)
  then have parse: "ParseCloudEventsDataType (data_type_string ManifestEventDataType) = Inr ManifestEventDataType"
    by (rule parse_data_type_string)
  let ?t = "\<lparr>et_DataType = ManifestEventDataType, et_SubResource = SubResourceStatus, et_Action = DeleteRequestAction\<rparr>"
  have "wsp_Manifests (mw_Spec ?w) = []" by (simp add: mark_deleted_def w(6))
  then obtain err where "manifest_Encode env (ac_agentID a) ?t ?w = Inl err"
    using manifest_Encode_empty by blast
  then have "client_publish ?t ?w c = (Some err, c\<lparr>wc_cloudEventsClient := a\<rparr>)"
    using assms(2,12) by (simp add: client_publish_def agent_Publish_def ManifestCodec_def)
  then have "r = Inl err \<and> wc_watcher c' = wc_watcher c"
    using assms(15) get assms(13,14) w(5,7) parse
    by (auto simp: client_Patch_def client_Get_def isStatusUpdate_def Let_def)
  with get w(5,6) show ?thesis by blast
qed

lemma over_mqtt_exists: "\<exists>evt. over_mqtt e evt"
proof -
  have "\<exists>w. text_form v w" for v by (cases v) (auto simp: text_form_def)
  then obtain f where f: "text_form v (f v)" for v by metis
  have "list_all2 (\<lambda>(n, v) (n', v'). n' = n \<and> text_form v v') xs (map (\<lambda>(n, v). (n, f v)) xs)" for xs
    using f by (induction xs) auto
  then show ?thesis
    unfolding over_mqtt_def by (intro exI [of _ "e\<lparr>ev_Extensions := map (\<lambda>(n, v). (n, f v)) (ev_Extensions e)\<rparr>"]) simp
qed

definition manifest_agent :: "manifest_work agent_client" where
  "manifest_agent = example_work_agent\<lparr>ac_codecs := [(ManifestEventDataType, ManifestCodec times_env)]\<rparr>"

definition stale_deletion :: ce_event where
  "stale_deletion = NewEvent Some ''id'' 1 (WithDeletionTimestamp 1 (WithClusterName ''cluster1'' (WithResourceVersion 3
     (WithResourceID ''r1'' (NewEventBuilder ''hub1'' (spec_response_type ManifestEventDataType))))))"

lemma client_Patch_returns:
  "wc_lister c = Some get \<Longrightarrow> \<exists>x. client_Patch env now name pt data sub c = Some x"
  by (cases "get name") (simp_all add: client_Patch_def client_Get_def)

lemma stale_deletion_deletes:
  "deletes (spec_response_type ManifestEventDataType) ''cluster1'' \<lparr>rv_ResourceID = ''r1'', rv_ResourceVersion = 3\<rparr> stale_deletion"
  unfolding deletes_def stale_deletion_def NewEvent_extensions NewEvent_frame
  by (intro conjI exI [of _ 1])
    (auto simp: WithDeletionTimestamp_def WithClusterName_def WithResourceVersion_def WithResourceID_def NewEventBuilder_def
      builder_extensions_def)

definition clearing_patch :: "manifest_work \<Rightarrow> patch_env" where
  "clearing_patch w = \<lparr>pe_Marshal = \<lambda>w. Inr [], pe_DecodePatch = \<lambda>_. Inl (Errorf ''no patch''),
     pe_MergePatch = \<lambda>_ _. Inr [], pe_Unmarshal = \<lambda>_. Inr (w\<lparr>mw_Finalizers := []\<rparr>)\<rparr>"

theorem unknown_deletion_stays_witness:
  "\<exists>evt w penv err c'. over_mqtt stale_deletion evt \<and>
     store_Get (deliver_specs manifest_agent [evt] []) ''cluster1'' ''r1'' = Inr w \<and> mw_DeletionTimestamp w \<noteq> 0 \<and>
     client_Patch penv 9 ''r1'' MergePatchType [] [] (SetLister (store_Get (deliver_specs manifest_agent [evt] []) ''cluster1'')
       (NewManifestWorkAgentClient manifest_agent)) = Some (Inl err, c')"
proof -
  obtain evt where evt: "over_mqtt stale_deletion evt" using over_mqtt_exists by blast
  define s' where "s' = deliver_specs manifest_agent [evt] []"
  define c where "c = SetLister (store_Get s' ''cluster1'') (NewManifestWorkAgentClient manifest_agent)"
  define rv where "rv = \<lparr>rv_ResourceID = ''r1'', rv_ResourceVersion = 3\<rparr>"
  define penv where "penv = clearing_patch (case store_Get s' ''cluster1'' ''r1'' of Inr w \<Rightarrow> w | Inl _ \<Rightarrow> empty_work)"
  have a: "work_agent manifest_agent times_env" "ac_clusterName manifest_agent = ''cluster1''"
    "map_of (ac_codecs manifest_agent) ManifestEventDataType = Some (ManifestCodec times_env)"
    by (simp_all add: manifest_agent_def work_agent_def example_work_agent_def key_part_def)
  have times: "reads_times times_env" by (simp add: reads_times_def times_env_def)
  have rv: "rv_ResourceID rv = ''r1''" "rv_ResourceID rv \<noteq> []" "in_int32 (rv_ResourceVersion rv)"
    by (simp_all add: rv_def in_int32_def)
  have empty: "store_inv []" "\<forall>w \<in> set (store_List [] (ac_clusterName manifest_agent)). mw_UID w = mw_Name w"
    "store_Get [] (ac_clusterName manifest_agent) (rv_ResourceID rv) = Inl (StatusError NotFound)"
    by (simp_all add: store_inv_def store_Get_def store_List_def)
  have c: "wc_cloudEventsClient c = manifest_agent" "wc_lister c = Some (store_Get s' (ac_clusterName manifest_agent))"
    by (simp_all add: c_def SetLister_def NewManifestWorkAgentClient_def a(2))
  have patch: "\<forall>w. store_Get s' (ac_clusterName manifest_agent) (rv_ResourceID rv) = Inr w \<longrightarrow>
      work_Patch penv MergePatchType w [] = Inr (w\<lparr>mw_Finalizers := []\<rparr>)"
    by (simp add: a(2) rv(1) penv_def clearing_patch_def work_Patch_def MergePatchType_def JSONPatchType_def)
  have del: "deletes (spec_response_type ManifestEventDataType) (ac_clusterName manifest_agent) rv stale_deletion"
    using stale_deletion_deletes by (simp add: a(2) rv_def)
  obtain r c' where r: "client_Patch penv 9 (rv_ResourceID rv) MergePatchType [] [] c = Some (r, c')"
    using client_Patch_returns [OF c(2)] by (metis surj_pair)
  from unknown_deletion_stays [OF a(1,3) times empty(1,2) del evt rv(2,3) empty(3) s'_def c patch r]
  show ?thesis using evt r unfolding a(2) rv(1) c_def s'_def by blast
qed

end
