(* ===== verification/Work_Delivery.thy ===== *)
theory Work_Delivery
  imports Work_Resync
begin

text \<open>
  A spec on its way from a source to the caches of a fleet of agents: \<open>Publish\<close> of the source's
  client, the topics of MQTT, the codec of bundles, the agent's \<open>receive\<close> and its handler, composed.
  \<open>spec_effect\<close> is what they promise together.
\<close>

section \<open>The effect of a spec on the cache\<close>

text \<open>
  A work that is not in the cache is added. A deletion sets the deletion timestamp of a cached work. An
  update replaces it if its version is newer, except for what belongs to the agent.
\<close>

definition with_local_fields :: "manifest_work \<Rightarrow> manifest_work \<Rightarrow> manifest_work" where
  "with_local_fields v w = w\<lparr>mw_Labels := mw_Labels v, mw_Annotations := mw_Annotations v,
     mw_Finalizers := mw_Finalizers v, mw_Status := mw_Status v\<rparr>"

definition newer :: "manifest_work \<Rightarrow> manifest_work \<Rightarrow> bool" where
  "newer w v = (case (parse_int (mw_ResourceVersion v), parse_int (mw_ResourceVersion w)) of
       (Inr i, Inr j) \<Rightarrow> i < j | _ \<Rightarrow> False)"

definition spec_effect :: "manifest_work \<Rightarrow> manifest_work result \<Rightarrow> manifest_work" where
  "spec_effect w cached = (case cached of
       Inl _ \<Rightarrow> w
     | Inr v \<Rightarrow> if mw_DeletionTimestamp w \<noteq> 0 then v\<lparr>mw_DeletionTimestamp := mw_DeletionTimestamp w\<rparr>
         else if newer w v then with_local_fields v w else v)"

text \<open>What is cached under a name after several specs.\<close>

fun after_specs :: "string \<Rightarrow> manifest_work list \<Rightarrow> manifest_work result \<Rightarrow> manifest_work result" where
  "after_specs n [] cached = cached"
| "after_specs n (w # ws) cached = after_specs n ws (if mw_UID w = n then Inr (spec_effect w cached) else cached)"

text \<open>The work that an agent decodes a spec event to, if it is one.\<close>

definition decoded_work :: "manifest_work agent_client \<Rightarrow> ce_event \<Rightarrow> manifest_work option" where
  "decoded_work a evt = (case ParseCloudEventsType (ev_Type evt) of
       Inl _ \<Rightarrow> None
     | Inr t \<Rightarrow>
         if et_Action t = ResyncRequestAction \<or> et_SubResource t \<noteq> SubResourceSpec then None
         else (case map_of (ac_codecs a) (et_DataType t) of
             None \<Rightarrow> None
           | Some codec \<Rightarrow> (case cd_Decode codec evt of Inl _ \<Rightarrow> None | Inr w \<Rightarrow> Some w)))"

lemma agent_receive_decoded:
  "fst (agent_receive evt a) = (case decoded_work a evt of
     Some w \<Rightarrow> (case specAction a (ev_Source evt) w of
         Inl e \<Rightarrow> Dropped ''failed to generate spec action''
       | Inr action \<Rightarrow> if action = [] then Dropped ''no action is required'' else Handle action w)
   | None \<Rightarrow> fst (agent_receive evt a))"
  by (auto simp: agent_receive_def decoded_work_def split: sum.split option.split)

lemma decoded_work_lister [simp]: "decoded_work (a\<lparr>ac_lister := l\<rparr>) evt = decoded_work a evt"
  by (auto simp: decoded_work_def split: sum.split option.split)

lemma actions_not_empty [simp]: "ActionAdded \<noteq> []" "ActionModified \<noteq> []" "ActionDeleted \<noteq> []"
  by (simp_all add: resource_actions)

context work_cache
begin

lemma deliver_effect:
  assumes "named (ac_clusterName a) s" "ac_ops a = work_ops" "key_part (ac_clusterName a)"
    and "decoded_work a evt = Some w" "mw_Name w = mw_UID w" "mw_Namespace w = ac_clusterName a"
  shows "get (deliver_spec get list apply_event a evt s) (ac_clusterName a) n =
    (if n = mw_UID w then Inr (spec_effect w (get s (ac_clusterName a) n)) else get s (ac_clusterName a) n)"
proof -
  let ?cl = "ac_clusterName a" and ?u = "mw_UID w"
  let ?a = "a\<lparr>ac_lister := \<lambda>options. Inr (list s (lo_ClusterName options))\<rparr>"
  let ?s' = "deliver_spec get list apply_event a evt s"
  have inv: "inv s" using assms(1) by (simp add: named_def)
  have recv: "fst (agent_receive evt ?a) = (case specAction ?a (ev_Source evt) w of
      Inl e \<Rightarrow> Dropped ''failed to generate spec action''
    | Inr action \<Rightarrow> if action = [] then Dropped ''no action is required'' else Handle action w)"
    using agent_receive_decoded [of evt ?a] by (simp add: assms(4))
  have put: "get (apply_event e s) ?cl n = (if n = ?u then Inr (we_Object e) else get s ?cl n)"
    if "mw_Name (we_Object e) = ?u" "mw_Namespace (we_Object e) = ?cl" "we_Type e \<noteq> WatchDeleted" for e
    using apply_get [OF inv assms(3), of e n] assms(3) that by auto
  show ?thesis
  proof (cases "get s ?cl ?u")
    case (Inl e)
    have "?u \<notin> mw_UID ` set (list s ?cl)"
    proof
      assume "?u \<in> mw_UID ` set (list s ?cl)"
      then obtain v where "v \<in> set (list s ?cl)" "mw_Name v = ?u" using assms(1) by (auto simp: named_def)
      then have "get s ?cl ?u = Inr v" by (simp add: get_found [OF inv assms(3)])
      then show False using Inl by simp
    qed
    then have "getObj work_ops ?u (list s ?cl) = None" by (simp add: getObj_missing)
    then have "specAction ?a (ev_Source evt) w = Inr ActionAdded"
      by (simp add: specAction_def assms(2))
    then have "?s' = apply_event \<lparr>we_Type = WatchAdded, we_Object = w\<rparr> s"
      by (simp add: deliver_spec_def recv work_handler_def)
    then show ?thesis using put [of "\<lparr>we_Type = WatchAdded, we_Object = w\<rparr>"] Inl assms(5,6) by (simp add: spec_effect_def)
  next
    case (Inr v)
    then have v: "v \<in> set (list s ?cl)" "mw_Name v = ?u" by (simp_all add: get_found [OF inv assms(3)])
    have ns: "mw_Namespace v = ?cl" using list_namespace [OF inv assms(3) v(1)] .
    obtain v' where v': "getObj work_ops ?u (list s ?cl) = Some v'"
      using v assms(1) by (cases "getObj work_ops ?u (list s ?cl)") (force simp: getObj_missing named_def)+
    have "v' = v"
      using getObj_found [OF v'] assms(1) get_found [OF inv assms(3), of ?u v'] Inr by (auto simp: named_def)
    then have act: "specAction ?a (ev_Source evt) w = Inr (if mw_DeletionTimestamp w \<noteq> 0 then ActionDeleted
        else if mw_ResourceVersion w = mw_ResourceVersion v then [] else ActionModified)"
      using v' by (simp add: specAction_def assms(2))
    show ?thesis
      using put [of "\<lparr>we_Type = WatchModified, we_Object = v\<lparr>mw_DeletionTimestamp := mw_DeletionTimestamp w\<rparr>\<rparr>"]
        put [of "\<lparr>we_Type = WatchModified, we_Object = with_local_fields v w\<rparr>"] Inr v(2) ns assms(5,6)
      by (auto simp: deliver_spec_def recv act work_handler_def spec_effect_def newer_def with_local_fields_def Let_def
          split: sum.split)
  qed
qed

lemma deliver_nothing: "decoded_work a evt = None \<Longrightarrow> deliver_spec get list apply_event a evt s = s"
  by (auto simp: deliver_spec_def decoded_work_def agent_receive_def Let_def split: sum.splits option.splits if_splits prod.split)

lemma decoded_for_cluster:
  assumes "for_cluster a evt" "decoded_work a evt = Some w"
  shows "mw_Name w = mw_UID w" "mw_Namespace w = ac_clusterName a"
  using assms by (auto simp: for_cluster_def decoded_work_def split: sum.splits option.splits if_splits)

lemma deliveries_effect:
  assumes "\<forall>evt \<in> set evts. for_cluster a evt" "named (ac_clusterName a) s"
  shows "get (foldl (\<lambda>s evt. deliver_spec get list apply_event a evt s) s evts) (ac_clusterName a) n =
    after_specs n (List.map_filter (decoded_work a) evts) (get s (ac_clusterName a) n)"
  using assms
proof (induction evts arbitrary: s)
  case (Cons evt evts)
  let ?s = "deliver_spec get list apply_event a evt s"
  have evt: "for_cluster a evt" and evts: "\<forall>evt \<in> set evts. for_cluster a evt" using Cons.prems(1) by simp_all
  note IH = Cons.IH [OF evts deliver_keeps(1) [OF evt Cons.prems(2)]]
  show ?case
  proof (cases "decoded_work a evt")
    case None
    then show ?thesis using IH by (simp add: deliver_nothing List.map_filter_simps)
  next
    case (Some w)
    have "ac_ops a = work_ops" "key_part (ac_clusterName a)" using evt by (auto simp: for_cluster_def)
    from deliver_effect [OF Cons.prems(2) this Some decoded_for_cluster [OF evt Some], of n]
    show ?thesis using IH Some by (simp add: List.map_filter_simps)
  qed
qed (simp add: List.map_filter_simps)

end

section \<open>Late and repeated updates\<close>

definition version :: "manifest_work \<Rightarrow> int" where
  "version w = (case parse_int (mw_ResourceVersion w) of Inl _ \<Rightarrow> 0 | Inr i \<Rightarrow> i)"

definition versioned :: "manifest_work \<Rightarrow> bool" where
  "versioned w \<longleftrightarrow> (case parse_int (mw_ResourceVersion w) of Inl _ \<Rightarrow> False | Inr _ \<Rightarrow> True)"

lemma newer_versions: "versioned w \<Longrightarrow> versioned v \<Longrightarrow> newer w v \<longleftrightarrow> version v < version w"
  by (auto simp: versioned_def newer_def version_def split: sum.splits)

lemma with_local_fields_simps [simp]:
  "mw_UID (with_local_fields v w) = mw_UID w" "mw_Spec (with_local_fields v w) = mw_Spec w"
  "version (with_local_fields v w) = version w" "versioned (with_local_fields v w) = versioned w"
  "mw_DeletionTimestamp (with_local_fields v w) = mw_DeletionTimestamp w"
  by (simp_all add: with_local_fields_def version_def versioned_def)

text \<open>
  What is left under a name after updates: what was there, or the specification of an update that is
  newer than that; in both cases no update is newer than what is left.
\<close>

definition latest :: "string \<Rightarrow> manifest_work list \<Rightarrow> manifest_work result \<Rightarrow> manifest_work result \<Rightarrow> bool" where
  "latest n ws old new \<longleftrightarrow> (case new of
     Inl e \<Rightarrow> old = Inl e \<and> (\<forall>w \<in> set ws. mw_UID w \<noteq> n)
   | Inr v \<Rightarrow> versioned v \<and> (\<forall>w \<in> set ws. mw_UID w = n \<longrightarrow> version w \<le> version v) \<and>
       (old = Inr v \<or> (\<exists>w \<in> set ws. mw_UID w = n \<and> mw_Spec v = mw_Spec w \<and> version v = version w \<and>
          (\<forall>u. old = Inr u \<longrightarrow> version u < version v))))"

lemma after_specs_append: "after_specs n (ws @ [w]) r =
    (if mw_UID w = n then Inr (spec_effect w (after_specs n ws r)) else after_specs n ws r)"
  by (induction ws arbitrary: r) simp_all

lemma after_specs_latest:
  assumes "\<forall>w \<in> set ws. versioned w \<and> mw_DeletionTimestamp w = 0" "\<forall>v. old = Inr v \<longrightarrow> versioned v"
  shows "latest n ws old (after_specs n ws old)"
  using assms
proof (induction ws rule: rev_induct)
  case Nil
  then show ?case by (cases old) (auto simp: latest_def)
next
  case (snoc w ws)
  then have IH: "latest n ws old (after_specs n ws old)" and w: "versioned w" "mw_DeletionTimestamp w = 0" by simp_all
  show ?case
  proof (cases "after_specs n ws old")
    case (Inl e)
    then show ?thesis using IH w by (auto simp: after_specs_append latest_def spec_effect_def)
  next
    case (Inr v)
    have v: "versioned v" "\<forall>w \<in> set ws. mw_UID w = n \<longrightarrow> version w \<le> version v"
      and orig: "old = Inr v \<or> (\<exists>w \<in> set ws. mw_UID w = n \<and> mw_Spec v = mw_Spec w \<and> version v = version w \<and>
        (\<forall>u. old = Inr u \<longrightarrow> version u < version v))"
      using IH by (simp_all add: latest_def Inr)
    have old: "version u \<le> version v" if "old = Inr u" for u using orig that by auto
    show ?thesis
    proof (cases "mw_UID w = n \<and> version v < version w")
      case True
      then have "after_specs n (ws @ [w]) old = Inr (with_local_fields v w)"
        using v(1) w by (simp add: after_specs_append Inr spec_effect_def newer_versions)
      moreover have "\<forall>w' \<in> set ws. mw_UID w' = n \<longrightarrow> version w' \<le> version w" using v(2) True by fastforce
      moreover have "\<forall>u. old = Inr u \<longrightarrow> version u < version w" using old True by fastforce
      ultimately show ?thesis using w True by (simp add: latest_def)
    next
      case False
      then have "after_specs n (ws @ [w]) old = Inr v"
        using v(1) w by (auto simp: after_specs_append Inr spec_effect_def newer_versions)
      moreover have "mw_UID w = n \<longrightarrow> version w \<le> version v" using False by auto
      ultimately show ?thesis using v orig by (auto simp: latest_def)
    qed
  qed
qed

text \<open>Two results that are latest for the same updates agree, if updates of one version do.\<close>

definition same_spec :: "manifest_work result \<Rightarrow> manifest_work result \<Rightarrow> bool" where
  "same_spec r r' \<longleftrightarrow> (case (r, r') of
     (Inl _, Inl _) \<Rightarrow> True
   | (Inr w, Inr w') \<Rightarrow> mw_Spec w' = mw_Spec w \<and> version w' = version w
   | _ \<Rightarrow> False)"

lemma latest_unique:
  assumes "latest n ws old r" "latest n ws' old r'" "set ws' = set ws"
    and "\<forall>w \<in> set ws. \<forall>w' \<in> set ws. mw_UID w = mw_UID w' \<and> version w = version w' \<longrightarrow> mw_Spec w = mw_Spec w'"
  shows "same_spec r r'"
proof (cases r; cases r')
  fix v v' assume r: "r = Inr v" "r' = Inr v'"
  have newest: "\<forall>w \<in> set ws. mw_UID w = n \<longrightarrow> version w \<le> version v \<and> version w \<le> version v'"
    using assms(1-3) by (simp add: latest_def r)
  consider "old = Inr v" "old = Inr v'"
    | w where "w \<in> set ws" "mw_UID w = n" "version v' = version w" "version v < version w" "old = Inr v"
    | w where "w \<in> set ws" "mw_UID w = n" "version v = version w" "version v' < version w" "old = Inr v'"
    | w w' where "w \<in> set ws" "w' \<in> set ws" "mw_UID w = n" "mw_UID w' = n" "version v = version w" "version v' = version w'"
        "mw_Spec v = mw_Spec w" "mw_Spec v' = mw_Spec w'"
    using assms(1-3) by (fastforce simp: latest_def r)
  then show ?thesis
  proof cases
    case 1
    then show ?thesis by (simp add: same_spec_def r)
  next
    case (2 w)
    then show ?thesis using newest by (metis leD)
  next
    case (3 w)
    then show ?thesis using newest by (metis leD)
  next
    case (4 w w')
    then have "version w \<le> version w'" "version w' \<le> version w" using newest by metis+
    then have "version w = version w'" by simp
    moreover from this have "mw_Spec w = mw_Spec w'" using assms(4) 4(1-4) by metis
    ultimately show ?thesis using 4(5-8) by (simp add: same_spec_def r)
  qed
qed (use assms(1-3) in \<open>auto simp: latest_def same_spec_def\<close>)

lemma deliver_specs_effect:
  assumes "work_agent a env" "store_inv s" "\<forall>w \<in> set (store_List s (ac_clusterName a)). mw_UID w = mw_Name w"
    and "\<forall>evt \<in> set evts. map_of (ev_Extensions evt) ExtensionClusterName = Some (CeString (ac_clusterName a))"
  shows "store_Get (deliver_specs a evts s) (ac_clusterName a) n =
    after_specs n (List.map_filter (decoded_work a) evts) (store_Get s (ac_clusterName a) n)"
proof -
  have "\<forall>evt \<in> set evts. for_cluster a evt" using work_agent_events [OF assms(1)] assms(4) by blast
  from client_go.deliveries_effect [OF this, of s n] show ?thesis
    using assms(2,3) by (simp add: client_go.named_def deliver_specs_def)
qed

lemma set_map_filter: "set (List.map_filter f xs) = {y. \<exists>x \<in> set xs. f x = Some y}"
  by (induction xs) (auto simp: List.map_filter_simps split: option.split)

lemma updates_leave_latest:
  assumes "work_agent a env" "store_inv s"
    and "\<forall>w \<in> set (store_List s (ac_clusterName a)). mw_UID w = mw_Name w \<and> versioned w"
    and "\<forall>evt \<in> set evts. map_of (ev_Extensions evt) ExtensionClusterName = Some (CeString (ac_clusterName a)) \<and>
      (\<forall>w. decoded_work a evt = Some w \<longrightarrow> versioned w \<and> mw_DeletionTimestamp w = 0)"
  shows "latest n (List.map_filter (decoded_work a) evts) (store_Get s (ac_clusterName a) n)
    (store_Get (deliver_specs a evts s) (ac_clusterName a) n)"
proof -
  have cl: "key_part (ac_clusterName a)" using assms(1) by (simp add: work_agent_def)
  have "\<forall>w \<in> set (List.map_filter (decoded_work a) evts). versioned w \<and> mw_DeletionTimestamp w = 0"
    using assms(4) by (auto simp: set_map_filter)
  moreover have "\<forall>v. store_Get s (ac_clusterName a) n = Inr v \<longrightarrow> versioned v"
    using assms(3) by (simp add: store_found [OF assms(2) cl])
  ultimately show ?thesis
    using deliver_specs_effect [OF assms(1,2), of evts n] assms(3,4) by (simp add: after_specs_latest)
qed

text \<open>
  C4. Spec updates may arrive late, repeatedly and in any order. Two caches that start alike and get the
  same updates have the same works in the end, with the same specifications and versions, as long as
  updates of one version say the same; and no update that arrived is newer than what is cached.
\<close>

theorem reordered_updates_converge:
  assumes "work_agent a env" "store_inv s"
    and "\<forall>w \<in> set (store_List s (ac_clusterName a)). mw_UID w = mw_Name w \<and> versioned w"
    and "\<forall>evt \<in> set evts. map_of (ev_Extensions evt) ExtensionClusterName = Some (CeString (ac_clusterName a)) \<and>
      (\<forall>w. decoded_work a evt = Some w \<longrightarrow> versioned w \<and> mw_DeletionTimestamp w = 0)"
    and "\<forall>e \<in> set evts. \<forall>e' \<in> set evts. \<forall>w w'. decoded_work a e = Some w \<longrightarrow> decoded_work a e' = Some w' \<longrightarrow>
      mw_UID w = mw_UID w' \<and> version w = version w' \<longrightarrow> mw_Spec w = mw_Spec w'"
    and "set evts' = set evts"
  shows "same_spec (store_Get (deliver_specs a evts s) (ac_clusterName a) n) (store_Get (deliver_specs a evts' s) (ac_clusterName a) n) \<and>
    (\<forall>evt \<in> set evts. \<forall>w. decoded_work a evt = Some w \<longrightarrow> (\<exists>w'.
       store_Get (deliver_specs a evts s) (ac_clusterName a) (mw_UID w) = Inr w' \<and> version w \<le> version w'))"
proof -
  have evts': "\<forall>evt \<in> set evts'. map_of (ev_Extensions evt) ExtensionClusterName = Some (CeString (ac_clusterName a)) \<and>
      (\<forall>w. decoded_work a evt = Some w \<longrightarrow> versioned w \<and> mw_DeletionTimestamp w = 0)"
    using assms(4,6) by simp
  have "same_spec (store_Get (deliver_specs a evts s) (ac_clusterName a) n) (store_Get (deliver_specs a evts' s) (ac_clusterName a) n)"
    using assms(5,6)
    by (intro latest_unique [OF updates_leave_latest [OF assms(1-4)] updates_leave_latest [OF assms(1-3) evts']])
      (auto simp: set_map_filter)
  moreover have "\<exists>w'. store_Get (deliver_specs a evts s) (ac_clusterName a) (mw_UID w) = Inr w' \<and> version w \<le> version w'"
    if "evt \<in> set evts" "decoded_work a evt = Some w" for evt w
  proof -
    have "w \<in> set (List.map_filter (decoded_work a) evts)" using that by (auto simp: set_map_filter)
    then show ?thesis
      using updates_leave_latest [OF assms(1-4), of "mw_UID w"] by (auto simp: latest_def split: sum.splits)
  qed
  ultimately show ?thesis by blast
qed

text \<open>
  Deletions do not commute with updates: they do not set the version, so that an update that was
  sent before and arrives after takes the deletion back.
\<close>

lemma late_update_undoes_deletion:
  assumes "mw_UID d = n" "mw_DeletionTimestamp d \<noteq> 0" "mw_UID w = n" "mw_DeletionTimestamp w = 0" "newer w v"
  shows "after_specs n [w, d] (Inr v) = Inr ((with_local_fields v w)\<lparr>mw_DeletionTimestamp := mw_DeletionTimestamp d\<rparr>)"
    and "\<exists>u. after_specs n [d, w] (Inr v) = Inr u \<and> mw_DeletionTimestamp u = 0 \<and> mw_Spec u = mw_Spec w"
  using assms by (simp_all add: spec_effect_def newer_def)

definition spec_example4 :: ce_event where
  "spec_example4 = spec_example\<lparr>ev_Extensions := [(ExtensionResourceID, CeString ''r1''), (ExtensionResourceVersion, CeString ''4''),
     (ExtensionClusterName, CeString ''cluster1'')], ev_Data := JsonData (JString ''m2'')\<rparr>"

definition work_example4 :: manifest_work where
  "work_example4 = work_example\<lparr>mw_ResourceVersion := ''4'', mw_Spec := empty_spec\<lparr>wsp_Manifests := [''m2'']\<rparr>\<rparr>"

lemma spec_example4_decoded: "bundle_Decode codec_example spec_example4 = Inr work_example4"
  by code_simp

lemma example_decoded_works:
  "decoded_work example_work_agent spec_example = Some work_example"
  "decoded_work example_work_agent spec_example4 = Some work_example4"
proof -
  have codecs: "ac_codecs example_work_agent = [(ManifestBundleEventDataType, ManifestBundleCodec codec_example)]"
    by (simp add: example_work_agent_def register_codecs_def ManifestBundleCodec_def)
  have t: "ParseCloudEventsType (ev_Type spec_example) =
      Inr \<lparr>et_DataType = ManifestBundleEventDataType, et_SubResource = SubResourceSpec, et_Action = ''create_request''\<rparr>"
    by code_simp
  moreover have "ev_Type spec_example4 = ev_Type spec_example" by (simp add: spec_example4_def)
  ultimately show "decoded_work example_work_agent spec_example = Some work_example"
    "decoded_work example_work_agent spec_example4 = Some work_example4"
    by (simp_all add: decoded_work_def codecs ManifestBundleCodec_def spec_example_decoded spec_example4_decoded
        ResyncRequestAction_def)
qed

lemma example_versions:
  "versioned work_example" "versioned work_example4" "version work_example = 3" "version work_example4 = 4"
  "mw_DeletionTimestamp work_example = 0" "mw_DeletionTimestamp work_example4 = 0"
  "mw_UID work_example = ''r1''" "mw_UID work_example4 = ''r1''"
  by code_simp+

theorem reordered_updates_converge_witness:
  "\<exists>w. store_Get (deliver_specs example_work_agent [spec_example4, spec_example, spec_example4] []) ''cluster1'' ''r1'' = Inr w \<and>
     mw_Spec w = mw_Spec work_example4 \<and> version w = 4"
proof -
  let ?a = example_work_agent and ?evts = "[spec_example, spec_example4]"
    and ?evts' = "[spec_example4, spec_example, spec_example4]"
  have cl: "ac_clusterName ?a = ''cluster1''" by (simp add: example_work_agent_def)
  have s: "store_inv []" "\<forall>w \<in> set (store_List [] (ac_clusterName ?a)). mw_UID w = mw_Name w \<and> versioned w"
    by (simp_all add: store_inv_def store_List_def)
  have evts: "\<forall>evt \<in> set ?evts. map_of (ev_Extensions evt) ExtensionClusterName = Some (CeString (ac_clusterName ?a)) \<and>
      (\<forall>w. decoded_work ?a evt = Some w \<longrightarrow> versioned w \<and> mw_DeletionTimestamp w = 0)"
    by (simp add: cl example_decoded_works example_versions) (simp add: spec_example_def spec_example4_def extension_names)
  have same: "\<forall>e \<in> set ?evts. \<forall>e' \<in> set ?evts. \<forall>w w'. decoded_work ?a e = Some w \<longrightarrow> decoded_work ?a e' = Some w' \<longrightarrow>
      mw_UID w = mw_UID w' \<and> version w = version w' \<longrightarrow> mw_Spec w = mw_Spec w'"
    by (simp add: example_decoded_works example_versions)
  have "set ?evts' = set ?evts" by auto
  note conv = reordered_updates_converge [OF example_is_work_agent s evts same this, of "''r1''", unfolded cl]
  have "store_Get (deliver_specs ?a ?evts []) ''cluster1'' ''r1'' = Inr (with_local_fields work_example work_example4)"
    using deliver_specs_effect [OF example_is_work_agent s(1), of ?evts "''r1''"] evts cl
    by (simp add: List.map_filter_simps example_decoded_works example_versions spec_effect_def newer_versions store_List_def store_Get_def)
  with conv show ?thesis
    by (cases "store_Get (deliver_specs ?a ?evts' []) ''cluster1'' ''r1''") (auto simp: same_spec_def example_versions)
qed

section \<open>From a source to a fleet of agents\<close>

text \<open>The agents with their caches, when the broker passes on an event that was sent to a topic.\<close>

definition broadcast ::
  "(string \<Rightarrow> string \<Rightarrow> bool) \<Rightarrow> mqtt_options \<Rightarrow> string \<Rightarrow> ce_event \<Rightarrow>
   (manifest_work agent_client \<times> work_store) list \<Rightarrow> (manifest_work agent_client \<times> work_store) list" where
  "broadcast matches opts topic evt fleet =
     map (\<lambda>(a, s). if agent_hears matches opts (ac_clusterName a) topic then (a, deliver_specs a [evt] s) else (a, s)) fleet"

text \<open>An agent of the fleet reads bundles, and its cache is in order.\<close>

definition fleet_member :: "codec_env \<Rightarrow> manifest_work agent_client \<times> work_store \<Rightarrow> bool" where
  "fleet_member env = (\<lambda>(a, s). work_agent a env \<and> plain (ac_clusterName a) \<and> store_inv s \<and>
     map_of (ac_codecs a) ManifestBundleEventDataType = Some (ManifestBundleCodec env) \<and>
     (\<forall>w \<in> set (store_List s (ac_clusterName a)). mw_UID w = mw_Name w))"

text \<open>The bundle that an event of a builder carries, and the work that it stands for.\<close>

definition carries :: "codec_env \<Rightarrow> event_builder \<Rightarrow> event_data \<Rightarrow> manifest_bundle \<Rightarrow> bool" where
  "carries env b data mb \<longleftrightarrow>
     (if eb_deletionTimestamp b = 0
      then cv_bundle_data env data = Inr mb \<and> ValidateManifests ManifestValidator (cv_decode env) (mb_Manifests mb) = None
      else cv_parse_time env (FormatTime (eb_deletionTimestamp b)) = Inr (eb_deletionTimestamp b))"

definition announced_work :: "string \<Rightarrow> event_builder \<Rightarrow> int \<Rightarrow> manifest_bundle \<Rightarrow> manifest_work" where
  "announced_work source b v mb =
     (if eb_deletionTimestamp b = 0
      then (decoded_meta source b v)\<lparr>mw_Spec := \<lparr>wsp_Manifests = mb_Manifests mb, wsp_DeleteOption = mb_DeleteOption mb,
        wsp_ManifestConfigs = mb_ManifestConfigs mb, wsp_Executor = None\<rparr>\<rparr>
      else (decoded_meta source b v)\<lparr>mw_DeletionTimestamp := eb_deletionTimestamp b\<rparr>)"

lemma announced_work_fields [simp]:
  "mw_UID (announced_work source b v mb) = eb_resourceID b" "mw_Name (announced_work source b v mb) = eb_resourceID b"
  "mw_Namespace (announced_work source b v mb) = eb_clusterName b"
  by (simp_all add: announced_work_def decoded_meta_def)

text \<open>A source that publishes an object sends its event once, and the event is valid.\<close>

lemma source_Publish_event:
  assumes "source_Publish t obj c = (None, c')" "map_of (sc_codecs c) (et_DataType t) = Some codec"
    and "cd_Encode codec (sc_sourceID c) t obj = Inr evt"
  obtains topic where "bc_WithContext (sc_base c) evt = Inr topic" "event_valid evt"
    "bc_sent (sc_base c') = bc_sent (sc_base c) @ [(topic, evt)]" "et_SubResource t = SubResourceSpec"
proof -
  have "source_publish evt c = (None, c')" and t: "et_SubResource t = SubResourceSpec"
    using assms by (auto simp: source_Publish_def split: if_splits)
  then have "publish evt (sc_base c) = (None, sc_base c')" by (auto simp: source_publish_def split: prod.splits)
  then obtain topic where "bc_WithContext (sc_base c) evt = Inr topic" "event_valid evt"
    "sc_base c' = (sc_base c)\<lparr>bc_calls := bc_calls (sc_base c) + 1, bc_sent := bc_sent (sc_base c) @ [(topic, evt)]\<rparr>"
    by (rule publish_ok)
  then show ?thesis using t that [of topic] by simp
qed

lemma spec_event_valid: "event_valid (spec_event url uuid now b d) \<Longrightarrow> eb_resourceVersion b = Some v \<Longrightarrow> in_int32 v"
  by (cases d) (simp_all add: spec_event_def event_valid_def SetData_errors NewEvent_field_errors Let_def)

lemma bundle_Decode_announced:
  assumes "ParseCloudEventsType (ev_Type e) = Inr (eb_eventType b)" "ev_Extensions e = builder_extensions b"
    and "et_DataType (eb_eventType b) = ManifestBundleEventDataType"
    and "eb_resourceID b \<noteq> []" "eb_clusterName b \<noteq> []" "eb_resourceVersion b = Some v" "in_int32 v"
    and "over_mqtt e evt" "carries env b (ev_Data e) mb"
  shows "bundle_Decode env evt = Inr (announced_work (ev_Source e) b v mb)"
  using decode_frame_over_mqtt [OF assms(1,2,4-8), of env, unfolded assms(3)] assms(9)
  by (auto simp: bundle_Decode_def carries_def announced_work_def over_mqtt_fields [OF assms(8)])

text \<open>
  C1. A source publishes over MQTT an object that its codec encodes as a spec event of a bundle. The
  event is sent once. When the broker passes it on, every agent of the cluster that it names has in its
  cache what the spec means to what it had before, under the name of the resource and nowhere else; the
  cache of every other agent is as it was.
\<close>

theorem published_spec_reaches_the_caches:
  assumes "bc_WithContext (sc_base c) =
      ceo_WithContext (cso_CloudEventsOptions (mqtt_NewSourceOptions net new opts clientID source))"
    and "topic_layout (mo_Topics opts)" "accepts_by_level matches" "plain source"
    and "source_Publish t obj c = (None, c')" "map_of (sc_codecs c) (et_DataType t) = Some codec"
    and "cd_Encode codec (sc_sourceID c) t obj = Inr (spec_event url uuid now b d)"
    and "wf_event_type t" "list_all (\<lambda>c. \<not> is_space c) (event_type_string t)"
    and "et_DataType t = ManifestBundleEventDataType" "et_Action t \<noteq> ResyncRequestAction"
    and "eb_eventType b = t" "eb_resourceID b \<noteq> []" "plain (eb_clusterName b)" "eb_resourceVersion b = Some v"
    and "carries env b (ev_Data (spec_event url uuid now b d)) mb" "list_all (fleet_member env) fleet"
  shows "\<exists>topic. bc_sent (sc_base c') = bc_sent (sc_base c) @ [(topic, spec_event url uuid now b d)] \<and>
    (\<forall>evt. over_mqtt (spec_event url uuid now b d) evt \<longrightarrow>
      list_all2 (\<lambda>(a, s) (a', s'). a' = a \<and>
        (if ac_clusterName a = eb_clusterName b
         then \<forall>n. store_Get s' (ac_clusterName a) n =
           (if n = eb_resourceID b
            then Inr (spec_effect (announced_work (ev_Source evt) b v mb) (store_Get s (ac_clusterName a) n))
            else store_Get s (ac_clusterName a) n)
         else s' = s)) fleet (broadcast matches opts topic evt fleet))"
proof -
  let ?e = "spec_event url uuid now b d"
  obtain topic where topic: "bc_WithContext (sc_base c) ?e = Inr topic" "event_valid ?e"
    "bc_sent (sc_base c') = bc_sent (sc_base c) @ [(topic, ?e)]" and spec: "et_SubResource t = SubResourceSpec"
    using assms(5-7) by (rule source_Publish_event)
  have v: "in_int32 v" using spec_event_valid topic(2) assms(15) by blast
  have type: "ParseCloudEventsType (ev_Type ?e) = Inr t"
    using NewEvent_type_parse [of b] assms(8,9,12) by simp
  have ctx: "mqtt_source_WithContext \<lparr>ms_options = opts, ms_sourceID = source, ms_clientID = clientID\<rparr> ?e = Inr topic"
    using topic(1) by (simp add: assms(1) mqtt_NewSourceOptions_def Let_def)
  have ext: "GetExtension ?e ExtensionClusterName =
      (if eb_clusterName b = [] then Inl (Errorf ''extension not found'') else Inr (CeString (eb_clusterName b)))"
    by (simp add: GetExtension_plain)
  then have cl: "eb_clusterName b \<noteq> []" and "topic = spec_topic (mo_Topics opts) source (eb_clusterName b)"
    using mqtt_source_topic [OF ctx type] assms(11) by (auto simp: sprint_s_def split: if_splits)
  then have hears: "agent_hears matches opts cluster topic \<longleftrightarrow> cluster = eb_clusterName b" if "plain cluster" for cluster
    using topic_layout.spec_events_reach_the_cluster [OF assms(2,3)] assms(4,14) that by (simp add: hears_filters)
  have "\<forall>n. store_Get (deliver_specs a [evt] s) (ac_clusterName a) n =
      (if n = eb_resourceID b
       then Inr (spec_effect (announced_work (ev_Source evt) b v mb) (store_Get s (ac_clusterName a) n))
       else store_Get s (ac_clusterName a) n)"
    if "over_mqtt ?e evt" "fleet_member env (a, s)" "ac_clusterName a = eb_clusterName b" for evt a s
  proof -
    have a: "ac_ops a = work_ops" "key_part (ac_clusterName a)" "client_go.named (ac_clusterName a) s"
      "map_of (ac_codecs a) ManifestBundleEventDataType = Some (ManifestBundleCodec env)"
      using that(2) by (auto simp: fleet_member_def work_agent_def client_go.named_def)
    have "bundle_Decode env evt = Inr (announced_work (ev_Source ?e) b v mb)"
      using bundle_Decode_announced [OF _ _ _ assms(13) cl assms(15) v that(1) assms(16)] type assms(10,12) by simp
    then have "decoded_work a evt = Some (announced_work (ev_Source evt) b v mb)"
      using type spec assms(10,11) a(4)
      by (simp add: decoded_work_def over_mqtt_fields [OF that(1)] ManifestBundleCodec_def)
    from client_go.deliver_effect [OF a(3,1,2) this] show ?thesis
      by (simp add: deliver_specs_def that(3))
  qed
  then show ?thesis
    using topic(3) assms(17) hears
    by (intro exI [of _ topic]) (force simp: broadcast_def list_all2_map2 list_all2_same list_all_iff fleet_member_def)
qed

definition published_builder :: event_builder where
  "published_builder = WithClusterName ''cluster1'' (WithResourceVersion 3 (WithResourceID ''r1''
     (NewEventBuilder ''hub1'' \<lparr>et_DataType = ManifestBundleEventDataType, et_SubResource = SubResourceSpec,
        et_Action = ''create_request''\<rparr>)))"

definition bundle_source :: "nat source_client" where
  "bundle_source = hub_source\<lparr>sc_codecs := [(ManifestBundleEventDataType, \<lparr>cd_EventDataType = ManifestBundleEventDataType,
     cd_Encode = \<lambda>_ _ _. Inr (spec_event Some ''id'' 1 published_builder (Some (JString ''m1''))),
     cd_Decode = \<lambda>_. Inl (Errorf ''nothing to decode'')\<rparr>)]\<rparr>"

definition example_fleet :: "(manifest_work agent_client \<times> work_store) list" where
  "example_fleet = [(example_work_agent, []), (example_work_agent\<lparr>ac_clusterName := ''cluster2''\<rparr>, [])]"

lemma bundle_source_delivers: "fst (source_Publish (eb_eventType published_builder) 0 bundle_source) = None"
  by code_simp

lemma example_bundle_carried:
  "carries codec_example published_builder (ev_Data (spec_event Some ''id'' 1 published_builder (Some (JString ''m1''))))
     \<lparr>mb_Manifests = [''m1''], mb_DeleteOption = None, mb_ManifestConfigs = []\<rparr>"
proof -
  have "ev_Data (spec_event Some ''id'' 1 published_builder (Some (JString ''m1''))) = JsonData (JString ''m1'')"
    by (simp add: spec_event_def SetData_def field_ok_def Let_def)
  moreover have "ValidateManifests ManifestValidator (cv_decode codec_example) [''m1''] = None" by code_simp
  moreover have "eb_deletionTimestamp published_builder = 0" by code_simp
  ultimately show ?thesis by (simp add: carries_def codec_example_def)
qed

lemma example_fleet_members: "list_all (fleet_member codec_example) example_fleet"
  by (simp add: example_fleet_def fleet_member_def work_agent_def example_work_agent_def key_part_def register_codecs_def
      names_plain store_inv_def store_List_def ManifestBundleCodec_def)

theorem published_spec_reaches_the_caches_witness:
  "\<exists>c' topic evt w. source_Publish (eb_eventType published_builder) 0 bundle_source = (None, c') \<and>
     over_mqtt (spec_event Some ''id'' 1 published_builder (Some (JString ''m1''))) evt \<and>
     (case map snd (broadcast level_matches NewMQTTOptions topic evt example_fleet) of
        [s1, s2] \<Rightarrow> store_Get s1 ''cluster1'' ''r1'' = Inr w \<and> wsp_Manifests (mw_Spec w) = [''m1''] \<and> s2 = [] | _ \<Rightarrow> False)"
proof -
  let ?b = published_builder and ?mb = "\<lparr>mb_Manifests = [''m1''], mb_DeleteOption = None, mb_ManifestConfigs = []\<rparr>"
  let ?e = "spec_event Some ''id'' 1 ?b (Some (JString ''m1''))"
  obtain c' where c': "source_Publish (eb_eventType ?b) 0 bundle_source = (None, c')"
    using bundle_source_delivers by (cases "source_Publish (eb_eventType ?b) 0 bundle_source") simp
  obtain evt where evt: "over_mqtt ?e evt" using over_mqtt_exists by blast
  have base: "bc_WithContext (sc_base bundle_source) = ceo_WithContext (cso_CloudEventsOptions
      (mqtt_NewSourceOptions file_env (\<lambda>_. Inr (\<lambda>_ _ _. None)) NewMQTTOptions ''client1'' ''hub1''))"
    by (simp add: bundle_source_def hub_source_def delivering_base_def)
  have layout: "topic_layout (mo_Topics NewMQTTOptions)"
    using default_layout.topic_layout_axioms by (simp add: NewMQTTOptions_def)
  have t: "wf_event_type (eb_eventType ?b)" "list_all (\<lambda>c. \<not> is_space c) (event_type_string (eb_eventType ?b))"
    "et_DataType (eb_eventType ?b) = ManifestBundleEventDataType" "et_Action (eb_eventType ?b) \<noteq> ResyncRequestAction"
    by code_simp+
  have b: "eb_resourceID ?b \<noteq> []" "plain (eb_clusterName ?b)" "eb_resourceVersion ?b = Some 3"
    "eb_resourceID ?b = ''r1''" "eb_clusterName ?b = ''cluster1''" "eb_deletionTimestamp ?b = 0"
    by code_simp+
  obtain codec where codec: "map_of (sc_codecs bundle_source) (et_DataType (eb_eventType ?b)) = Some codec"
    "cd_Encode codec (sc_sourceID bundle_source) (eb_eventType ?b) 0 = Inr ?e"
    by (simp add: bundle_source_def t(3))
  from published_spec_reaches_the_caches [OF base layout level_matches_accepts names_plain(1) c' codec t refl b(1-3)
      example_bundle_carried example_fleet_members]
  obtain topic where fleet: "list_all2 (\<lambda>(a, s) (a', s'). a' = a \<and>
        (if ac_clusterName a = eb_clusterName ?b
         then \<forall>n. store_Get s' (ac_clusterName a) n =
           (if n = eb_resourceID ?b
            then Inr (spec_effect (announced_work (ev_Source evt) ?b 3 ?mb) (store_Get s (ac_clusterName a) n))
            else store_Get s (ac_clusterName a) n)
         else s' = s)) example_fleet (broadcast level_matches NewMQTTOptions topic evt example_fleet)"
    using evt by blast
  have missing: "store_Get [] ''cluster1'' ''r1'' = Inl (StatusError NotFound)" by (simp add: store_Get_def)
  have cl: "ac_clusterName example_work_agent = ''cluster1''" by (simp add: example_work_agent_def)
  show ?thesis
    using c' evt fleet missing
    by (intro exI [of _ c'] exI [of _ topic] exI [of _ evt] exI [of _ "announced_work (ev_Source evt) ?b 3 ?mb"])
      (auto simp: example_fleet_def list_all2_Cons1 b(4-6) cl spec_effect_def announced_work_def)
qed

end
