(* ===== verification/Work_Watcher.thy ===== *)
theory Work_Watcher
  imports Work_Resync "HOL-Library.Multiset"
begin

text \<open>
  \<^verbatim>\<open>pkg/cloudevents/work/watcher\<close>: the watcher that carries the events of the handler and of
  the client to the informer, with its two channels, and what its delay means for the cache. Both
  channels are unbuffered, so \<open>Receive\<close> waits until the informer takes its event; which of the
  waiting events is taken next is not specified.
\<close>

section \<open>The watcher\<close>

text \<open>
  \<open>wt_waiting\<close> are the events of the calls of \<open>Receive\<close> that have not returned, \<open>wt_reading\<close> tells
  whether somebody reads the result channel; \<open>wt_received\<close>, \<open>wt_got\<close> and \<open>wt_stops\<close> record the
  calls of \<open>Receive\<close>, what was taken from the channel, and the calls of \<open>Stop\<close>.
\<close>

record work_watcher =
  wt_result_closed :: bool
  wt_done_closed :: bool
  wt_waiting :: "watch_event list"
  wt_reading :: bool
  wt_panicked :: bool
  wt_received :: "watch_event list"
  wt_got :: "watch_event list"
  wt_stops :: nat

definition NewManifestWorkWatcher :: work_watcher where
  "NewManifestWorkWatcher = \<lparr>wt_result_closed = False, wt_done_closed = False, wt_waiting = [], wt_reading = False,
     wt_panicked = False, wt_received = [], wt_got = [], wt_stops = 0\<rparr>"

text \<open>Closing a closed channel panics, and so does a send that waits on a channel that is closed.\<close>

definition watcher_Stop :: "work_watcher \<Rightarrow> work_watcher" where
  "watcher_Stop mw =
     (let mw = mw\<lparr>wt_stops := wt_stops mw + 1\<rparr> in
      if wt_done_closed mw then
        (if wt_result_closed mw then mw\<lparr>wt_panicked := True\<rparr>
         else mw\<lparr>wt_result_closed := True, wt_panicked := (wt_waiting mw \<noteq> [])\<rparr>)
      else mw\<lparr>wt_done_closed := True\<rparr>)"

definition send_result :: "watch_event \<Rightarrow> work_watcher \<Rightarrow> work_watcher" where
  "send_result evt mw =
     (let mw = mw\<lparr>wt_received := wt_received mw @ [evt]\<rparr> in
      if wt_result_closed mw then mw\<lparr>wt_panicked := True\<rparr> else mw\<lparr>wt_waiting := wt_waiting mw @ [evt]\<rparr>)"

definition take_result :: "nat \<Rightarrow> work_watcher \<Rightarrow> work_watcher" where
  "take_result i mw = mw\<lparr>wt_waiting := take i (wt_waiting mw) @ drop (Suc i) (wt_waiting mw),
     wt_got := wt_got mw @ [wt_waiting mw ! i]\<rparr>"

text \<open>A reader of the result channel comes with a watch and may leave; a panic ends the process.\<close>

inductive watcher_step :: "work_watcher \<Rightarrow> work_watcher \<Rightarrow> bool" where
  watch: "\<not> wt_panicked mw \<Longrightarrow> watcher_step mw (mw\<lparr>wt_reading := True\<rparr>)"
| leave: "\<not> wt_panicked mw \<Longrightarrow> watcher_step mw (mw\<lparr>wt_reading := False\<rparr>)"
| receive: "\<not> wt_panicked mw \<Longrightarrow> watcher_step mw (send_result evt mw)"
| taken: "\<not> wt_panicked mw \<Longrightarrow> wt_reading mw \<Longrightarrow> i < length (wt_waiting mw) \<Longrightarrow> watcher_step mw (take_result i mw)"
| stop: "\<not> wt_panicked mw \<Longrightarrow> watcher_step mw (watcher_Stop mw)"

inductive watcher_reachable :: "work_watcher \<Rightarrow> bool" where
  new: "watcher_reachable NewManifestWorkWatcher"
| step: "watcher_reachable mw \<Longrightarrow> watcher_step mw mw' \<Longrightarrow> watcher_reachable mw'"

inductive_cases watcher_stepE: "watcher_step mw mw'"

section \<open>Its channels\<close>

lemmas watcher_defs = watcher_Stop_def send_result_def take_result_def Let_def

definition channels_ok :: "work_watcher \<Rightarrow> bool" where
  "channels_ok mw \<longleftrightarrow> (wt_done_closed mw \<longleftrightarrow> wt_stops mw \<ge> 1) \<and> (wt_result_closed mw \<longleftrightarrow> wt_stops mw \<ge> 2) \<and>
     (wt_stops mw \<le> 1 \<longrightarrow> \<not> wt_panicked mw) \<and> (wt_stops mw \<ge> 3 \<longrightarrow> wt_panicked mw) \<and>
     (wt_stops mw \<ge> 2 \<and> \<not> wt_panicked mw \<longrightarrow> wt_waiting mw = []) \<and>
     (\<not> wt_panicked mw \<longrightarrow> mset (wt_received mw) = mset (wt_got mw) + mset (wt_waiting mw))"

lemma mset_take_nth_drop:
  assumes "i < length xs"
  shows "mset xs = {#xs ! i#} + mset (take i xs @ drop (Suc i) xs)"
  using arg_cong [OF id_take_nth_drop [OF assms], of mset] by simp

lemma channels_ok_new: "channels_ok NewManifestWorkWatcher"
  by (simp add: channels_ok_def NewManifestWorkWatcher_def)

lemma channels_ok_step:
  assumes "watcher_step mw mw'" "channels_ok mw"
  shows "channels_ok mw'"
  using assms
proof cases
  case (taken i)
  then show ?thesis
    using assms(2) mset_take_nth_drop [OF taken(4)]
    by (auto simp: channels_ok_def take_result_def)
qed (auto simp: channels_ok_def watcher_Stop_def send_result_def Let_def)

lemma reachable_channels_ok: "watcher_reachable mw \<Longrightarrow> channels_ok mw"
  by (induction rule: watcher_reachable.induct) (auto intro: channels_ok_new channels_ok_step)

text \<open>Steps without a new reader.\<close>

definition unwatched_step :: "work_watcher \<Rightarrow> work_watcher \<Rightarrow> bool" where
  "unwatched_step mw mw' \<longleftrightarrow> watcher_step mw mw' \<and> \<not> wt_reading mw'"

lemma unwatched_keeps:
  assumes "unwatched_step\<^sup>*\<^sup>* mw mw'" "\<not> wt_reading mw"
  shows "\<not> wt_reading mw' \<and> wt_got mw' = wt_got mw \<and> (\<exists>evts. wt_waiting mw' = wt_waiting mw @ evts)"
  using assms
proof (induction rule: rtranclp_induct)
  case (step mw1 mw2)
  then have "\<not> wt_reading mw1" "watcher_step mw1 mw2" "\<not> wt_reading mw2" by (auto simp: unwatched_step_def)
  then have "wt_got mw2 = wt_got mw1 \<and> (\<exists>evts. wt_waiting mw2 = wt_waiting mw1 @ evts)"
    by (auto elim!: watcher_stepE simp: watcher_Stop_def send_result_def Let_def)
  with step show ?case by (auto simp: unwatched_step_def)
qed simp

text \<open>
  C23. Until the watcher is stopped a second time, nothing panics and no event is lost or doubled:
  those that were passed to \<open>Receive\<close> are those that the reader took and those whose calls still
  wait. But stopping it does not release these calls, although the channel for that is closed: as long
  as nobody reads, they wait, whatever else happens. The second call of \<open>Stop\<close> closes the channel of
  the results and panics if a call still waits, and the third panics in any case.
\<close>

theorem watcher_stop:
  assumes "watcher_reachable mw"
  shows "(wt_stops mw \<le> 1 \<longrightarrow> \<not> wt_panicked mw \<and> mset (wt_received mw) = mset (wt_got mw) + mset (wt_waiting mw)) \<and>
    (\<not> wt_reading mw \<longrightarrow> (\<forall>mw'. unwatched_step\<^sup>*\<^sup>* mw mw' \<longrightarrow>
       wt_got mw' = wt_got mw \<and> set (wt_waiting mw) \<subseteq> set (wt_waiting mw'))) \<and>
    (wt_stops mw = 1 \<longrightarrow> wt_result_closed (watcher_Stop mw) \<and> (wt_panicked (watcher_Stop mw) \<longleftrightarrow> wt_waiting mw \<noteq> [])) \<and>
    (wt_stops mw \<ge> 3 \<longrightarrow> wt_panicked mw)"
proof (intro conjI impI allI)
  note ok = reachable_channels_ok [OF assms, unfolded channels_ok_def]
  show "wt_stops mw \<le> 1 \<Longrightarrow> \<not> wt_panicked mw" "wt_stops mw \<ge> 3 \<Longrightarrow> wt_panicked mw"
    "wt_stops mw \<le> 1 \<Longrightarrow> mset (wt_received mw) = mset (wt_got mw) + mset (wt_waiting mw)"
    using ok by auto
  show "wt_stops mw = 1 \<Longrightarrow> wt_result_closed (watcher_Stop mw)"
    "wt_stops mw = 1 \<Longrightarrow> wt_panicked (watcher_Stop mw) \<longleftrightarrow> wt_waiting mw \<noteq> []"
    using ok by (auto simp: watcher_Stop_def Let_def)
  show "wt_got mw' = wt_got mw" "set (wt_waiting mw) \<subseteq> set (wt_waiting mw')"
    if "\<not> wt_reading mw" "unwatched_step\<^sup>*\<^sup>* mw mw'" for mw'
    using unwatched_keeps [OF that(2,1)] by auto
qed

text \<open>An informer that watched, stopped, and left an event behind.\<close>

definition left_behind :: work_watcher where
  "left_behind = send_result \<lparr>we_Type = WatchAdded, we_Object = local_work\<rparr> (watcher_Stop NewManifestWorkWatcher)"

lemma left_behind_reachable: "watcher_reachable left_behind"
proof -
  have "watcher_reachable (watcher_Stop NewManifestWorkWatcher)"
    by (rule watcher_reachable.step [OF new stop]) (simp add: NewManifestWorkWatcher_def)
  then show ?thesis unfolding left_behind_def
    by (rule watcher_reachable.step [OF _ receive]) (simp add: NewManifestWorkWatcher_def watcher_Stop_def)
qed

theorem watcher_stop_witness:
  "\<not> wt_panicked left_behind \<and> wt_panicked (watcher_Stop left_behind) \<and>
   (\<exists>mw'. unwatched_step\<^sup>*\<^sup>* left_behind mw' \<and> wt_received mw' \<noteq> wt_received left_behind \<and>
      \<lparr>we_Type = WatchAdded, we_Object = local_work\<rparr> \<in> set (wt_waiting mw'))"
proof -
  let ?mw = "send_result \<lparr>we_Type = WatchModified, we_Object = local_work\<rparr> left_behind"
  have l: "wt_stops left_behind = 1" "\<not> wt_reading left_behind" "\<not> wt_panicked left_behind"
    "wt_waiting left_behind = [\<lparr>we_Type = WatchAdded, we_Object = local_work\<rparr>]"
    by (simp_all add: left_behind_def watcher_Stop_def send_result_def NewManifestWorkWatcher_def)
  have "watcher_step left_behind ?mw" by (rule receive) (rule l(3))
  then have "unwatched_step left_behind ?mw" using l(2) by (simp add: unwatched_step_def send_result_def Let_def)
  then have "unwatched_step\<^sup>*\<^sup>* left_behind ?mw" by blast
  with watcher_stop [OF left_behind_reachable] l show ?thesis
    by (intro conjI exI [of _ ?mw]) (auto simp: send_result_def Let_def)
qed

section \<open>What the delay means for the cache\<close>

lemma client_Patch_event:
  assumes "client_Patch env now n pt data subresources c = Some (Inr p, c')"
  shows "\<exists>t. t \<noteq> WatchAdded \<and> wc_watcher c' = wc_watcher c @ [\<lparr>we_Type = t, we_Object = p\<rparr>]"
  using assms
  by (auto dest: client_publish_watcher simp: client_Patch_def Let_def watcher_Receive_def
      split: option.splits sum.splits bool.splits prod.splits if_splits)

lemma work_handler_modified:
  assumes "work_handler get ActionModified new = Inr (Some e)" "get (mw_Name new) = Inr w"
  shows "mw_Name (we_Object e) = mw_Name new" "mw_Namespace (we_Object e) = mw_Namespace new" "we_Type e = WatchModified"
    "mw_Spec (we_Object e) = mw_Spec new" "mw_Labels (we_Object e) = mw_Labels w"
    "mw_Finalizers (we_Object e) = mw_Finalizers w" "mw_Status (we_Object e) = mw_Status w"
  using assms by (auto simp: work_handler_def Let_def split: sum.splits if_splits)

text \<open>
  C40. The handler and the client change a work as it is in the cache, and pass the whole work to
  the watcher. When the update of a spec and a patch are made before either has reached the cache,
  one of them is lost. If the update is taken last, the work has the labels, finalizers and status of
  before the patch, although the patch succeeded and a status was sent, and a work that was removed
  with its last finalizer is back. If the patch is taken last, the work has the old spec and version,
  or is gone.
\<close>

theorem concurrent_change_lost:
  assumes "store_inv s" "key_part cl" "store_Get s cl n = Inr w"
    and "work_handler (store_Get s cl) ActionModified new = Inr (Some update)" "mw_Name new = n" "mw_Namespace new = cl"
    and "wc_lister c = Some (store_Get s cl)" "client_Patch env now n pt data subresources c = Some (Inr p, c')"
    and "mw_Name p = n" "mw_Namespace p = cl" "mw_Spec p = mw_Spec w" "mw_ResourceVersion p = mw_ResourceVersion w"
  shows "\<exists>patch v. wc_watcher c' = wc_watcher c @ [patch] \<and>
    store_Get (store_apply update (store_apply patch s)) cl n = Inr v \<and> mw_Spec v = mw_Spec new \<and>
    mw_Labels v = mw_Labels w \<and> mw_Finalizers v = mw_Finalizers w \<and> mw_Status v = mw_Status w \<and>
    (case store_Get (store_apply patch (store_apply update s)) cl n of
       Inr u \<Rightarrow> u = p \<and> mw_Spec u = mw_Spec w \<and> mw_ResourceVersion u = mw_ResourceVersion w
     | Inl e \<Rightarrow> we_Type patch = WatchDeleted)"
proof -
  obtain t where t: "wc_watcher c' = wc_watcher c @ [\<lparr>we_Type = t, we_Object = p\<rparr>]" "t \<noteq> WatchAdded"
    using client_Patch_event [OF assms(8)] by blast
  let ?patch = "\<lparr>we_Type = t, we_Object = p\<rparr>"
  have "store_Get s cl (mw_Name new) = Inr w" using assms(3,5) by simp
  note u = work_handler_modified [OF assms(4) this]
  have inv: "store_inv (store_apply e s)" if "mw_Namespace (we_Object e) = cl" for e
    using client_go.apply_inv [OF assms(1)] assms(2) that by simp
  have "store_Get (store_apply update (store_apply ?patch s)) cl n = Inr (we_Object update)"
    using client_go.apply_get [OF inv assms(2), of ?patch update n] u assms by simp
  moreover have "store_Get (store_apply ?patch (store_apply update s)) cl n =
      (if t = WatchDeleted then Inl (StatusError NotFound) else Inr p)"
    using client_go.apply_get [OF inv assms(2), of update ?patch n] u assms by simp
  ultimately show ?thesis
    using t u(4-7) assms(11,12) by (intro exI [of _ ?patch] exI [of _ "we_Object update"]) auto
qed

definition newer_work :: manifest_work where
  "newer_work = work_example\<lparr>mw_Spec := empty_spec\<lparr>wsp_Manifests := [''m2'']\<rparr>\<rparr>"

definition reported_work :: manifest_work where
  "reported_work = local_work\<lparr>mw_Status := (mw_Status local_work)\<lparr>wst_Conditions := [deleted_condition]\<rparr>\<rparr>"

definition status_patch :: patch_env where
  "status_patch = \<lparr>pe_Marshal = \<lambda>w. Inr [], pe_DecodePatch = \<lambda>_. Inl (Errorf ''no patch''),
     pe_MergePatch = \<lambda>_ _. Inr [], pe_Unmarshal = \<lambda>_. Inr reported_work\<rparr>"

definition reporting_client :: work_client where
  "reporting_client = SetLister (store_Get hub1_store ''cluster1'') (NewManifestWorkAgentClient example_work_agent)"

lemma status_reported:
  "case client_Patch status_patch 9 ''r1'' MergePatchType [] [''status''] reporting_client of
     Some (Inr w, c') \<Rightarrow> wst_Conditions (mw_Status w) = [deleted_condition] | _ \<Rightarrow> False"
  by code_simp

theorem concurrent_change_lost_witness:
  "\<exists>update patch. work_handler (store_Get hub1_store ''cluster1'') ActionModified newer_work = Inr (Some update) \<and>
     (case store_Get (store_apply update (store_apply patch hub1_store)) ''cluster1'' ''r1'' of
        Inr v \<Rightarrow> wst_Conditions (mw_Status v) = [] | Inl e \<Rightarrow> False) \<and>
     (case store_Get (store_apply patch (store_apply update hub1_store)) ''cluster1'' ''r1'' of
        Inr u \<Rightarrow> wsp_Manifests (mw_Spec u) = [''m1''] | Inl e \<Rightarrow> we_Type patch = WatchDeleted)"
proof -
  have get: "store_Get hub1_store ''cluster1'' ''r1'' = Inr local_work" using hub1_store_facts by simp
  have versions: "parse_int ''3'' = Inr 3" "parse_int ''2'' = Inr 2" by code_simp+
  obtain update where update: "work_handler (store_Get hub1_store ''cluster1'') ActionModified newer_work = Inr (Some update)"
    by (simp add: work_handler_def newer_work_def work_example_def get hub1_store_facts versions Let_def)
  obtain p c' where r: "client_Patch status_patch 9 ''r1'' MergePatchType [] [''status''] reporting_client = Some (Inr p, c')"
    using status_reported by (auto split: option.splits prod.splits sum.splits)
  have p: "p = reported_work"
    using r by (auto simp: client_Patch_def client_Get_def reporting_client_def SetLister_def NewManifestWorkAgentClient_def get
        work_Patch_def status_patch_def isStatusUpdate_def Let_def MergePatchType_def JSONPatchType_def
        split: sum.splits option.splits prod.splits bool.splits if_splits)
  have facts: "mw_Name newer_work = ''r1''" "mw_Namespace newer_work = ''cluster1''" "mw_Name p = ''r1''" "mw_Namespace p = ''cluster1''"
    "mw_Spec p = mw_Spec local_work" "mw_ResourceVersion p = mw_ResourceVersion local_work" "key_part ''cluster1''"
    "mw_Status local_work = mw_Status empty_work" "wsp_Manifests (mw_Spec local_work) = [''m1'']"
    by (simp_all add: p newer_work_def reported_work_def local_work_def work_example_def key_part_def)
  have lister: "wc_lister reporting_client = Some (store_Get hub1_store ''cluster1'')"
    by (simp add: reporting_client_def SetLister_def)
  obtain patch v where
    "store_Get (store_apply update (store_apply patch hub1_store)) ''cluster1'' ''r1'' = Inr v" "mw_Status v = mw_Status local_work"
    "case store_Get (store_apply patch (store_apply update hub1_store)) ''cluster1'' ''r1'' of
       Inr u \<Rightarrow> u = p \<and> mw_Spec u = mw_Spec local_work \<and> mw_ResourceVersion u = mw_ResourceVersion local_work
     | Inl e \<Rightarrow> we_Type patch = WatchDeleted"
    using concurrent_change_lost [OF hub1_store_facts(1) facts(7) get update facts(1,2) lister r facts(3-6)] by blast
  then show ?thesis using update facts(8,9)
    by (intro exI [of _ update] exI [of _ patch]) (auto simp: empty_work_def split: sum.splits)
qed

end
