(* ===== verification/Work_Client.thy ===== *)
theory Work_Client
  imports Work_Watcher
begin

text \<open>
  \<^verbatim>\<open>pkg/cloudevents/work/clientbuilder.go\<close> and \<^verbatim>\<open>internal/clientset.go\<close>: how a client for
  manifest works is put together from a configuration, the options of the transport, the agent's client,
  the watcher and the informer. The client set for a kubeconfig and the informers are those of
  \<^verbatim>\<open>open-cluster-management.io/api\<close> and stay opaque; \<open>s\<close> is what the informer's store holds
  when the listers are asked.
\<close>

section \<open>Client sets\<close>

record work_v1_wrapper =
  ww_ManifestWorkClient :: work_client

record work_client_set_wrapper =
  wcs_WorkV1ClientWrapper :: work_v1_wrapper

datatype 'kube work_v1 = KubeWorkV1 'kube | WrappedWorkV1 work_v1_wrapper

definition wrapper_ManifestWorks :: "string \<Rightarrow> work_v1_wrapper \<Rightarrow> work_client" where
  "wrapper_ManifestWorks namespace c = ww_ManifestWorkClient c"

definition wrapper_WorkV1 :: "work_client_set_wrapper \<Rightarrow> 'kube work_v1" where
  "wrapper_WorkV1 c = WrappedWorkV1 (wcs_WorkV1ClientWrapper c)"

text \<open>The other interfaces of the wrappers are nil.\<close>

definition unavailable :: "'a \<Rightarrow> 'b option" where
  "unavailable c = None"

section \<open>The builder\<close>

datatype 'config client_config = RestConfig 'config | MQTTConfig mqtt_options | OtherConfig string

record ('kube, 'opt) informer =
  inf_client :: "'kube work_v1"
  inf_resyncTime :: int
  inf_options :: "'opt list"

record ('kube, 'opt) client_holder =
  ch_workClient :: "'kube work_v1"
  ch_manifestWorkInformer :: "('kube, 'opt) informer"

record ('config, 'opt) holder_builder =
  hb_config :: "'config client_config"
  hb_codecs :: "manifest_work codec list"
  hb_informerOptions :: "'opt list"
  hb_informerResyncTime :: int
  hb_clusterName :: string
  hb_clientID :: string

definition defaultInformerResyncTime :: int where
  "defaultInformerResyncTime = 10 * 60 * 1000000000"

definition NewClientHolderBuilder :: "string \<Rightarrow> 'config client_config \<Rightarrow> ('config, 'opt) holder_builder" where
  "NewClientHolderBuilder clientID config =
     \<lparr>hb_config = config, hb_codecs = [], hb_informerOptions = [], hb_informerResyncTime = defaultInformerResyncTime,
      hb_clusterName = [], hb_clientID = clientID\<rparr>"

definition holder_WithClusterName :: "string \<Rightarrow> ('config, 'opt) holder_builder \<Rightarrow> ('config, 'opt) holder_builder" where
  "holder_WithClusterName clusterName b = b\<lparr>hb_clusterName := clusterName\<rparr>"

definition WithCodecs :: "manifest_work codec list \<Rightarrow> ('config, 'opt) holder_builder \<Rightarrow> ('config, 'opt) holder_builder" where
  "WithCodecs codecs b = b\<lparr>hb_codecs := codecs\<rparr>"

definition WithInformerConfig ::
  "int \<Rightarrow> 'opt list \<Rightarrow> ('config, 'opt) holder_builder \<Rightarrow> ('config, 'opt) holder_builder" where
  "WithInformerConfig resyncTime options b = b\<lparr>hb_informerResyncTime := resyncTime, hb_informerOptions := options\<rparr>"

text \<open>What the code calls: the client set of a kubeconfig, the network, the SDK, JSON and SHA-256.\<close>

record ('config, 'kube, 'conn) holder_env =
  he_NewForConfig :: "'config \<Rightarrow> 'kube result"
  he_net :: "'conn net_env"
  he_newClient :: "'conn mqtt_client_config \<Rightarrow> sender result"
  he_base :: base_client
  he_marshal :: "work_status \<Rightarrow> string result"
  he_sha256 :: "string \<Rightarrow> string"

text \<open>The second component is the handler that is subscribed.\<close>

type_synonym ('kube, 'opt) holder_made =
  "('kube, 'opt) client_holder option \<times> (string \<Rightarrow> manifest_work \<Rightarrow> watch_event option result) option"

definition newAgentClients ::
  "('config, 'kube, 'conn) holder_env \<Rightarrow> work_store \<Rightarrow> mqtt_options \<Rightarrow> ('config, 'opt) holder_builder \<Rightarrow>
   ('kube, 'opt) holder_made result" where
  "newAgentClients env s config b =
     (let agentOptions = mqtt_NewAgentOptions (he_net env) (he_newClient env) config (hb_clusterName b) (hb_clientID b) in
      case NewCloudEventAgentClient (he_base env) agentOptions work_ops (work_List s)
             (ManifestWorkStatusHash (he_marshal env) (he_sha256 env)) (hb_codecs b) of
        Inl e \<Rightarrow> Inl e
      | Inr cloudEventsClient \<Rightarrow>
          let namespacedLister = store_Get s (hb_clusterName b);
              manifestWorkClient = SetLister namespacedLister (NewManifestWorkAgentClient cloudEventsClient);
              workClient = \<lparr>ww_ManifestWorkClient = manifestWorkClient\<rparr>;
              workClientSet = \<lparr>wcs_WorkV1ClientWrapper = workClient\<rparr>;
              informers = \<lparr>inf_client = wrapper_WorkV1 workClientSet, inf_resyncTime = hb_informerResyncTime b,
                inf_options = hb_informerOptions b\<rparr>
          in Inr (Some \<lparr>ch_workClient = WrappedWorkV1 workClient, ch_manifestWorkInformer = informers\<rparr>,
                  Some (work_handler namespacedLister)))"

definition NewClientHolder ::
  "('config, 'kube, 'conn) holder_env \<Rightarrow> work_store \<Rightarrow> ('config, 'opt) holder_builder \<Rightarrow> ('kube, 'opt) holder_made result" where
  "NewClientHolder env s b =
     (case hb_config b of
        RestConfig config \<Rightarrow>
          (case he_NewForConfig env config of
             Inl e \<Rightarrow> Inl e
           | Inr kube \<Rightarrow> Inr (Some \<lparr>ch_workClient = KubeWorkV1 kube,
               ch_manifestWorkInformer = \<lparr>inf_client = KubeWorkV1 kube, inf_resyncTime = hb_informerResyncTime b,
                 inf_options = hb_informerOptions b\<rparr>\<rparr>, None))
      | MQTTConfig config \<Rightarrow>
          if length (hb_clusterName b) \<noteq> 0 then newAgentClients env s config b else Inr (None, None)
      | OtherConfig t \<Rightarrow> Inl (Errorf ''unsupported client configuration type''))"

text \<open>\<open>ManifestWorks\<close> of the holder; the client of a kubeconfig is asked by \<open>kubeWorks\<close>.\<close>

definition holder_ManifestWorks ::
  "('kube \<Rightarrow> string \<Rightarrow> 'works) \<Rightarrow> string \<Rightarrow> ('kube, 'opt) client_holder \<Rightarrow> 'works + work_client" where
  "holder_ManifestWorks kubeWorks namespace h =
     (case ch_workClient h of
        KubeWorkV1 kube \<Rightarrow> Inl (kubeWorks kube namespace)
      | WrappedWorkV1 w \<Rightarrow> Inr (wrapper_ManifestWorks namespace w))"

section \<open>What is built\<close>

lemma register_codecs_from: "snd ` set (register_codecs cs) \<subseteq> set cs"
proof -
  have up: "snd ` set (AList.update k v m) \<subseteq> insert v (snd ` set m)" for k v and m :: "'o codecs"
    by (induction m) auto
  have "snd ` set (foldl (\<lambda>m c. AList.update (cd_EventDataType c) c m) m cs) \<subseteq> snd ` set m \<union> set cs" for m
  proof (induction cs arbitrary: m)
    case (Cons c cs)
    from Cons [of "AList.update (cd_EventDataType c) c m"] up [of "cd_EventDataType c" c m] show ?case by auto
  qed simp
  from this [of "[]"] show ?thesis by (simp add: register_codecs_def)
qed

lemma built_work_agent:
  assumes "ac_ops a = work_ops" "ac_codecs a = register_codecs cs"
    and "key_part (ac_clusterName a)" "set cs \<subseteq> {ManifestCodec cenv, ManifestBundleCodec cenv}"
  shows "work_agent a cenv"
proof -
  have "codec \<in> {ManifestCodec cenv, ManifestBundleCodec cenv}" if "codec \<in> snd ` set (ac_codecs a)" for codec
    using that register_codecs_from [of cs] assms(4) unfolding assms(2) by (meson subsetD)
  then show ?thesis using assms(1,3) by (simp add: work_agent_def)
qed

lemma connect_keeps_context: "connect opts b = Inr b' \<Longrightarrow> bc_WithContext b' = bc_WithContext b"
  by (auto simp: connect_def split: sum.splits)

text \<open>An agent's client for the cluster of the builder, which looks works up in \<open>s\<close>.\<close>

definition serves_cluster ::
  "('config, 'kube, 'conn) holder_env \<Rightarrow> work_store \<Rightarrow> mqtt_options \<Rightarrow> ('config, 'opt) holder_builder \<Rightarrow> codec_env \<Rightarrow> work_client \<Rightarrow> bool" where
  "serves_cluster env s opts b cenv c \<longleftrightarrow>
     wc_watcher c = [] \<and> wc_lister c = Some (store_Get s (hb_clusterName b)) \<and>
     ac_lister (wc_cloudEventsClient c) = work_List s \<and> ac_clusterName (wc_cloudEventsClient c) = hb_clusterName b \<and>
     bc_WithContext (ac_base (wc_cloudEventsClient c)) = ceo_WithContext (cao_CloudEventsOptions
       (mqtt_NewAgentOptions (he_net env) (he_newClient env) opts (hb_clusterName b) (hb_clientID b))) \<and>
     (key_part (hb_clusterName b) \<and> set (hb_codecs b) \<subseteq> {ManifestCodec cenv, ManifestBundleCodec cenv} \<longrightarrow>
        work_agent (wc_cloudEventsClient c) cenv)"

text \<open>
  C26. A client for manifest works is built from a kubeconfig or from MQTT options, for anything
  else an error is returned; but for MQTT options without the name of a cluster there is neither a
  client nor an error. With the name of a cluster, the client is the agent of that cluster, whichever
  namespace is asked for, and the informer is fed by the same client: it publishes to the topics of
  the cluster and of its options, looks works up in the informer's store, and, with the two codecs of
  this repository, is an agent of works as the theorems on spec events and on resyncs require it.
\<close>

theorem client_holder_built:
  "case NewClientHolder env s b of
     Inl e \<Rightarrow> (\<exists>config. hb_config b = RestConfig config \<and> he_NewForConfig env config = Inl e) \<or>
       (\<exists>opts. hb_config b = MQTTConfig opts \<and> hb_clusterName b \<noteq> [] \<and>
          ceo_Client (cao_CloudEventsOptions (mqtt_NewAgentOptions (he_net env) (he_newClient env) opts (hb_clusterName b) (hb_clientID b))) = Inl e) \<or>
       (\<exists>t. hb_config b = OtherConfig t)
   | Inr (None, handler) \<Rightarrow> (\<exists>opts. hb_config b = MQTTConfig opts) \<and> hb_clusterName b = [] \<and> handler = None
   | Inr (Some h, handler) \<Rightarrow> inf_client (ch_manifestWorkInformer h) = ch_workClient h \<and>
       (case hb_config b of
          RestConfig config \<Rightarrow> \<exists>kube. he_NewForConfig env config = Inr kube \<and> ch_workClient h = KubeWorkV1 kube \<and> handler = None
        | MQTTConfig opts \<Rightarrow> handler = Some (work_handler (store_Get s (hb_clusterName b))) \<and>
            (\<exists>c. (\<forall>ns. holder_ManifestWorks kubeWorks ns h = Inr c) \<and> serves_cluster env s opts b cenv c)
        | OtherConfig t \<Rightarrow> False)"
proof (cases "hb_config b")
  case (MQTTConfig opts)
  let ?o = "mqtt_NewAgentOptions (he_net env) (he_newClient env) opts (hb_clusterName b) (hb_clientID b)"
  let ?hash = "ManifestWorkStatusHash (he_marshal env) (he_sha256 env)"
  show ?thesis
  proof (cases "NewCloudEventAgentClient (he_base env) ?o work_ops (work_List s) ?hash (hb_codecs b)")
    case (Inl e)
    then have "ceo_Client (cao_CloudEventsOptions ?o) = Inl e"
      by (auto simp: NewCloudEventAgentClient_def connect_def Let_def split: sum.splits)
    then show ?thesis using MQTTConfig Inl by (simp add: NewClientHolder_def newAgentClients_def)
  next
    case (Inr a)
    then have a: "bc_WithContext (ac_base a) = ceo_WithContext (cao_CloudEventsOptions ?o)" "ac_ops a = work_ops"
      "ac_lister a = work_List s" "ac_codecs a = register_codecs (hb_codecs b)" "ac_clusterName a = hb_clusterName b"
      by (auto simp: NewCloudEventAgentClient_def Let_def mqtt_NewAgentOptions_def dest: connect_keeps_context split: sum.splits)
    have agent: "key_part (hb_clusterName b) \<and> set (hb_codecs b) \<subseteq> {ManifestCodec cenv, ManifestBundleCodec cenv} \<longrightarrow>
        work_agent a cenv"
      using built_work_agent [OF a(2,4)] a(5) by simp
    let ?c = "SetLister (store_Get s (hb_clusterName b)) (NewManifestWorkAgentClient a)"
    have c: "serves_cluster env s opts b cenv ?c"
      using agent a(1,3,5) by (simp add: serves_cluster_def SetLister_def NewManifestWorkAgentClient_def)
    show ?thesis
    proof (cases "hb_clusterName b = []")
      case True
      then show ?thesis using MQTTConfig by (simp add: NewClientHolder_def)
    next
      case False
      let ?w = "WrappedWorkV1 \<lparr>ww_ManifestWorkClient = ?c\<rparr> :: 'a work_v1"
      have "NewClientHolder env s b = Inr (Some \<lparr>ch_workClient = ?w, ch_manifestWorkInformer = \<lparr>inf_client = ?w,
          inf_resyncTime = hb_informerResyncTime b, inf_options = hb_informerOptions b\<rparr>\<rparr>, Some (work_handler (store_Get s (hb_clusterName b))))"
        using MQTTConfig Inr False by (simp add: NewClientHolder_def newAgentClients_def Let_def wrapper_WorkV1_def)
      moreover have "holder_ManifestWorks kubeWorks ns \<lparr>ch_workClient = ?w, ch_manifestWorkInformer = i\<rparr> = Inr ?c" for ns i
        by (simp add: holder_ManifestWorks_def wrapper_ManifestWorks_def)
      ultimately show ?thesis using MQTTConfig c by auto
    qed
  qed
qed (auto simp: NewClientHolder_def split: sum.split)

definition example_holder_env :: "(unit, unit, string) holder_env" where
  "example_holder_env = \<lparr>he_NewForConfig = Inr, he_net = file_env, he_newClient = (\<lambda>_. Inr (\<lambda>_ _ _. None)), he_base = example_base,
     he_marshal = \<lambda>_. Inr [], he_sha256 = id\<rparr>"

definition example_holder_builder :: "string \<Rightarrow> (unit, unit) holder_builder" where
  "example_holder_builder cluster = WithCodecs [ManifestCodec codec_example, ManifestBundleCodec codec_example]
     (holder_WithClusterName cluster (NewClientHolderBuilder ''agent1'' (MQTTConfig NewMQTTOptions)))"

lemma example_holder:
  "case NewClientHolder example_holder_env [] (example_holder_builder ''cluster1'') of Inr (Some h, _) \<Rightarrow> True | _ \<Rightarrow> False"
  by code_simp

lemma example_no_holder: "NewClientHolder example_holder_env [] (example_holder_builder []) = Inr (None, None)"
  by (simp add: NewClientHolder_def example_holder_builder_def WithCodecs_def holder_WithClusterName_def NewClientHolderBuilder_def)

theorem client_holder_built_witness:
  "(\<exists>h handler c. NewClientHolder example_holder_env [] (example_holder_builder ''cluster1'') = Inr (Some h, handler) \<and>
      holder_ManifestWorks (\<lambda>_ _. ()) ''any'' h = Inr c \<and> work_agent (wc_cloudEventsClient c) codec_example) \<and>
   NewClientHolder example_holder_env [] (example_holder_builder []) = Inr (None, None)"
proof
  let ?b = "example_holder_builder ''cluster1''"
  obtain h handler where h: "NewClientHolder example_holder_env [] ?b = Inr (Some h, handler)"
    using example_holder by (auto split: sum.splits option.splits)
  have b: "hb_config ?b = MQTTConfig NewMQTTOptions" "key_part (hb_clusterName ?b)"
    "set (hb_codecs ?b) \<subseteq> {ManifestCodec codec_example, ManifestBundleCodec codec_example}"
    by (simp_all add: example_holder_builder_def WithCodecs_def holder_WithClusterName_def NewClientHolderBuilder_def key_part_def)
  obtain c where "\<forall>ns. holder_ManifestWorks (\<lambda>_ _. ()) ns h = Inr c" "work_agent (wc_cloudEventsClient c) codec_example"
    using client_holder_built [where env = example_holder_env and s = "[]" and b = ?b and kubeWorks = "\<lambda>_ _. ()"
        and cenv = codec_example] b unfolding h by (auto simp: serves_cluster_def)
  with h show "\<exists>h handler c. NewClientHolder example_holder_env [] ?b = Inr (Some h, handler) \<and>
      holder_ManifestWorks (\<lambda>_ _. ()) ''any'' h = Inr c \<and> work_agent (wc_cloudEventsClient c) codec_example"
    by blast
qed (rule example_no_holder)

end
