(* ===== verification/Patcher.thy ===== *)
theory Patcher
  imports Go_Json
begin

text \<open>
  \<^verbatim>\<open>pkg/patcher/patcher.go\<close>: patches of finalizers, labels, annotations, spec and status. The
  patch client is a function of the server's state. JSON of a resource and the creation of a merge
  patch from two documents (\<^verbatim>\<open>evanphx/json-patch\<close>) are parameters. What a server makes of a
  patch is the interface \<open>patch_server\<close>, interpreted on the merge of JSON objects (RFC 7396).
\<close>

section \<open>Maps\<close>

text \<open>The entries to set and, with no value, those to delete.\<close>

type_synonym map_patch = "(string, string option) gomap"

definition mapPatch :: "(string, string) gomap \<Rightarrow> (string, string) gomap \<Rightarrow> map_patch" where
  "mapPatch newMap oldMap =
     (let changed = filter (\<lambda>(k, v). map_of oldMap k \<noteq> Some v) newMap;
          removed = filter (\<lambda>(k, v). map_of newMap k = None) oldMap
      in map (\<lambda>(k, v). (k, Some v)) changed @ map (\<lambda>(k, v). (k, None)) removed)"

fun apply_map_patch :: "map_patch \<Rightarrow> (string, 'v) gomap \<Rightarrow> (string \<Rightarrow> 'v) \<Rightarrow> (string, 'v) gomap" where
  "apply_map_patch [] m f = m"
| "apply_map_patch ((k, v) # p) m f =
     apply_map_patch p (case v of Some x \<Rightarrow> AList.update k (f x) m | None \<Rightarrow> AList.delete k m) f"

lemma map_of_apply_map_patch:
  "wf_map p \<Longrightarrow> map_of (apply_map_patch p m f) k =
     (case map_of p k of None \<Rightarrow> map_of m k | Some None \<Rightarrow> None | Some (Some v) \<Rightarrow> Some (f v))"
proof (induction p m f rule: apply_map_patch.induct)
  case (2 k' v p m f)
  then have "map_of p k' = None" "wf_map p" by (simp_all add: wf_map_def map_of_eq_None_iff)
  with 2 show ?case by (cases "k = k'") (simp_all split: option.split)
qed simp

lemma wf_apply_map_patch: "wf_map m \<Longrightarrow> wf_map (apply_map_patch p m f)"
  by (induction p m f rule: apply_map_patch.induct) (auto split: option.split)

lemma mapPatch_keys: "k \<in> fst ` set (mapPatch new old) \<longleftrightarrow>
    (\<exists>v. (k, v) \<in> set new \<and> map_of old k \<noteq> Some v) \<or> map_of new k = None \<and> k \<in> fst ` set old"
  by (force simp: mapPatch_def)

lemma map_fst_entries: "map fst (map (\<lambda>(k, v). (k, g v)) xs) = map fst xs"
  by (induction xs) auto

lemma wf_mapPatch:
  assumes "wf_map new" "wf_map old"
  shows "wf_map (mapPatch new old)"
proof -
  let ?changed = "filter (\<lambda>(k, v). map_of old k \<noteq> Some v) new" and ?removed = "filter (\<lambda>(k, v). map_of new k = None) old"
  have d: "distinct (map fst ?changed)" "distinct (map fst ?removed)"
    using assms by (simp_all add: wf_map_def distinct_map_filter)
  have "map_of new k \<noteq> None" if "k \<in> set (map fst ?changed)" for k
    using that by (auto dest: weak_map_of_SomeI)
  moreover have "map_of new k = None" if "k \<in> set (map fst ?removed)" for k
    using that by auto
  ultimately have "set (map fst ?changed) \<inter> set (map fst ?removed) = {}" by (metis disjoint_iff)
  with d have "distinct (map fst ?changed @ map fst ?removed)" unfolding distinct_append by simp
  then show ?thesis
    unfolding wf_map_def mapPatch_def Let_def map_append map_fst_entries .
qed

lemma map_of_mapPatch:
  assumes "wf_map new" "wf_map old"
  shows "map_of (mapPatch new old) k =
    (if map_of new k = map_of old k then None else Some (map_of new k))"
proof -
  note wf = wf_mapPatch [OF assms]
  have in_patch: "(k, x) \<in> set (mapPatch new old) \<longleftrightarrow> map_of new k \<noteq> map_of old k \<and> x = map_of new k" for x
    using wf_map_of_iff [OF assms(1)] wf_map_of_iff [OF assms(2)]
    by (cases "map_of new k"; cases "map_of old k") (auto simp: mapPatch_def)
  show ?thesis
    using in_patch wf_map_of_iff [OF wf] by (cases "map_of (mapPatch new old) k") (auto split: if_splits)
qed

section \<open>The patcher\<close>

text \<open>What the code reads of an object through its accessor.\<close>

record object_meta =
  om_Name :: string
  om_UID :: string
  om_ResourceVersion :: string
  om_Finalizers :: "string list"

record patch_options =
  po_IgnoreResourceVersion :: bool

type_synonym 's patch_client = "string \<Rightarrow> string \<Rightarrow> json \<Rightarrow> string list \<Rightarrow> 's \<Rightarrow> error option \<times> 's"

record 's patcher =
  pt_client :: "'s patch_client"
  pt_opts :: patch_options

definition NewPatcher :: "'s patch_client \<Rightarrow> 's patcher" where
  "NewPatcher client = \<lparr>pt_client = client, pt_opts = \<lparr>po_IgnoreResourceVersion = False\<rparr>\<rparr>"

definition WithOptions :: "patch_options \<Rightarrow> 's patcher \<Rightarrow> 's patcher" where
  "WithOptions options p = p\<lparr>pt_opts := options\<rparr>"

definition merge_patch_type :: string where
  "merge_patch_type = ''application/merge-patch+json''"

text \<open>The members of the metadata that every patch begins with, and the JSON of a list; nil is null.\<close>

definition identity_members :: "patch_options \<Rightarrow> object_meta \<Rightarrow> (string \<times> json) list" where
  "identity_members opts m =
     (if po_IgnoreResourceVersion opts then [(''uid'', JString (om_UID m))]
      else [(''uid'', JString (om_UID m)), (''resourceVersion'', JString (om_ResourceVersion m))])"

definition strings_json :: "string list \<Rightarrow> json" where
  "strings_json xs = (if xs = [] then JNull else JArray (map JString xs))"

definition metadata_patch :: "(string \<times> json) list \<Rightarrow> json" where
  "metadata_patch ms = JObject [(''metadata'', JObject ms)]"

definition AddFinalizer ::
  "'s patcher \<Rightarrow> object_meta result \<Rightarrow> string list \<Rightarrow> 's \<Rightarrow> (bool \<times> error option) \<times> 's" where
  "AddFinalizer p object finalizers s =
     (case object of
        Inl e \<Rightarrow> ((False, Some e), s)
      | Inr accessor \<Rightarrow>
          let existingFinalizers = om_Finalizers accessor;
              finalizersToAdd = filter (\<lambda>f. \<not> list_ex (\<lambda>g. g = f) existingFinalizers) finalizers
          in if length finalizersToAdd = 0 then ((False, None), s)
             else let patch = metadata_patch (identity_members (pt_opts p) accessor @
                        [(''finalizers'', strings_json (existingFinalizers @ finalizersToAdd))]);
                      (err, s') = pt_client p (om_Name accessor) merge_patch_type patch [] s
                  in ((True, err), s'))"

definition RemoveFinalizer ::
  "'s patcher \<Rightarrow> object_meta result \<Rightarrow> string list \<Rightarrow> 's \<Rightarrow> error option \<times> 's" where
  "RemoveFinalizer p object finalizers s =
     (case object of
        Inl e \<Rightarrow> (Some e, s)
      | Inr accessor \<Rightarrow>
          let existingFinalizers = om_Finalizers accessor;
              copiedFinalizers = filter (\<lambda>f. \<not> list_ex (\<lambda>g. f = g) finalizers) existingFinalizers
          in if length existingFinalizers = length copiedFinalizers then (None, s)
             else let patch = metadata_patch (identity_members (pt_opts p) accessor @
                        [(''finalizers'', strings_json copiedFinalizers)]);
                      (err, s') = pt_client p (om_Name accessor) merge_patch_type patch [] s
                  in (case err of
                        Some e \<Rightarrow> if is_not_found e then (None, s') else (Some e, s')
                      | None \<Rightarrow> (None, s')))"

text \<open>\<open>Resource\<close>, of whose metadata only these fields are set.\<close>

record ('sp, 'st) resource =
  res_UID :: string
  res_ResourceVersion :: string
  res_Spec :: 'sp
  res_Status :: 'st

definition patch_resource ::
  "(('sp, 'st) resource \<Rightarrow> json result) \<Rightarrow> (json \<Rightarrow> json \<Rightarrow> json result) \<Rightarrow> 's patcher \<Rightarrow> object_meta result \<Rightarrow>
   ('sp, 'st) resource \<Rightarrow> ('sp, 'st) resource \<Rightarrow> string list \<Rightarrow> 's \<Rightarrow> error option \<times> 's" where
  "patch_resource marshal createMergePatch p object newObject oldObject subresources s =
     (case object of
        Inl e \<Rightarrow> (Some e, s)
      | Inr accessor \<Rightarrow>
          (case marshal oldObject of
             Inl e \<Rightarrow> (Some (Wrapf ''failed to Marshal old data'' e), s)
           | Inr oldData \<Rightarrow>
               let newObject = newObject\<lparr>res_UID := om_UID accessor, res_ResourceVersion :=
                     (if po_IgnoreResourceVersion (pt_opts p) then [] else om_ResourceVersion accessor)\<rparr>
               in (case marshal newObject of
                     Inl e \<Rightarrow> (Some (Wrapf ''failed to Marshal new data'' e), s)
                   | Inr newData \<Rightarrow>
                       (case createMergePatch oldData newData of
                          Inl e \<Rightarrow> (Some (Wrapf ''failed to create patch'' e), s)
                        | Inr patchBytes \<Rightarrow>
                            pt_client p (om_Name accessor) merge_patch_type patchBytes subresources s))))"

definition PatchStatus where
  "PatchStatus marshal createMergePatch zeroSpec p object newStatus oldStatus s =
     (if oldStatus = newStatus then ((False, None), s)
      else let oldObject = \<lparr>res_UID = [], res_ResourceVersion = [], res_Spec = zeroSpec, res_Status = oldStatus\<rparr>;
               newObject = \<lparr>res_UID = [], res_ResourceVersion = [], res_Spec = zeroSpec, res_Status = newStatus\<rparr>;
               (err, s') = patch_resource marshal createMergePatch p object newObject oldObject [''status''] s
           in ((True, err), s'))"

definition PatchSpec where
  "PatchSpec marshal createMergePatch zeroStatus p object newSpec oldSpec s =
     (if newSpec = oldSpec then ((False, None), s)
      else let oldObject = \<lparr>res_UID = [], res_ResourceVersion = [], res_Spec = oldSpec, res_Status = zeroStatus\<rparr>;
               newObject = \<lparr>res_UID = [], res_ResourceVersion = [], res_Spec = newSpec, res_Status = zeroStatus\<rparr>;
               (err, s') = patch_resource marshal createMergePatch p object newObject oldObject [] s
           in ((True, err), s'))"

definition map_patch_json :: "map_patch \<Rightarrow> json" where
  "map_patch_json p = JObject (map (\<lambda>(k, v). (k, case v of Some x \<Rightarrow> JString x | None \<Rightarrow> JNull)) p)"

record label_meta =
  lm_Labels :: "(string, string) gomap"
  lm_Annotations :: "(string, string) gomap"

definition PatchLabelAnnotations ::
  "'s patcher \<Rightarrow> object_meta result \<Rightarrow> label_meta \<Rightarrow> label_meta \<Rightarrow> 's \<Rightarrow> (bool \<times> error option) \<times> 's" where
  "PatchLabelAnnotations p object newObject oldObject s =
     (let annotationPatch = mapPatch (lm_Annotations newObject) (lm_Annotations oldObject);
          labelPatch = mapPatch (lm_Labels newObject) (lm_Labels oldObject)
      in if length annotationPatch = 0 \<and> length labelPatch = 0 then ((False, None), s)
         else case object of
           Inl e \<Rightarrow> ((False, Some e), s)
         | Inr accessor \<Rightarrow>
             let patch = metadata_patch (identity_members (pt_opts p) accessor @
                   (if length annotationPatch > 0 then [(''annotations'', map_patch_json annotationPatch)] else []) @
                   (if length labelPatch > 0 then [(''labels'', map_patch_json labelPatch)] else []));
                 (err, s') = pt_client p (om_Name accessor) merge_patch_type patch [] s
             in ((True, err), s'))"

section \<open>What a server makes of a patch\<close>

text \<open>The merge of RFC 7396.\<close>

definition json_members :: "json \<Rightarrow> (string \<times> json) list" where
  "json_members j = (case j of JObject ms \<Rightarrow> ms | _ \<Rightarrow> [])"

fun merge_json :: "json \<Rightarrow> json \<Rightarrow> json"
  and merge_members :: "(string \<times> json) list \<Rightarrow> (string \<times> json) list \<Rightarrow> (string \<times> json) list" where
  "merge_json t (JObject ps) = JObject (merge_members (json_members t) ps)"
| "merge_json t p = p"
| "merge_members ms [] = ms"
| "merge_members ms ((k, v) # ps) =
     merge_members (if v = JNull then AList.delete k ms
       else AList.update k (merge_json (case map_of ms k of Some j \<Rightarrow> j | None \<Rightarrow> JNull) v) ms) ps"

lemma map_of_merge_members:
  "wf_map ps \<Longrightarrow> map_of (merge_members ms ps) k =
     (case map_of ps k of
        None \<Rightarrow> map_of ms k
      | Some v \<Rightarrow> if v = JNull then None else Some (merge_json (case map_of ms k of Some j \<Rightarrow> j | None \<Rightarrow> JNull) v))"
proof (induction ps arbitrary: ms)
  case (Cons kv ps)
  obtain k' v where kv: "kv = (k', v)" by (cases kv)
  with Cons.prems have "map_of ps k' = None" "wf_map ps" by (simp_all add: wf_map_def map_of_eq_None_iff)
  with Cons.IH show ?case by (cases "k = k'") (simp_all add: kv split: option.split)
qed simp

text \<open>
  The metadata of an object, by which the patcher's interface is stated: a patch that names another
  UID or an old resource version is rejected, any other one is merged and gives a new version.
\<close>

definition up_to_date :: "(string \<times> json) list \<Rightarrow> (string \<times> json) list \<Rightarrow> bool" where
  "up_to_date m ms \<longleftrightarrow> (\<forall>k \<in> {''uid'', ''resourceVersion''}. map_of ms k = None \<or> map_of ms k = map_of m k)"

locale patch_server =
  fixes client :: "'s patch_client"
    and metadata :: "'s \<Rightarrow> string \<Rightarrow> (string \<times> json) list option"
  assumes missing: "metadata s n = None \<Longrightarrow> client n merge_patch_type p sub s = (Some (StatusError NotFound), s)"
    and rejected: "metadata s n = Some m \<Longrightarrow> wf_map ms \<Longrightarrow> \<not> up_to_date m ms \<Longrightarrow>
      client n merge_patch_type (metadata_patch ms) [] s = (Some (StatusError (OtherReason ''Conflict'')), s)"
    and merged: "metadata s n = Some m \<Longrightarrow> wf_map ms \<Longrightarrow> up_to_date m ms \<Longrightarrow>
      \<exists>s' m'. client n merge_patch_type (metadata_patch ms) [] s = (None, s') \<and> metadata s' n = Some m' \<and>
        (\<forall>k. k \<noteq> ''resourceVersion'' \<longrightarrow> map_of m' k = map_of (merge_members m ms) k)"

text \<open>What an object has as its finalizers.\<close>

definition finalizers_of :: "(string \<times> json) list \<Rightarrow> string list \<Rightarrow> bool" where
  "finalizers_of m fs \<longleftrightarrow> map_of m ''finalizers'' = (if fs = [] then None else Some (JArray (map JString fs)))"

definition read_current :: "patch_options \<Rightarrow> object_meta \<Rightarrow> (string \<times> json) list \<Rightarrow> bool" where
  "read_current opts a m \<longleftrightarrow> up_to_date m (identity_members opts a)"

lemma patch_members:
  assumes "k \<notin> {''uid'', ''resourceVersion''}"
  shows "wf_map (identity_members opts a @ [(k, j)])"
    and "up_to_date m (identity_members opts a @ [(k, j)]) \<longleftrightarrow> read_current opts a m"
    and "map_of (identity_members opts a @ [(k, j)]) k = Some j"
  using assms by (auto simp: identity_members_def wf_map_def up_to_date_def read_current_def)

lemma identity_kept:
  assumes "read_current opts a m" "wf_map (identity_members opts a @ xs)" "k \<notin> fst ` set xs" "k \<noteq> ''resourceVersion''"
  shows "map_of (merge_members m (identity_members opts a @ xs)) k = map_of m k"
proof -
  have "map_of xs k = None" using assms(3) by (simp add: map_of_eq_None_iff)
  then have "map_of (identity_members opts a @ xs) k = map_of (identity_members opts a) k"
    by (simp add: map_add_def split: option.split)
  moreover have "map_of (identity_members opts a) k = (if k = ''uid'' then Some (JString (om_UID a)) else None)"
    using assms(4) by (simp add: identity_members_def)
  moreover have "map_of m ''uid'' = Some (JString (om_UID a))"
    using assms(1) by (auto simp: read_current_def up_to_date_def identity_members_def split: if_splits)
  ultimately show ?thesis by (simp add: map_of_merge_members [OF assms(2)])
qed

definition finalizers_after ::
  "('s \<Rightarrow> string \<Rightarrow> (string \<times> json) list option) \<Rightarrow> 's \<Rightarrow> string \<Rightarrow> (string \<times> json) list \<Rightarrow> string list \<Rightarrow> bool" where
  "finalizers_after metadata s n m fs \<longleftrightarrow> (\<exists>m'. metadata s n = Some m' \<and> finalizers_of m' fs \<and>
     (\<forall>k. k \<notin> {''finalizers'', ''resourceVersion''} \<longrightarrow> map_of m' k = map_of m k))"

context patch_server
begin

lemma patch_with:
  assumes "metadata s (om_Name a) = Some m" "wf_map (identity_members opts a @ xs)"
    and "fst ` set xs \<inter> {''uid'', ''resourceVersion''} = {}"
  shows "if read_current opts a m
    then \<exists>s' m'. client (om_Name a) merge_patch_type (metadata_patch (identity_members opts a @ xs)) [] s = (None, s') \<and>
      metadata s' (om_Name a) = Some m' \<and>
      (\<forall>k. k \<noteq> ''resourceVersion'' \<longrightarrow> map_of m' k = (if k \<in> fst ` set xs
         then map_of (merge_members m (identity_members opts a @ xs)) k else map_of m k))
    else client (om_Name a) merge_patch_type (metadata_patch (identity_members opts a @ xs)) [] s =
      (Some (StatusError (OtherReason ''Conflict'')), s)"
proof -
  have "map_of xs ''uid'' = None" "map_of xs ''resourceVersion'' = None"
    using assms(3) by (auto simp: map_of_eq_None_iff)
  then have "up_to_date m (identity_members opts a @ xs) \<longleftrightarrow> read_current opts a m"
    by (simp add: up_to_date_def read_current_def map_add_def split: option.split)
  then show ?thesis
    using rejected [OF assms(1,2)] merged [OF assms(1,2)] identity_kept [OF _ assms(2)] by auto
qed

lemma patch_finalizers:
  assumes "metadata s (om_Name a) = Some m"
  shows "if read_current opts a m
    then \<exists>s'. client (om_Name a) merge_patch_type
        (metadata_patch (identity_members opts a @ [(''finalizers'', strings_json fs)])) [] s = (None, s') \<and>
      finalizers_after metadata s' (om_Name a) m fs
    else client (om_Name a) merge_patch_type
        (metadata_patch (identity_members opts a @ [(''finalizers'', strings_json fs)])) [] s =
      (Some (StatusError (OtherReason ''Conflict'')), s)"
proof -
  let ?xs = "[(''finalizers'', strings_json fs)]"
  have wf: "wf_map (identity_members opts a @ ?xs)" by (rule patch_members(1)) simp
  have fin: "map_of (identity_members opts a @ ?xs) ''finalizers'' = Some (strings_json fs)"
    by (rule patch_members(3)) simp
  have "map_of (merge_members m (identity_members opts a @ ?xs)) ''finalizers'' =
      (if fs = [] then None else Some (JArray (map JString fs)))"
    unfolding map_of_merge_members [OF wf] fin by (simp add: strings_json_def)
  then show ?thesis
    using patch_with [OF assms wf] by (auto simp: finalizers_after_def finalizers_of_def)
qed

lemma AddFinalizer_effect:
  assumes "metadata s (om_Name a) = Some m" "pt_client p = client"
  shows "case AddFinalizer p (Inr a) fs s of ((r, e), s') \<Rightarrow>
    let added = filter (\<lambda>f. f \<notin> set (om_Finalizers a)) fs in
    (r \<longleftrightarrow> added \<noteq> []) \<and>
    (if added = [] then e = None \<and> s' = s
     else if read_current (pt_opts p) a m then e = None \<and> finalizers_after metadata s' (om_Name a) m (om_Finalizers a @ added)
     else e \<noteq> None \<and> s' = s)"
proof -
  let ?added = "filter (\<lambda>f. f \<notin> set (om_Finalizers a)) fs"
  have added: "filter (\<lambda>f. \<not> list_ex (\<lambda>g. g = f) (om_Finalizers a)) fs = ?added"
    by (rule filter_cong) (auto simp: list_ex_iff)
  note patch = patch_finalizers [OF assms(1), of "pt_opts p" "om_Finalizers a @ ?added"]
  show ?thesis
  proof (cases "?added = [] \<or> \<not> read_current (pt_opts p) a m")
    case True
    then show ?thesis
      using patch by (auto simp: AddFinalizer_def added assms(2) Let_def simp del: filter_empty_conv)
  next
    case False
    with patch obtain s' where "client (om_Name a) merge_patch_type (metadata_patch (identity_members (pt_opts p) a @
        [(''finalizers'', strings_json (om_Finalizers a @ ?added))])) [] s = (None, s')"
      "finalizers_after metadata s' (om_Name a) m (om_Finalizers a @ ?added)" by auto
    with False show ?thesis by (simp add: AddFinalizer_def added assms(2) Let_def del: filter_empty_conv)
  qed
qed

lemma RemoveFinalizer_effect:
  assumes "metadata s (om_Name a) = Some m" "pt_client p = client"
  shows "case RemoveFinalizer p (Inr a) fs s of (e, s') \<Rightarrow>
    let kept = filter (\<lambda>f. f \<notin> set fs) (om_Finalizers a) in
    if kept = om_Finalizers a then e = None \<and> s' = s
    else if read_current (pt_opts p) a m then e = None \<and> finalizers_after metadata s' (om_Name a) m kept
    else e \<noteq> None \<and> s' = s"
proof -
  let ?kept = "filter (\<lambda>f. f \<notin> set fs) (om_Finalizers a)"
  have k: "filter (\<lambda>f. \<not> list_ex (\<lambda>g. f = g) fs) (om_Finalizers a) = ?kept"
    by (rule filter_cong) (auto simp: list_ex_iff)
  have len: "length (om_Finalizers a) = length ?kept \<longleftrightarrow> ?kept = om_Finalizers a"
    by (metis filter_id_conv length_filter_less linorder_neq_iff)
  note patch = patch_finalizers [OF assms(1), of "pt_opts p" ?kept]
  show ?thesis
  proof (cases "?kept = om_Finalizers a \<or> \<not> read_current (pt_opts p) a m")
    case True
    then show ?thesis
      using patch len by (auto simp: RemoveFinalizer_def k assms(2) Let_def is_not_found_def simp del: filter_id_conv)
  next
    case False
    with patch obtain s' where "client (om_Name a) merge_patch_type (metadata_patch (identity_members (pt_opts p) a @
        [(''finalizers'', strings_json ?kept)])) [] s = (None, s')" "finalizers_after metadata s' (om_Name a) m ?kept" by auto
    with False len show ?thesis by (simp add: RemoveFinalizer_def k assms(2) Let_def del: filter_id_conv)
  qed
qed

end

section \<open>Labels and annotations\<close>

text \<open>The labels of an object as a map; no member is the empty map.\<close>

definition string_map :: "(string, string) gomap \<Rightarrow> json" where
  "string_map L = JObject (map (\<lambda>(k, v). (k, JString v)) L)"

definition map_field :: "(string \<times> json) list \<Rightarrow> string \<Rightarrow> (string, string) gomap \<Rightarrow> bool" where
  "map_field m f L \<longleftrightarrow> wf_map L \<and> (map_of m f = Some (string_map L) \<or> map_of m f = None \<and> L = [])"

lemma string_entries_update:
  "AList.update k (JString x) (map (\<lambda>(k, v). (k, JString v)) L) = map (\<lambda>(k, v). (k, JString v)) (AList.update k x L)"
  "AList.delete k (map (\<lambda>(k, v). (k, JString v)) L) = map (\<lambda>(k, v). (k, JString v)) (AList.delete k L)"
  by (induction L) auto

lemma merge_string_map:
  "merge_members (map (\<lambda>(k, v). (k, JString v)) L) (map (\<lambda>(k, v). (k, case v of Some x \<Rightarrow> JString x | None \<Rightarrow> JNull)) p) =
   map (\<lambda>(k, v). (k, JString v)) (apply_map_patch p L (\<lambda>v. v))"
proof (induction p arbitrary: L)
  case (Cons kv p)
  obtain k v where "kv = (k, v)" by (cases kv)
  then show ?case using Cons by (cases v) (simp_all add: string_entries_update)
qed simp

text \<open>
  What becomes of a map \<open>L\<close> on the server: the entries in which the new and the old map differ are
  those of the new map, all others are kept.
\<close>

definition map_merged ::
  "(string, string) gomap \<Rightarrow> (string, string) gomap \<Rightarrow> (string, string) gomap \<Rightarrow> (string, string) gomap \<Rightarrow> bool" where
  "map_merged new old L L' \<longleftrightarrow>
     (\<forall>k. map_of L' k = (if map_of new k = map_of old k then map_of L k else map_of new k))"

lemma merge_map_field:
  assumes "map_field m f L" "wf_map new" "wf_map old"
  shows "\<exists>L'. wf_map L' \<and> map_merged new old L L' \<and>
    merge_json (case map_of m f of Some j \<Rightarrow> j | None \<Rightarrow> JNull) (map_patch_json (mapPatch new old)) = string_map L'"
proof -
  let ?L = "apply_map_patch (mapPatch new old) L (\<lambda>v. v)"
  have "json_members (case map_of m f of Some j \<Rightarrow> j | None \<Rightarrow> JNull) = map (\<lambda>(k, v). (k, JString v)) L"
    using assms(1) by (auto simp: map_field_def string_map_def json_members_def)
  then have "merge_json (case map_of m f of Some j \<Rightarrow> j | None \<Rightarrow> JNull) (map_patch_json (mapPatch new old)) = string_map ?L"
    by (simp add: map_patch_json_def merge_string_map string_map_def)
  moreover have "map_merged new old L ?L"
    using map_of_apply_map_patch [OF wf_mapPatch [OF assms(2,3)], of L "\<lambda>v. v"]
    by (auto simp: map_merged_def map_of_mapPatch [OF assms(2,3)] split: option.split)
  moreover have "wf_map ?L" using assms(1) wf_apply_map_patch by (auto simp: map_field_def)
  ultimately show ?thesis by blast
qed

lemma mapPatch_empty:
  assumes "wf_map new" "wf_map old" "mapPatch new old = []" "map_field m f L"
  shows "map_merged new old L L"
proof -
  have "map_of new k = map_of old k" for k
    using map_of_mapPatch [OF assms(1,2), of k] by (simp add: assms(3) split: if_splits)
  then show ?thesis by (simp add: map_merged_def)
qed

context patch_server
begin

lemma PatchLabelAnnotations_effect:
  assumes "metadata s (om_Name a) = Some m" "pt_client p = client" "read_current (pt_opts p) a m"
    and "wf_map (lm_Labels new)" "wf_map (lm_Labels old)" "wf_map (lm_Annotations new)" "wf_map (lm_Annotations old)"
    and "map_field m ''labels'' L" "map_field m ''annotations'' A"
  shows "\<exists>s' m' L' A'. PatchLabelAnnotations p (Inr a) new old s =
      ((mapPatch (lm_Annotations new) (lm_Annotations old) \<noteq> [] \<or> mapPatch (lm_Labels new) (lm_Labels old) \<noteq> [], None), s') \<and>
    metadata s' (om_Name a) = Some m' \<and> map_field m' ''labels'' L' \<and> map_field m' ''annotations'' A' \<and>
    map_merged (lm_Labels new) (lm_Labels old) L L' \<and> map_merged (lm_Annotations new) (lm_Annotations old) A A' \<and>
    (\<forall>k. k \<notin> {''labels'', ''annotations'', ''resourceVersion''} \<longrightarrow> map_of m' k = map_of m k)"
proof -
  let ?ap = "mapPatch (lm_Annotations new) (lm_Annotations old)" and ?lp = "mapPatch (lm_Labels new) (lm_Labels old)"
  let ?xs = "(if length ?ap > 0 then [(''annotations'', map_patch_json ?ap)] else []) @
    (if length ?lp > 0 then [(''labels'', map_patch_json ?lp)] else [])"
  obtain L' where L': "wf_map L'" "map_merged (lm_Labels new) (lm_Labels old) L L'"
    "merge_json (case map_of m ''labels'' of Some j \<Rightarrow> j | None \<Rightarrow> JNull) (map_patch_json ?lp) = string_map L'"
    using merge_map_field [OF assms(8,4,5)] by blast
  obtain A' where A': "wf_map A'" "map_merged (lm_Annotations new) (lm_Annotations old) A A'"
    "merge_json (case map_of m ''annotations'' of Some j \<Rightarrow> j | None \<Rightarrow> JNull) (map_patch_json ?ap) = string_map A'"
    using merge_map_field [OF assms(9,6,7)] by blast
  show ?thesis
  proof (cases "?ap = [] \<and> ?lp = []")
    case True
    then show ?thesis
      using assms(1,8,9) mapPatch_empty [OF assms(4,5) _ assms(8)] mapPatch_empty [OF assms(6,7) _ assms(9)]
      by (intro exI [of _ s] exI [of _ m] exI [of _ L] exI [of _ A]) (simp add: PatchLabelAnnotations_def)
  next
    case False
    have wf: "wf_map (identity_members (pt_opts p) a @ ?xs)"
      by (auto simp: wf_map_def identity_members_def)
    have "fst ` set ?xs \<inter> {''uid'', ''resourceVersion''} = {}" by auto
    from patch_with [OF assms(1) wf this] assms(3) obtain s' m' where s': 
      "client (om_Name a) merge_patch_type (metadata_patch (identity_members (pt_opts p) a @ ?xs)) [] s = (None, s')"
      "metadata s' (om_Name a) = Some m'"
      "\<And>k. k \<noteq> ''resourceVersion'' \<Longrightarrow> map_of m' k = (if k \<in> fst ` set ?xs
         then map_of (merge_members m (identity_members (pt_opts p) a @ ?xs)) k else map_of m k)"
      by auto
    have lookup: "map_of (identity_members (pt_opts p) a @ ?xs) ''labels'' = (if ?lp = [] then None else Some (map_patch_json ?lp))"
      "map_of (identity_members (pt_opts p) a @ ?xs) ''annotations'' = (if ?ap = [] then None else Some (map_patch_json ?ap))"
      by (auto simp: identity_members_def)
    have "map_patch_json q \<noteq> JNull" for q by (simp add: map_patch_json_def)
    then have fields: "map_of m' ''labels'' = (if ?lp = [] then map_of m ''labels'' else Some (string_map L'))"
      "map_of m' ''annotations'' = (if ?ap = [] then map_of m ''annotations'' else Some (string_map A'))"
      using L'(3) A'(3) s'(3) [of "''labels''"] s'(3) [of "''annotations''"]
      unfolding map_of_merge_members [OF wf] lookup by (auto split: if_splits)
    have "PatchLabelAnnotations p (Inr a) new old s = ((True, None), s')"
      using False s'(1) by (auto simp: PatchLabelAnnotations_def Let_def assms(2))
    moreover have "map_field m' ''labels'' (if ?lp = [] then L else L')"
      "map_field m' ''annotations'' (if ?ap = [] then A else A')"
      using fields assms(8,9) L'(1) A'(1) by (auto simp: map_field_def)
    moreover have "map_merged (lm_Labels new) (lm_Labels old) L (if ?lp = [] then L else L')"
      "map_merged (lm_Annotations new) (lm_Annotations old) A (if ?ap = [] then A else A')"
      using L'(2) A'(2) mapPatch_empty [OF assms(4,5) _ assms(8)] mapPatch_empty [OF assms(6,7) _ assms(9)] by auto
    ultimately show ?thesis
      using s'(2,3) False
      by (intro exI [of _ s'] exI [of _ m'] exI [of _ "if ?lp = [] then L else L'"] exI [of _ "if ?ap = [] then A else A'"])
        (auto split: if_splits)
  qed
qed

end

section \<open>A server of JSON objects\<close>

text \<open>The objects by name, and the next resource version.\<close>

type_synonym json_store = "(string, json) gomap \<times> nat"

definition metadata_of :: "json \<Rightarrow> (string \<times> json) list" where
  "metadata_of obj = json_members (case map_of (json_members obj) ''metadata'' of Some m \<Rightarrow> m | None \<Rightarrow> JNull)"

definition json_metadata :: "json_store \<Rightarrow> string \<Rightarrow> (string \<times> json) list option" where
  "json_metadata s n = map_option metadata_of (map_of (fst s) n)"

definition set_version :: "nat \<Rightarrow> json \<Rightarrow> json" where
  "set_version n obj = JObject (AList.update ''metadata''
     (JObject (AList.update ''resourceVersion'' (JString (show_nat n)) (metadata_of obj))) (json_members obj))"

definition json_patch :: "json_store patch_client" where
  "json_patch name pt patch subresources s =
     (case map_of (fst s) name of
        None \<Rightarrow> (Some (StatusError NotFound), s)
      | Some obj \<Rightarrow>
          if pt \<noteq> merge_patch_type then (Some (StatusError BadRequest), s)
          else if \<not> up_to_date (metadata_of obj) (metadata_of patch) then (Some (StatusError (OtherReason ''Conflict'')), s)
          else (None, (AList.update name (set_version (snd s) (merge_json obj patch)) (fst s), snd s + 1)))"

lemma metadata_of_patch [simp]: "metadata_of (metadata_patch ms) = ms"
  by (simp add: metadata_of_def metadata_patch_def json_members_def)

lemma metadata_of_set_version:
  "metadata_of (set_version n obj) = AList.update ''resourceVersion'' (JString (show_nat n)) (metadata_of obj)"
  by (simp add: metadata_of_def set_version_def json_members_def)

lemma metadata_of_merge: "metadata_of (merge_json obj (metadata_patch ms)) = merge_members (metadata_of obj) ms"
  by (simp add: metadata_patch_def metadata_of_def json_members_def)

interpretation json_server: patch_server json_patch json_metadata
proof
  fix s :: json_store and n m ms
  assume m: "json_metadata s n = Some m"
  then obtain obj where obj: "map_of (fst s) n = Some obj" "m = metadata_of obj" by (auto simp: json_metadata_def)
  show "\<not> up_to_date m ms \<Longrightarrow>
      json_patch n merge_patch_type (metadata_patch ms) [] s = (Some (StatusError (OtherReason ''Conflict'')), s)"
    by (simp add: json_patch_def obj)
  show "\<exists>s' m'. json_patch n merge_patch_type (metadata_patch ms) [] s = (None, s') \<and> json_metadata s' n = Some m' \<and>
      (\<forall>k. k \<noteq> ''resourceVersion'' \<longrightarrow> map_of m' k = map_of (merge_members m ms) k)" if "up_to_date m ms"
    using that by (simp add: json_patch_def obj json_metadata_def metadata_of_set_version metadata_of_merge)
qed (auto simp: json_metadata_def json_patch_def)

text \<open>
  C31. Finalizers are added and removed as asked: nothing is sent if there is nothing to change;
  otherwise the object has its old finalizers with the missing ones added, or without those to remove,
  and nothing else of its metadata changes but the resource version; and if the object has changed
  since it was read, the patch is rejected. With \<open>IgnoreResourceVersion\<close> that check is off and the
  finalizers of the server are replaced by those computed from the object that was read, so that a
  finalizer which was added in between is lost.
\<close>

theorem finalizers_patched:
  assumes "json_metadata s (om_Name a) = Some m" "pt_client p = json_patch"
  shows "(case AddFinalizer p (Inr a) fs s of ((r, e), s') \<Rightarrow>
      let added = filter (\<lambda>f. f \<notin> set (om_Finalizers a)) fs in
      (r \<longleftrightarrow> added \<noteq> []) \<and>
      (if added = [] then e = None \<and> s' = s
       else if read_current (pt_opts p) a m
       then e = None \<and> finalizers_after json_metadata s' (om_Name a) m (om_Finalizers a @ added)
       else e \<noteq> None \<and> s' = s)) \<and>
    (case RemoveFinalizer p (Inr a) fs s of (e, s') \<Rightarrow>
      let kept = filter (\<lambda>f. f \<notin> set fs) (om_Finalizers a) in
      if kept = om_Finalizers a then e = None \<and> s' = s
      else if read_current (pt_opts p) a m then e = None \<and> finalizers_after json_metadata s' (om_Name a) m kept
      else e \<noteq> None \<and> s' = s)"
  by (intro conjI json_server.AddFinalizer_effect [OF assms] json_server.RemoveFinalizer_effect [OF assms])

text \<open>Here a finalizer of another controller is lost.\<close>

definition stale_reader :: object_meta where
  "stale_reader = \<lparr>om_Name = ''x'', om_UID = ''u'', om_ResourceVersion = ''1'', om_Finalizers = []\<rparr>"

definition guarded_object :: json_store where
  "guarded_object = ([(''x'', JObject [(''metadata'', JObject [(''uid'', JString ''u''), (''resourceVersion'', JString ''2''),
     (''finalizers'', JArray [JString ''other''])])])], 3)"

definition careless :: "json_store patcher" where
  "careless = WithOptions \<lparr>po_IgnoreResourceVersion = True\<rparr> (NewPatcher json_patch)"

theorem finalizers_patched_witness:
  "\<exists>s'. AddFinalizer careless (Inr stale_reader) [''mine''] guarded_object = ((True, None), s') \<and>
     (\<exists>m'. json_metadata s' ''x'' = Some m' \<and> finalizers_of m' [''mine''])"
proof -
  obtain m where m: "json_metadata guarded_object (om_Name stale_reader) = Some m" "map_of m ''uid'' = Some (JString ''u'')"
    by (simp add: json_metadata_def guarded_object_def stale_reader_def metadata_of_def json_members_def)
  have c: "pt_client careless = json_patch" by (simp add: careless_def WithOptions_def NewPatcher_def)
  have cur: "read_current (pt_opts careless) stale_reader m"
    using m(2) by (simp add: read_current_def up_to_date_def identity_members_def careless_def WithOptions_def stale_reader_def)
  have f: "om_Finalizers stale_reader = []" "om_Name stale_reader = ''x''" by (simp_all add: stale_reader_def)
  obtain r e s' where r: "AddFinalizer careless (Inr stale_reader) [''mine''] guarded_object = ((r, e), s')"
    by (metis surj_pair)
  with finalizers_patched [OF m(1) c, of "[''mine'']"] cur f show ?thesis
    by (intro exI [of _ s']) (auto simp: finalizers_after_def)
qed

text \<open>
  C24. A patch of labels and annotations is a three-way merge: on the server exactly the entries in
  which the new and the old object differ become those of the new object, deletions included; every
  other label or annotation that the server has by then is kept, and so is all other metadata but the
  resource version. Whether anything differs is what is returned.
\<close>

theorem labels_and_annotations_merged:
  assumes "json_metadata s (om_Name a) = Some m" "pt_client p = json_patch" "read_current (pt_opts p) a m"
    and "wf_map (lm_Labels new)" "wf_map (lm_Labels old)" "wf_map (lm_Annotations new)" "wf_map (lm_Annotations old)"
    and "map_field m ''labels'' L" "map_field m ''annotations'' A"
  shows "\<exists>s' m' L' A'. PatchLabelAnnotations p (Inr a) new old s =
      ((mapPatch (lm_Annotations new) (lm_Annotations old) \<noteq> [] \<or> mapPatch (lm_Labels new) (lm_Labels old) \<noteq> [], None), s') \<and>
    json_metadata s' (om_Name a) = Some m' \<and> map_field m' ''labels'' L' \<and> map_field m' ''annotations'' A' \<and>
    map_merged (lm_Labels new) (lm_Labels old) L L' \<and> map_merged (lm_Annotations new) (lm_Annotations old) A A' \<and>
    (\<forall>k. k \<notin> {''labels'', ''annotations'', ''resourceVersion''} \<longrightarrow> map_of m' k = map_of m k)"
  by (rule json_server.PatchLabelAnnotations_effect [OF assms])

definition labelled_object :: json_store where
  "labelled_object = ([(''x'', JObject [(''metadata'', JObject [(''uid'', JString ''u''), (''resourceVersion'', JString ''1''),
     (''labels'', JObject [(''a'', JString ''1''), (''b'', JString ''2''), (''c'', JString ''3'')])])])], 2)"

theorem labels_and_annotations_merged_witness:
  "\<exists>s' m' L'. PatchLabelAnnotations (NewPatcher json_patch) (Inr stale_reader)
       \<lparr>lm_Labels = [(''a'', ''9'')], lm_Annotations = []\<rparr> \<lparr>lm_Labels = [(''a'', ''1''), (''b'', ''2'')], lm_Annotations = []\<rparr>
       labelled_object = ((True, None), s') \<and> json_metadata s' ''x'' = Some m' \<and> map_field m' ''labels'' L' \<and>
     map_of L' ''a'' = Some ''9'' \<and> map_of L' ''b'' = None \<and> map_of L' ''c'' = Some ''3''"
proof -
  let ?new = "\<lparr>lm_Labels = [(''a'', ''9'')], lm_Annotations = []\<rparr>"
  let ?old = "\<lparr>lm_Labels = [(''a'', ''1''), (''b'', ''2'')], lm_Annotations = []\<rparr>"
  let ?L = "[(''a'', ''1''), (''b'', ''2''), (''c'', ''3'')]"
  obtain m where m: "json_metadata labelled_object (om_Name stale_reader) = Some m"
    "read_current (pt_opts (NewPatcher json_patch)) stale_reader m" "map_field m ''labels'' ?L" "map_field m ''annotations'' []"
    by (simp add: json_metadata_def labelled_object_def stale_reader_def metadata_of_def json_members_def read_current_def
        up_to_date_def identity_members_def NewPatcher_def map_field_def string_map_def wf_map_def)
  have n: "om_Name stale_reader = ''x''" by (simp add: stale_reader_def)
  have wf: "wf_map (lm_Labels ?new)" "wf_map (lm_Labels ?old)" "wf_map (lm_Annotations ?new)" "wf_map (lm_Annotations ?old)"
    by (simp_all add: wf_map_def)
  have c: "pt_client (NewPatcher json_patch) = json_patch" by (simp add: NewPatcher_def)
  have p: "mapPatch (lm_Labels ?new) (lm_Labels ?old) \<noteq> []" by (simp add: mapPatch_def)
  from labels_and_annotations_merged [OF m(1) c m(2) wf m(3,4)] p obtain s' m' L' where
    "PatchLabelAnnotations (NewPatcher json_patch) (Inr stale_reader) ?new ?old labelled_object = ((True, None), s')"
    "json_metadata s' ''x'' = Some m'" "map_field m' ''labels'' L'" "map_merged (lm_Labels ?new) (lm_Labels ?old) ?L L'"
    unfolding n by auto
  then show ?thesis by (intro exI [of _ s'] exI [of _ m'] exI [of _ L']) (simp add: map_merged_def)
qed

end
