(* ===== verification/Work_Applier.thy ===== *)
theory Work_Applier
  imports Work_Agent Patcher
begin

text \<open>
  \<^verbatim>\<open>pkg/apis/work/v1/applier\<close>: \<open>WorkApplier\<close> and its cache. The API server behind the
  applier, with the lister on its works, is an interface, the locale \<open>work_server\<close>; it is
  interpreted on a server that keeps works by key, counts resource versions and generations, and
  merges patches. JSON and MD5 are parameters; \<open>'d\<close> are documents and \<open>'p\<close> patches.
\<close>

section \<open>The cache\<close>

record cached_resource =
  cr_resourceHash :: string
  cr_generation :: int

text \<open>By cluster and name.\<close>

type_synonym work_cache_map = "(string \<times> string, cached_resource) gomap"

definition work_key :: "manifest_work \<Rightarrow> string \<times> string" where
  "work_key w = (mw_Namespace w, mw_Name w)"

definition updateCache ::
  "(manifest_work \<Rightarrow> string) \<Rightarrow> manifest_work option \<Rightarrow> manifest_work option \<Rightarrow> work_cache_map \<Rightarrow> work_cache_map" where
  "updateCache hash required existing cache =
     (case (required, existing) of
        (Some r, Some e) \<Rightarrow>
          AList.update (work_key r) \<lparr>cr_resourceHash = hash r, cr_generation = mw_Generation e\<rparr> cache
      | _ \<Rightarrow> cache)"

definition removeCache :: "string \<Rightarrow> string \<Rightarrow> work_cache_map \<Rightarrow> work_cache_map" where
  "removeCache name cluster cache = AList.delete (cluster, name) cache"

definition safeToSkipApply ::
  "(manifest_work \<Rightarrow> string) \<Rightarrow> manifest_work option \<Rightarrow> manifest_work option \<Rightarrow> work_cache_map \<Rightarrow> bool" where
  "safeToSkipApply hash required existing cache =
     (case (required, existing) of
        (Some r, Some e) \<Rightarrow>
          (case map_of cache (work_key r) of
             None \<Rightarrow> False
           | Some cached \<Rightarrow> cr_generation cached = mw_Generation e \<and> cr_resourceHash cached = hash r)
      | _ \<Rightarrow> False)"

section \<open>Comparing works\<close>

definition shouldUpdateMap :: "(string, string) gomap \<Rightarrow> (string, string) gomap \<Rightarrow> bool" where
  "shouldUpdateMap required existing \<longleftrightarrow>
     length required > length existing \<or> list_ex (\<lambda>(key, value). lookup_str existing key \<noteq> value) required"

text \<open>\<open>RemoveNestedField\<close>: nothing happens when the path leaves the objects.\<close>

fun remove_nested :: "string list \<Rightarrow> json \<Rightarrow> json" where
  "remove_nested [] j = j"
| "remove_nested [f] j = (case j of JObject ms \<Rightarrow> JObject (AList.delete f ms) | _ \<Rightarrow> j)"
| "remove_nested (f # g # fs) j =
     (case j of
        JObject ms \<Rightarrow> (case map_of ms f of
            None \<Rightarrow> j | Some j' \<Rightarrow> JObject (AList.update f (remove_nested (g # fs) j') ms))
      | _ \<Rightarrow> j)"

definition mutate_manifest :: "(string \<Rightarrow> json result) \<Rightarrow> (json \<Rightarrow> string result) \<Rightarrow> string \<Rightarrow> string result" where
  "mutate_manifest decode encode raw =
     (case decode raw of
        Inl e \<Rightarrow> Inl e
      | Inr obj \<Rightarrow> encode (remove_nested [''spec'', ''template'', ''metadata'', ''creationTimestamp'']
                          (remove_nested [''metadata'', ''creationTimestamp''] obj)))"

definition mutateWork :: "(string \<Rightarrow> json result) \<Rightarrow> (json \<Rightarrow> string result) \<Rightarrow> manifest_work \<Rightarrow> manifest_work" where
  "mutateWork decode encode work =
     (case map_result (mutate_manifest decode encode) (wsp_Manifests (mw_Spec work)) of
        Inl e \<Rightarrow> work
      | Inr newManifests \<Rightarrow> work\<lparr>mw_Spec := (mw_Spec work)\<lparr>wsp_Manifests := newManifests\<rparr>\<rparr>)"

definition ManifestWorkEqual ::
  "(string \<Rightarrow> json result) \<Rightarrow> (json \<Rightarrow> string result) \<Rightarrow> manifest_work \<Rightarrow> manifest_work \<Rightarrow> bool" where
  "ManifestWorkEqual decode encode new old =
     (let mutatedNewWork = mutateWork decode encode new; mutatedOldWork = mutateWork decode encode old in
      if mw_Spec mutatedNewWork \<noteq> mw_Spec mutatedOldWork then False
      else if shouldUpdateMap (mw_Annotations mutatedNewWork) (mw_Annotations mutatedOldWork) then False
      else if shouldUpdateMap (mw_Labels mutatedNewWork) (mw_Labels mutatedOldWork) then False
      else mw_OwnerReferences mutatedNewWork = mw_OwnerReferences mutatedOldWork)"

section \<open>The applier\<close>

text \<open>What the constructor takes from the client and the lister.\<close>

record ('s, 'p) work_api =
  wa_getWork :: "'s \<Rightarrow> string \<Rightarrow> string \<Rightarrow> manifest_work result"
  wa_deleteWork :: "string \<Rightarrow> string \<Rightarrow> 's \<Rightarrow> error option \<times> 's"
  wa_patchWork :: "string \<Rightarrow> string \<Rightarrow> string \<Rightarrow> 'p \<Rightarrow> 's \<Rightarrow> manifest_work result \<times> 's"
  wa_createWork :: "manifest_work \<Rightarrow> 's \<Rightarrow> manifest_work result \<times> 's"

record ('d, 'p) applier_env =
  ae_hash :: "manifest_work \<Rightarrow> string"
  ae_decode :: "string \<Rightarrow> json result"
  ae_encode :: "json \<Rightarrow> string result"
  ae_Marshal :: "manifest_work \<Rightarrow> 'd result"
  ae_CreateMergePatch :: "'d \<Rightarrow> 'd \<Rightarrow> 'p result"

definition old_document :: "manifest_work \<Rightarrow> manifest_work" where
  "old_document existingWork = empty_work\<lparr>mw_Labels := mw_Labels existingWork, mw_Annotations := mw_Annotations existingWork,
     mw_OwnerReferences := mw_OwnerReferences existingWork, mw_Spec := mw_Spec existingWork\<rparr>"

definition new_document :: "manifest_work \<Rightarrow> manifest_work \<Rightarrow> manifest_work" where
  "new_document work existingWork = empty_work\<lparr>mw_UID := mw_UID existingWork, mw_ResourceVersion := mw_ResourceVersion existingWork,
     mw_Labels := mw_Labels work, mw_Annotations := mw_Annotations work,
     mw_OwnerReferences := mw_OwnerReferences work, mw_Spec := mw_Spec work\<rparr>"

definition create_patch :: "('d, 'p) applier_env \<Rightarrow> manifest_work \<Rightarrow> manifest_work \<Rightarrow> 'p result" where
  "create_patch env work existingWork =
     (case ae_Marshal env (old_document existingWork) of
        Inl e \<Rightarrow> Inl e
      | Inr oldData \<Rightarrow>
          (case ae_Marshal env (new_document work existingWork) of
             Inl e \<Rightarrow> Inl e
           | Inr newData \<Rightarrow>
               (case ae_CreateMergePatch env oldData newData of
                  Inl e \<Rightarrow> Inl (Wrapf ''failed to create patch for addon'' e)
                | Inr patchBytes \<Rightarrow> Inr patchBytes)))"

text \<open>The work and the error that are returned, the cache and the server.\<close>

definition work_Apply ::
  "('d, 'p) applier_env \<Rightarrow> ('s, 'p) work_api \<Rightarrow> manifest_work \<Rightarrow> work_cache_map \<Rightarrow> 's \<Rightarrow>
   (manifest_work option \<times> error option) \<times> work_cache_map \<times> 's" where
  "work_Apply env api work cache s =
     (case wa_getWork api s (mw_Namespace work) (mw_Name work) of
        Inl err \<Rightarrow>
          if is_not_found err then
            (case wa_createWork api work s of
               (Inl e, s') \<Rightarrow>
                 if is_already_exists e then ((Some work, None), cache, s') else ((None, Some e), cache, s')
             | (Inr created, s') \<Rightarrow>
                 ((Some created, None), updateCache (ae_hash env) (Some work) (Some created) cache, s'))
          else ((None, Some err), cache, s)
      | Inr existingWork \<Rightarrow>
          if safeToSkipApply (ae_hash env) (Some work) (Some existingWork) cache then ((Some existingWork, None), cache, s)
          else if ManifestWorkEqual (ae_decode env) (ae_encode env) work existingWork
          then ((Some existingWork, None), cache, s)
          else (case create_patch env work existingWork of
              Inl e \<Rightarrow> ((Some existingWork, Some e), cache, s)
            | Inr patchBytes \<Rightarrow>
                (case wa_patchWork api (mw_Namespace existingWork) (mw_Name existingWork) MergePatchType patchBytes s of
                   (Inr updated, s') \<Rightarrow>
                     ((Some updated, None), updateCache (ae_hash env) (Some work) (Some existingWork) cache, s')
                 | (Inl e, s') \<Rightarrow> ((None, Some e), cache, s'))))"

definition work_Delete ::
  "('s, 'p) work_api \<Rightarrow> string \<Rightarrow> string \<Rightarrow> work_cache_map \<Rightarrow> 's \<Rightarrow> error option \<times> work_cache_map \<times> 's" where
  "work_Delete api namespace name cache s =
     (case wa_deleteWork api namespace name s of
        (Some e, s') \<Rightarrow> if is_not_found e then (None, cache, s') else (Some e, cache, s')
      | (None, s') \<Rightarrow> (None, removeCache name namespace cache, s'))"

section \<open>The server as an interface\<close>

text \<open>A work of the server has what was asked for, with maps in any order.\<close>

definition content :: "manifest_work \<Rightarrow> manifest_work \<Rightarrow> bool" where
  "content w w' \<longleftrightarrow> mw_Spec w' = mw_Spec w \<and> mw_OwnerReferences w' = mw_OwnerReferences w \<and>
     wf_map (mw_Labels w') \<and> map_of (mw_Labels w') = map_of (mw_Labels w) \<and>
     wf_map (mw_Annotations w') \<and> map_of (mw_Annotations w') = map_of (mw_Annotations w)"

definition wf_work :: "manifest_work \<Rightarrow> bool" where
  "wf_work w \<longleftrightarrow> wf_map (mw_Labels w) \<and> wf_map (mw_Annotations w)"

lemma shouldUpdateMap_same:
  assumes "wf_map m" "wf_map m'" "map_of m' = map_of m"
  shows "\<not> shouldUpdateMap m m'"
proof -
  have "length m = card (dom (map_of m))" if "wf_map m" for m :: "(string, string) gomap"
    using distinct_card [of "map fst m"] that by (simp add: wf_map_def dom_map_of_conv_image_fst)
  then have "length m = length m'" using assms by simp
  moreover have "lookup_str m' k = v" if "(k, v) \<in> set m" for k v
    using that assms by (auto simp: lookup_str_def wf_map_of_iff)
  ultimately show ?thesis by (auto simp: shouldUpdateMap_def list_ex_iff)
qed

lemma mutateWork_frame [simp]:
  "mw_Labels (mutateWork decode encode w) = mw_Labels w" "mw_Annotations (mutateWork decode encode w) = mw_Annotations w"
  "mw_OwnerReferences (mutateWork decode encode w) = mw_OwnerReferences w"
  by (simp_all add: mutateWork_def split: sum.split)

lemma mutateWork_spec: "mw_Spec w' = mw_Spec w \<Longrightarrow> mw_Spec (mutateWork decode encode w') = mw_Spec (mutateWork decode encode w)"
  by (simp add: mutateWork_def split: sum.split)

lemma content_equal:
  assumes "content w w'" "wf_work w"
  shows "ManifestWorkEqual decode encode w w'"
proof -
  have "\<not> shouldUpdateMap (mw_Labels w) (mw_Labels w')" "\<not> shouldUpdateMap (mw_Annotations w) (mw_Annotations w')"
    using assms by (intro shouldUpdateMap_same; simp add: content_def wf_work_def)+
  moreover have "mw_Spec (mutateWork decode encode w') = mw_Spec (mutateWork decode encode w)"
    using assms(1) by (intro mutateWork_spec) (simp add: content_def)
  ultimately show ?thesis using assms(1) by (simp add: ManifestWorkEqual_def Let_def content_def)
qed

locale work_server =
  fixes inv :: "'s \<Rightarrow> bool" and api :: "('s, 'p) work_api" and env :: "('d, 'p) applier_env"
  assumes get_error: "wa_getWork api s ns n = Inl e \<Longrightarrow> is_not_found e"
    and get_named: "inv s \<Longrightarrow> wa_getWork api s ns n = Inr w \<Longrightarrow> mw_Namespace w = ns \<and> mw_Name w = n"
    and create_new: "inv s \<Longrightarrow> wf_work w \<Longrightarrow> wa_getWork api s (mw_Namespace w) (mw_Name w) = Inl e \<Longrightarrow>
      \<exists>w' s'. wa_createWork api w s = (Inr w', s') \<and> inv s' \<and> content w w' \<and>
        wa_getWork api s' (mw_Namespace w) (mw_Name w) = Inr w'"
    and patch_current: "inv s \<Longrightarrow> wf_work w \<Longrightarrow> wa_getWork api s ns n = Inr old \<Longrightarrow>
      \<exists>p w' s'. create_patch env w old = Inr p \<and> wa_patchWork api ns n MergePatchType p s = (Inr w', s') \<and> inv s' \<and>
        content w w' \<and> wa_getWork api s' ns n = Inr w'"

context work_server
begin

lemma Apply_reaches:
  assumes "inv s" "wf_work w"
    and "\<And>old. wa_getWork api s (mw_Namespace w) (mw_Name w) = Inr old \<Longrightarrow>
      safeToSkipApply (ae_hash env) (Some w) (Some old) cache \<Longrightarrow> ManifestWorkEqual (ae_decode env) (ae_encode env) w old"
  shows "\<exists>w' cache' s'. work_Apply env api w cache s = ((Some w', None), cache', s') \<and> inv s' \<and>
    wa_getWork api s' (mw_Namespace w) (mw_Name w) = Inr w' \<and> ManifestWorkEqual (ae_decode env) (ae_encode env) w w'"
proof (cases "wa_getWork api s (mw_Namespace w) (mw_Name w)")
  case (Inl e)
  obtain w' s' where "wa_createWork api w s = (Inr w', s')" "inv s'" "content w w'"
    "wa_getWork api s' (mw_Namespace w) (mw_Name w) = Inr w'"
    using create_new [OF assms(1,2) Inl] by blast
  then show ?thesis using Inl get_error [OF Inl] content_equal assms(2) by (auto simp: work_Apply_def)
next
  case (Inr old)
  show ?thesis
  proof (cases "safeToSkipApply (ae_hash env) (Some w) (Some old) cache \<or> ManifestWorkEqual (ae_decode env) (ae_encode env) w old")
    case True
    then show ?thesis using Inr assms(1,3) by (auto simp: work_Apply_def)
  next
    case False
    obtain p w' s' where "create_patch env w old = Inr p"
      "wa_patchWork api (mw_Namespace w) (mw_Name w) MergePatchType p s = (Inr w', s')" "inv s'" "content w w'"
      "wa_getWork api s' (mw_Namespace w) (mw_Name w) = Inr w'"
      using patch_current [OF assms(1,2) Inr] by blast
    then show ?thesis
      using False Inr get_named [OF assms(1) Inr] content_equal assms(2) by (auto simp: work_Apply_def)
  qed
qed

lemma Apply_quiet:
  assumes "wa_getWork api s (mw_Namespace w) (mw_Name w) = Inr w'" "ManifestWorkEqual (ae_decode env) (ae_encode env) w w'"
  shows "work_Apply env api w cache s = ((Some w', None), cache, s)"
  using assms by (simp add: work_Apply_def)

end

section \<open>A server of works\<close>

record api_server =
  as_works :: "(string \<times> string, manifest_work) gomap"
  as_version :: nat

text \<open>A merge patch of a work, field by field.\<close>

record work_patch =
  wp_UID :: string
  wp_ResourceVersion :: string
  wp_Labels :: map_patch
  wp_Annotations :: map_patch
  wp_OwnerReferences :: "json list option"
  wp_Spec :: "work_spec option"

definition work_merge_patch :: "manifest_work \<Rightarrow> manifest_work \<Rightarrow> work_patch result" where
  "work_merge_patch old new = Inr \<lparr>wp_UID = mw_UID new, wp_ResourceVersion = mw_ResourceVersion new,
     wp_Labels = mapPatch (mw_Labels new) (mw_Labels old), wp_Annotations = mapPatch (mw_Annotations new) (mw_Annotations old),
     wp_OwnerReferences = (if mw_OwnerReferences new = mw_OwnerReferences old then None else Some (mw_OwnerReferences new)),
     wp_Spec = (if mw_Spec new = mw_Spec old then None else Some (mw_Spec new))\<rparr>"

definition server_get :: "api_server \<Rightarrow> string \<Rightarrow> string \<Rightarrow> manifest_work result" where
  "server_get s ns n = (case map_of (as_works s) (ns, n) of None \<Rightarrow> Inl (StatusError NotFound) | Some w \<Rightarrow> Inr w)"

definition server_put :: "manifest_work \<Rightarrow> api_server \<Rightarrow> manifest_work result \<times> api_server" where
  "server_put w s = (let w' = w\<lparr>mw_ResourceVersion := show_nat (as_version s)\<rparr> in
     (Inr w', s\<lparr>as_works := AList.update (work_key w) w' (as_works s), as_version := as_version s + 1\<rparr>))"

definition server_create :: "manifest_work \<Rightarrow> api_server \<Rightarrow> manifest_work result \<times> api_server" where
  "server_create w s =
     (if map_of (as_works s) (work_key w) \<noteq> None then (Inl (StatusError AlreadyExists), s)
      else server_put (w\<lparr>mw_UID := show_nat (as_version s), mw_Generation := 1\<rparr>) s)"

definition merge_work :: "work_patch \<Rightarrow> manifest_work \<Rightarrow> manifest_work" where
  "merge_work p w =
     w\<lparr>mw_Labels := apply_map_patch (wp_Labels p) (mw_Labels w) (\<lambda>v. v),
       mw_Annotations := apply_map_patch (wp_Annotations p) (mw_Annotations w) (\<lambda>v. v),
       mw_OwnerReferences := (case wp_OwnerReferences p of None \<Rightarrow> mw_OwnerReferences w | Some r \<Rightarrow> r),
       mw_Spec := (case wp_Spec p of None \<Rightarrow> mw_Spec w | Some x \<Rightarrow> x),
       mw_Generation := mw_Generation w + (if wp_Spec p = None then 0 else 1)\<rparr>"

definition server_patch :: "string \<Rightarrow> string \<Rightarrow> string \<Rightarrow> work_patch \<Rightarrow> api_server \<Rightarrow> manifest_work result \<times> api_server" where
  "server_patch ns n pt p s =
     (case map_of (as_works s) (ns, n) of
        None \<Rightarrow> (Inl (StatusError NotFound), s)
      | Some w \<Rightarrow>
          if pt \<noteq> MergePatchType then (Inl (StatusError BadRequest), s)
          else if wp_UID p \<noteq> mw_UID w \<or> wp_ResourceVersion p \<noteq> mw_ResourceVersion w
          then (Inl (StatusError (OtherReason ''Conflict'')), s)
          else server_put (merge_work p w) s)"

definition server_delete :: "string \<Rightarrow> string \<Rightarrow> api_server \<Rightarrow> error option \<times> api_server" where
  "server_delete ns n s =
     (if map_of (as_works s) (ns, n) = None then (Some (StatusError NotFound), s)
      else (None, s\<lparr>as_works := AList.delete (ns, n) (as_works s)\<rparr>))"

definition server_api :: "(api_server, work_patch) work_api" where
  "server_api = \<lparr>wa_getWork = server_get, wa_deleteWork = server_delete, wa_patchWork = server_patch, wa_createWork = server_create\<rparr>"

definition server_inv :: "api_server \<Rightarrow> bool" where
  "server_inv s \<longleftrightarrow> (\<forall>k w. map_of (as_works s) k = Some w \<longrightarrow> k = work_key w \<and> wf_work w)"

text \<open>What an applier's environment is for this server: documents are works.\<close>

definition typed_env :: "(manifest_work \<Rightarrow> string) \<Rightarrow> (string \<Rightarrow> json result) \<Rightarrow> (json \<Rightarrow> string result) \<Rightarrow>
   (manifest_work, work_patch) applier_env" where
  "typed_env hash decode encode = \<lparr>ae_hash = hash, ae_decode = decode, ae_encode = encode, ae_Marshal = Inr,
     ae_CreateMergePatch = work_merge_patch\<rparr>"

lemma server_put_get:
  "server_put w s = (r, s') \<Longrightarrow> \<exists>w'. r = Inr w' \<and> w' = w\<lparr>mw_ResourceVersion := show_nat (as_version s)\<rparr> \<and>
     map_of (as_works s') = (map_of (as_works s))(work_key w \<mapsto> w')"
  by (auto simp: server_put_def Let_def)

lemma merged_content:
  assumes "wf_work w" "wf_work old" "work_merge_patch (old_document old) (new_document w old) = Inr p"
  shows "content w (merge_work p old)"
proof -
  have "map_of (apply_map_patch (mapPatch new m) m (\<lambda>v. v)) k = map_of new k" if "wf_map new" "wf_map m" for new m k
    using map_of_apply_map_patch [OF wf_mapPatch [OF that], of m "\<lambda>v. v" k] map_of_mapPatch [OF that, of k]
    by (auto split: option.splits if_splits)
  then show ?thesis
    using assms wf_apply_map_patch
    by (auto simp: work_merge_patch_def old_document_def new_document_def content_def merge_work_def wf_work_def fun_eq_iff)
qed

interpretation works: work_server server_inv server_api "typed_env hash decode encode"
proof
  fix s ns n e
  show "wa_getWork server_api s ns n = Inl e \<Longrightarrow> is_not_found e"
    by (auto simp: server_api_def server_get_def split: option.splits)
next
  fix s ns n w
  show "server_inv s \<Longrightarrow> wa_getWork server_api s ns n = Inr w \<Longrightarrow> mw_Namespace w = ns \<and> mw_Name w = n"
    by (auto simp: server_api_def server_get_def server_inv_def work_key_def split: option.splits)
next
  fix s w e
  assume inv: "server_inv s" "wf_work w" and "wa_getWork server_api s (mw_Namespace w) (mw_Name w) = Inl e"
  then have none: "map_of (as_works s) (work_key w) = None"
    by (auto simp: server_api_def server_get_def work_key_def split: option.splits)
  let ?w = "w\<lparr>mw_UID := show_nat (as_version s), mw_Generation := 1\<rparr>"
  obtain w' s' where put: "server_put ?w s = (Inr w', s')" "w' = ?w\<lparr>mw_ResourceVersion := show_nat (as_version s)\<rparr>"
    "map_of (as_works s') = (map_of (as_works s))(work_key ?w \<mapsto> w')"
    using server_put_get by (metis surj_pair)
  have "work_key w' = work_key w" "work_key ?w = work_key w" "content w w'" "wf_work w'"
    using inv(2) by (simp_all add: put(2) work_key_def content_def wf_work_def)
  moreover from this have "server_inv s'" using inv(1) put(3) by (auto simp: server_inv_def)
  ultimately show "\<exists>w' s'. wa_createWork server_api w s = (Inr w', s') \<and> server_inv s' \<and> content w w' \<and>
        wa_getWork server_api s' (mw_Namespace w) (mw_Name w) = Inr w'"
    using put none by (auto simp: server_api_def server_create_def server_get_def work_key_def)
next
  fix s w ns n old
  assume inv: "server_inv s" "wf_work w" and "wa_getWork server_api s ns n = Inr old"
  then have old: "map_of (as_works s) (ns, n) = Some old" "wf_work old" "work_key old = (ns, n)"
    by (auto simp: server_api_def server_get_def server_inv_def split: option.splits)
  obtain p where p: "work_merge_patch (old_document old) (new_document w old) = Inr p"
    "wp_UID p = mw_UID old" "wp_ResourceVersion p = mw_ResourceVersion old"
    by (simp add: work_merge_patch_def new_document_def)
  obtain w' s' where put: "server_put (merge_work p old) s = (Inr w', s')"
    "w' = (merge_work p old)\<lparr>mw_ResourceVersion := show_nat (as_version s)\<rparr>"
    "map_of (as_works s') = (map_of (as_works s))(work_key (merge_work p old) \<mapsto> w')"
    using server_put_get by (metis surj_pair)
  have key: "work_key (merge_work p old) = (ns, n)" "work_key w' = (ns, n)"
    using old(3) by (simp_all add: put(2) merge_work_def work_key_def)
  have "content w w'" using merged_content [OF inv(2) old(2) p(1)] by (simp add: put(2) content_def)
  moreover from this have "server_inv s'" using inv(1) put(3) key by (auto simp: server_inv_def content_def wf_work_def)
  ultimately show "\<exists>p w' s'. create_patch (typed_env hash decode encode) w old = Inr p \<and>
      wa_patchWork server_api ns n MergePatchType p s = (Inr w', s') \<and> server_inv s' \<and> content w w' \<and>
      wa_getWork server_api s' ns n = Inr w'"
    using p put(1,3) key old(1)
    by (intro exI [of _ p] exI [of _ w'] exI [of _ s'])
      (simp add: create_patch_def typed_env_def server_api_def server_patch_def server_get_def)
qed

section \<open>What applying a work achieves\<close>


definition wanted_work :: manifest_work where
  "wanted_work = empty_work\<lparr>mw_Name := ''w'', mw_Namespace := ''cluster1'', mw_Labels := [(''a'', ''1'')],
     mw_Spec := empty_spec\<lparr>wsp_Manifests := [''m1'']\<rparr>\<rparr>"

definition foreign_work :: manifest_work where
  "foreign_work = empty_work\<lparr>mw_UID := ''9'', mw_Name := ''w'', mw_Namespace := ''cluster1'', mw_ResourceVersion := ''9'',
     mw_Generation := 1, mw_Labels := [(''b'', ''2'')], mw_Spec := empty_spec\<lparr>wsp_Manifests := [''m2'']\<rparr>\<rparr>"

definition foreign_server :: api_server where
  "foreign_server = \<lparr>as_works = [((''cluster1'', ''w''), foreign_work)], as_version = 10\<rparr>"

abbreviation no_decoder :: "string \<Rightarrow> json result" where
  "no_decoder \<equiv> \<lambda>_. Inl (Errorf ''no decoder'')"

abbreviation no_encoder :: "json \<Rightarrow> string result" where
  "no_encoder \<equiv> \<lambda>_. Inl (Errorf ''no encoder'')"

lemma foreign_facts:
  "server_inv foreign_server" "wf_work wanted_work" "\<not> ManifestWorkEqual no_decoder no_encoder wanted_work foreign_work"
  by (simp_all add: server_inv_def foreign_server_def foreign_work_def wanted_work_def work_key_def wf_work_def wf_map_def
      ManifestWorkEqual_def Let_def mutateWork_def mutate_manifest_def empty_work_def empty_spec_def)


text \<open>
  C39. The cache may skip a work that differs. After a work was created by \<open>Apply\<close>, every later
  \<open>Apply\<close> of it returns what the server has and sends nothing as long as that has the same
  generation: changes of labels and annotations, which do not count as a generation, stay, and so does
  another work that was created under the same name in between. A \<open>Delete\<close> that finds no work does
  not clear the cache either.
\<close>

theorem apply_skips_drift:
  assumes "wa_getWork api s (mw_Namespace w) (mw_Name w) = Inl e" "is_not_found e"
    and "wa_createWork api w s = (Inr w', s1)" "work_Apply env api w cache s = (r, cache', s')"
  shows "r = (Some w', None) \<and> s' = s1 \<and>
    (\<forall>s2 w2 cache2. map_of cache2 (work_key w) = map_of cache' (work_key w) \<and>
       wa_getWork api s2 (mw_Namespace w) (mw_Name w) = Inr w2 \<and> mw_Generation w2 = mw_Generation w' \<longrightarrow>
       work_Apply env api w cache2 s2 = ((Some w2, None), cache2, s2)) \<and>
    (\<forall>s2 s3 e. wa_deleteWork api (mw_Namespace w) (mw_Name w) s2 = (Some e, s3) \<and> is_not_found e \<longrightarrow>
       work_Delete api (mw_Namespace w) (mw_Name w) cache' s2 = (None, cache', s3))"
proof -
  have r: "r = (Some w', None)" "s' = s1" "cache' = updateCache (ae_hash env) (Some w) (Some w') cache"
    using assms by (simp_all add: work_Apply_def)
  have "map_of cache' (work_key w) = Some \<lparr>cr_resourceHash = ae_hash env w, cr_generation = mw_Generation w'\<rparr>"
    by (simp add: r(3) updateCache_def)
  then show ?thesis
    by (auto simp: r(1,2) work_Apply_def safeToSkipApply_def work_Delete_def)
qed

theorem apply_skips_drift_witness:
  "\<exists>cache'. work_Delete server_api ''cluster1'' ''w'' cache' \<lparr>as_works = [], as_version = 0\<rparr> =
       (None, cache', \<lparr>as_works = [], as_version = 0\<rparr>) \<and>
     work_Apply (typed_env mw_Name no_decoder no_encoder) server_api wanted_work cache' foreign_server =
       ((Some foreign_work, None), cache', foreign_server) \<and>
     \<not> ManifestWorkEqual no_decoder no_encoder wanted_work foreign_work"
proof -
  let ?s = "\<lparr>as_works = [], as_version = 0\<rparr>" and ?env = "typed_env mw_Name no_decoder no_encoder"
  have key: "mw_Namespace wanted_work = ''cluster1''" "mw_Name wanted_work = ''w''" by (simp_all add: wanted_work_def)
  have get: "wa_getWork server_api ?s (mw_Namespace wanted_work) (mw_Name wanted_work) = Inl (StatusError NotFound)"
    by (simp add: server_api_def server_get_def)
  obtain w' s1 where create: "wa_createWork server_api wanted_work ?s = (Inr w', s1)" "mw_Generation w' = 1"
    by (simp add: server_api_def server_create_def server_put_def Let_def)
  obtain r cache' s' where r: "work_Apply ?env server_api wanted_work [] ?s = (r, cache', s')" by (metis prod_cases3)
  have foreign: "wa_getWork server_api foreign_server ''cluster1'' ''w'' = Inr foreign_work"
    "mw_Generation foreign_work = mw_Generation w'"
    by (simp_all add: server_api_def server_get_def foreign_server_def foreign_work_def create(2))
  have none: "wa_deleteWork server_api ''cluster1'' ''w'' ?s = (Some (StatusError NotFound), ?s)"
    by (simp add: server_api_def server_delete_def)
  from apply_skips_drift [OF get _ create(1) r] foreign none foreign_facts(3) show ?thesis
    unfolding key by (intro exI [of _ cache']) simp
qed

section \<open>An applier with a lister\<close>

text \<open>
  The constructor reads works from a lister, an informer's cache that may be behind the server, and
  writes them with a client; the state is the pair of both.
\<close>

record ('s, 'p) typed_work_client =
  tc_Delete :: "string \<Rightarrow> string \<Rightarrow> 's \<Rightarrow> error option \<times> 's"
  tc_Create :: "manifest_work \<Rightarrow> 's \<Rightarrow> manifest_work result \<times> 's"
  tc_Patch :: "string \<Rightarrow> string \<Rightarrow> string \<Rightarrow> 'p \<Rightarrow> 's \<Rightarrow> manifest_work result \<times> 's"

definition newWorkCache :: work_cache_map where
  "newWorkCache = []"

definition NewWorkApplierWithTypedClient ::
  "('s, 'p) typed_work_client \<Rightarrow> ('l \<Rightarrow> string \<Rightarrow> string \<Rightarrow> manifest_work result) \<Rightarrow> ('l \<times> 's, 'p) work_api \<times> work_cache_map" where
  "NewWorkApplierWithTypedClient workClient workLister =
     (\<lparr>wa_getWork = \<lambda>(l, s) namespace name. workLister l namespace name,
       wa_deleteWork = \<lambda>namespace name (l, s). (let (r, s') = tc_Delete workClient namespace name s in (r, (l, s'))),
       wa_patchWork = \<lambda>namespace name pt data (l, s). (let (r, s') = tc_Patch workClient namespace name pt data s in (r, (l, s'))),
       wa_createWork = \<lambda>work (l, s). (let (r, s') = tc_Create workClient work s in (r, (l, s')))\<rparr>,
      newWorkCache)"

definition server_client :: "(api_server, work_patch) typed_work_client" where
  "server_client = \<lparr>tc_Delete = server_delete, tc_Create = server_create, tc_Patch = server_patch\<rparr>"

definition listing_api :: "(work_store \<times> api_server, work_patch) work_api" where
  "listing_api = fst (NewWorkApplierWithTypedClient server_client store_Get)"

text \<open>
  A lister that is behind does no harm, but a success says less: a work that the lister has in an
  old version is not patched, the conflict is returned; for a work that the lister does not have yet,
  \<open>Apply\<close> returns the required work as if it had been applied. In both cases nothing is written.
\<close>

lemma stale_lister:
  assumes "map_of (as_works s) (work_key w) = Some current"
  shows "store_Get l (mw_Namespace w) (mw_Name w) = Inr old \<Longrightarrow> mw_Namespace old = mw_Namespace w \<Longrightarrow> mw_Name old = mw_Name w \<Longrightarrow>
      mw_ResourceVersion old \<noteq> mw_ResourceVersion current \<Longrightarrow>
      \<not> safeToSkipApply hash (Some w) (Some old) cache \<Longrightarrow> \<not> ManifestWorkEqual decode encode w old \<Longrightarrow>
      work_Apply (typed_env hash decode encode) listing_api w cache (l, s) =
        ((None, Some (StatusError (OtherReason ''Conflict''))), cache, (l, s))"
    and "store_Get l (mw_Namespace w) (mw_Name w) = Inl e \<Longrightarrow>
      work_Apply (typed_env hash decode encode) listing_api w cache (l, s) = ((Some w, None), cache, (l, s))"
proof -
  have api: "wa_getWork listing_api (l, s) ns n = store_Get l ns n"
    "wa_patchWork listing_api ns n pt p (l, s) = (let (r, s') = server_patch ns n pt p s in (r, (l, s')))"
    "wa_createWork listing_api w (l, s) = (let (r, s') = server_create w s in (r, (l, s')))" for ns n pt p
    by (simp_all add: listing_api_def NewWorkApplierWithTypedClient_def server_client_def)
  show "work_Apply (typed_env hash decode encode) listing_api w cache (l, s) =
        ((None, Some (StatusError (OtherReason ''Conflict''))), cache, (l, s))"
    if "store_Get l (mw_Namespace w) (mw_Name w) = Inr old" "mw_Namespace old = mw_Namespace w" "mw_Name old = mw_Name w"
      "mw_ResourceVersion old \<noteq> mw_ResourceVersion current"
      "\<not> safeToSkipApply hash (Some w) (Some old) cache" "\<not> ManifestWorkEqual decode encode w old"
    using that assms
    by (simp add: work_Apply_def api typed_env_def create_patch_def work_merge_patch_def new_document_def server_patch_def work_key_def)
  show "work_Apply (typed_env hash decode encode) listing_api w cache (l, s) = ((Some w, None), cache, (l, s))"
    if "store_Get l (mw_Namespace w) (mw_Name w) = Inl e"
  proof -
    have "is_not_found e" using that by (auto simp: store_Get_def split: option.splits)
    then show ?thesis using that assms by (simp add: work_Apply_def api server_create_def)
  qed
qed

end
