(* ===== verification/Work_Builder.thy ===== *)
theory Work_Builder
  imports Work_Api Go_Numbers "HOL-Library.Multiset"
begin

text \<open>
  \<^verbatim>\<open>pkg/apis/work/v1/builder\<close>: spreading objects over manifest works. The order in which Go
  ranges over the map of required manifests is a parameter, as are the encoding of objects, the
  decoding of the manifests of existing works, and the applier, which is not the one of this
  repository but of \<^verbatim>\<open>open-cluster-management.io/api\<close>.
\<close>

section \<open>Objects and keys\<close>

type_synonym manifest_key = "gvk \<times> string \<times> string"
type_synonym manifest_mapper = "(manifest_key, string) gomap"

text \<open>An object: its encoding, its kind, and the namespace and name that its accessor gives.\<close>

record built_object =
  bo_encoded :: "string result"
  bo_gvk :: gvk
  bo_accessor :: "(string \<times> string) result"

definition object_key :: "gvk \<Rightarrow> (string \<times> string) result \<Rightarrow> manifest_key result" where
  "object_key k accessor =
     (if gvk_Kind k = [] \<or> gvk_Version k = [] then Inl (Errorf ''got empty kind/version from object'')
      else case accessor of Inl e \<Rightarrow> Inl e | Inr (ns, n) \<Rightarrow> Inr (k, ns, n))"

definition buildManifest :: "built_object \<Rightarrow> string result" where
  "buildManifest object = (case bo_encoded object of
       Inl e \<Rightarrow> Inl (Errorf ''failed to encode object'') | Inr rawObject \<Rightarrow> Inr rawObject)"

text \<open>\<open>decode\<close> gives the kind and the accessor of a raw manifest.\<close>

definition generateManifestKey ::
  "(string \<Rightarrow> (gvk \<times> (string \<times> string) result) result) \<Rightarrow> string \<Rightarrow> manifest_key result" where
  "generateManifestKey decode manifest =
     (case decode manifest of Inl e \<Rightarrow> Inl e | Inr (k, accessor) \<Rightarrow> object_key k accessor)"

fun required_loop :: "built_object list \<Rightarrow> manifest_mapper \<Rightarrow> manifest_mapper result" where
  "required_loop [] mapper = Inr mapper"
| "required_loop (object # objects) mapper =
     (case buildManifest object of
        Inl e \<Rightarrow> Inl e
      | Inr rawObject \<Rightarrow>
          (case object_key (bo_gvk object) (bo_accessor object) of
             Inl e \<Rightarrow> Inl e
           | Inr key \<Rightarrow> required_loop objects (AList.update key rawObject mapper)))"

definition generateRequiredManifestMapper :: "built_object list \<Rightarrow> manifest_mapper result" where
  "generateRequiredManifestMapper objects = required_loop objects []"

section \<open>The builder\<close>

record work_builder =
  wb_manifestLimit :: int

text \<open>\<open>int(float64(limit) * 0.8)\<close>, which is cut towards zero.\<close>

definition threshold :: "int \<Rightarrow> int" where
  "threshold limit =
     (let t = (\<lambda>l. float_trunc (float_mult (float_of_int l) (round_ratio 4 5)))
      in if limit < 0 then - t (- limit) else t limit)"

definition DefaultManifestLimit :: int where
  "DefaultManifestLimit = 50 * 1024"

definition NewWorkBuilder :: work_builder where
  "NewWorkBuilder = \<lparr>wb_manifestLimit = threshold DefaultManifestLimit\<rparr>"

definition WithManifestsLimit :: "int \<Rightarrow> work_builder \<Rightarrow> work_builder" where
  "WithManifestsLimit manifestsLimit w = w\<lparr>wb_manifestLimit := threshold manifestsLimit\<rparr>"

text \<open>The metadata that the caller generates are a work without a spec.\<close>

record internal_builder =
  ib_limit :: int
  ib_generateMeta :: "int \<Rightarrow> manifest_work"
  ib_deletionOption :: "json option"
  ib_executorOption :: "json option"
  ib_existing :: "manifest_work list"
  ib_manifestConfigOption :: "manifest_config list"
  ib_annotations :: "(string, string) gomap"

type_synonym builder_option = "internal_builder \<Rightarrow> internal_builder"

definition ExistingManifestWorksOption :: "manifest_work list \<Rightarrow> builder_option" where
  "ExistingManifestWorksOption works b = b\<lparr>ib_existing := works\<rparr>"

definition DeletionOption :: "json option \<Rightarrow> builder_option" where
  "DeletionOption option b = b\<lparr>ib_deletionOption := option\<rparr>"

definition ManifestConfigOption :: "manifest_config list \<Rightarrow> builder_option" where
  "ManifestConfigOption option b = b\<lparr>ib_manifestConfigOption := option\<rparr>"

definition ManifestWorkExecutorOption :: "json option \<Rightarrow> builder_option" where
  "ManifestWorkExecutorOption executor b = b\<lparr>ib_executorOption := executor\<rparr>"

definition ManifestAnnotations :: "(string, string) gomap \<Rightarrow> builder_option" where
  "ManifestAnnotations annotations b = b\<lparr>ib_annotations := annotations\<rparr>"

definition newInternalWorkBuilder :: "work_builder \<Rightarrow> (int \<Rightarrow> manifest_work) \<Rightarrow> builder_option list \<Rightarrow> internal_builder" where
  "newInternalWorkBuilder w generateMeta options =
     foldl (\<lambda>f opt. opt f)
       \<lparr>ib_limit = wb_manifestLimit w, ib_generateMeta = generateMeta, ib_deletionOption = None, ib_executorOption = None,
        ib_existing = [], ib_manifestConfigOption = [], ib_annotations = []\<rparr> options"

definition setManifestWorkOptions :: "internal_builder \<Rightarrow> manifest_work \<Rightarrow> manifest_work" where
  "setManifestWorkOptions f work = work\<lparr>mw_Spec := (mw_Spec work)\<lparr>wsp_DeleteOption := ib_deletionOption f,
     wsp_ManifestConfigs := ib_manifestConfigOption f, wsp_Executor := ib_executorOption f\<rparr>\<rparr>"

definition setAnnotations :: "internal_builder \<Rightarrow> manifest_work \<Rightarrow> manifest_work" where
  "setAnnotations f work = work\<lparr>mw_Annotations := ib_annotations f\<rparr>"

definition initManifestWork :: "internal_builder \<Rightarrow> int \<Rightarrow> manifest_work" where
  "initManifestWork f index =
     setAnnotations f (setManifestWorkOptions f ((ib_generateMeta f index)\<lparr>mw_Spec := empty_spec\<rparr>))"

definition initManifestWorkWithName :: "internal_builder \<Rightarrow> string \<Rightarrow> manifest_work" where
  "initManifestWorkWithName f workName = (initManifestWork f 0)\<lparr>mw_Name := workName\<rparr>"

definition manifests_of :: "manifest_work \<Rightarrow> string list" where
  "manifests_of w = wsp_Manifests (mw_Spec w)"

definition append_manifest :: "string \<Rightarrow> manifest_work \<Rightarrow> manifest_work" where
  "append_manifest m w = w\<lparr>mw_Spec := (mw_Spec w)\<lparr>wsp_Manifests := wsp_Manifests (mw_Spec w) @ [m]\<rparr>\<rparr>"

definition bufferOfManifestWork :: "internal_builder \<Rightarrow> manifest_work \<Rightarrow> int" where
  "bufferOfManifestWork f work =
     (let totalSize = foldl (\<lambda>t m. t + manifest_size m) 0 (manifests_of work)
      in if totalSize > ib_limit f then 0 else ib_limit f - totalSize)"

section \<open>Works that exist\<close>

text \<open>The loop over the manifests of an existing work: those that are still required are updated.\<close>

fun keep_loop ::
  "(string \<Rightarrow> (gvk \<times> (string \<times> string) result) result) \<Rightarrow> string list \<Rightarrow> manifest_work \<Rightarrow> manifest_mapper \<Rightarrow>
   (manifest_work \<times> manifest_mapper) result" where
  "keep_loop decode [] work mapper = Inr (work, mapper)"
| "keep_loop decode (manifest # manifests) work mapper =
     (case generateManifestKey decode manifest of
        Inl e \<Rightarrow> Inl e
      | Inr key \<Rightarrow>
          (case map_of mapper key of
             Some required \<Rightarrow> keep_loop decode manifests (append_manifest required work) (AList.delete key mapper)
           | None \<Rightarrow> keep_loop decode manifests work mapper))"

fun existing_loop ::
  "internal_builder \<Rightarrow> (string \<Rightarrow> (gvk \<times> (string \<times> string) result) result) \<Rightarrow> manifest_work list \<Rightarrow>
   manifest_mapper \<Rightarrow> ((manifest_work \<times> int) list \<times> manifest_mapper) result" where
  "existing_loop f decode [] mapper = Inr ([], mapper)"
| "existing_loop f decode (existingWork # works) mapper =
     (case keep_loop decode (manifests_of existingWork) (initManifestWorkWithName f (mw_Name existingWork)) mapper of
        Inl e \<Rightarrow> Inl e
      | Inr (requiredWork, mapper') \<Rightarrow>
          (case existing_loop f decode works mapper' of
             Inl e \<Rightarrow> Inl e
           | Inr (updatedWorks, mapper'') \<Rightarrow>
               Inr ((requiredWork, bufferOfManifestWork f requiredWork) # updatedWorks, mapper'')))"

section \<open>New manifests\<close>

text \<open>The index of the first work with the largest buffer, if any has a positive one.\<close>

fun max_buffer_from :: "nat \<Rightarrow> (manifest_work \<times> int) list \<Rightarrow> nat option \<Rightarrow> int \<Rightarrow> nat option" where
  "max_buffer_from k [] best maxBuffer = best"
| "max_buffer_from k ((w, buffer) # works) best maxBuffer =
     (if buffer > maxBuffer then max_buffer_from (k + 1) works (Some k) buffer
      else max_buffer_from (k + 1) works best maxBuffer)"

definition getMaxManifestWorkBuffer :: "(manifest_work \<times> int) list \<Rightarrow> nat option" where
  "getMaxManifestWorkBuffer workBuffers = max_buffer_from 0 workBuffers None 0"

definition fill :: "string \<Rightarrow> manifest_work \<times> int \<Rightarrow> manifest_work \<times> int" where
  "fill m wb = (append_manifest m (fst wb), snd wb - manifest_size m)"

fun fill_loop :: "string list \<Rightarrow> (manifest_work \<times> int) list \<Rightarrow> string list \<Rightarrow> (manifest_work \<times> int) list \<times> string list" where
  "fill_loop [] updatedWorks newManifests = (updatedWorks, newManifests)"
| "fill_loop (m # ms) updatedWorks newManifests =
     (case getMaxManifestWorkBuffer updatedWorks of
        Some i \<Rightarrow>
          if manifest_size m < snd (updatedWorks ! i)
          then fill_loop ms (updatedWorks[i := fill m (updatedWorks ! i)]) newManifests
          else fill_loop ms updatedWorks (newManifests @ [m])
      | None \<Rightarrow> fill_loop ms updatedWorks (newManifests @ [m]))"

text \<open>The loop over the new manifests: \<open>work\<close> is the last work so far, \<open>totalSize\<close> its size.\<close>

fun new_loop :: "internal_builder \<Rightarrow> string list \<Rightarrow> int \<Rightarrow> int \<Rightarrow> manifest_work \<Rightarrow> manifest_work list" where
  "new_loop f [] workIndex totalSize work = [work]"
| "new_loop f (m # ms) workIndex totalSize work =
     (if totalSize + manifest_size m < ib_limit f
      then new_loop f ms workIndex (totalSize + manifest_size m) (append_manifest m work)
      else work # new_loop f ms (workIndex + 1) (manifest_size m) (append_manifest m (initManifestWork f (workIndex + 1))))"

definition newManifestWorks :: "internal_builder \<Rightarrow> string list \<Rightarrow> int \<Rightarrow> manifest_work list" where
  "newManifestWorks f manifests workIndex = new_loop f manifests workIndex 0 (initManifestWork f workIndex)"

section \<open>Build\<close>

text \<open>\<open>order\<close> lists the manifests in the order in which the map is visited.\<close>

definition buildManifestWorks ::
  "(manifest_mapper \<Rightarrow> string list) \<Rightarrow> (string \<Rightarrow> (gvk \<times> (string \<times> string) result) result) \<Rightarrow>
   internal_builder \<Rightarrow> built_object list \<Rightarrow> (manifest_work list \<times> manifest_work list) result" where
  "buildManifestWorks order decode f objects =
     (case generateRequiredManifestMapper objects of
        Inl e \<Rightarrow> Inl (Errorf ''failed to generate required mapper'')
      | Inr requiredMapper \<Rightarrow>
          (case existing_loop f decode (ib_existing f) requiredMapper of
             Inl e \<Rightarrow> Inl e
           | Inr (updatedWorks, requiredMapper) \<Rightarrow>
               let (updatedWorks, newWorks) =
                     (if requiredMapper = [] then (updatedWorks, [])
                      else let requiredManifests = sort_key (\<lambda>m. - manifest_size m) (order requiredMapper);
                               (updatedWorks', newManifests) = fill_loop requiredManifests updatedWorks []
                           in (updatedWorks', if newManifests = [] then []
                               else newManifestWorks f newManifests (int (length updatedWorks'))));
                   works = map fst updatedWorks
               in Inr (newWorks @ filter (\<lambda>w. length (manifests_of w) \<noteq> 0) works,
                       filter (\<lambda>w. length (manifests_of w) = 0) works)))"

definition Build ::
  "(manifest_mapper \<Rightarrow> string list) \<Rightarrow> (string \<Rightarrow> (gvk \<times> (string \<times> string) result) result) \<Rightarrow> work_builder \<Rightarrow>
   built_object list \<Rightarrow> (int \<Rightarrow> manifest_work) \<Rightarrow> builder_option list \<Rightarrow> (manifest_work list \<times> manifest_work list) result" where
  "Build order decode w objects generateMeta options =
     buildManifestWorks order decode (newInternalWorkBuilder w generateMeta options) objects"

text \<open>A loop that goes on after an error and collects the errors.\<close>

fun collect_errors :: "('a \<Rightarrow> 's \<Rightarrow> error option \<times> 's) \<Rightarrow> 'a list \<Rightarrow> error list \<Rightarrow> 's \<Rightarrow> error list \<times> 's" where
  "collect_errors g [] errs s = (errs, s)"
| "collect_errors g (x # xs) errs s =
     (case g x s of
        (Some e, s') \<Rightarrow> collect_errors g xs (errs @ [e]) s'
      | (None, s') \<Rightarrow> collect_errors g xs errs s')"

definition BuildAndApply ::
  "(manifest_mapper \<Rightarrow> string list) \<Rightarrow> (string \<Rightarrow> (gvk \<times> (string \<times> string) result) result) \<Rightarrow> work_builder \<Rightarrow>
   (manifest_work \<Rightarrow> 's \<Rightarrow> error option \<times> 's) \<Rightarrow> (string \<Rightarrow> string \<Rightarrow> 's \<Rightarrow> error option \<times> 's) \<Rightarrow>
   built_object list \<Rightarrow> (int \<Rightarrow> manifest_work) \<Rightarrow> builder_option list \<Rightarrow> 's \<Rightarrow> error option \<times> 's" where
  "BuildAndApply order decode w apply_work delete_work objects generateMeta options s =
     (case Build order decode w objects generateMeta options of
        Inl e \<Rightarrow> (Some e, s)
      | Inr (appliedWorks, deletedWorks) \<Rightarrow>
          let (errs, s1) = collect_errors apply_work appliedWorks [] s;
              (errs, s2) = collect_errors (\<lambda>work. delete_work (mw_Namespace work) (mw_Name work)) deletedWorks errs s1
          in (if length errs \<noteq> 0 then Some (Aggregate errs) else None, s2))"

section \<open>Where the manifests go\<close>

definition contents :: "(manifest_work \<times> int) list \<Rightarrow> string multiset" where
  "contents ws = mset (concat (map (manifests_of \<circ> fst) ws))"

definition required :: "manifest_mapper \<Rightarrow> string multiset" where
  "required mapper = mset (map snd mapper)"

definition names :: "(manifest_work \<times> int) list \<Rightarrow> string list" where
  "names ws = map (\<lambda>wb. mw_Name (fst wb)) ws"

lemma names_simps [simp]: "names [] = []" "names (wb # ws) = mw_Name (fst wb) # names ws"
  by (simp_all add: names_def)

lemma contents_simps [simp]:
  "contents [] = {#}" "contents (wb # ws) = mset (manifests_of (fst wb)) + contents ws"
  by (simp_all add: contents_def)

lemma required_delete:
  "wf_map mapper \<Longrightarrow> map_of mapper key = Some m \<Longrightarrow> required mapper = {#m#} + required (AList.delete key mapper)"
proof (induction mapper)
  case (Cons kv mapper)
  obtain k v where kv: "kv = (k, v)" by (cases kv)
  show ?case
  proof (cases "k = key")
    case True
    then have "AList.delete key mapper = mapper" using Cons.prems kv by (simp add: wf_map_def delete_id)
    then show ?thesis using True Cons.prems kv by (simp add: required_def)
  next
    case False
    then show ?thesis using Cons kv by (simp add: required_def wf_map_def)
  qed
qed simp

lemma manifests_of_append [simp]: "manifests_of (append_manifest m w) = manifests_of w @ [m]"
  by (simp add: manifests_of_def append_manifest_def)

lemma name_append [simp]: "mw_Name (append_manifest m w) = mw_Name w"
  by (simp add: append_manifest_def)

lemma manifests_of_init [simp]: "manifests_of (initManifestWork f i) = []"
  by (simp add: manifests_of_def initManifestWork_def setAnnotations_def setManifestWorkOptions_def empty_spec_def)

lemma init_with_name [simp]:
  "manifests_of (initManifestWorkWithName f n) = []" "mw_Name (initManifestWorkWithName f n) = n"
  using manifests_of_init [of f 0] by (simp_all add: initManifestWorkWithName_def manifests_of_def)

lemma keep_loop_moves:
  "keep_loop decode ms w mapper = Inr (w', mapper') \<Longrightarrow> wf_map mapper \<Longrightarrow>
   wf_map mapper' \<and> mw_Name w' = mw_Name w \<and>
   mset (manifests_of w') + required mapper' = mset (manifests_of w) + required mapper"
  by (induction decode ms w mapper rule: keep_loop.induct)
    (auto simp: required_delete split: sum.splits option.splits)

lemma existing_loop_moves:
  "existing_loop f decode works mapper = Inr (ws, mapper') \<Longrightarrow> wf_map mapper \<Longrightarrow>
   wf_map mapper' \<and> names ws = map mw_Name works \<and> contents ws + required mapper' = required mapper"
proof (induction works arbitrary: mapper ws mapper')
  case (Cons e works)
  obtain w mapper1 where k: "keep_loop decode (manifests_of e) (initManifestWorkWithName f (mw_Name e)) mapper = Inr (w, mapper1)"
    using Cons.prems by (auto split: sum.splits)
  obtain ws' where l: "existing_loop f decode works mapper1 = Inr (ws', mapper')"
    and ws: "ws = (w, bufferOfManifestWork f w) # ws'"
    using Cons.prems k by (auto split: sum.splits)
  show ?case using keep_loop_moves [OF k Cons.prems(2)] Cons.IH [OF l] ws by (simp add: add.assoc)
qed simp

section \<open>The largest buffer\<close>

definition first_largest :: "(manifest_work \<times> int) list \<Rightarrow> nat \<Rightarrow> bool" where
  "first_largest ws j \<longleftrightarrow> j < length ws \<and> (\<forall>l < length ws. snd (ws ! l) \<le> snd (ws ! j)) \<and> (\<forall>l < j. snd (ws ! l) < snd (ws ! j))"

lemma first_largest_Cons:
  "first_largest ws j \<Longrightarrow> snd wb < snd (ws ! j) \<Longrightarrow> first_largest (wb # ws) (Suc j)"
  "(\<forall>x \<in> set ws. snd x \<le> snd wb) \<Longrightarrow> first_largest (wb # ws) 0"
  by (auto simp: first_largest_def nth_Cons less_Suc_eq_le split: nat.split)

lemma max_buffer_from_cases:
  "if \<forall>wb \<in> set ws. snd wb \<le> maxBuffer then max_buffer_from k ws best maxBuffer = best
   else \<exists>j. max_buffer_from k ws best maxBuffer = Some (k + j) \<and> first_largest ws j \<and> snd (ws ! j) > maxBuffer"
proof (induction ws arbitrary: k best maxBuffer)
  case (Cons wb ws)
  obtain w b where wb: "wb = (w, b)" by (cases wb)
  let ?m = "if b > maxBuffer then b else maxBuffer"
  let ?best = "if b > maxBuffer then Some k else best"
  have step: "max_buffer_from k (wb # ws) best maxBuffer = max_buffer_from (k + 1) ws ?best ?m"
    by (simp add: wb)
  show ?case
  proof (cases "\<forall>x \<in> set ws. snd x \<le> ?m")
    case True
    then have r: "max_buffer_from (k + 1) ws ?best ?m = ?best" using Cons.IH [of ?m "k + 1" ?best] by simp
    show ?thesis
    proof (cases "b > maxBuffer")
      case True
      then have "first_largest (wb # ws) 0" using \<open>\<forall>x \<in> set ws. snd x \<le> ?m\<close> by (intro first_largest_Cons) (simp add: wb)
      then show ?thesis using True r step wb by (auto intro!: exI [of _ 0])
    next
      case False
      then show ?thesis using r step wb True by (auto split: if_splits)
    qed
  next
    case False
    then obtain j where j: "max_buffer_from (k + 1) ws ?best ?m = Some (k + 1 + j)" "first_largest ws j" "snd (ws ! j) > ?m"
      using Cons.IH [of ?m "k + 1" ?best] unfolding if_not_P [OF False] by blast
    have "snd wb < snd (ws ! j)" using j(3) by (auto simp: wb split: if_splits)
    with j(2) have "first_largest (wb # ws) (Suc j)" by (rule first_largest_Cons)
    moreover have "\<not> (\<forall>x \<in> set (wb # ws). snd x \<le> maxBuffer)" using False by (auto simp: wb split: if_splits)
    ultimately show ?thesis using j step by (auto split: if_splits intro!: exI [of _ "Suc j"])
  qed
qed simp

lemma getMaxManifestWorkBuffer_Some:
  "getMaxManifestWorkBuffer ws = Some i \<Longrightarrow> first_largest ws i \<and> snd (ws ! i) > 0"
  using max_buffer_from_cases [of ws 0 0 None] by (auto simp: getMaxManifestWorkBuffer_def split: if_splits)

lemma getMaxManifestWorkBuffer_None:
  "getMaxManifestWorkBuffer ws = None \<longleftrightarrow> (\<forall>wb \<in> set ws. snd wb \<le> 0)"
  using max_buffer_from_cases [of ws 0 0 None] by (auto simp: getMaxManifestWorkBuffer_def split: if_splits)

section \<open>New manifests in existing works\<close>

lemma contents_fill:
  "i < length ws \<Longrightarrow> contents (ws[i := fill m (ws ! i)]) = {#m#} + contents ws"
proof (induction ws arbitrary: i)
  case (Cons wb ws)
  then show ?case by (cases i) (simp_all add: fill_def)
qed simp

lemma names_fill:
  "i < length ws \<Longrightarrow> names (ws[i := fill m (ws ! i)]) = names ws"
  by (rule nth_equalityI) (auto simp: names_def fill_def nth_list_update)

lemma fill_loop_moves:
  "fill_loop ms ws new = (ws', new') \<Longrightarrow>
   contents ws' + mset new' = contents ws + mset new + mset ms \<and> names ws' = names ws"
proof (induction ms ws new rule: fill_loop.induct)
  case (2 m ms ws new)
  show ?case
  proof (cases "getMaxManifestWorkBuffer ws")
    case None
    then show ?thesis using 2 by simp
  next
    case (Some i)
    then have i: "i < length ws" using getMaxManifestWorkBuffer_Some by (auto simp: first_largest_def)
    show ?thesis using 2 Some contents_fill [OF i] names_fill [OF i] by (auto split: if_splits)
  qed
qed simp

section \<open>New works\<close>

lemma new_loop_keeps:
  "concat (map manifests_of (new_loop f ms i t w)) = manifests_of w @ ms"
  by (induction ms arbitrary: i t w) simp_all

lemma new_loop_names:
  "\<exists>k. map mw_Name (new_loop f ms i t w) = mw_Name w # map (\<lambda>j. mw_Name (initManifestWork f (i + 1 + int j))) [0 ..< k]"
proof (induction ms arbitrary: i t w)
  case Nil
  show ?case by (intro exI [of _ 0]) simp
next
  case (Cons m ms)
  show ?case
  proof (cases "t + manifest_size m < ib_limit f")
    case True
    then show ?thesis using Cons [of i "t + manifest_size m" "append_manifest m w"] by simp
  next
    case False
    obtain k where "map mw_Name (new_loop f ms (i + 1) (manifest_size m) (append_manifest m (initManifestWork f (i + 1))))
        = mw_Name (initManifestWork f (i + 1)) # map (\<lambda>j. mw_Name (initManifestWork f (i + 1 + 1 + int j))) [0 ..< k]"
      using Cons [of "i + 1" "manifest_size m" "append_manifest m (initManifestWork f (i + 1))"] by auto
    then show ?thesis using False by (intro exI [of _ "Suc k"]) (simp add: map_upt_Suc add.assoc del: upt_Suc)
  qed
qed

section \<open>The size of the works\<close>

definition work_size :: "manifest_work \<Rightarrow> int" where
  "work_size w = (\<Sum>m \<leftarrow> manifests_of w. manifest_size m)"

lemma work_size_simps [simp]:
  "work_size (append_manifest m w) = work_size w + manifest_size m"
  "work_size (initManifestWork f i) = 0"
  by (simp_all add: work_size_def)

lemma bufferOfManifestWork_eq:
  "bufferOfManifestWork f w = (if work_size w > ib_limit f then 0 else ib_limit f - work_size w)"
  by (simp add: bufferOfManifestWork_def Let_def total_size work_size_def)

text \<open>A work grows only within its buffer.\<close>

definition buffers :: "internal_builder \<Rightarrow> (manifest_work \<times> int) list \<Rightarrow> bool" where
  "buffers f ws \<longleftrightarrow> (\<forall>wb \<in> set ws. snd wb \<le> 0 \<or> work_size (fst wb) + snd wb = ib_limit f)"

lemma manifest_size_nonneg [simp]: "0 \<le> manifest_size m"
  by (simp add: manifest_size_def)

lemma buffers_fill:
  assumes "buffers f ws" "i < length ws"
  shows "buffers f (ws[i := fill m (ws ! i)])"
proof -
  have "snd (ws ! i) \<le> 0 \<or> work_size (fst (ws ! i)) + snd (ws ! i) = ib_limit f"
    using assms by (simp add: buffers_def)
  moreover have "snd (ws ! i) - manifest_size m \<le> snd (ws ! i)" by simp
  ultimately have "snd (fill m (ws ! i)) \<le> 0 \<or> work_size (fst (fill m (ws ! i))) + snd (fill m (ws ! i)) = ib_limit f"
    by (auto simp: fill_def simp del: manifest_size_nonneg)
  then show ?thesis using assms set_update_subset_insert [of ws i "fill m (ws ! i)"] by (auto simp: buffers_def)
qed

lemma buffers_Cons [simp]:
  "buffers f (wb # ws) \<longleftrightarrow> (snd wb \<le> 0 \<or> work_size (fst wb) + snd wb = ib_limit f) \<and> buffers f ws"
  by (simp add: buffers_def)

lemma existing_loop_buffers:
  "existing_loop f decode works mapper = Inr (ws, mapper') \<Longrightarrow> buffers f ws"
proof (induction works arbitrary: mapper ws mapper')
  case Nil
  then show ?case by (simp add: buffers_def)
next
  case (Cons e works)
  then show ?case by (fastforce simp: bufferOfManifestWork_eq split: sum.splits)
qed

definition filled :: "internal_builder \<Rightarrow> manifest_work \<times> int \<Rightarrow> manifest_work \<times> int \<Rightarrow> bool" where
  "filled f wb wb' \<longleftrightarrow> fst wb' = fst wb \<or> work_size (fst wb') < ib_limit f"

lemma fill_loop_limit:
  "fill_loop ms ws new = (ws', new') \<Longrightarrow> buffers f ws \<Longrightarrow> list_all2 (filled f) ws0 ws \<Longrightarrow> list_all2 (filled f) ws0 ws'"
proof (induction ms arbitrary: ws new)
  case (Cons m ms)
  show ?case
  proof (cases "getMaxManifestWorkBuffer ws")
    case None
    then show ?thesis using Cons by simp
  next
    case (Some i)
    then have i: "i < length ws" "snd (ws ! i) > 0" using getMaxManifestWorkBuffer_Some by (auto simp: first_largest_def)
    show ?thesis
    proof (cases "manifest_size m < snd (ws ! i)")
      case True
      have "work_size (fst (ws ! i)) + snd (ws ! i) = ib_limit f" using Cons.prems(2) i nth_mem [OF i(1)] by (force simp: buffers_def)
      then have "filled f wb (fill m (ws ! i))" for wb using True by (simp add: filled_def fill_def)
      then have "list_all2 (filled f) ws0 (ws[i := fill m (ws ! i)])"
        using Cons.prems(3) i(1) by (simp add: list_all2_conv_all_nth nth_list_update)
      then show ?thesis using Cons Some True buffers_fill [OF Cons.prems(2) i(1)] by simp
    next
      case False
      then show ?thesis using Cons Some by simp
    qed
  qed
qed simp

text \<open>A new work holds less than the limit, or a single manifest; only the first can stay empty.\<close>

definition packed :: "internal_builder \<Rightarrow> manifest_work \<Rightarrow> bool" where
  "packed f w \<longleftrightarrow> work_size w < ib_limit f \<or> length (manifests_of w) = 1"

lemma new_loop_packed:
  assumes "t = work_size w" "manifests_of w \<noteq> []" "packed f w" "x \<in> set (new_loop f ms i t w)"
  shows "packed f x \<and> manifests_of x \<noteq> []"
  using assms
proof (induction ms arbitrary: i t w)
  case (Cons m ms)
  show ?case
  proof (cases "t + manifest_size m < ib_limit f")
    case True
    then show ?thesis
      using Cons.IH [of "t + manifest_size m" "append_manifest m w"] Cons.prems by (simp add: packed_def)
  next
    case False
    have "packed f (append_manifest m (initManifestWork f (i + 1)))" by (simp add: packed_def)
    then show ?thesis
      using Cons.IH [of "manifest_size m" "append_manifest m (initManifestWork f (i + 1))"] Cons.prems False by auto
  qed
qed simp

lemma newManifestWorks_packed:
  assumes "x \<in> set (newManifestWorks f (m # ms) i)"
  shows "packed f x \<or> manifests_of x = []" "manifests_of x = [] \<Longrightarrow> manifest_size m \<ge> ib_limit f"
proof -
  have p: "packed f (append_manifest m (initManifestWork f k))" for k by (simp add: packed_def)
  then show "packed f x \<or> manifests_of x = []" "manifests_of x = [] \<Longrightarrow> manifest_size m \<ge> ib_limit f"
    using assms new_loop_packed [OF _ _ p, of "manifest_size m" _ x ms]
    by (auto simp: newManifestWorks_def split: if_splits)
qed

lemma newManifestWorks_empty_iff:
  "(\<exists>x \<in> set (newManifestWorks f (m # ms) i). manifests_of x = []) \<longleftrightarrow> ib_limit f \<le> manifest_size m"
  using newManifestWorks_packed(2) [of _ f m ms i] by (fastforce simp: newManifestWorks_def)

text \<open>The manifests of a work are the required versions of manifests of an existing one.\<close>

definition updates_of ::
  "(string \<Rightarrow> (gvk \<times> (string \<times> string) result) result) \<Rightarrow> manifest_mapper \<Rightarrow> manifest_work \<Rightarrow> manifest_work \<Rightarrow> bool" where
  "updates_of decode mapper e w \<longleftrightarrow> mw_Name w = mw_Name e \<and>
     (\<forall>m \<in> set (manifests_of w). \<exists>m0 \<in> set (manifests_of e). \<exists>key.
        generateManifestKey decode m0 = Inr key \<and> map_of mapper key = Some m)"

lemma keep_loop_name: "keep_loop decode ms w mapper = Inr (w', mapper') \<Longrightarrow> mw_Name w' = mw_Name w"
  by (induction decode ms w mapper rule: keep_loop.induct) (auto split: sum.splits option.splits)

lemma map_of_delete_Some: "map_of (AList.delete k m) k' = Some v \<Longrightarrow> map_of m k' = Some v"
  by (simp add: delete_conv' split: if_splits)

lemma keep_loop_shrinks:
  "keep_loop decode ms w mapper = Inr (w', mapper') \<Longrightarrow> map_of mapper' k = Some v \<Longrightarrow> map_of mapper k = Some v"
proof (induction ms arbitrary: w mapper)
  case (Cons m0 ms)
  obtain key where "generateManifestKey decode m0 = Inr key" using Cons.prems by (auto split: sum.splits)
  then show ?case using Cons by (cases "map_of mapper key") (auto dest: map_of_delete_Some)
qed simp

lemma keep_loop_updates:
  "keep_loop decode ms w mapper = Inr (w', mapper') \<Longrightarrow> m \<in> set (manifests_of w') \<Longrightarrow>
   m \<in> set (manifests_of w) \<or>
   (\<exists>m0 \<in> set ms. \<exists>key. generateManifestKey decode m0 = Inr key \<and> map_of mapper key = Some m)"
proof (induction ms arbitrary: w mapper)
  case (Cons m0 ms)
  obtain key where k: "generateManifestKey decode m0 = Inr key" using Cons.prems by (auto split: sum.splits)
  show ?case
  proof (cases "map_of mapper key")
    case None
    then show ?thesis using Cons.IH [of w mapper] Cons.prems k by auto
  next
    case (Some required)
    then have "keep_loop decode ms (append_manifest required w) (AList.delete key mapper) = Inr (w', mapper')"
      using Cons.prems k by simp
    from Cons.IH [OF this Cons.prems(2)] show ?thesis
    proof
      assume "m \<in> set (manifests_of (append_manifest required w))"
      then have "m \<in> set (manifests_of w) \<or> m = required" by auto
      moreover have "\<exists>m1 \<in> set (m0 # ms). \<exists>k. generateManifestKey decode m1 = Inr k \<and> map_of mapper k = Some required"
        using k Some by (intro bexI [of _ m0] exI [of _ key]) simp_all
      ultimately show ?thesis by blast
    next
      assume "\<exists>m0 \<in> set ms. \<exists>k. generateManifestKey decode m0 = Inr k \<and> map_of (AList.delete key mapper) k = Some m"
      then obtain m1 k' where m1: "m1 \<in> set ms" "generateManifestKey decode m1 = Inr k'"
          "map_of (AList.delete key mapper) k' = Some m"
        by blast
      from map_of_delete_Some [OF m1(3)] m1(1,2) show ?thesis
        by (intro disjI2 bexI [of _ m1] exI [of _ k']) simp_all
    qed
  qed
qed simp

lemma existing_loop_updates:
  "existing_loop f decode works mapper = Inr (ws, mapper') \<Longrightarrow> wb \<in> set ws \<Longrightarrow>
   \<exists>e \<in> set works. updates_of decode mapper e (fst wb)"
proof (induction works arbitrary: mapper ws mapper')
  case (Cons e works)
  obtain w mapper1 where k: "keep_loop decode (manifests_of e) (initManifestWorkWithName f (mw_Name e)) mapper = Inr (w, mapper1)"
    using Cons.prems(1) by (auto split: sum.splits)
  obtain ws' where l: "existing_loop f decode works mapper1 = Inr (ws', mapper')"
    and ws: "ws = (w, bufferOfManifestWork f w) # ws'"
    using Cons.prems(1) k by (auto split: sum.splits)
  have "updates_of decode mapper e w"
    using keep_loop_name [OF k] keep_loop_updates [OF k] by (auto simp: updates_of_def)
  moreover have "\<exists>e \<in> set works. updates_of decode mapper e (fst wb)" if "wb \<in> set ws'"
    using Cons.IH [OF l that] keep_loop_shrinks [OF k] unfolding updates_of_def by blast
  ultimately show ?case using Cons.prems(2) ws by auto
qed simp

section \<open>What Build returns\<close>

definition new_works :: "internal_builder \<Rightarrow> string list \<Rightarrow> int \<Rightarrow> manifest_work list" where
  "new_works f ms i = (if ms = [] then [] else newManifestWorks f ms i)"

lemma buildManifestWorks_cases:
  assumes "buildManifestWorks order decode f objects = Inr (applied, deleted)"
    and "generateRequiredManifestMapper objects = Inr mapper"
    and "\<forall>m. mset (order m) = mset (map snd m)"
  obtains ws0 left ms ws new where
    "existing_loop f decode (ib_existing f) mapper = Inr (ws0, left)"
    "mset ms = required left" "sorted (map (\<lambda>m. - manifest_size m) ms)"
    "fill_loop ms ws0 [] = (ws, new)"
    "applied = new_works f new (int (length ws)) @ filter (\<lambda>w. manifests_of w \<noteq> []) (map fst ws)"
    "deleted = filter (\<lambda>w. manifests_of w = []) (map fst ws)"
proof -
  obtain ws0 left where e: "existing_loop f decode (ib_existing f) mapper = Inr (ws0, left)"
    using assms by (auto simp: buildManifestWorks_def split: sum.splits)
  let ?ms = "if left = [] then [] else sort_key (\<lambda>m. - manifest_size m) (order left)"
  obtain ws new where fl: "fill_loop ?ms ws0 [] = (ws, new)" by (cases "fill_loop ?ms ws0 []")
  have "applied = new_works f new (int (length ws)) @ filter (\<lambda>w. manifests_of w \<noteq> []) (map fst ws) \<and>
      deleted = filter (\<lambda>w. manifests_of w = []) (map fst ws)"
    using assms(1,2) e fl by (auto simp: buildManifestWorks_def new_works_def Let_def split: if_splits)
  moreover have "mset ?ms = required left" using assms(3) by (simp add: required_def)
  moreover have "sorted (map (\<lambda>m. - manifest_size m) ?ms)" by simp
  ultimately show thesis using that [OF e _ _ fl] by blast
qed

lemma wf_required_loop: "required_loop objects m = Inr m' \<Longrightarrow> wf_map m \<Longrightarrow> wf_map m'"
  by (induction objects m rule: required_loop.induct) (auto split: sum.splits)

lemma update_fresh: "k \<notin> fst ` set m \<Longrightarrow> AList.update k v m = m @ [(k, v)]"
  by (induction m) auto

lemma required_loop_entries:
  "list_all2 (\<lambda>object (key, raw). bo_encoded object = Inr raw \<and> object_key (bo_gvk object) (bo_accessor object) = Inr key)
     objects entries \<Longrightarrow> distinct (map fst (m @ entries)) \<Longrightarrow> required_loop objects m = Inr (m @ entries)"
proof (induction objects entries arbitrary: m rule: list_all2_induct)
  case (Cons object objects entry entries)
  then have "fst entry \<notin> fst ` set m" by auto
  then show ?case using Cons.hyps(1) Cons.IH [of "m @ [entry]"] Cons.prems
    by (auto simp: buildManifest_def update_fresh split: prod.splits)
qed simp

lemma concat_filter_nonempty: "concat (map g (filter (\<lambda>w. g w \<noteq> []) xs)) = concat (map g xs)"
  by (induction xs) auto

lemma new_works_keeps: "concat (map manifests_of (new_works f ms i)) = ms"
  by (auto simp: new_works_def newManifestWorks_def new_loop_keeps)

lemma new_works_names:
  "\<exists>k. map mw_Name (new_works f ms i) = map (\<lambda>j. mw_Name (initManifestWork f (i + int j))) [0 ..< k]"
proof (cases "ms = []")
  case True
  then show ?thesis by (intro exI [of _ 0]) (simp add: new_works_def)
next
  case False
  obtain k where "map mw_Name (newManifestWorks f ms i) = mw_Name (initManifestWork f i) #
      map (\<lambda>j. mw_Name (initManifestWork f (i + 1 + int j))) [0 ..< k]"
    using new_loop_names [of f ms i 0 "initManifestWork f i"] by (auto simp: newManifestWorks_def)
  then show ?thesis using False
    by (intro exI [of _ "Suc k"]) (simp add: new_works_def map_upt_Suc add.assoc del: upt_Suc)
qed

lemma names_initManifestWork: "mw_Name (initManifestWork f i) = mw_Name (ib_generateMeta f i)"
  by (simp add: initManifestWork_def setAnnotations_def setManifestWorkOptions_def)

text \<open>
  C17. Build puts every object into exactly one of the applied works, whatever the order in which
  Go ranges over the map: the manifests of the applied works are the encodings of the objects, none
  is lost or doubled, provided that the keys of the objects differ. Every existing work appears once
  under its name, in the applied or in the deleted ones, a deleted one has no manifests left, and
  the names of new works are generated from the number of existing works on.
\<close>

theorem build_places_every_object:
  assumes "Build order decode w objects generateMeta options = Inr (applied, deleted)"
    and "\<forall>m. mset (order m) = mset (map snd m)"
    and "list_all2 (\<lambda>object (key, raw). bo_encoded object = Inr raw \<and>
           object_key (bo_gvk object) (bo_accessor object) = Inr key) objects entries"
    and "distinct (map fst entries)" and "f = newInternalWorkBuilder w generateMeta options"
  shows "mset (concat (map manifests_of applied)) = mset (map snd entries) \<and>
    (\<forall>d \<in> set deleted. manifests_of d = []) \<and>
    (\<exists>k. mset (map mw_Name (applied @ deleted)) = mset (map mw_Name (ib_existing f)) +
       mset (map (\<lambda>j. mw_Name (ib_generateMeta f (int (length (ib_existing f)) + int j))) [0 ..< k]))"
proof -
  have r: "generateRequiredManifestMapper objects = Inr entries"
    using required_loop_entries [OF assms(3), of "[]"] assms(4) by (simp add: generateRequiredManifestMapper_def)
  have b: "buildManifestWorks order decode f objects = Inr (applied, deleted)"
    using assms(1,5) by (simp add: Build_def)
  obtain ws0 left ms ws new where s:
    "existing_loop f decode (ib_existing f) entries = Inr (ws0, left)" "mset ms = required left"
    "fill_loop ms ws0 [] = (ws, new)"
    "applied = new_works f new (int (length ws)) @ filter (\<lambda>w. manifests_of w \<noteq> []) (map fst ws)"
    "deleted = filter (\<lambda>w. manifests_of w = []) (map fst ws)"
    using buildManifestWorks_cases [OF b r assms(2)] by metis
  have e: "names ws0 = map mw_Name (ib_existing f)" "contents ws0 + required left = required entries"
    using existing_loop_moves [OF s(1)] assms(4) by (auto simp: wf_map_def)
  have m: "contents ws + mset new = contents ws0 + mset ms" "names ws = names ws0"
    using fill_loop_moves [OF s(3)] by auto
  have "mset (concat (map manifests_of applied)) = mset new + contents ws"
    by (simp add: s(4) new_works_keeps concat_filter_nonempty contents_def)
  then have "mset (concat (map manifests_of applied)) = mset (map snd entries)"
    using e m s(2) by (simp add: required_def add.commute)
  moreover have "length ws = length (ib_existing f)"
    using e(1) m(2) by (metis length_map names_def)
  then obtain k where "map mw_Name (new_works f new (int (length ws))) =
      map (\<lambda>j. mw_Name (ib_generateMeta f (int (length (ib_existing f)) + int j))) [0 ..< k]"
    using new_works_names [of f new "int (length ws)"] by (auto simp: names_initManifestWork)
  moreover have "mset (map mw_Name (filter (\<lambda>w. manifests_of w \<noteq> []) (map fst ws))) +
      mset (map mw_Name (filter (\<lambda>w. manifests_of w = []) (map fst ws))) = mset (names ws)"
    by (induction ws) auto
  ultimately show ?thesis using e(1) m(2) s(4,5) by (auto simp: ac_simps intro!: exI [of _ k])
qed

text \<open>
  C30. The works that Build returns keep the limit: the manifests of an applied work are together
  smaller than the limit, or there is only one, or none was added to an existing work: its
  manifests are updates of those it had. So an existing work is never filled beyond the limit with
  manifests that it did not have.
\<close>

theorem build_respects_limit:
  assumes "Build order decode w objects generateMeta options = Inr (applied, deleted)"
    and "\<forall>m. mset (order m) = mset (map snd m)"
    and "generateRequiredManifestMapper objects = Inr mapper"
    and "f = newInternalWorkBuilder w generateMeta options" and "x \<in> set applied"
  shows "work_size x < ib_limit f \<or> length (manifests_of x) \<le> 1 \<or> (\<exists>e \<in> set (ib_existing f). updates_of decode mapper e x)"
proof -
  have b: "buildManifestWorks order decode f objects = Inr (applied, deleted)"
    using assms(1,4) by (simp add: Build_def)
  obtain ws0 left ms ws new where s:
    "existing_loop f decode (ib_existing f) mapper = Inr (ws0, left)"
    "fill_loop ms ws0 [] = (ws, new)"
    "applied = new_works f new (int (length ws)) @ filter (\<lambda>w. manifests_of w \<noteq> []) (map fst ws)"
    using buildManifestWorks_cases [OF b assms(3,2)] by metis
  show ?thesis
  proof (cases "x \<in> set (new_works f new (int (length ws)))")
    case True
    then show ?thesis
      using newManifestWorks_packed(1) [of x f "hd new" "tl new" "int (length ws)"]
      by (auto simp: new_works_def packed_def split: if_splits)
  next
    case False
    then obtain wb where wb: "wb \<in> set ws" "x = fst wb" using assms(5) s(3) by auto
    have "list_all2 (filled f) ws0 ws0" by (rule list_all2_refl) (simp add: filled_def)
    then have "list_all2 (filled f) ws0 ws"
      using fill_loop_limit [OF s(2) existing_loop_buffers [OF s(1)]] by blast
    then obtain wb0 where "wb0 \<in> set ws0" "filled f wb0 wb"
      using wb(1) by (metis list_all2_conv_all_nth in_set_conv_nth)
    then show ?thesis using existing_loop_updates [OF s(1), of wb0] wb(2) by (auto simp: filled_def)
  qed
qed

lemma fill_loop_no_works: "fill_loop ms [] new = ([], new @ ms)"
  by (induction ms arbitrary: new) (simp_all add: getMaxManifestWorkBuffer_def)

text \<open>
  An object whose encoding reaches the limit makes Build emit a work without manifests: the
  first new work is created before the loop over the manifests, which then opens another one. When
  there are no existing works, this happens exactly if some manifest is not below the limit, and the
  validation of manifests rejects such a work.
\<close>

theorem oversized_object_gives_empty_work:
  assumes "Build order decode w objects generateMeta options = Inr (applied, deleted)"
    and "\<forall>m. mset (order m) = mset (map snd m)"
    and "generateRequiredManifestMapper objects = Inr mapper"
    and "f = newInternalWorkBuilder w generateMeta options" and "ib_existing f = []"
  shows "((\<exists>x \<in> set applied. manifests_of x = []) \<longleftrightarrow> (\<exists>m \<in> snd ` set mapper. ib_limit f \<le> manifest_size m)) \<and>
    (\<forall>x \<in> set applied. manifests_of x = [] \<longrightarrow> ValidateManifests v decoder (manifests_of x) = Some (StatusError BadRequest))"
proof -
  have b: "buildManifestWorks order decode f objects = Inr (applied, deleted)"
    using assms(1,4) by (simp add: Build_def)
  obtain ws0 left ms ws new where s:
    "existing_loop f decode (ib_existing f) mapper = Inr (ws0, left)"
    "mset ms = required left" "sorted (map (\<lambda>m. - manifest_size m) ms)"
    "fill_loop ms ws0 [] = (ws, new)"
    "applied = new_works f new (int (length ws)) @ filter (\<lambda>w. manifests_of w \<noteq> []) (map fst ws)"
    by (rule buildManifestWorks_cases [OF b assms(3,2)]) blast
  have e: "left = mapper" "ws = []" "new = ms" using s(1,4) assms(5) by (auto simp: fill_loop_no_works)
  have "set ms = snd ` set mapper" using arg_cong [OF s(2), of set_mset] by (simp add: required_def e(1))
  moreover have "(\<exists>x \<in> set applied. manifests_of x = []) \<longleftrightarrow> (\<exists>m \<in> set ms. ib_limit f \<le> manifest_size m)"
  proof (cases ms)
    case Nil
    then show ?thesis using s(5) e by (simp add: new_works_def)
  next
    case (Cons m ms')
    have "(\<exists>x \<in> set applied. manifests_of x = []) \<longleftrightarrow> ib_limit f \<le> manifest_size m"
      using newManifestWorks_empty_iff [of f m ms' 0] by (simp add: s(5) e new_works_def Cons)
    moreover have "\<forall>m' \<in> set ms. manifest_size m' \<le> manifest_size m" using s(3) by (auto simp: Cons)
    ultimately show ?thesis using Cons by force
  qed
  ultimately show ?thesis by (simp add: ValidateManifests_def)
qed

section \<open>Builds that happen\<close>

text \<open>Objects are named by their first letter; an existing work has two manifests, one of them still required.\<close>

definition example_gvk :: gvk where
  "example_gvk = \<lparr>gvk_Group = ''apps'', gvk_Version = ''v1'', gvk_Kind = ''Deployment''\<rparr>"

definition example_decode :: "string \<Rightarrow> (gvk \<times> (string \<times> string) result) result" where
  "example_decode m = Inr (example_gvk, Inr (''default'', take 1 m))"

definition example_object :: "string \<Rightarrow> built_object" where
  "example_object m = \<lparr>bo_encoded = Inr m, bo_gvk = example_gvk, bo_accessor = Inr (''default'', take 1 m)\<rparr>"

definition example_meta :: "int \<Rightarrow> manifest_work" where
  "example_meta i = \<lparr>mw_UID = [], mw_Name = (if i = 0 then ''w0'' else ''w1''), mw_Namespace = ''cluster1'',
     mw_ResourceVersion = [], mw_Generation = 0, mw_Labels = [], mw_Annotations = [], mw_Finalizers = [], mw_OwnerReferences = [],
     mw_DeletionTimestamp = 0, mw_Spec = empty_spec, mw_Status = \<lparr>wst_Conditions = [], wst_Manifests = []\<rparr>\<rparr>"

definition with_manifests :: "manifest_work \<Rightarrow> string list \<Rightarrow> manifest_work" where
  "with_manifests w ms = w\<lparr>mw_Spec := (mw_Spec w)\<lparr>wsp_Manifests := ms\<rparr>\<rparr>"

definition example_existing :: "builder_option list" where
  "example_existing = [ExistingManifestWorksOption [with_manifests (example_meta 0) [''aold'', ''z'']]]"

definition example_build :: "string list \<Rightarrow> builder_option list \<Rightarrow> (manifest_work list \<times> manifest_work list) result" where
  "example_build ms options = Build (map snd) example_decode \<lparr>wb_manifestLimit = 10\<rparr> (map example_object ms) example_meta options"

lemma example_update:
  "example_build [''anew'', ''bbbbbb''] example_existing =
     Inr ([with_manifests (example_meta 1) [''bbbbbb''], with_manifests (example_meta 0) [''anew'']], [])"
  by code_simp

lemma example_oversized:
  "example_build [''aaaaaaaaaa''] [] = Inr ([example_meta 0, with_manifests (example_meta 1) [''aaaaaaaaaa'']], [])"
  by code_simp

theorem build_places_every_object_witness:
  "mset (concat (map manifests_of [with_manifests (example_meta 1) [''bbbbbb''], with_manifests (example_meta 0) [''anew'']])) =
     {#''anew'', ''bbbbbb''#}"
  using build_places_every_object [OF example_update [unfolded example_build_def], of
      "[((example_gvk, ''default'', ''a''), ''anew''), ((example_gvk, ''default'', ''b''), ''bbbbbb'')]"]
  by (simp add: example_object_def object_key_def example_gvk_def)

theorem build_respects_limit_witness:
  "let x = with_manifests (example_meta 0) [''anew''];
       mapper = [((example_gvk, ''default'', ''a''), ''anew''), ((example_gvk, ''default'', ''b''), ''bbbbbb'')]
   in work_size x < 10 \<or> length (manifests_of x) \<le> 1 \<or> updates_of example_decode mapper (with_manifests (example_meta 0) [''aold'', ''z'']) x"
proof -
  have m: "generateRequiredManifestMapper (map example_object [''anew'', ''bbbbbb'']) =
      Inr [((example_gvk, ''default'', ''a''), ''anew''), ((example_gvk, ''default'', ''b''), ''bbbbbb'')]"
    by code_simp
  show ?thesis
    using build_respects_limit [OF example_update [unfolded example_build_def] _ m refl, of "with_manifests (example_meta 0) [''anew'']"]
    by (simp add: Let_def newInternalWorkBuilder_def example_existing_def ExistingManifestWorksOption_def)
qed

theorem oversized_object_gives_empty_work_witness:
  "\<exists>x \<in> set [example_meta 0, with_manifests (example_meta 1) [''aaaaaaaaaa'']]. manifests_of x = [] \<and>
     ValidateManifests ManifestValidator (\<lambda>_. Inl (Errorf [])) (manifests_of x) = Some (StatusError BadRequest)"
proof -
  have m: "generateRequiredManifestMapper (map example_object [''aaaaaaaaaa'']) =
      Inr [((example_gvk, ''default'', ''a''), ''aaaaaaaaaa'')]"
    by code_simp
  have "(10 :: int) \<le> manifest_size ''aaaaaaaaaa''" by code_simp
  then show ?thesis
    using oversized_object_gives_empty_work [OF example_oversized [unfolded example_build_def] _ m refl,
        of ManifestValidator "\<lambda>_. Inl (Errorf [])"]
    by (auto simp: newInternalWorkBuilder_def)
qed

lemma default_limit: "wb_manifestLimit NewWorkBuilder = 40960" "wb_manifestLimit (WithManifestsLimit 101 NewWorkBuilder) = 80"
  by code_simp+

text \<open>
  The index of a new work can be that of a work that exists: with only the work of index 1 left,
  the new work gets its name as well, and applying both overwrites one with the other.
\<close>

lemma new_work_takes_existing_name:
  "example_build [''z1'', ''bbbbbb''] [ExistingManifestWorksOption [with_manifests (example_meta 1) [''z0'']]] =
     Inr ([with_manifests (example_meta 1) [''bbbbbb''], with_manifests (example_meta 1) [''z1'']], [])"
  by code_simp

end
